(* ===== verification/Prelude.thy ===== *)
theory Prelude
  imports Main "HOL-Library.Word" "HOL-Library.Signed_Division" "HOL-Library.Char_ord"
    "HOL-Library.List_Lexorder" "HOL-Library.Multiset"
begin

text \<open>
  Shared library of the development: the Go types and standard-library routines that the
  modelled packages use, and the generic lemmas their proofs rest on.

  \<^item> \<open>int64\<close> is Go's \<open>int64\<close>, a \<open>64 word\<close> read with \<open>sint\<close>; \<open>+\<close>, \<open>-\<close>, \<open>*\<close> wrap.
    \<open>wrap64\<close> is the two's-complement wrap-around on \<open>int\<close> and \<open>in64\<close> the range of the type.
  \<^item> Go strings are \<open>string\<close>, one \<open>char\<close> per byte. \<open>strings.TrimSpace\<close>, \<open>ToUpper\<close>, \<open>ToLower\<close> and
    \<open>Fields\<close> are written out on the ASCII range, which is all the identifiers, currency codes
    and amounts of this program use; the Unicode case tables are not modelled.
  \<^item> \<open>strconv.FormatInt\<close> and \<open>strconv.ParseInt\<close> in base 10, with their round trip.
  \<^item> the in-place insertion sort the packages use for their small tables, and its equivalence
    with the library's \<open>sort\<close>.
  \<^item> the locale \<open>guarded_system\<close>: a state type with operations that keep an invariant; every
    aggregate of the development interprets it, so that invariants of whole runs are proved once.
\<close>

named_theorems word_simps \<open>signed reading of 64-bit arithmetic\<close>
named_theorems model_defs \<open>definitions of operations, unfolded by the component proofs\<close>

section \<open>Machine integers\<close>

type_synonym int64 = "64 word"
type_synonym byte = "8 word"
type_synonym ('e, 'a) result = "'e + 'a"

definition in64 :: "int \<Rightarrow> bool" where
  "in64 x \<longleftrightarrow> - (2 ^ 63) \<le> x \<and> x < 2 ^ 63"

definition wrap64 :: "int \<Rightarrow> int" where
  "wrap64 x = (x + 2 ^ 63) mod 2 ^ 64 - 2 ^ 63"

lemma signed_take_bit_wrap64: "signed_take_bit 63 x = wrap64 x"
  by (simp add: wrap64_def signed_take_bit_eq_take_bit_shift take_bit_eq_mod)

lemma sint_in64 [simp]: "in64 (sint (x :: int64))"
  using sint_ge [of x] sint_lt [of x] by (simp add: in64_def)

lemma sint_bounds:
  fixes x :: int64
  shows "- (2 ^ 63) \<le> sint x" and "sint x < 2 ^ 63"
  using sint_in64 [of x] by (simp_all add: in64_def)

lemma wrap64_id [simp]: "in64 x \<Longrightarrow> wrap64 x = x"
  by (simp add: in64_def wrap64_def)

lemma wrap64_0 [simp]: "wrap64 0 = 0"
  by (simp add: wrap64_def)

lemma in64_wrap64 [simp]: "in64 (wrap64 x)"
  by (simp add: in64_def wrap64_def)

lemma wrap64_eq_self_iff: "wrap64 x = x \<longleftrightarrow> in64 x"
  by (metis in64_wrap64 wrap64_id)

lemma wrap64_le: "- (2 ^ 63) \<le> x \<Longrightarrow> wrap64 x \<le> x"
  using zmod_le_nonneg_dividend [of "x + 2 ^ 63" "2 ^ 64"] unfolding wrap64_def by linarith

lemma wrap64_ge: "- (2 ^ 63) \<le> wrap64 x"
  using in64_wrap64 [of x] by (simp only: in64_def)

lemma sint_of_int64 [word_simps]: "sint (word_of_int x :: int64) = wrap64 x"
  by (simp add: signed_of_int signed_take_bit_wrap64)

lemma sint_add64 [word_simps]: "sint (a + b :: int64) = wrap64 (sint a + sint b)"
  by (simp add: sint_word_add signed_take_bit_wrap64)

lemma sint_sub64 [word_simps]: "sint (a - b :: int64) = wrap64 (sint a - sint b)"
  by (simp add: sint_word_diff signed_take_bit_wrap64)

lemma sint_mul64 [word_simps]: "sint (a * b :: int64) = wrap64 (sint a * sint b)"
  by (simp add: sint_word_mult signed_take_bit_wrap64)

lemma sint_neg64 [word_simps]: "sint (- a :: int64) = wrap64 (- sint a)"
  by (simp add: sint_word_minus signed_take_bit_wrap64)

lemma int64_eqI: "sint a = sint b \<Longrightarrow> a = (b :: int64)"
  by (rule signed_word_eqI)

lemma int64_eq_iff: "a = (b :: int64) \<longleftrightarrow> sint a = sint b"
  using int64_eqI by blast

text \<open>One addition of two in-range values wraps at most once.\<close>

lemma wrap64_cases:
  assumes "- (2 ^ 64) \<le> x" "x < 2 ^ 64"
  shows "wrap64 x = (if x < - (2 ^ 63) then x + 2 ^ 64 else if x < 2 ^ 63 then x else x - 2 ^ 64)"
proof -
  consider "x < - (2 ^ 63)" | "- (2 ^ 63) \<le> x" "x < 2 ^ 63" | "2 ^ 63 \<le> x" by linarith
  then show ?thesis
  proof cases
    case 1
    have "(x + 2 ^ 63) mod 2 ^ 64 = (x + 2 ^ 63 + 2 ^ 64) mod 2 ^ 64"
      by (rule mod_add_self2 [symmetric])
    also have "\<dots> = x + 2 ^ 63 + 2 ^ 64"
      using assms 1 by (intro mod_pos_pos_trivial) auto
    finally show ?thesis using 1 by (simp add: wrap64_def)
  next
    case 2
    then show ?thesis by (simp add: wrap64_def)
  next
    case 3
    have "(x + 2 ^ 63) mod 2 ^ 64 = (x + 2 ^ 63 - 2 ^ 64) mod 2 ^ 64"
      by (rule minus_mod_self2 [symmetric])
    also have "\<dots> = x + 2 ^ 63 - 2 ^ 64"
      using assms 3 by (intro mod_pos_pos_trivial) auto
    finally show ?thesis using 3 by (simp add: wrap64_def)
  qed
qed

text \<open>Go's integer division truncates towards zero; on \<open>int64\<close> the one overflowing quotient wraps.\<close>

definition sdiv64 :: "int64 \<Rightarrow> int64 \<Rightarrow> int64" where
  "sdiv64 a b = word_of_int (sint a sdiv sint b)"

definition smod64 :: "int64 \<Rightarrow> int64 \<Rightarrow> int64" where
  "smod64 a b = word_of_int (sint a smod sint b)"

lemma abs_sdiv_le: "\<bar>a sdiv b\<bar> \<le> \<bar>a :: int\<bar>"
proof -
  have "\<bar>a\<bar> div \<bar>b\<bar> \<le> \<bar>a\<bar>"
    by (cases "b = 0") (auto intro: zdiv_mono2 [of "\<bar>a\<bar>" 1 "\<bar>b\<bar>", simplified])
  moreover have "\<bar>sgn a * sgn b\<bar> \<le> 1" by (simp add: abs_mult sgn_if)
  moreover have "0 \<le> \<bar>a\<bar> div \<bar>b\<bar>" by (simp add: div_int_pos_iff)
  ultimately show ?thesis
    by (auto simp: signed_divide_int_def abs_mult sgn_if)
qed


lemma smod_in64: "b \<noteq> 0 \<Longrightarrow> in64 b \<Longrightarrow> in64 (a smod b)"
  using smod_int_range [of b a] by (auto simp: in64_def)

lemma sint_small_sum:
  fixes a b :: int64
  shows "sint (a + b) = (if sint a + sint b < - (2 ^ 63) then sint a + sint b + 2 ^ 64
           else if sint a + sint b < 2 ^ 63 then sint a + sint b else sint a + sint b - 2 ^ 64)"
  using sint_bounds [of a] sint_bounds [of b]
  unfolding sint_add64 by (intro wrap64_cases) auto

lemma sint_small_diff:
  fixes a b :: int64
  shows "sint (a - b) = (if sint a - sint b < - (2 ^ 63) then sint a - sint b + 2 ^ 64
           else if sint a - sint b < 2 ^ 63 then sint a - sint b else sint a - sint b - 2 ^ 64)"
  using sint_bounds [of a] sint_bounds [of b]
  unfolding sint_sub64 by (intro wrap64_cases) auto

lemma wrap64_diff: "\<exists>k. wrap64 x = x + k * 2 ^ 64"
proof -
  have "wrap64 x = x + (- ((x + 2 ^ 63) div 2 ^ 64)) * 2 ^ 64"
    by (simp add: wrap64_def minus_div_mult_eq_mod [symmetric])
  then show ?thesis by blast
qed

lemma wrap64_wrap_add [simp]: "wrap64 (x + wrap64 y) = wrap64 (x + y)" "wrap64 (x - wrap64 y) = wrap64 (x - y)"
proof -
  obtain k where "wrap64 y = y + k * 2 ^ 64" using wrap64_diff by blast
  moreover have "wrap64 (z + j * 2 ^ 64) = wrap64 z" for z j
    by (simp add: wrap64_def add.assoc [symmetric] mod_mult_self1 add.commute add.left_commute)
  moreover have "x - (y + k * 2 ^ 64) = (x - y) + (- k) * 2 ^ 64" by simp
  ultimately show "wrap64 (x + wrap64 y) = wrap64 (x + y)" "wrap64 (x - wrap64 y) = wrap64 (x - y)"
    by (metis add.assoc, metis)
qed

lemma sint_sum_list64: "sint (sum_list ws :: int64) = wrap64 (sum_list (map sint ws))"
  by (induction ws) (simp_all add: sint_add64 in64_def)

lemma sdiv_pos: "0 < b \<Longrightarrow> a sdiv b = (if 0 \<le> a then a div b else - ((- a) div (b::int)))"
  by (auto simp: signed_divide_int_def sgn_if)

lemma div_within: "0 < b \<Longrightarrow> 0 \<le> a \<Longrightarrow> 0 \<le> a div b \<and> a div b \<le> (a :: int)"
  using zdiv_mono2 [of a 1 b] by (auto simp: pos_imp_zdiv_nonneg_iff)

lemma le_div_iff_int: "0 < b \<Longrightarrow> a \<le> c div b \<longleftrightarrow> a * b \<le> (c :: int)"
proof
  assume b: "0 < b" and "a \<le> c div b"
  then have "a * b \<le> c div b * b" by simp
  also have "\<dots> \<le> c" using b by (simp add: minus_mod_eq_div_mult [symmetric])
  finally show "a * b \<le> c" .
next
  assume b: "0 < b" and "a * b \<le> c"
  then have "(a * b) div b \<le> c div b" by (intro zdiv_mono1)
  then show "a \<le> c div b" using b by simp
qed

lemma abs_sdiv: "\<bar>a sdiv b\<bar> = \<bar>a :: int\<bar> div \<bar>b\<bar>"
  by (auto simp: signed_divide_int_def abs_mult sgn_if div_int_pos_iff)

lemma sdiv_smod_abs:
  assumes "0 < (d :: int)"
  shows "p sdiv d = sgn p * (\<bar>p\<bar> div d)" and "p smod d = sgn p * (\<bar>p\<bar> mod d)"
  using assms by (simp_all add: signed_divide_int_def signed_modulo_int_def)

lemma nonneg_parts:
  assumes a: "0 \<le> sint a" and d: "0 < sint d"
  shows "sint (sdiv64 a d) = sint a div sint d" and "sint (smod64 a d) = sint a mod sint d"
proof -
  have "in64 (sint a div sint d)"
    using div_within [OF d a] sint_bounds [of a] by (auto simp: in64_def)
  then show "sint (sdiv64 a d) = sint a div sint d"
    unfolding sdiv64_def sint_of_int64 using a d by (simp add: sdiv_pos)
  have "in64 (sint a mod sint d)"
    using pos_mod_sign [OF d, of "sint a"] pos_mod_bound [OF d, of "sint a"] sint_bounds [of d]
    unfolding in64_def by linarith
  then show "sint (smod64 a d) = sint a mod sint d"
    unfolding smod64_def sint_of_int64 using a d by (simp add: sdiv_smod_abs sgn_if)
qed

definition MaxInt64 :: int64 where
  "MaxInt64 = word_of_int (2 ^ 63 - 1)"

definition MinInt64 :: int64 where
  "MinInt64 = word_of_int (- (2 ^ 63))"

lemma sint_MaxInt64 [simp]: "sint MaxInt64 = 2 ^ 63 - 1"
  by (simp add: MaxInt64_def sint_of_int64 wrap64_def)

lemma sint_MinInt64 [simp]: "sint MinInt64 = - (2 ^ 63)"
  by (simp add: MinInt64_def sint_of_int64 wrap64_def)

section \<open>Strings of the standard library\<close>

definition is_space :: "char \<Rightarrow> bool" where
  "is_space c \<longleftrightarrow> c \<in> {CHR 0x09, CHR 0x0A, CHR 0x0B, CHR 0x0C, CHR 0x0D, CHR '' ''}"

definition is_digit_char :: "char \<Rightarrow> bool" where
  "is_digit_char c \<longleftrightarrow> 48 \<le> (of_char c :: nat) \<and> (of_char c :: nat) \<le> 57"

definition trim_space :: "string \<Rightarrow> string" where
  "trim_space s = rev (dropWhile is_space (rev (dropWhile is_space s)))"

definition upper_char :: "char \<Rightarrow> char" where
  "upper_char c = (let v = (of_char c :: nat) in if 97 \<le> v \<and> v \<le> 122 then char_of (v - 32) else c)"

definition lower_char :: "char \<Rightarrow> char" where
  "lower_char c = (let v = (of_char c :: nat) in if 65 \<le> v \<and> v \<le> 90 then char_of (v + 32) else c)"

definition to_upper :: "string \<Rightarrow> string" where
  "to_upper s = map upper_char s"

definition to_lower :: "string \<Rightarrow> string" where
  "to_lower s = map lower_char s"

function str_fields :: "string \<Rightarrow> string list" where
  "str_fields s = (case dropWhile is_space s of
      [] \<Rightarrow> []
    | c # cs \<Rightarrow> takeWhile (\<lambda>x. \<not> is_space x) (c # cs)
                # str_fields (dropWhile (\<lambda>x. \<not> is_space x) (c # cs)))"
  by pat_completeness auto
termination
proof (relation "measure length", goal_cases)
  case 1
  show ?case by simp
next
  case (2 s c cs)
  have c: "\<not> is_space c" using hd_dropWhile [of is_space s] 2 by auto
  have "length (dropWhile is_space s) \<le> length s" by (rule length_dropWhile_le)
  moreover have "length (dropWhile (\<lambda>x. \<not> is_space x) cs) \<le> length cs" by (rule length_dropWhile_le)
  ultimately show ?case using 2 c by simp
qed

declare str_fields.simps [simp del]

text \<open>\<open>strings.Cut(s, sep)\<close> for a one-byte separator: before, after, found.\<close>

definition cut :: "char \<Rightarrow> string \<Rightarrow> string \<times> string \<times> bool" where
  "cut sep s = (takeWhile (\<lambda>c. c \<noteq> sep) s,
     drop 1 (dropWhile (\<lambda>c. c \<noteq> sep) s), sep \<in> set s)"

definition trim_prefix :: "char \<Rightarrow> string \<Rightarrow> string" where
  "trim_prefix p s = (case s of [] \<Rightarrow> [] | c # cs \<Rightarrow> if c = p then cs else s)"

text \<open>\<open>strings.Join\<close> and \<open>strings.Split\<close> with a one-byte separator, \<open>HasPrefix\<close>, \<open>Contains\<close>, \<open>Trim\<close>.\<close>

fun str_join :: "char \<Rightarrow> string list \<Rightarrow> string" where
  "str_join sep [] = []"
| "str_join sep [p] = p"
| "str_join sep (p # q # ps) = p @ sep # str_join sep (q # ps)"

fun str_split :: "char \<Rightarrow> string \<Rightarrow> string list" where
  "str_split sep [] = [[]]"
| "str_split sep (c # cs) =
     (if c = sep then [] # str_split sep cs
      else case str_split sep cs of [] \<Rightarrow> [[c]] | p # ps \<Rightarrow> (c # p) # ps)"

definition has_prefix :: "string \<Rightarrow> string \<Rightarrow> bool" where
  "has_prefix s p \<longleftrightarrow> take (length p) s = p"

fun str_contains :: "string \<Rightarrow> string \<Rightarrow> bool" where
  "str_contains [] p \<longleftrightarrow> p = []"
| "str_contains (c # cs) p \<longleftrightarrow> has_prefix (c # cs) p \<or> str_contains cs p"

definition trim_char :: "char \<Rightarrow> string \<Rightarrow> string" where
  "trim_char x s = rev (dropWhile (\<lambda>c. c = x) (rev (dropWhile (\<lambda>c. c = x) s)))"

section \<open>Decimal numbers: strconv\<close>

definition digit_char :: "nat \<Rightarrow> char" where
  "digit_char d = char_of (48 + d)"

definition digit_val :: "char \<Rightarrow> nat" where
  "digit_val c = of_char c - 48"

lemma digit_char_props:
  assumes "d < 10"
  shows "is_digit_char (digit_char d)" and "digit_val (digit_char d) = d"
  using assms by (simp_all add: is_digit_char_def digit_char_def digit_val_def)

lemma digit_not_space: "is_digit_char c \<Longrightarrow> \<not> is_space c"
  by (auto simp: is_digit_char_def is_space_def)

lemma digit_not_sign: "is_digit_char c \<Longrightarrow> c \<noteq> CHR ''-'' \<and> c \<noteq> CHR ''+'' \<and> c \<noteq> CHR ''.''"
  by (auto simp: is_digit_char_def)

fun dec_of_nat :: "nat \<Rightarrow> string" where
  "dec_of_nat n = (if n < 10 then [digit_char n]
     else dec_of_nat (n div 10) @ [digit_char (n mod 10)])"

declare dec_of_nat.simps [simp del]

fun nat_of_digits :: "nat \<Rightarrow> string \<Rightarrow> nat option" where
  "nat_of_digits acc [] = Some acc"
| "nat_of_digits acc (c # cs) =
     (if is_digit_char c then nat_of_digits (acc * 10 + digit_val c) cs else None)"

definition dec_value :: "string \<Rightarrow> nat" where
  "dec_value ds = foldl (\<lambda>a c. a * 10 + digit_val c) 0 ds"

lemma nat_of_digits_foldl:
  "list_all is_digit_char ds \<Longrightarrow>
   nat_of_digits acc ds = Some (foldl (\<lambda>a c. a * 10 + digit_val c) acc ds)"
  by (induction ds arbitrary: acc) auto

lemma nat_of_digits_Some_iff:
  "nat_of_digits acc ds = Some v \<longleftrightarrow>
   list_all is_digit_char ds \<and> v = foldl (\<lambda>a c. a * 10 + digit_val c) acc ds"
  by (induction ds arbitrary: acc) auto

lemma dec_of_nat_digits: "list_all is_digit_char (dec_of_nat n)"
proof (induction n rule: dec_of_nat.induct)
  case (1 n)
  then show ?case
    by (subst dec_of_nat.simps) (auto simp: digit_char_props)
qed

lemma dec_of_nat_nonempty [simp]: "dec_of_nat n \<noteq> []"
  by (subst dec_of_nat.simps) simp

lemma dec_value_append: "dec_value (ds @ [c]) = dec_value ds * 10 + digit_val c"
  by (simp add: dec_value_def)

lemma dec_value_of_nat [simp]: "dec_value (dec_of_nat n) = n"
proof (induction n rule: dec_of_nat.induct)
  case (1 n)
  show ?case
  proof (cases "n < 10")
    case True
    then show ?thesis
      by (subst dec_of_nat.simps) (simp add: dec_value_def digit_char_props)
  next
    case False
    with 1 have IH: "dec_value (dec_of_nat (n div 10)) = n div 10" by simp
    have "dec_value (dec_of_nat n) = dec_value (dec_of_nat (n div 10)) * 10 + digit_val (digit_char (n mod 10))"
      using False by (subst dec_of_nat.simps) (simp add: dec_value_append)
    then show ?thesis using IH by (simp add: digit_char_props)
  qed
qed

text \<open>
  \<open>strconv.ParseInt(s, 10, 64)\<close>: an optional sign, at least one digit, nothing else, and a value
  in range. Both error kinds of the library are \<open>None\<close>, since its callers do not distinguish them.
\<close>

definition parse_int64 :: "string \<Rightarrow> int64 option" where
  "parse_int64 s =
     (let neg = (s \<noteq> [] \<and> hd s = CHR ''-'');
          ds = (if s \<noteq> [] \<and> (hd s = CHR ''-'' \<or> hd s = CHR ''+'') then tl s else s)
      in if ds = [] then None
         else case nat_of_digits 0 ds of
             None \<Rightarrow> None
           | Some n \<Rightarrow> let v = (if neg then - int n else int n)
                       in if in64 v then Some (word_of_int v) else None)"

definition format_int64 :: "int64 \<Rightarrow> string" where
  "format_int64 x = (if sint x < 0 then CHR ''-'' # dec_of_nat (nat (- sint x))
     else dec_of_nat (nat (sint x)))"

lemma nat_of_digits_dec [simp]: "nat_of_digits 0 (dec_of_nat n) = Some n"
  using dec_value_of_nat [of n] dec_of_nat_digits [of n]
  by (simp add: nat_of_digits_foldl dec_value_def)

lemma hd_dec_of_nat_digit: "is_digit_char (hd (dec_of_nat n))"
  using dec_of_nat_digits [of n] dec_of_nat_nonempty [of n]
  by (cases "dec_of_nat n") auto

lemma parse_int64_dec:
  "in64 (int n) \<Longrightarrow> parse_int64 (dec_of_nat n) = Some (word_of_int (int n))"
  using digit_not_sign [OF hd_dec_of_nat_digit [of n]]
  by (auto simp: parse_int64_def Let_def)

lemma parse_format_int64: "parse_int64 (format_int64 x) = Some x"
proof (cases "sint x < 0")
  case True
  then have "in64 (- int (nat (- sint x)))" by simp
  then show ?thesis using True by (simp add: format_int64_def parse_int64_def Let_def)
next
  case False
  then have "in64 (int (nat (sint x)))" by simp
  then show ?thesis using False by (simp add: format_int64_def parse_int64_dec)
qed

text \<open>\<open>fmt.Sprintf("%0*d", w, x)\<close>: the sign counts towards the width.\<close>

definition fmt_zero_pad :: "nat \<Rightarrow> int64 \<Rightarrow> string" where
  "fmt_zero_pad w x =
     (let s = format_int64 x; pad = replicate (w - length s) CHR ''0''
      in if sint x < 0 then CHR ''-'' # pad @ tl s else pad @ s)"

lemma format_nonneg: "0 \<le> sint x \<Longrightarrow> format_int64 x = dec_of_nat (nat (sint x))"
  by (simp add: format_int64_def)

lemma nat_of_digits_zeros: "nat_of_digits 0 (replicate k CHR ''0'' @ ds) = nat_of_digits 0 ds"
  by (induction k) (simp_all add: is_digit_char_def digit_val_def)

lemma parse_zero_padded:
  assumes "0 \<le> sint x"
  shows "parse_int64 (replicate k CHR ''0'' @ format_int64 x) = Some x"
proof (cases k)
  case 0
  then show ?thesis by (simp add: parse_format_int64)
next
  case (Suc j)
  have "nat_of_digits 0 (replicate k CHR ''0'' @ dec_of_nat (nat (sint x))) = Some (nat (sint x))"
    by (simp add: nat_of_digits_zeros)
  moreover have "in64 (int (nat (sint x)))" using assms by simp
  ultimately show ?thesis
    using assms Suc by (simp add: parse_int64_def format_int64_def Let_def)
qed

lemma length_dec_of_nat: "n < 10 ^ k \<Longrightarrow> 0 < k \<Longrightarrow> length (dec_of_nat n) \<le> k"
proof (induction n arbitrary: k rule: dec_of_nat.induct)
  case (1 n)
  show ?case
  proof (cases "n < 10")
    case True
    then show ?thesis using 1(3) by (subst dec_of_nat.simps) simp
  next
    case False
    then obtain j where k: "k = Suc j" "0 < j" using 1(2,3) by (cases k; cases "k - 1") auto
    have "n div 10 < 10 ^ j" using 1(2) k by (simp add: div_less_iff_less_mult mult.commute)
    then have "length (dec_of_nat (n div 10)) \<le> j" using 1(1) [OF False] k by simp
    then show ?thesis using False k by (subst dec_of_nat.simps) simp
  qed
qed

lemma digits_no_dot: "list_all is_digit_char ds \<Longrightarrow> CHR ''.'' \<notin> set ds"
  using digit_not_sign by (force simp: list_all_iff)

lemma cut_at_dot:
  assumes "CHR ''.'' \<notin> set ds"
  shows "cut CHR ''.'' (ds @ ''.'' @ fs) = (ds, fs, True)" and "cut CHR ''.'' ds = (ds, [], False)"
  using assms by (induction ds) (auto simp: cut_def)

lemma trim_space_id: "\<forall>c \<in> set s. \<not> is_space c \<Longrightarrow> trim_space s = s"
proof -
  assume a: "\<forall>c \<in> set s. \<not> is_space c"
  have "dropWhile is_space t = t" if "\<forall>c \<in> set t. \<not> is_space c" for t using that by (cases t) auto
  from this [of s] this [of "rev s"] show ?thesis using a by (simp add: trim_space_def)
qed

lemma trim_space_subset: "c \<in> set (trim_space s) \<Longrightarrow> c \<in> set s"
  by (auto simp: trim_space_def dest!: set_dropWhileD)

lemma trim_space_idem [simp]: "trim_space (trim_space s) = trim_space s"
proof -
  let ?u = "dropWhile is_space s"
  have "dropWhile is_space (trim_space s) = trim_space s"
  proof (cases "trim_space s")
    case (Cons c cs)
    obtain t where "?u = trim_space s @ t"
      unfolding trim_space_def by (metis rev_append rev_rev_ident takeWhile_dropWhile_id)
    then have "c = hd ?u" "?u \<noteq> []" using Cons by auto
    then have "\<not> is_space c" using hd_dropWhile by blast
    then show ?thesis using Cons by simp
  qed simp
  moreover have "dropWhile is_space (rev (trim_space s)) = rev (trim_space s)"
    by (simp add: trim_space_def)
  ultimately show ?thesis by (metis rev_rev_ident trim_space_def)
qed

lemma fields_two:
  assumes "a \<noteq> []" "b \<noteq> []" "\<forall>x \<in> set a. \<not> is_space x" "\<forall>x \<in> set b. \<not> is_space x"
  shows "str_fields (a @ '' '' @ b) = [a, b]"
proof -
  have sp: "is_space CHR '' ''" by (simp add: is_space_def)
  have drop: "dropWhile is_space (a @ '' '' @ b) = a @ '' '' @ b" "dropWhile is_space b = b"
    using assms by (cases a; cases b; simp)+
  have 1: "takeWhile (\<lambda>x. \<not> is_space x) (a @ '' '' @ b) = a"
    "dropWhile (\<lambda>x. \<not> is_space x) (a @ '' '' @ b) = '' '' @ b"
    using assms(3) sp by (simp_all add: takeWhile_append2 dropWhile_append2)
  have 2: "takeWhile (\<lambda>x. \<not> is_space x) b = b" "dropWhile (\<lambda>x. \<not> is_space x) b = []"
    using assms(4) by (simp_all add: dropWhile_eq_Nil_conv)
  have nil: "str_fields [] = []" by (simp add: str_fields.simps)
  obtain y ys where b: "b = y # ys" using assms(2) by (cases b) auto
  have ys: "dropWhile (\<lambda>x. \<not> is_space x) ys = []" "takeWhile (\<lambda>x. \<not> is_space x) ys = ys"
    using assms(4) b by (simp_all add: dropWhile_eq_Nil_conv)
  have "str_fields ('' '' @ b) = [b]"
    using assms(4) b by (subst str_fields.simps) (simp add: sp nil ys)
  moreover have "str_fields (a @ '' '' @ b) = a # str_fields ('' '' @ b)"
    using assms(1) drop(1) 1 by (subst str_fields.simps) (auto split: list.splits)
  ultimately show ?thesis by simp
qed

section \<open>The insertion sort of the lookup tables\<close>

text \<open>
  \<open>SupportedCurrencies\<close>, \<open>AllPaymentMethods\<close> and \<open>AllCodes\<close> collect the keys of a Go map, whose
  iteration order is unspecified, and sort them in place by
  \<^verbatim>\<open>for i := 1; i < len(out); i++ { for j := i; j > 0 && out[j] < out[j-1]; j-- { swap } }\<close>.
  \<open>sift\<close> is the inner loop, \<open>insertion_sort\<close> the outer one.
\<close>

fun sift :: "'a::linorder list \<Rightarrow> nat \<Rightarrow> 'a list" where
  "sift xs 0 = xs"
| "sift xs (Suc j) =
     (if xs ! Suc j < xs ! j then sift (xs[Suc j := xs ! j, j := xs ! Suc j]) j else xs)"

declare sift.simps [simp del]

definition insertion_sort :: "'a::linorder list \<Rightarrow> 'a list" where
  "insertion_sort xs = fold (\<lambda>i ys. sift ys i) [1..<length xs] xs"

lemma sift_inserts:
  "sorted ys \<Longrightarrow>
   \<exists>r. sift (ys @ x # zs) (length ys) = r @ zs \<and> sorted r \<and> mset r = add_mset x (mset ys)"
proof (induction ys arbitrary: zs rule: rev_induct)
  case Nil
  then show ?case by (simp add: sift.simps)
next
  case (snoc y ys)
  show ?case
  proof (cases "x < y")
    case True
    have sorted: "sorted ys" using snoc.prems by (simp add: sorted_append)
    have swap: "sift ((ys @ [y]) @ x # zs) (length (ys @ [y])) = sift (ys @ x # (y # zs)) (length ys)"
      using True by (simp add: sift.simps nth_append list_update_append)
    obtain r where r: "sift (ys @ x # (y # zs)) (length ys) = r @ y # zs" "sorted r"
      "mset r = add_mset x (mset ys)"
      using snoc.IH [OF sorted, of "y # zs"] by auto
    have "\<forall>e \<in> set r. e \<le> y"
    proof -
      have "set r = insert x (set ys)"
        using r(3) by (metis set_mset_add_mset_insert set_mset_mset)
      then show ?thesis using True snoc.prems by (auto simp: sorted_append)
    qed
    then have "sorted (r @ [y])" using r(2) by (simp add: sorted_append)
    then show ?thesis
      using r swap by (intro exI [of _ "r @ [y]"]) simp
  next
    case False
    then have "sift ((ys @ [y]) @ x # zs) (length (ys @ [y])) = (ys @ [y, x]) @ zs"
      by (simp add: sift.simps nth_append)
    moreover have "sorted (ys @ [y, x])"
      using False snoc.prems by (auto simp: sorted_append)
    ultimately show ?thesis by (intro exI [of _ "ys @ [y, x]"]) simp
  qed
qed

lemma insertion_prefix:
  assumes "k < length xs"
  shows "\<exists>ys. fold (\<lambda>i ys. sift ys i) [1..<Suc k] xs = ys @ drop (Suc k) xs
           \<and> length ys = Suc k \<and> sorted ys \<and> mset ys = mset (take (Suc k) xs)"
  using assms
proof (induction k)
  case 0
  then show ?case by (cases xs) (auto intro: exI [of _ "[hd xs]"])
next
  case (Suc k)
  then obtain ys where ys: "fold (\<lambda>i ys. sift ys i) [1..<Suc k] xs = ys @ drop (Suc k) xs"
    "length ys = Suc k" "sorted ys" "mset ys = mset (take (Suc k) xs)" by auto
  have split: "drop (Suc k) xs = xs ! Suc k # drop (Suc (Suc k)) xs"
    using Suc.prems by (simp add: Cons_nth_drop_Suc)
  obtain r where r: "sift (ys @ xs ! Suc k # drop (Suc (Suc k)) xs) (Suc k) = r @ drop (Suc (Suc k)) xs"
    "sorted r" "mset r = add_mset (xs ! Suc k) (mset ys)"
    using sift_inserts [OF ys(3)] ys(2) by metis
  have len: "length r = Suc (Suc k)"
    using r(3) ys(2) by (metis size_add_mset size_mset)
  have "mset r = mset (take (Suc (Suc k)) xs)"
    using r(3) ys(4) Suc.prems by (simp add: take_Suc_conv_app_nth)
  then show ?case
    using r len ys(1) split by (intro exI [of _ r]) simp
qed

lemma insertion_sort_is_sort: "insertion_sort xs = sort xs"
proof (cases "length xs")
  case 0
  then show ?thesis by (simp add: insertion_sort_def)
next
  case (Suc k)
  then obtain ys where "fold (\<lambda>i ys. sift ys i) [1..<Suc k] xs = ys @ drop (Suc k) xs"
    "sorted ys" "mset ys = mset (take (Suc k) xs)"
    using insertion_prefix [of k xs] by auto
  then have "insertion_sort xs = ys" "mset ys = mset xs" "sorted ys"
    using Suc by (simp_all add: insertion_sort_def)
  then show ?thesis by (metis properties_for_sort)
qed

text \<open>The order in which the map yields its keys does not matter.\<close>

lemma insertion_sort_order_irrelevant: "mset xs = mset ys \<Longrightarrow> insertion_sort xs = insertion_sort ys"
  by (metis insertion_sort_is_sort properties_for_sort mset_sort sorted_sort)

lemma sum_list_update_int:
  "i < length xs \<Longrightarrow> sum_list (map f (xs[i := y])) = sum_list (map f xs) + f y - (f (xs ! i) :: int)"
proof (induction xs arbitrary: i)
  case (Cons x xs)
  then show ?case by (cases i) auto
qed simp

section \<open>Guarded systems\<close>

text \<open>
  The contract every aggregate of the program offers its callers: constructors establish an
  invariant and every operation keeps it, whether it succeeds or returns an error.
\<close>

locale guarded_system =
  fixes initial :: "'s \<Rightarrow> bool"
    and exec :: "'op \<Rightarrow> 's \<Rightarrow> 's"
    and inv :: "'s \<Rightarrow> bool"
  assumes initial_inv: "initial s \<Longrightarrow> inv s"
    and exec_inv: "inv s \<Longrightarrow> inv (exec op s)"
begin

inductive reach :: "'s \<Rightarrow> bool" where
  start: "initial s \<Longrightarrow> reach s"
| step: "reach s \<Longrightarrow> reach (exec op s)"

lemma reach_inv: "reach s \<Longrightarrow> inv s"
  by (induction rule: reach.induct) (auto intro: initial_inv exec_inv)

lemma run_inv: "inv s \<Longrightarrow> inv (fold exec ops s)"
  by (induction ops arbitrary: s) (auto intro: exec_inv)

lemma run_reach: "reach s \<Longrightarrow> reach (fold exec ops s)"
  by (induction ops arbitrary: s) (auto intro: reach.step)

lemma reach_from_initial: "initial s \<Longrightarrow> inv (fold exec ops s)"
  by (intro run_inv initial_inv)

end

end
