(* ===== verification/Money.thy ===== *)
theory Money
  imports Prelude
begin

text \<open>
  The monetary value object of \<open>src/pkg/money/money.go\<close>: an \<open>int64\<close> number of minor units and an
  ISO 4217 code. Every operation of the package is here, with its overflow checks written as the
  code writes them on wrapping 64-bit arithmetic; formatted error texts are dropped and the
  sentinel errors are the constructors of \<open>money_error\<close>.
\<close>

section \<open>Currencies\<close>

datatype money_error =
    ErrCurrencyMismatch
  | ErrUnknownCurrency
  | ErrOverflow
  | ErrNegativeAllocate
  | ErrDivideByZero
  | ErrMalformed

type_synonym currency = string

datatype currencyInfo = currencyInfo (ci_exponent: nat) (ci_numeric: string) (ci_name: string)

definition currencies :: "(currency \<times> currencyInfo) list" where
  "currencies =
    [(''AED'', currencyInfo 2 ''784'' ''UAE Dirham''),
     (''AUD'', currencyInfo 2 ''036'' ''Australian Dollar''),
     (''BHD'', currencyInfo 3 ''048'' ''Bahraini Dinar''),
     (''BRL'', currencyInfo 2 ''986'' ''Brazilian Real''),
     (''CAD'', currencyInfo 2 ''124'' ''Canadian Dollar''),
     (''CHF'', currencyInfo 2 ''756'' ''Swiss Franc''),
     (''CLF'', currencyInfo 4 ''990'' ''Unidad de Fomento''),
     (''CLP'', currencyInfo 0 ''152'' ''Chilean Peso''),
     (''CNY'', currencyInfo 2 ''156'' ''Yuan Renminbi''),
     (''COP'', currencyInfo 2 ''170'' ''Colombian Peso''),
     (''CZK'', currencyInfo 2 ''203'' ''Czech Koruna''),
     (''DKK'', currencyInfo 2 ''208'' ''Danish Krone''),
     (''EUR'', currencyInfo 2 ''978'' ''Euro''),
     (''GBP'', currencyInfo 2 ''826'' ''Pound Sterling''),
     (''HKD'', currencyInfo 2 ''344'' ''Hong Kong Dollar''),
     (''HUF'', currencyInfo 2 ''348'' ''Forint''),
     (''IDR'', currencyInfo 2 ''360'' ''Rupiah''),
     (''ILS'', currencyInfo 2 ''376'' ''New Israeli Sheqel''),
     (''INR'', currencyInfo 2 ''356'' ''Indian Rupee''),
     (''ISK'', currencyInfo 0 ''352'' ''Iceland Krona''),
     (''JOD'', currencyInfo 3 ''400'' ''Jordanian Dinar''),
     (''JPY'', currencyInfo 0 ''392'' ''Yen''),
     (''KRW'', currencyInfo 0 ''410'' ''Won''),
     (''KWD'', currencyInfo 3 ''414'' ''Kuwaiti Dinar''),
     (''MXN'', currencyInfo 2 ''484'' ''Mexican Peso''),
     (''MYR'', currencyInfo 2 ''458'' ''Malaysian Ringgit''),
     (''NOK'', currencyInfo 2 ''578'' ''Norwegian Krone''),
     (''NZD'', currencyInfo 2 ''554'' ''New Zealand Dollar''),
     (''OMR'', currencyInfo 3 ''512'' ''Rial Omani''),
     (''PHP'', currencyInfo 2 ''608'' ''Philippine Peso''),
     (''PLN'', currencyInfo 2 ''985'' ''Zloty''),
     (''RON'', currencyInfo 2 ''946'' ''Romanian Leu''),
     (''SAR'', currencyInfo 2 ''682'' ''Saudi Riyal''),
     (''SEK'', currencyInfo 2 ''752'' ''Swedish Krona''),
     (''SGD'', currencyInfo 2 ''702'' ''Singapore Dollar''),
     (''THB'', currencyInfo 2 ''764'' ''Baht''),
     (''TND'', currencyInfo 3 ''788'' ''Tunisian Dinar''),
     (''TRY'', currencyInfo 2 ''949'' ''Turkish Lira''),
     (''TWD'', currencyInfo 2 ''901'' ''New Taiwan Dollar''),
     (''USD'', currencyInfo 2 ''840'' ''US Dollar''),
     (''VND'', currencyInfo 0 ''704'' ''Dong''),
     (''ZAR'', currencyInfo 2 ''710'' ''Rand'')]"

definition Currency_IsSupported :: "currency \<Rightarrow> bool" where
  "Currency_IsSupported c \<longleftrightarrow> map_of currencies c \<noteq> None"

definition ParseCurrency :: "string \<Rightarrow> (money_error, currency) result" where
  "ParseCurrency s =
     (let c = to_upper (trim_space s)
      in case map_of currencies c of None \<Rightarrow> Inl ErrUnknownCurrency | Some _ \<Rightarrow> Inr c)"

definition Currency_Exponent :: "currency \<Rightarrow> nat" where
  "Currency_Exponent c = (case map_of currencies c of Some info \<Rightarrow> ci_exponent info | None \<Rightarrow> 2)"

definition Currency_Numeric :: "currency \<Rightarrow> string" where
  "Currency_Numeric c = (case map_of currencies c of Some info \<Rightarrow> ci_numeric info | None \<Rightarrow> '''')"

text \<open>\<open>order\<close> is the order in which the Go runtime happens to iterate over the map.\<close>

definition SupportedCurrencies :: "currency list \<Rightarrow> currency list" where
  "SupportedCurrencies order = insertion_sort order"

section \<open>Money\<close>

record money =
  m_amount :: int64
  m_currency :: currency

definition Money_New :: "int64 \<Rightarrow> currency \<Rightarrow> (money_error, money) result" where
  "Money_New minorUnits c =
     (if \<not> Currency_IsSupported c then Inl ErrUnknownCurrency
      else Inr \<lparr>m_amount = minorUnits, m_currency = c\<rparr>)"

definition Money_Zero :: "currency \<Rightarrow> money" where
  "Money_Zero c = \<lparr>m_amount = 0, m_currency = c\<rparr>"

definition Money_IsZero :: "money \<Rightarrow> bool" where
  "Money_IsZero m \<longleftrightarrow> m_amount m = 0"

definition Money_IsPositive :: "money \<Rightarrow> bool" where
  "Money_IsPositive m \<longleftrightarrow> sint (m_amount m) > 0"

definition Money_IsNegative :: "money \<Rightarrow> bool" where
  "Money_IsNegative m \<longleftrightarrow> sint (m_amount m) < 0"

definition Money_IsValid :: "money \<Rightarrow> bool" where
  "Money_IsValid m \<longleftrightarrow> Currency_IsSupported (m_currency m)"

definition Money_Add :: "money \<Rightarrow> money \<Rightarrow> (money_error, money) result" where
  "Money_Add m other =
     (if m_currency m \<noteq> m_currency other then Inl ErrCurrencyMismatch
      else let sum = m_amount m + m_amount other
           in if (sint (m_amount m) > 0 \<and> sint (m_amount other) > 0 \<and> sint sum < 0)
                \<or> (sint (m_amount m) < 0 \<and> sint (m_amount other) < 0 \<and> sint sum \<ge> 0)
              then Inl ErrOverflow
              else Inr \<lparr>m_amount = sum, m_currency = m_currency m\<rparr>)"

definition Money_Sub :: "money \<Rightarrow> money \<Rightarrow> (money_error, money) result" where
  "Money_Sub m other =
     (if m_currency m \<noteq> m_currency other then Inl ErrCurrencyMismatch
      else let diff = m_amount m - m_amount other
           in if (sint (m_amount m) \<ge> 0 \<and> sint (m_amount other) < 0 \<and> sint diff < 0)
                \<or> (sint (m_amount m) < 0 \<and> sint (m_amount other) > 0 \<and> sint diff \<ge> 0)
              then Inl ErrOverflow
              else Inr \<lparr>m_amount = diff, m_currency = m_currency m\<rparr>)"

definition absInt64 :: "int64 \<Rightarrow> int64" where
  "absInt64 v = (if sint v < 0 then - v else v)"

definition Money_Mul :: "money \<Rightarrow> int64 \<Rightarrow> (money_error, money) result" where
  "Money_Mul m factor =
     (if factor \<noteq> 0 \<and> (sint (m_amount m) > sint (sdiv64 MaxInt64 (absInt64 factor))
                     \<or> sint (m_amount m) < sint (sdiv64 MinInt64 (absInt64 factor)))
      then Inl ErrOverflow
      else Inr \<lparr>m_amount = m_amount m * factor, m_currency = m_currency m\<rparr>)"

definition Money_MulBasisPoints :: "money \<Rightarrow> int64 \<Rightarrow> (money_error, money) result" where
  "Money_MulBasisPoints m bp =
     (let prod = m_amount m * bp
      in if m_amount m \<noteq> 0 \<and> sdiv64 prod (m_amount m) \<noteq> bp then Inl ErrOverflow
         else let q = sdiv64 prod 10000; r = smod64 prod 10000
              in Inr \<lparr>m_amount = (if sint r \<ge> 5000 then q + 1 else if sint r \<le> -5000 then q - 1 else q),
                      m_currency = m_currency m\<rparr>)"

definition Money_Neg :: "money \<Rightarrow> money" where
  "Money_Neg m = \<lparr>m_amount = - m_amount m, m_currency = m_currency m\<rparr>"

definition Money_Abs :: "money \<Rightarrow> money" where
  "Money_Abs m = (if sint (m_amount m) < 0 then Money_Neg m else m)"

definition Money_Cmp :: "money \<Rightarrow> money \<Rightarrow> (money_error, int) result" where
  "Money_Cmp m other =
     (if m_currency m \<noteq> m_currency other then Inl ErrCurrencyMismatch
      else if sint (m_amount m) < sint (m_amount other) then Inr (-1)
      else if sint (m_amount m) > sint (m_amount other) then Inr 1
      else Inr 0)"

definition Money_GreaterThan :: "money \<Rightarrow> money \<Rightarrow> (money_error, bool) result" where
  "Money_GreaterThan m other = (case Money_Cmp m other of Inl e \<Rightarrow> Inl e | Inr c \<Rightarrow> Inr (c > 0))"

definition Money_LessThan :: "money \<Rightarrow> money \<Rightarrow> (money_error, bool) result" where
  "Money_LessThan m other = (case Money_Cmp m other of Inl e \<Rightarrow> Inl e | Inr c \<Rightarrow> Inr (c < 0))"

definition Money_Equal :: "money \<Rightarrow> money \<Rightarrow> bool" where
  "Money_Equal m other \<longleftrightarrow> m_amount m = m_amount other \<and> m_currency m = m_currency other"

definition Money_Sum :: "currency \<Rightarrow> money list \<Rightarrow> (money_error, money) result" where
  "Money_Sum c values =
     foldl (\<lambda>acc v. case acc of Inl e \<Rightarrow> Inl e | Inr a \<Rightarrow> Money_Add a v) (Inr (Money_Zero c)) values"

section \<open>Arithmetic\<close>

lemma money_eq_iff: "(m :: money) = n \<longleftrightarrow> sint (m_amount m) = sint (m_amount n) \<and> m_currency m = m_currency n"
  by (cases m, cases n) (auto simp: int64_eq_iff)

lemma Money_Add_exact:
  "Money_Add m n =
     (if m_currency m \<noteq> m_currency n then Inl ErrCurrencyMismatch
      else if in64 (sint (m_amount m) + sint (m_amount n))
      then Inr \<lparr>m_amount = m_amount m + m_amount n, m_currency = m_currency m\<rparr>
      else Inl ErrOverflow)"
  using sint_bounds [of "m_amount m"] sint_bounds [of "m_amount n"] sint_small_sum [of "m_amount m" "m_amount n"]
  by (auto simp: Money_Add_def Let_def in64_def)

lemma Money_Sub_exact:
  "Money_Sub m n =
     (if m_currency m \<noteq> m_currency n then Inl ErrCurrencyMismatch
      else if in64 (sint (m_amount m) - sint (m_amount n))
      then Inr \<lparr>m_amount = m_amount m - m_amount n, m_currency = m_currency m\<rparr>
      else Inl ErrOverflow)"
  using sint_bounds [of "m_amount m"] sint_bounds [of "m_amount n"] sint_small_diff [of "m_amount m" "m_amount n"]
  by (auto simp: Money_Sub_def Let_def in64_def)

lemma Money_Add_Inr_iff:
  "Money_Add m n = Inr r \<longleftrightarrow> m_currency m = m_currency n \<and> m_currency r = m_currency m
     \<and> sint (m_amount r) = sint (m_amount m) + sint (m_amount n)"
  by (auto simp: Money_Add_exact money_eq_iff sint_add64 wrap64_eq_self_iff) (metis sint_in64)

lemma Money_Sub_Inr_iff:
  "Money_Sub m n = Inr r \<longleftrightarrow> m_currency m = m_currency n \<and> m_currency r = m_currency m
     \<and> sint (m_amount r) = sint (m_amount m) - sint (m_amount n)"
  by (auto simp: Money_Sub_exact money_eq_iff sint_sub64 wrap64_eq_self_iff) (metis sint_in64)

lemma sint_absInt64: "sint (absInt64 f) = (if sint f = - (2 ^ 63) then - (2 ^ 63) else \<bar>sint f\<bar>)"
proof (cases "sint f = - (2 ^ 63)")
  case True
  then show ?thesis by (simp add: absInt64_def sint_neg64 wrap64_def)
next
  case False
  then have "in64 (- sint f)" using sint_bounds [of f] by (simp add: in64_def)
  then show ?thesis using False by (simp add: absInt64_def sint_neg64)
qed

lemma Money_Mul_cases:
  assumes "sint f \<noteq> - (2 ^ 63)"
  shows "Money_Mul m f =
     (if in64 (sint (m_amount m) * \<bar>sint f\<bar>)
      then Inr \<lparr>m_amount = m_amount m * f, m_currency = m_currency m\<rparr> else Inl ErrOverflow)"
proof (cases "f = 0")
  case True
  then show ?thesis by (simp add: Money_Mul_def in64_def)
next
  case False
  let ?a = "sint (m_amount m)" and ?F = "\<bar>sint f\<bar>"
  have F: "0 < ?F" "sint (absInt64 f) = ?F"
    using False assms by (auto simp: sint_absInt64 int64_eq_iff)
  have max: "sint (sdiv64 MaxInt64 (absInt64 f)) = (2 ^ 63 - 1) div ?F"
  proof -
    have "in64 ((2 ^ 63 - 1) div ?F)"
      using div_within [OF F(1), of "2 ^ 63 - 1"] by (auto simp: in64_def)
    then show ?thesis unfolding sdiv64_def sint_of_int64 using F by (simp add: sdiv_pos)
  qed
  have min: "sint (sdiv64 MinInt64 (absInt64 f)) = - (2 ^ 63 div ?F)"
  proof -
    have "in64 (- (2 ^ 63 div ?F))"
      using div_within [OF F(1), of "2 ^ 63"] by (auto simp: in64_def)
    then show ?thesis unfolding sdiv64_def sint_of_int64 using F by (simp add: sdiv_pos)
  qed
  have "?a \<le> (2 ^ 63 - 1) div ?F \<longleftrightarrow> ?a * ?F \<le> 2 ^ 63 - 1"
    using F(1) by (simp add: le_div_iff_int)
  moreover have "- (2 ^ 63 div ?F) \<le> ?a \<longleftrightarrow> - (2 ^ 63) \<le> ?a * ?F"
  proof -
    have "- (2 ^ 63 div ?F) \<le> ?a \<longleftrightarrow> - ?a \<le> 2 ^ 63 div ?F" by linarith
    also have "\<dots> \<longleftrightarrow> - ?a * ?F \<le> 2 ^ 63" using F(1) by (simp add: le_div_iff_int)
    finally show ?thesis by (simp only: mult_minus_left) linarith
  qed
  ultimately show ?thesis
    using False by (auto simp: Money_Mul_def max min in64_def)
qed

lemma Money_Mul_min: "sint f = - (2 ^ 63) \<Longrightarrow> Money_Mul m f = Inl ErrOverflow"
proof -
  assume f: "sint f = - (2 ^ 63)"
  then have "f \<noteq> 0" "sint (absInt64 f) = - (2 ^ 63)" by (auto simp: sint_absInt64)
  moreover have "sint (sdiv64 MaxInt64 (absInt64 f)) = 0" "sint (sdiv64 MinInt64 (absInt64 f)) = 1"
    using calculation(2) unfolding sdiv64_def sint_of_int64 by (simp_all add: wrap64_def)
  ultimately show ?thesis by (auto simp: Money_Mul_def)
qed

lemma Money_Mul_Inr:
  assumes "Money_Mul m f = Inr r"
  shows "m_currency r = m_currency m \<and> sint (m_amount r) = wrap64 (sint (m_amount m) * sint f)
    \<and> in64 (sint (m_amount m) * \<bar>sint f\<bar>)"
proof -
  have "sint f \<noteq> - (2 ^ 63)" using assms Money_Mul_min by fastforce
  then show ?thesis using assms by (auto simp: Money_Mul_cases sint_mul64 split: if_splits)
qed

lemma overflow_check_sound:
  fixes a b :: int64
  assumes a: "a \<noteq> 0" and chk: "sdiv64 (a * b) a = b" and gap: "\<not> (sint a = -1 \<and> sint b = - (2 ^ 63))"
  shows "sint (a * b) = sint a * sint b"
proof -
  let ?P = "sint (a * b)" and ?a = "sint a" and ?b = "sint b"
  have a0: "?a \<noteq> 0" using a by (simp add: int64_eq_iff)
  have q: "wrap64 (?P sdiv ?a) = ?b"
    using chk by (metis sdiv64_def sint_of_int64)
  have "in64 (?P sdiv ?a)"
  proof (rule ccontr)
    assume n: "\<not> in64 (?P sdiv ?a)"
    have "\<bar>?P sdiv ?a\<bar> \<le> 2 ^ 63"
      using abs_sdiv_le [of ?P ?a] sint_bounds [of "a * b"] by linarith
    then have eq: "?P sdiv ?a = 2 ^ 63" using n by (auto simp: in64_def)
    then have "?b = - (2 ^ 63)" using q by (simp add: wrap64_def)
    moreover have "?a = -1"
    proof (rule ccontr)
      assume "?a \<noteq> -1"
      have "\<bar>?P\<bar> div \<bar>?a\<bar> \<ge> 2 ^ 63"
        using eq by (simp add: abs_sdiv [symmetric])
      moreover have "\<bar>?P\<bar> \<le> 2 ^ 63" using sint_bounds [of "a * b"] by linarith
      ultimately have "\<bar>?a\<bar> < 2"
        using a0 zdiv_mono2 [of "\<bar>?P\<bar>" 2 "\<bar>?a\<bar>"] by (cases "\<bar>?a\<bar> < 2") auto
      then have "?a = 1" using a0 \<open>?a \<noteq> -1\<close> by linarith
      then show False using eq sint_bounds [of "a * b"] by (simp add: signed_divide_int_def sgn_if split: if_splits)
    qed
    ultimately show False using gap by simp
  qed
  then have "?P sdiv ?a = ?b" using q by simp
  then have "?P = ?b * ?a + ?P smod ?a" by (metis sdiv_mult_smod_eq)
  moreover have "\<bar>?P smod ?a\<bar> < 2 ^ 63"
    using smod_int_range [OF a0, of ?P] sint_bounds [of a] by auto
  moreover obtain k where "?P = ?a * ?b + k * 2 ^ 64"
    using wrap64_diff [of "?a * ?b"] by (auto simp: sint_mul64)
  ultimately have "\<bar>k * 2 ^ 64\<bar> < 2 ^ 63" by (simp add: mult.commute)
  then have "k = 0" by auto
  with \<open>?P = ?a * ?b + k * 2 ^ 64\<close> show ?thesis by simp
qed

lemma round_half_away:
  fixes n :: int
  assumes "0 \<le> n"
  shows "(n + 5000) div 10000 = n div 10000 + (if 5000 \<le> n mod 10000 then 1 else 0)"
proof -
  define q x where "q = n div 10000" and "x = n mod 10000"
  have x: "0 \<le> x" "x < 10000" by (simp_all add: x_def)
  have "n + 5000 = (x + 5000) + q * 10000" by (simp add: q_def x_def)
  then have "(n + 5000) div 10000 = (x + 5000) div 10000 + q" by simp
  moreover have "(x + 5000) div 10000 = (if 5000 \<le> x then 1 else 0)"
  proof (cases "5000 \<le> x")
    case True
    have "(x + 5000) div 10000 = ((x - 5000) + 10000) div 10000" by simp
    also have "\<dots> = (x - 5000) div 10000 + 1" by (rule div_add_self2) simp
    finally show ?thesis using True x by simp
  qed (use x in simp)
  ultimately show ?thesis by (simp add: q_def x_def)
qed

lemma Money_MulBasisPoints_exact:
  assumes ok: "Money_MulBasisPoints m bp = Inr r"
    and gap: "\<not> (sint (m_amount m) = -1 \<and> sint bp = - (2 ^ 63))"
  defines "P \<equiv> sint (m_amount m) * sint bp"
  shows "m_currency r = m_currency m \<and> sint (m_amount r) = sgn P * ((\<bar>P\<bar> + 5000) div 10000)"
proof -
  let ?p = "m_amount m * bp"
  have P: "sint ?p = P"
  proof (cases "m_amount m = 0")
    case True
    then show ?thesis by (simp add: P_def)
  next
    case False
    then have "sdiv64 ?p (m_amount m) = bp"
      using ok by (auto simp: Money_MulBasisPoints_def Let_def split: if_splits)
    then show ?thesis unfolding P_def using False gap by (intro overflow_check_sound)
  qed
  define Q R where "Q = \<bar>P\<bar> div 10000" and "R = \<bar>P\<bar> mod 10000"
  have "\<bar>P\<bar> \<le> 2 ^ 63" using sint_bounds [of ?p] P by linarith
  then have Q: "0 \<le> Q" "Q \<le> 2 ^ 60" by (simp_all add: Q_def)
  have R: "0 \<le> R" "R < 10000" by (simp_all add: R_def)
  have fits: "in64 (sgn P * Q)" "in64 (sgn P * R)" "in64 (sgn P * Q + 1)" "in64 (sgn P * Q - 1)"
    using Q R by (auto simp: in64_def sgn_if)
  have dm: "sint (sdiv64 ?p 10000) = sgn P * Q" "sint (smod64 ?p 10000) = sgn P * R"
    unfolding sdiv64_def smod64_def sint_of_int64 P using fits
    by (simp_all add: sdiv_smod_abs Q_def R_def)
  have up: "sint (sdiv64 ?p 10000 + 1) = sgn P * Q + 1" "sint (sdiv64 ?p 10000 - 1) = sgn P * Q - 1"
    using fits by (simp_all add: sint_add64 sint_sub64 dm)
  have r: "r = \<lparr>m_amount = (if sint (smod64 ?p 10000) \<ge> 5000 then sdiv64 ?p 10000 + 1
      else if sint (smod64 ?p 10000) \<le> -5000 then sdiv64 ?p 10000 - 1 else sdiv64 ?p 10000),
      m_currency = m_currency m\<rparr>"
    using ok by (simp add: Money_MulBasisPoints_def Let_def split: if_splits)
  have "(\<bar>P\<bar> + 5000) div 10000 = Q + (if 5000 \<le> R then 1 else 0)"
    unfolding Q_def R_def by (rule round_half_away) simp
  then show ?thesis
    using R by (cases P "0::int" rule: linorder_cases) (auto simp: r dm up)
qed

lemma wrap64_mul_abs:
  assumes "in64 (a * \<bar>f\<bar>)"
  shows "wrap64 (a * f) = a * f \<or> a * f = 2 ^ 63 \<and> wrap64 (a * f) = - (2 ^ 63)"
proof (cases "in64 (a * f)")
  case False
  then have "a * f = 2 ^ 63" using assms by (cases "0 \<le> f") (auto simp: in64_def)
  then show ?thesis by (simp add: wrap64_def)
qed simp

section \<open>Properties\<close>

text \<open>
  C29: \<open>Money.Add\<close> and \<open>Money.Sub\<close> refuse different currencies, report overflow exactly when the
  mathematical result is outside the range of \<open>int64\<close>, and otherwise return that result in the
  common currency: the sign tests of the code decide overflow exactly.
\<close>

theorem Money_Add_Sub_exact:
  "(Money_Add m n = Inl ErrCurrencyMismatch \<longleftrightarrow> m_currency m \<noteq> m_currency n)
   \<and> (Money_Add m n = Inl ErrOverflow \<longleftrightarrow>
        m_currency m = m_currency n \<and> \<not> in64 (sint (m_amount m) + sint (m_amount n)))
   \<and> (Money_Add m n = Inr r \<longleftrightarrow> m_currency m = m_currency n \<and> m_currency r = m_currency m
        \<and> sint (m_amount r) = sint (m_amount m) + sint (m_amount n))
   \<and> (Money_Sub m n = Inl ErrCurrencyMismatch \<longleftrightarrow> m_currency m \<noteq> m_currency n)
   \<and> (Money_Sub m n = Inl ErrOverflow \<longleftrightarrow>
        m_currency m = m_currency n \<and> \<not> in64 (sint (m_amount m) - sint (m_amount n)))
   \<and> (Money_Sub m n = Inr r \<longleftrightarrow> m_currency m = m_currency n \<and> m_currency r = m_currency m
        \<and> sint (m_amount r) = sint (m_amount m) - sint (m_amount n))"
  by (intro conjI Money_Add_Inr_iff Money_Sub_Inr_iff) (auto simp: Money_Add_exact Money_Sub_exact)

text \<open>
  \<open>Money.Mul\<close> returns the product reduced to 64 bits, and reports overflow exactly when the
  amount times the absolute value of the factor leaves the range or the factor is the smallest
  \<open>int64\<close>. Hence the only wrong amount it can return is the smallest \<open>int64\<close>, for a product of
  exactly \<open>2 ^ 63\<close>, and in every other case the returned amount is the product.
\<close>

theorem Money_Mul_exact:
  "(Money_Mul m f = Inl ErrOverflow \<longleftrightarrow>
      sint f = - (2 ^ 63) \<or> \<not> in64 (sint (m_amount m) * \<bar>sint f\<bar>))
   \<and> (Money_Mul m f = Inr r \<longrightarrow> m_currency r = m_currency m
        \<and> (sint (m_amount r) = sint (m_amount m) * sint f
           \<or> sint (m_amount m) * sint f = 2 ^ 63 \<and> m_amount r = MinInt64))"
proof (intro conjI impI)
  show "Money_Mul m f = Inl ErrOverflow \<longleftrightarrow>
      sint f = - (2 ^ 63) \<or> \<not> in64 (sint (m_amount m) * \<bar>sint f\<bar>)"
    by (cases "sint f = - (2 ^ 63)") (simp_all add: Money_Mul_min Money_Mul_cases)
next
  assume "Money_Mul m f = Inr r"
  from Money_Mul_Inr [OF this] show "m_currency r = m_currency m"
    and "sint (m_amount r) = sint (m_amount m) * sint f
           \<or> sint (m_amount m) * sint f = 2 ^ 63 \<and> m_amount r = MinInt64"
    using wrap64_mul_abs [of "sint (m_amount m)" "sint f"] by (auto simp: int64_eq_iff)
qed

theorem Money_Mul_exact_witness:
  "Money_Mul \<lparr>m_amount = - (2 ^ 62), m_currency = ''USD''\<rparr> (- 2)
     = Inr \<lparr>m_amount = MinInt64, m_currency = ''USD''\<rparr>
   \<and> sint (- (2 ^ 62) :: int64) * sint (- 2 :: int64) = 2 ^ 63"
  using Money_Mul_exact [of "\<lparr>m_amount = - (2 ^ 62), m_currency = ''USD''\<rparr>" "- 2"
      "\<lparr>m_amount = MinInt64, m_currency = ''USD''\<rparr>"]
  by code_simp

text \<open>
  C32: a basis-point fee that \<open>Money.MulBasisPoints\<close> returns is the exact product divided by ten
  thousand, rounded half away from zero, in the currency of the amount. The one pair its overflow
  check cannot see, amount \<open>-1\<close> with the smallest \<open>int64\<close> as rate, is excluded.
\<close>

theorem Money_MulBasisPoints_rounds:
  assumes "Money_MulBasisPoints m bp = Inr r"
    and "\<not> (sint (m_amount m) = -1 \<and> sint bp = - (2 ^ 63))"
  shows "m_currency r = m_currency m
    \<and> sint (m_amount r) = sgn (sint (m_amount m) * sint bp)
        * ((\<bar>sint (m_amount m) * sint bp\<bar> + 5000) div 10000)"
  using Money_MulBasisPoints_exact [OF assms] .

theorem Money_MulBasisPoints_rounds_witness:
  "Money_MulBasisPoints \<lparr>m_amount = - 2050, m_currency = ''EUR''\<rparr> 290
     = Inr \<lparr>m_amount = - 59, m_currency = ''EUR''\<rparr>
   \<and> sint (m_amount \<lparr>m_amount = - 59, m_currency = ''EUR''\<rparr>) = -59"
  using Money_MulBasisPoints_rounds [of "\<lparr>m_amount = - 2050, m_currency = ''EUR''\<rparr>" 290
      "\<lparr>m_amount = - 59, m_currency = ''EUR''\<rparr>"]
  by code_simp

end
