(* ===== verification/Money_Allocation.thy ===== *)
theory Money_Allocation
  imports Money
begin

text \<open>
  \<open>Money.Allocate\<close> and \<open>Money.Split\<close> of \<open>src/pkg/money/money.go\<close>: splitting an amount by ratios with the
  largest-remainder method, on wrapping 64-bit arithmetic.
\<close>

section \<open>Allocation\<close>

text \<open>The validating loop over the ratios; \<open>total\<close> wraps as the code's sum does.\<close>

fun ratio_total :: "int64 list \<Rightarrow> int64 \<Rightarrow> (money_error, int64) result" where
  "ratio_total [] tot = Inr tot"
| "ratio_total (r # rs) tot =
     (if sint r < 0 then Inl ErrNegativeAllocate else ratio_total rs (tot + r))"

text \<open>The share of one ratio and its scaled remainder.\<close>

definition ratio_share :: "int64 \<Rightarrow> int64 \<Rightarrow> int64 \<Rightarrow> int64" where
  "ratio_share amount tot r = sdiv64 (amount * r) tot"

definition ratio_rem :: "int64 \<Rightarrow> int64 \<Rightarrow> int64 \<Rightarrow> int64" where
  "ratio_rem amount tot r = amount * r - ratio_share amount tot r * tot"

text \<open>
  The scan for the part that receives the next unit. \<open>up\<close> is \<open>step > 0\<close>; the accumulator is the
  code's pair \<open>best, bestRem\<close>, with \<open>None\<close> for \<open>best == -1\<close>.
\<close>

fun best_remainder :: "bool \<Rightarrow> int64 list \<Rightarrow> nat \<Rightarrow> (nat \<times> int64) option \<Rightarrow> (nat \<times> int64) option" where
  "best_remainder up [] i best = best"
| "best_remainder up (r # rs) i best =
     (if r = 0 \<and> up then best_remainder up rs (Suc i) best
      else case best of
          None \<Rightarrow> best_remainder up rs (Suc i) (Some (i, r))
        | Some (b, bestRem) \<Rightarrow>
            if (up \<and> sint r > sint bestRem) \<or> (\<not> up \<and> sint r < sint bestRem)
            then best_remainder up rs (Suc i) (Some (i, r))
            else best_remainder up rs (Suc i) best)"

definition best_index :: "bool \<Rightarrow> int64 list \<Rightarrow> nat" where
  "best_index up rems = (case best_remainder up rems 0 None of None \<Rightarrow> 0 | Some (i, _) \<Rightarrow> i)"

text \<open>\<open>for ; leftover > 0; leftover--\<close>: one unit to the best part, whose remainder is then spent.\<close>

function distribute :: "bool \<Rightarrow> int64 \<Rightarrow> int64 list \<Rightarrow> int64 list \<Rightarrow> int64 list" where
  "distribute up leftover parts rems =
     (if sint leftover > 0 then
        let best = best_index up rems
        in distribute up (leftover - 1)
             (parts[best := parts ! best + (if up then 1 else -1)]) (rems[best := 0])
      else parts)"
  by pat_completeness auto
termination
proof (relation "measure (\<lambda>(up, leftover, parts, rems). nat (sint leftover))", goal_cases)
  case 1
  show ?case by simp
next
  case (2 up leftover parts rems best)
  have "in64 (sint leftover - 1)" using 2(1) sint_bounds [of leftover] by (simp add: in64_def)
  then show ?case using 2(1) by (simp add: word_simps)
qed

declare distribute.simps [simp del]

definition Money_Allocate :: "money \<Rightarrow> int64 list \<Rightarrow> (money_error, money list) result" where
  "Money_Allocate m ratios =
     (if ratios = [] then Inl ErrNegativeAllocate
      else case ratio_total ratios 0 of
          Inl e \<Rightarrow> Inl e
        | Inr tot \<Rightarrow>
            if tot = 0 then Inl ErrDivideByZero
            else
              let parts = map (ratio_share (m_amount m) tot) ratios;
                  rems = map (ratio_rem (m_amount m) tot) ratios;
                  allocated = sum_list parts;
                  leftover = m_amount m - allocated;
                  up = (\<not> sint leftover < 0);
                  units = (if up then leftover else - leftover)
              in Inr (map (\<lambda>a. \<lparr>m_amount = a, m_currency = m_currency m\<rparr>)
                       (distribute up units parts rems)))"

definition Money_Split :: "money \<Rightarrow> int \<Rightarrow> (money_error, money list) result" where
  "Money_Split m n =
     (if n \<le> 0 then Inl ErrDivideByZero else Money_Allocate m (replicate (nat n) 1))"

definition rem_key :: "bool \<Rightarrow> int64 \<Rightarrow> int" where
  "rem_key up r = (if up then sint r else - sint r)"

definition nonzero_idx :: "int64 list \<Rightarrow> nat set" where
  "nonzero_idx rems = {i. i < length rems \<and> rems ! i \<noteq> 0}"

definition beats :: "bool \<Rightarrow> int64 list \<Rightarrow> nat \<Rightarrow> nat \<Rightarrow> bool" where
  "beats up rems i j \<longleftrightarrow> rem_key up (rems ! j) < rem_key up (rems ! i)
     \<or> (rem_key up (rems ! j) = rem_key up (rems ! i) \<and> i < j)"

lemma finite_nonzero_idx [simp]: "finite (nonzero_idx rems)"
  by (simp add: nonzero_idx_def)

lemma best_remainder_snoc:
  "best_remainder up (rs @ [r]) i best =
     (let b = best_remainder up rs i best
      in if r = 0 \<and> up then b
         else case b of
             None \<Rightarrow> Some (i + length rs, r)
           | Some (b0, v) \<Rightarrow> if rem_key up v < rem_key up r then Some (i + length rs, r) else b)"
  by (induction rs arbitrary: i best) (auto simp: Let_def rem_key_def split: option.splits)

lemma best_remainder_char:
  "case best_remainder up rs 0 None of
     None \<Rightarrow> \<forall>j < length rs. up \<and> rs ! j = 0
   | Some (b, v) \<Rightarrow> b < length rs \<and> v = rs ! b \<and> \<not> (up \<and> v = 0)
       \<and> (\<forall>j < length rs. (up \<and> rs ! j = 0) \<or> j = b \<or> beats up rs b j)"
proof (induction rs rule: rev_induct)
  case Nil
  then show ?case by simp
next
  case (snoc r rs)
  show ?case
  proof (cases "best_remainder up rs 0 None")
    case None
    then show ?thesis using snoc
      by (auto simp: best_remainder_snoc Let_def nth_append beats_def rem_key_def less_Suc_eq)
  next
    case (Some bv)
    obtain b v where bv: "bv = (b, v)" by force
    then have b: "b < length rs" "v = rs ! b" "\<not> (up \<and> v = 0)"
      "\<forall>j < length rs. (up \<and> rs ! j = 0) \<or> j = b \<or> beats up rs b j"
      using snoc Some by auto
    show ?thesis
    proof (cases "r = 0 \<and> up")
      case True
      then show ?thesis using Some bv b
        by (auto simp: best_remainder_snoc Let_def nth_append less_Suc_eq beats_def)
    next
      case False
      note nr = False
      show ?thesis
      proof (cases "rem_key up v < rem_key up r")
        case True
        then have "best_remainder up (rs @ [r]) 0 None = Some (length rs, r)"
          using nr Some bv by (auto simp: best_remainder_snoc Let_def)
        moreover have "\<forall>j < length rs. (up \<and> rs ! j = 0) \<or> rem_key up (rs ! j) < rem_key up r"
          using b True by (fastforce simp: beats_def)
        ultimately show ?thesis using nr by (auto simp: nth_append beats_def less_Suc_eq)
      next
        case False
        then have "best_remainder up (rs @ [r]) 0 None = Some (b, v)"
          using nr Some bv by (auto simp: best_remainder_snoc Let_def)
        then show ?thesis using b False by (auto simp: nth_append beats_def less_Suc_eq)
      qed
    qed
  qed
qed

definition same_sign :: "bool \<Rightarrow> int64 list \<Rightarrow> bool" where
  "same_sign up rems \<longleftrightarrow> (\<forall>r \<in> set rems. 0 \<le> rem_key up r)"

lemma best_index_char:
  assumes "nonzero_idx rems \<noteq> {}" "same_sign up rems"
  shows "best_index up rems \<in> nonzero_idx rems"
    and "\<And>j. j \<in> nonzero_idx rems \<Longrightarrow> j \<noteq> best_index up rems \<Longrightarrow> beats up rems (best_index up rems) j"
proof -
  obtain k where k: "k < length rems" "rems ! k \<noteq> 0" using assms by (auto simp: nonzero_idx_def)
  obtain b v where bv: "best_remainder up rems 0 None = Some (b, v)"
    using best_remainder_char [where up = up and rs = rems] k by (cases "best_remainder up rems 0 None") auto
  have b: "b < length rems" "v = rems ! b" "\<not> (up \<and> v = 0)"
    "\<forall>j < length rems. (up \<and> rems ! j = 0) \<or> j = b \<or> beats up rems b j"
    using best_remainder_char [where up = up and rs = rems] by (auto simp: bv)
  have idx: "best_index up rems = b" by (simp add: best_index_def bv)
  have "rems ! b \<noteq> 0"
  proof
    assume z: "rems ! b = 0"
    then have "k \<noteq> b" using k by auto
    then have "beats up rems b k" using b(4) k by auto
    moreover have "0 < rem_key up (rems ! k)"
    proof -
      have "0 \<le> rem_key up (rems ! k)" using assms(2) k(1) by (simp add: same_sign_def)
      moreover have "rem_key up (rems ! k) \<noteq> 0" using k(2) by (auto simp: rem_key_def int64_eq_iff)
      ultimately show ?thesis by simp
    qed
    ultimately show False using z by (auto simp: beats_def rem_key_def split: if_splits)
  qed
  then show "best_index up rems \<in> nonzero_idx rems" using b(1) idx by (simp add: nonzero_idx_def)
  show "\<And>j. j \<in> nonzero_idx rems \<Longrightarrow> j \<noteq> best_index up rems \<Longrightarrow> beats up rems (best_index up rems) j"
    using b(4) idx by (auto simp: nonzero_idx_def)
qed

lemma distribute_spec:
  assumes "0 \<le> sint leftover" "sint leftover \<le> int (card (nonzero_idx rems))"
    "same_sign up rems" "length parts = length rems"
  shows "\<exists>G \<subseteq> nonzero_idx rems. int (card G) = sint leftover
     \<and> length (distribute up leftover parts rems) = length parts
     \<and> (\<forall>i < length parts. distribute up leftover parts rems ! i
            = parts ! i + (if i \<in> G then if up then 1 else -1 else 0))
     \<and> (\<forall>i \<in> G. \<forall>j \<in> nonzero_idx rems - G. beats up rems i j)"
  using assms
proof (induction up leftover parts rems rule: distribute.induct)
  case (1 up leftover parts rems)
  show ?case
  proof (cases "sint leftover > 0")
    case False
    then show ?thesis using 1 by (intro exI [of _ "{}"]) (simp add: distribute.simps)
  next
    case True
    define b where "b = best_index up rems"
    define parts' where "parts' = parts[b := parts ! b + (if up then 1 else -1)]"
    define rems' where "rems' = rems[b := 0]"
    have ne: "nonzero_idx rems \<noteq> {}" using True 1 by auto
    have b: "b \<in> nonzero_idx rems" "\<And>j. j \<in> nonzero_idx rems \<Longrightarrow> j \<noteq> b \<Longrightarrow> beats up rems b j"
      using best_index_char [OF ne] 1 by (auto simp: b_def)
    have nz: "nonzero_idx rems' = nonzero_idx rems - {b}"
      using b(1) by (auto simp: nonzero_idx_def rems'_def nth_list_update)
    have l: "sint (leftover - 1) = sint leftover - 1"
      using True sint_bounds [of leftover] by (simp add: sint_sub64 in64_def)
    have step: "distribute up leftover parts rems = distribute up (leftover - 1) parts' rems'"
      using True by (simp add: distribute.simps [of up leftover] Let_def parts'_def rems'_def b_def)
    have card: "int (card (nonzero_idx rems')) = int (card (nonzero_idx rems)) - 1"
      using card_Suc_Diff1 [OF finite_nonzero_idx b(1)] by (simp add: nz)
    have "same_sign up rems'"
      using 1 by (auto simp: same_sign_def rems'_def rem_key_def dest!: set_update_subset_insert [THEN subsetD])
    then obtain G where G: "G \<subseteq> nonzero_idx rems'" "int (card G) = sint (leftover - 1)"
      "length (distribute up (leftover - 1) parts' rems') = length parts'"
      "\<forall>i < length parts'. distribute up (leftover - 1) parts' rems' ! i
            = parts' ! i + (if i \<in> G then if up then 1 else -1 else 0)"
      "\<forall>i \<in> G. \<forall>j \<in> nonzero_idx rems' - G. beats up rems' i j"
      using 1(1) [OF True b_def] 1(2-) l card True
      by (auto simp: parts'_def rems'_def)
    have bG: "b \<notin> G" and fin: "finite G" and blen: "b < length parts"
      using G(1) nz b(1) 1 by (auto simp: nonzero_idx_def intro: finite_subset)
    have beats: "beats up rems i j" if "i \<in> insert b G" "j \<in> nonzero_idx rems - insert b G" for i j
    proof (cases "i = b")
      case True
      then show ?thesis using that b(2) by auto
    next
      case False
      then have "beats up rems' i j" using that G(5) nz by auto
      moreover have "j \<noteq> b" using that by auto
      ultimately show ?thesis using False by (simp add: beats_def rems'_def)
    qed
    show ?thesis
    proof (intro exI [of _ "insert b G"] conjI)
      show "int (card (insert b G)) = sint leftover" using bG fin G(2) l by simp
      show "\<forall>i < length parts. distribute up leftover parts rems ! i
            = parts ! i + (if i \<in> insert b G then if up then 1 else -1 else 0)"
        using G(4) bG blen by (auto simp: step parts'_def nth_list_update)
    qed (use G b(1) nz step beats in \<open>auto simp: parts'_def\<close>)
  qed
qed

lemma ratio_total_ok:
  assumes "\<forall>r \<in> set rs. 0 \<le> sint r" "0 \<le> sint acc" "sint acc + sum_list (map sint rs) < 2 ^ 63"
  shows "\<exists>t. ratio_total rs acc = Inr t \<and> sint t = sint acc + sum_list (map sint rs)"
  using assms
proof (induction rs arbitrary: acc)
  case Nil
  then show ?case by simp
next
  case (Cons r rs)
  have "0 \<le> sum_list (map sint rs)" using Cons.prems by (intro sum_list_nonneg) auto
  then have "sint (acc + r) = sint acc + sint r"
    using Cons.prems by (simp add: sint_add64 in64_def)
  then show ?case using Cons.IH [of "acc + r"] Cons.prems by auto
qed

text \<open>The inputs on which no product and no sum of the algorithm wraps.\<close>

definition clean_split :: "int64 \<Rightarrow> int64 list \<Rightarrow> int64 \<Rightarrow> bool" where
  "clean_split amount ratios tot \<longleftrightarrow>
     (\<forall>r \<in> set ratios. 0 \<le> sint r \<and> in64 (sint amount * sint r))
     \<and> sint tot = sum_list (map sint ratios) \<and> 0 < sint tot"

lemma clean_share:
  assumes c: "clean_split amount ratios tot" and r: "r \<in> set ratios"
  shows "sint (ratio_share amount tot r) = (sint amount * sint r) sdiv sint tot"
proof -
  let ?x = "sint amount * sint r"
  have tot: "0 < sint tot" and x: "in64 ?x" using c r by (auto simp: clean_split_def)
  have "in64 (?x sdiv sint tot)"
    using x div_within [OF tot, of ?x] div_within [OF tot, of "- ?x"] tot
    by (auto simp: in64_def sdiv_pos)
  then show ?thesis
    unfolding ratio_share_def sdiv64_def sint_of_int64 using x by (simp add: sint_mul64)
qed

lemma clean_rem:
  assumes c: "clean_split amount ratios tot" and r: "r \<in> set ratios"
  shows "sint (ratio_rem amount tot r) = (sint amount * sint r) smod sint tot"
proof -
  let ?x = "sint amount * sint r"
  have tot: "0 < sint tot" and x: "in64 ?x" using c r by (auto simp: clean_split_def)
  have eq: "?x sdiv sint tot * sint tot = ?x - ?x smod sint tot" by (simp add: minus_smod_eq_sdiv_mult)
  have "in64 (?x smod sint tot)" using tot by (intro smod_in64) auto
  then show ?thesis
    unfolding ratio_rem_def sint_sub64 sint_mul64 clean_share [OF c r] eq using x by simp
qed

lemma clean_rem_bound:
  assumes "clean_split amount ratios tot" "r \<in> set ratios"
  shows "\<bar>sint (ratio_rem amount tot r)\<bar> < sint tot"
  using assms smod_int_range [of "sint tot" "sint amount * sint r"]
  by (auto simp: clean_rem clean_split_def)

lemma clean_sign:
  assumes "clean_split amount ratios tot" "r \<in> set ratios"
  shows "0 \<le> sint amount \<Longrightarrow> 0 \<le> sint (ratio_rem amount tot r) \<and> 0 \<le> sint (ratio_share amount tot r)"
    and "sint amount < 0 \<Longrightarrow> sint (ratio_rem amount tot r) \<le> 0 \<and> sint (ratio_share amount tot r) \<le> 0"
proof -
  let ?x = "sint amount * sint r"
  have tot: "0 < sint tot" and r: "0 \<le> sint r" using assms by (auto simp: clean_split_def)
  show "0 \<le> sint (ratio_rem amount tot r) \<and> 0 \<le> sint (ratio_share amount tot r)" if "0 \<le> sint amount"
  proof -
    have "0 \<le> ?x" using that r by simp
    then show ?thesis using tot div_within [OF tot, of ?x] smod_int_compares(2) [of ?x "sint tot"]
      by (simp add: clean_rem [OF assms] clean_share [OF assms] sdiv_pos)
  qed
  show "sint (ratio_rem amount tot r) \<le> 0 \<and> sint (ratio_share amount tot r) \<le> 0" if "sint amount < 0"
  proof -
    have "?x \<le> 0" using that r by (simp add: mult_le_0_iff)
    then show ?thesis using tot div_within [OF tot, of "- ?x"] smod_int_compares(4) [of ?x "sint tot"]
      by (auto simp: clean_rem [OF assms] clean_share [OF assms] sdiv_pos)
  qed
qed

lemma clean_split_eq:
  assumes "clean_split amount ratios tot" "r \<in> set ratios"
  shows "sint (ratio_share amount tot r) * sint tot + sint (ratio_rem amount tot r) = sint amount * sint r"
  by (simp add: clean_share [OF assms] clean_rem [OF assms] sdiv_mult_smod_eq)

definition share_sum :: "int64 \<Rightarrow> int64 list \<Rightarrow> int64 \<Rightarrow> int" where
  "share_sum amount ratios tot = sum_list (map (\<lambda>r. sint (ratio_share amount tot r)) ratios)"

lemma leftover_times_total:
  assumes c: "clean_split amount ratios tot"
  shows "(sint amount - share_sum amount ratios tot) * sint tot
    = sum_list (map (\<lambda>r. sint (ratio_rem amount tot r)) ratios)"
proof -
  have "sum_list (map (\<lambda>r. sint (ratio_share amount tot r) * sint tot + sint (ratio_rem amount tot r)) ratios)
      = sum_list (map (\<lambda>r. sint amount * sint r) ratios)"
    by (intro arg_cong [of _ _ sum_list] map_cong refl) (simp add: clean_split_eq [OF c])
  moreover have "sum_list (map sint ratios) = sint tot" using c by (simp add: clean_split_def)
  ultimately show ?thesis
    by (simp add: share_sum_def sum_list_addf sum_list_mult_const sum_list_const_mult algebra_simps)
qed

lemma sum_list_rems_bound:
  assumes "\<And>x. x \<in> set xs \<Longrightarrow> 0 \<le> f x \<and> f x \<le> (S :: int)"
  shows "sum_list (map f xs) \<le> int (card {i. i < length xs \<and> f (xs ! i) \<noteq> 0}) * S"
proof -
  have "sum_list (map f xs) = (\<Sum>i < length xs. f (xs ! i))"
    by (simp add: sum_list_sum_nth atLeast0LessThan)
  also have "\<dots> = (\<Sum>i \<in> {i. i < length xs \<and> f (xs ! i) \<noteq> 0}. f (xs ! i))"
    by (intro sum.mono_neutral_right) auto
  also have "\<dots> \<le> int (card {i. i < length xs \<and> f (xs ! i) \<noteq> 0}) * S"
    using assms by (intro sum_bounded_above) auto
  finally show ?thesis .
qed

lemma leftover_bounds:
  assumes c: "clean_split amount ratios tot"
  defines "L \<equiv> sint amount - share_sum amount ratios tot"
  shows "0 \<le> sint amount \<Longrightarrow> 0 \<le> L \<and> L \<le> sint amount"
    and "sint amount < 0 \<Longrightarrow> L \<le> 0 \<and> sint amount \<le> L"
    and "\<bar>L\<bar> \<le> int (card (nonzero_idx (map (ratio_rem amount tot) ratios)))"
proof -
  have tot: "0 < sint tot" using c by (simp add: clean_split_def)
  let ?rem = "\<lambda>r. sint (ratio_rem amount tot r)" and ?share = "\<lambda>r. sint (ratio_share amount tot r)"
  have L: "L * sint tot = sum_list (map ?rem ratios)"
    unfolding L_def by (rule leftover_times_total [OF c])
  have idx: "nonzero_idx (map (ratio_rem amount tot) ratios) = {i. i < length ratios \<and> ?rem (ratios ! i) \<noteq> 0}"
    by (auto simp: nonzero_idx_def int64_eq_iff)
  have pos: "0 \<le> L \<and> L \<le> sint amount \<and> L \<le> int (card (nonzero_idx (map (ratio_rem amount tot) ratios)))"
    if a: "0 \<le> sint amount"
  proof -
    have "0 \<le> sum_list (map ?rem ratios)" "0 \<le> sum_list (map ?share ratios)"
      using clean_sign(1) [OF c _ a] by (auto intro!: sum_list_nonneg)
    moreover have "sum_list (map ?rem ratios) \<le> int (card {i. i < length ratios \<and> ?rem (ratios ! i) \<noteq> 0}) * sint tot"
      using clean_sign(1) [OF c _ a] clean_rem_bound [OF c] by (intro sum_list_rems_bound) force
    ultimately show ?thesis using L tot
      by (auto simp: L_def share_sum_def idx zero_le_mult_iff mult_le_cancel_right simp flip: L)
  qed
  have neg: "L \<le> 0 \<and> sint amount \<le> L \<and> - L \<le> int (card (nonzero_idx (map (ratio_rem amount tot) ratios)))"
    if a: "sint amount < 0"
  proof -
    have "0 \<le> sum_list (map (\<lambda>r. - ?rem r) ratios)" "0 \<le> sum_list (map (\<lambda>r. - ?share r) ratios)"
      using clean_sign(2) [OF c _ a] by (auto intro!: sum_list_nonneg)
    moreover have "sum_list (map (\<lambda>r. - ?rem r) ratios)
        \<le> int (card {i. i < length ratios \<and> - ?rem (ratios ! i) \<noteq> 0}) * sint tot"
      using clean_sign(2) [OF c _ a] clean_rem_bound [OF c] by (intro sum_list_rems_bound) force
    moreover have "sum_list (map (\<lambda>r. - ?rem r) ratios) = (- L) * sint tot"
      by (simp add: L uminus_sum_list_map comp_def)
    moreover have "sum_list (map (\<lambda>r. - ?share r) ratios) = - share_sum amount ratios tot"
      by (simp add: share_sum_def uminus_sum_list_map comp_def)
    ultimately show ?thesis using tot
      by (auto simp: L_def idx zero_le_mult_iff mult_le_cancel_right mult_le_0_iff)
  qed
  show "0 \<le> sint amount \<Longrightarrow> 0 \<le> L \<and> L \<le> sint amount" using pos by auto
  show "sint amount < 0 \<Longrightarrow> L \<le> 0 \<and> sint amount \<le> L" using neg by auto
  show "\<bar>L\<bar> \<le> int (card (nonzero_idx (map (ratio_rem amount tot) ratios)))"
    using pos neg by (cases "0 \<le> sint amount") auto
qed

lemma clean_leftover:
  assumes c: "clean_split amount ratios tot"
  shows "sint (amount - sum_list (map (ratio_share amount tot) ratios)) = sint amount - share_sum amount ratios tot"
proof -
  have "in64 (sint amount - share_sum amount ratios tot)"
    using leftover_bounds(1,2) [OF c] sint_bounds [of amount]
    by (cases "0 \<le> sint amount") (auto simp: in64_def)
  then show ?thesis
    by (simp add: sint_sub64 sint_sum_list64 share_sum_def comp_def)
qed

lemma nonzero_le_total:
  assumes c: "clean_split amount ratios tot"
  shows "int (card (nonzero_idx (map (ratio_rem amount tot) ratios))) \<le> sint tot"
proof -
  let ?N = "nonzero_idx (map (ratio_rem amount tot) ratios)"
  have pos: "1 \<le> sint (ratios ! i)" if "i \<in> ?N" for i
  proof -
    have i: "ratios ! i \<in> set ratios" "ratio_rem amount tot (ratios ! i) \<noteq> 0"
      using that by (auto simp: nonzero_idx_def)
    then have "sint (ratios ! i) \<noteq> 0"
      using clean_rem [OF c i(1)] by (auto simp: int64_eq_iff)
    then show ?thesis using c i(1) by (force simp: clean_split_def)
  qed
  have "int (card ?N) = (\<Sum>i \<in> ?N. 1)" by simp
  also have "\<dots> \<le> (\<Sum>i \<in> ?N. sint (ratios ! i))" using pos by (intro sum_mono)
  also have "\<dots> \<le> (\<Sum>i < length ratios. sint (ratios ! i))"
    using c by (intro sum_mono2) (auto simp: nonzero_idx_def clean_split_def)
  also have "\<dots> = sint tot"
    using c by (simp add: clean_split_def sum_list_sum_nth atLeast0LessThan)
  finally show ?thesis .
qed

lemma share_step_fits:
  assumes c: "clean_split amount ratios tot" and r: "r \<in> set ratios" and nz: "ratio_rem amount tot r \<noteq> 0"
  shows "in64 (sint (ratio_share amount tot r) + 1)" and "in64 (sint (ratio_share amount tot r) - 1)"
proof -
  let ?s = "sint (ratio_share amount tot r)" and ?m = "sint (ratio_rem amount tot r)" and ?S = "sint tot"
  have eq: "?s * ?S + ?m = sint amount * sint r" by (rule clean_split_eq [OF c r])
  have "\<bar>?m\<bar> < ?S" by (rule clean_rem_bound [OF c r])
  moreover have "?m \<noteq> 0" using nz by (simp add: int64_eq_iff)
  ultimately have S2: "2 \<le> ?S" by linarith
  have x: "in64 (sint amount * sint r)" using c r by (simp add: clean_split_def)
  have "\<bar>?s\<bar> \<le> \<bar>sint amount * sint r\<bar> div 2"
  proof -
    have "\<bar>?s\<bar> = \<bar>sint amount * sint r\<bar> div ?S" using S2 by (simp add: clean_share [OF c r] abs_sdiv)
    also have "\<dots> \<le> \<bar>sint amount * sint r\<bar> div 2" using S2 by (intro zdiv_mono2) auto
    finally show ?thesis .
  qed
  moreover have "\<bar>sint amount * sint r\<bar> \<le> 2 ^ 63" using x by (auto simp: in64_def)
  then have "\<bar>sint amount * sint r\<bar> div 2 \<le> 2 ^ 62"
    using zdiv_mono1 [of "\<bar>sint amount * sint r\<bar>" "2 ^ 63" 2] by simp
  ultimately have "\<bar>?s\<bar> \<le> 2 ^ 62" by linarith
  then show "in64 (?s + 1)" "in64 (?s - 1)" by (auto simp: in64_def)
qed

lemma exact_split_rems:
  assumes c: "clean_split amount ratios tot" and z: "sint amount = share_sum amount ratios tot" and r: "r \<in> set ratios"
  shows "ratio_rem amount tot r = 0"
proof -
  have sum: "sum_list (map (\<lambda>r. sint (ratio_rem amount tot r)) ratios) = 0"
    using leftover_times_total [OF c] z by simp
  have "sint (ratio_rem amount tot r) = 0"
  proof (cases "0 \<le> sint amount")
    case True
    then show ?thesis using sum r clean_sign(1) [OF c]
      by (subst (asm) sum_list_nonneg_eq_0_iff) auto
  next
    case False
    have "sum_list (map (\<lambda>r. - sint (ratio_rem amount tot r)) ratios)
        = - sum_list (map (\<lambda>r. sint (ratio_rem amount tot r)) ratios)"
      by (simp add: uminus_sum_list_map comp_def)
    then have "sum_list (map (\<lambda>r. - sint (ratio_rem amount tot r)) ratios) = 0" using sum by simp
    then show ?thesis using False r clean_sign(2) [OF c]
      by (subst (asm) sum_list_nonneg_eq_0_iff) auto
  qed
  then show ?thesis by (simp add: int64_eq_iff)
qed

text \<open>
  \<open>fair_parts\<close>: the parts \<open>D\<close> are the truncated shares, and the parts of \<open>G\<close>, as many as there are
  units left over, all with a non-zero remainder, have one unit more (in the direction \<open>up\<close>); no
  part outside \<open>G\<close> has a larger remainder than one of \<open>G\<close>, and ties go to the lower index.
\<close>

definition fair_parts :: "int64 \<Rightarrow> int64 list \<Rightarrow> int64 \<Rightarrow> bool \<Rightarrow> nat set \<Rightarrow> int64 list \<Rightarrow> bool" where
  "fair_parts amount ratios tot up G D \<longleftrightarrow>
     (let L = sint amount - share_sum amount ratios tot; rems = map (ratio_rem amount tot) ratios in
      up = (\<not> L < 0) \<and> G \<subseteq> nonzero_idx rems \<and> int (card G) = \<bar>L\<bar> \<and> length D = length ratios
      \<and> (\<forall>i \<in> G. 0 < rem_key up (rems ! i))
      \<and> (\<forall>i < length ratios. sint (D ! i)
           = sint (ratio_share amount tot (ratios ! i)) + (if i \<in> G then if up then 1 else -1 else 0))
      \<and> (\<forall>i \<in> G. \<forall>j \<in> nonzero_idx rems - G. beats up rems i j))"

lemma clean_same_sign:
  assumes c: "clean_split amount ratios tot"
  shows "same_sign (\<not> sint amount - share_sum amount ratios tot < 0) (map (ratio_rem amount tot) ratios)"
proof (cases "sint amount = share_sum amount ratios tot")
  case True
  then show ?thesis
    using exact_split_rems [OF c] by (auto simp: same_sign_def rem_key_def)
next
  case False
  then show ?thesis
    using clean_sign [OF c] leftover_bounds(1,2) [OF c]
    by (cases "0 \<le> sint amount") (auto simp: same_sign_def rem_key_def)
qed

lemma clean_distribution:
  assumes c: "clean_split amount ratios tot"
  defines "L \<equiv> sint amount - share_sum amount ratios tot"
  defines "up \<equiv> \<not> L < 0"
  defines "rems \<equiv> map (ratio_rem amount tot) ratios"
  defines "parts \<equiv> map (ratio_share amount tot) ratios"
  defines "left \<equiv> amount - sum_list parts"
  shows "\<exists>G. fair_parts amount ratios tot up G (distribute up (if up then left else - left) parts rems)"
proof -
  have sl: "sint left = L" unfolding left_def parts_def L_def by (rule clean_leftover [OF c])
  have le: "\<bar>L\<bar> \<le> int (card (nonzero_idx rems))"
    unfolding L_def rems_def by (rule leftover_bounds(3) [OF c])
  have "\<bar>L\<bar> < 2 ^ 63"
    using le nonzero_le_total [OF c] sint_bounds(2) [of tot] unfolding rems_def by linarith
  then have units: "sint (if up then left else - left) = \<bar>L\<bar>"
    using sl by (auto simp: up_def sint_neg64 in64_def)
  have sign: "same_sign up rems" unfolding up_def L_def rems_def by (rule clean_same_sign [OF c])
  define D where "D = distribute up (if up then left else - left) parts rems"
  obtain G where G: "G \<subseteq> nonzero_idx rems" "int (card G) = \<bar>L\<bar>" "length D = length parts"
    "\<forall>i < length parts. D ! i = parts ! i + (if i \<in> G then if up then 1 else -1 else 0)"
    "\<forall>i \<in> G. \<forall>j \<in> nonzero_idx rems - G. beats up rems i j"
    using distribute_spec [of "if up then left else - left" rems up parts] units le sign
    by (auto simp: D_def parts_def rems_def)
  have key: "0 < rem_key up (rems ! i)" if "i \<in> G" for i
  proof -
    have "i < length rems" "rems ! i \<noteq> 0" using that G(1) by (auto simp: nonzero_idx_def)
    moreover from this have "0 \<le> rem_key up (rems ! i)" using sign by (simp add: same_sign_def)
    ultimately show ?thesis by (auto simp: rem_key_def int64_eq_iff less_le)
  qed
  have "sint (D ! i) = sint (ratio_share amount tot (ratios ! i)) + (if i \<in> G then if up then 1 else -1 else 0)"
    if i: "i < length ratios" for i
  proof (cases "i \<in> G")
    case False
    then show ?thesis using G(4) i by (simp add: parts_def)
  next
    case True
    then have "ratio_rem amount tot (ratios ! i) \<noteq> 0"
      using G(1) i by (auto simp: nonzero_idx_def rems_def)
    note f = share_step_fits [OF c nth_mem [OF i] this]
    show ?thesis using G(4) i True f by (auto simp: parts_def sint_add64)
  qed
  then show ?thesis using G key
    by (intro exI [of _ G]) (auto simp: fair_parts_def Let_def D_def up_def L_def rems_def parts_def)
qed

lemma fair_parts_sum:
  assumes "fair_parts amount ratios tot up G D"
  shows "sum_list (map sint D) = sint amount"
proof -
  have G: "G \<subseteq> {..<length ratios}" using assms by (auto simp: fair_parts_def Let_def nonzero_idx_def)
  have "sum_list (map sint D) = (\<Sum>i < length ratios. sint (D ! i))"
    using assms by (simp add: sum_list_sum_nth atLeast0LessThan fair_parts_def Let_def)
  also have "\<dots> = (\<Sum>i < length ratios. sint (ratio_share amount tot (ratios ! i)))
      + (\<Sum>i < length ratios. if i \<in> G then if up then 1 else -1 else 0)"
    using assms by (simp add: sum.distrib fair_parts_def Let_def)
  also have "(\<Sum>i < length ratios. if i \<in> G then if up then 1 else -1 else 0 :: int)
      = (\<Sum>i \<in> G. if up then 1 else -1)"
    using G by (simp add: sum.If_cases Int_absorb1)
  also have "\<dots> = sint amount - share_sum amount ratios tot"
    using assms by (auto simp: fair_parts_def Let_def)
  also have "(\<Sum>i < length ratios. sint (ratio_share amount tot (ratios ! i))) = share_sum amount ratios tot"
    by (simp add: share_sum_def sum_list_sum_nth atLeast0LessThan)
  finally show ?thesis by simp
qed

lemma fair_parts_near:
  assumes c: "clean_split amount ratios tot" and f: "fair_parts amount ratios tot up G D"
    and i: "i < length ratios"
  shows "\<bar>sint (D ! i) * sint tot - sint amount * sint (ratios ! i)\<bar> < sint tot"
proof -
  let ?m = "sint (ratio_rem amount tot (ratios ! i))" and ?s = "sint (ratio_share amount tot (ratios ! i))"
  have eq: "sint amount * sint (ratios ! i) = ?s * sint tot + ?m"
    using clean_split_eq [OF c nth_mem [OF i]] by simp
  have bound: "\<bar>?m\<bar> < sint tot" by (rule clean_rem_bound [OF c nth_mem [OF i]])
  have D: "sint (D ! i) = ?s + (if i \<in> G then if up then 1 else -1 else 0)"
    using f i by (simp add: fair_parts_def Let_def)
  have "i \<in> G \<Longrightarrow> 0 < rem_key up (map (ratio_rem amount tot) ratios ! i)"
    using f unfolding fair_parts_def Let_def by blast
  then have key: "i \<in> G \<Longrightarrow> 0 < (if up then ?m else - ?m)"
    using i by (simp add: rem_key_def)
  show ?thesis
    using bound key by (auto simp: D eq distrib_right)
qed

lemma Money_Allocate_fair:
  assumes "ratios \<noteq> []" and ok: "\<forall>r \<in> set ratios. 0 \<le> sint r \<and> in64 (sint (m_amount m) * sint r)"
    and S: "0 < sum_list (map sint ratios)" "sum_list (map sint ratios) < 2 ^ 63"
  shows "\<exists>tot up G D. clean_split (m_amount m) ratios tot \<and> fair_parts (m_amount m) ratios tot up G D \<and>
    Money_Allocate m ratios = Inr (map (\<lambda>a. \<lparr>m_amount = a, m_currency = m_currency m\<rparr>) D)"
proof -
  obtain tot where t: "ratio_total ratios 0 = Inr tot" "sint tot = sum_list (map sint ratios)"
    using ratio_total_ok [of ratios 0] ok S by auto
  then have c: "clean_split (m_amount m) ratios tot" using ok S by (simp add: clean_split_def)
  have t0: "tot \<noteq> 0" using t S by auto
  obtain G where G: "fair_parts (m_amount m) ratios tot
      (\<not> sint (m_amount m) - share_sum (m_amount m) ratios tot < 0) G
      (distribute (\<not> sint (m_amount m) - share_sum (m_amount m) ratios tot < 0)
        (if \<not> sint (m_amount m) - share_sum (m_amount m) ratios tot < 0
         then m_amount m - sum_list (map (ratio_share (m_amount m) tot) ratios)
         else - (m_amount m - sum_list (map (ratio_share (m_amount m) tot) ratios)))
        (map (ratio_share (m_amount m) tot) ratios) (map (ratio_rem (m_amount m) tot) ratios))"
    using clean_distribution [OF c] by blast
  show ?thesis
    by (intro exI conjI, rule c, rule G)
      (use assms(1) t(1) t0 clean_leftover [OF c] in \<open>simp add: Money_Allocate_def Let_def\<close>)
qed

section \<open>Properties\<close>

text \<open>
  C28: an allocation by non-negative ratios whose products fit in 64 bits succeeds, returns one
  part per ratio in the amount's currency, loses and creates no minor unit, and gives every part
  an amount less than one minor unit away from its exact proportional share.
\<close>

theorem Money_Allocate_exact:
  assumes "ratios \<noteq> []" and "\<forall>r \<in> set ratios. 0 \<le> sint r \<and> in64 (sint (m_amount m) * sint r)"
    and "0 < sum_list (map sint ratios)" and "sum_list (map sint ratios) < 2 ^ 63"
  shows "\<exists>parts. Money_Allocate m ratios = Inr parts
     \<and> length parts = length ratios
     \<and> (\<forall>p \<in> set parts. m_currency p = m_currency m)
     \<and> sum_list (map (\<lambda>p. sint (m_amount p)) parts) = sint (m_amount m)
     \<and> (\<forall>i < length ratios.
          \<bar>sint (m_amount (parts ! i)) * sum_list (map sint ratios) - sint (m_amount m) * sint (ratios ! i)\<bar>
            < sum_list (map sint ratios))"
proof -
  obtain tot G D up where c: "clean_split (m_amount m) ratios tot"
    and f: "fair_parts (m_amount m) ratios tot up G D"
    and res: "Money_Allocate m ratios = Inr (map (\<lambda>a. \<lparr>m_amount = a, m_currency = m_currency m\<rparr>) D)"
    using Money_Allocate_fair [OF assms] by blast
  have tot: "sint tot = sum_list (map sint ratios)" using c by (simp add: clean_split_def)
  have "length D = length ratios" using f by (simp add: fair_parts_def Let_def)
  then show ?thesis
    using res fair_parts_sum [OF f] fair_parts_near [OF c f] tot
    by (intro exI [of _ "map (\<lambda>a. \<lparr>m_amount = a, m_currency = m_currency m\<rparr>) D"]) (auto simp: comp_def)
qed

theorem Money_Allocate_exact_witness:
  "Money_Allocate \<lparr>m_amount = - 100, m_currency = ''USD''\<rparr> [1, 1, 0, 1]
     = Inr (map (\<lambda>a. \<lparr>m_amount = a, m_currency = ''USD''\<rparr>) [- 34, - 33, 0, - 33])
   \<and> sum_list (map sint [- 34, - 33, 0, - 33 :: int64]) = - 100"
proof -
  let ?parts = "map (\<lambda>a. \<lparr>m_amount = a, m_currency = ''USD''\<rparr>) [- 34, - 33, 0, - 33 :: int64]"
  have run: "Money_Allocate \<lparr>m_amount = - 100, m_currency = ''USD''\<rparr> [1, 1, 0, 1] = Inr ?parts"
    by code_simp
  moreover have "sum_list (map (\<lambda>p. sint (m_amount p)) ?parts) = - 100"
    using Money_Allocate_exact [of "[1, 1, 0, 1]" "\<lparr>m_amount = - 100, m_currency = ''USD''\<rparr>"] run
    by (simp add: in64_def)
  ultimately show ?thesis by simp
qed

text \<open>
  When the products do not fit in 64 bits nothing stops the allocation: ten cents split by
  the two equal ratios \<open>2 ^ 61\<close> come back as nine cents and one cent, without an error.
\<close>

theorem Money_Allocate_unchecked_product:
  "Money_Allocate \<lparr>m_amount = 10, m_currency = ''USD''\<rparr> [2 ^ 61, 2 ^ 61]
     = Inr (map (\<lambda>a. \<lparr>m_amount = a, m_currency = ''USD''\<rparr>) [9, 1])"
  by code_simp

end
