(* ===== verification/Money_Text.thy ===== *)
theory Money_Text
  imports Money
begin

text \<open>
  The textual forms of \<open>src/pkg/money/money.go\<close>: \<open>String\<close>, \<open>ParseMinorUnits\<close> and \<open>Scan\<close>, and their round trip.
\<close>

definition ten_power :: "nat \<Rightarrow> int64" where
  "ten_power e = ((\<lambda>d. d * 10) ^^ e) 1"

definition Money_String :: "money \<Rightarrow> string" where
  "Money_String m =
     (let e = Currency_Exponent (m_currency m)
      in if e = 0 then m_currency m @ '' '' @ format_int64 (m_amount m)
         else let neg = (sint (m_amount m) < 0);
                  a = (if neg then - m_amount m else m_amount m);
                  dv = ten_power e;
                  major = sdiv64 a dv;
                  minor = smod64 a dv;
                  sign = (if neg then ''-'' else '''')
              in m_currency m @ '' '' @ sign @ format_int64 major @ ''.'' @ fmt_zero_pad e minor)"

definition ParseMinorUnits :: "string \<Rightarrow> currency \<Rightarrow> (money_error, int64) result" where
  "ParseMinorUnits s0 c =
     (let e = Currency_Exponent c;
          s1 = trim_space s0;
          neg = (s1 \<noteq> [] \<and> hd s1 = CHR ''-'');
          s2 = trim_prefix CHR ''+'' (trim_prefix CHR ''-'' s1);
          (ip, fp, hasFrac) = cut CHR ''.'' s2;
          intPart = (if ip = [] then ''0'' else ip)
      in if hasFrac \<and> length fp > e then Inl ErrMalformed
         else let fracPart = fp @ replicate (e - length fp) CHR ''0''
              in case parse_int64 intPart of
                  None \<Rightarrow> Inl ErrMalformed
                | Some whole \<Rightarrow>
                    (case (if e > 0 then parse_int64 fracPart else Some 0) of
                        None \<Rightarrow> Inl ErrMalformed
                      | Some frac \<Rightarrow>
                          let mult = ten_power e
                          in if sint whole > sint (sdiv64 (MaxInt64 - frac) mult) then Inl ErrOverflow
                             else let amt = whole * mult + frac in Inr (if neg then - amt else amt)))"

text \<open>
  What a database driver hands to \<open>Scan\<close>: a string, a byte slice, or a value of another dynamic
  type.
\<close>

datatype scan_src = SrcString string | SrcBytes string | SrcOther

fun src_text :: "scan_src \<Rightarrow> string option" where
  "src_text (SrcString s) = Some s"
| "src_text (SrcBytes b) = Some b"
| "src_text SrcOther = None"

definition Money_Scan :: "scan_src \<Rightarrow> (money_error, money) result" where
  "Money_Scan src =
     (case src_text src of
        None \<Rightarrow> Inl ErrMalformed
      | Some s \<Rightarrow>
        (case str_fields s of
           [cur, num] \<Rightarrow>
             (case ParseCurrency cur of
                Inl e \<Rightarrow> Inl e
              | Inr c \<Rightarrow>
                  (case ParseMinorUnits num c of
                     Inl e \<Rightarrow> Inl e
                   | Inr minor \<Rightarrow> Inr \<lparr>m_amount = minor, m_currency = c\<rparr>))
         | _ \<Rightarrow> Inl ErrMalformed))"

text \<open>
  The JSON form after the decoder has run: \<open>MarshalJSON\<close> hands the encoder a \<open>wire\<close> value, and
  \<open>UnmarshalJSON\<close> validates the one the decoder produced.
\<close>

record wire =
  w_amount :: "int64 option"
  w_currency :: string

definition Money_wire :: "money \<Rightarrow> wire" where
  "Money_wire m = \<lparr>w_amount = Some (m_amount m), w_currency = m_currency m\<rparr>"

definition Money_of_wire :: "wire \<Rightarrow> (money_error, money) result" where
  "Money_of_wire w =
     (case w_amount w of
        None \<Rightarrow> Inl ErrMalformed
      | Some a \<Rightarrow>
          (case ParseCurrency (w_currency w) of
             Inl e \<Rightarrow> Inl e
           | Inr c \<Rightarrow> Inr \<lparr>m_amount = a, m_currency = c\<rparr>))"

lemma supported_code:
  assumes "Currency_IsSupported c"
  shows "to_upper (trim_space c) = c" and "c \<noteq> []" and "\<forall>x \<in> set c. \<not> is_space x"
    and "Currency_Exponent c \<in> {0, 2, 3, 4}" and "map_of currencies c \<noteq> None"
proof -
  have "list_all (\<lambda>(c, info). to_upper (trim_space c) = c \<and> c \<noteq> [] \<and> list_all (\<lambda>x. \<not> is_space x) c
          \<and> ci_exponent info \<in> {0, 2, 3, 4}) currencies"
    by code_simp
  moreover obtain info where "map_of currencies c = Some info" using assms by (auto simp: Currency_IsSupported_def)
  moreover from this have "(c, info) \<in> set currencies" by (rule map_of_SomeD)
  ultimately show "to_upper (trim_space c) = c" "c \<noteq> []" "\<forall>x \<in> set c. \<not> is_space x"
    "Currency_Exponent c \<in> {0, 2, 3, 4}" "map_of currencies c \<noteq> None"
    by (auto simp: list_all_iff Currency_Exponent_def)
qed

lemma ParseCurrency_supported: "Currency_IsSupported c \<Longrightarrow> ParseCurrency c = Inr c"
  using supported_code [of c] by (auto simp: ParseCurrency_def Let_def)

lemma ten_power_values [simp]:
  "ten_power 0 = 1" "ten_power 2 = 100" "ten_power 3 = 1000" "ten_power 4 = 10000"
  by (simp_all add: ten_power_def numeral_eq_Suc)

lemma sint_ten_power: "e \<in> {0, 2, 3, 4} \<Longrightarrow> sint (ten_power e) = 10 ^ e"
  by auto

text \<open>Parsing a printed non-negative amount, with or without a minus sign in front.\<close>

lemma parse_printed:
  assumes a: "0 \<le> sint a" and e: "Currency_Exponent c \<in> {2, 3, 4}"
  defines "d \<equiv> ten_power (Currency_Exponent c)"
  defines "body \<equiv> format_int64 (sdiv64 a d) @ ''.'' @ fmt_zero_pad (Currency_Exponent c) (smod64 a d)"
  shows "ParseMinorUnits ((if neg then ''-'' else []) @ body) c = Inr (if neg then - a else a)"
    and "\<forall>x \<in> set body. \<not> is_space x"
proof -
  define E where "E = Currency_Exponent c"
  have d: "0 < sint d" "sint d = 10 ^ E" using e by (auto simp: d_def E_def)
  note qr = nonneg_parts [OF a d(1)]
  let ?q = "sdiv64 a d" and ?r = "smod64 a d"
  have q0: "0 \<le> sint ?q" "0 \<le> sint ?r" "sint ?r < 10 ^ E"
    using a d(1) d(2) [symmetric] by (simp_all add: qr pos_imp_zdiv_nonneg_iff)
  have fq: "format_int64 ?q = dec_of_nat (nat (sint ?q))" using q0 by (simp add: format_nonneg)
  have len: "length (format_int64 ?r) \<le> E"
    using q0 e length_dec_of_nat [of "nat (sint ?r)" E] by (auto simp: format_nonneg E_def nat_less_iff)
  have pad: "fmt_zero_pad E ?r = replicate (E - length (format_int64 ?r)) CHR ''0'' @ format_int64 ?r"
    using q0 by (simp add: fmt_zero_pad_def Let_def)
  have plen: "length (fmt_zero_pad E ?r) = E" using len by (simp add: pad)
  have frac: "parse_int64 (fmt_zero_pad E ?r) = Some ?r" using q0 by (simp add: pad parse_zero_padded)
  have dz: "is_digit_char CHR ''0''" by (simp add: is_digit_char_def)
  have digs: "list_all is_digit_char (format_int64 ?q)" "list_all is_digit_char (fmt_zero_pad E ?r)"
    using q0 dec_of_nat_digits dz by (auto simp add: fq pad format_nonneg list_all_iff)
  show nb: "\<forall>x \<in> set body. \<not> is_space x"
    using digs digit_not_space by (auto simp: body_def E_def list_all_iff is_space_def)
  have nsp: "\<forall>x \<in> set ((if neg then ''-'' else []) @ body). \<not> is_space x"
    using nb by (auto simp: is_space_def)
  obtain h t where ht: "format_int64 ?q = h # t" "h \<noteq> CHR ''-''" "h \<noteq> CHR ''+''"
    using digit_not_sign [OF hd_dec_of_nat_digit [of "nat (sint ?q)"]]
    by (cases "format_int64 ?q") (auto simp: fq)
  have s2: "trim_prefix CHR ''+'' (trim_prefix CHR ''-'' ((if neg then ''-'' else []) @ body)) = body"
    using ht by (simp add: trim_prefix_def body_def)
  have ng: "(if neg then ''-'' else []) @ body \<noteq> [] \<and> hd ((if neg then ''-'' else []) @ body) = CHR ''-'' \<longleftrightarrow> neg"
    using ht by (simp add: body_def)
  have cb: "cut CHR ''.'' body = (format_int64 ?q, fmt_zero_pad E ?r, True)"
    unfolding body_def E_def [symmetric] by (rule cut_at_dot) (rule digits_no_dot [OF digs(1)])
  have eq: "sint ?q * sint d + sint ?r = sint a" by (simp add: qr)
  have total: "?q * d + ?r = a"
    
    by (rule int64_eqI)
      (subst add.commute, simp only: sint_add64 sint_mul64 wrap64_wrap_add eq [unfolded add.commute [of "_ * _"]] wrap64_id sint_in64)
  have cap: "sint ?q \<le> sint (sdiv64 (MaxInt64 - ?r) d)"
  proof -
    have f: "sint (MaxInt64 - ?r) = 2 ^ 63 - 1 - sint ?r"
      using q0 sint_bounds [of ?r] by (simp add: sint_sub64 in64_def)
    then have "0 \<le> sint (MaxInt64 - ?r)" using sint_bounds [of ?r] by simp
    from nonneg_parts(1) [OF this d(1)] show ?thesis
      using eq sint_bounds(2) [of a] d(1) f by (simp add: le_div_iff_int)
  qed
  have e0: "0 < E" using e by (auto simp: E_def)
  show "ParseMinorUnits ((if neg then ''-'' else []) @ body) c = Inr (if neg then - a else a)"
    unfolding ParseMinorUnits_def Let_def E_def [symmetric] trim_space_id [OF nsp] ng s2 cb
    using ht(1) e0 plen frac parse_format_int64 [of ?q] cap total
    by (simp add: d_def [folded E_def, symmetric])
qed

lemma parse_printed_whole:
  assumes e: "Currency_Exponent c = 0" and a: "a \<noteq> MinInt64"
  shows "ParseMinorUnits (format_int64 a) c = Inr a" and "\<forall>x \<in> set (format_int64 a). \<not> is_space x"
proof -
  define n where "n = nat \<bar>sint a\<bar>"
  define neg where "neg \<longleftrightarrow> sint a < 0"
  have fa: "format_int64 a = (if neg then ''-'' else []) @ dec_of_nat n"
    by (simp add: format_int64_def n_def neg_def)
  show nsp: "\<forall>x \<in> set (format_int64 a). \<not> is_space x"
    using dec_of_nat_digits [of n] digit_not_space by (auto simp: fa list_all_iff is_space_def)
  have "sint a \<noteq> - (2 ^ 63)" using a by (auto simp: int64_eq_iff)
  then have n: "int n < 2 ^ 63" using sint_bounds [of a] by (simp add: n_def)
  obtain h t where ht: "dec_of_nat n = h # t" "h \<noteq> CHR ''-''" "h \<noteq> CHR ''+''"
    using digit_not_sign [OF hd_dec_of_nat_digit [of n]] by (cases "dec_of_nat n") auto
  have s2: "trim_prefix CHR ''+'' (trim_prefix CHR ''-'' (format_int64 a)) = dec_of_nat n"
    using ht by (simp add: trim_prefix_def fa)
  have ng: "format_int64 a \<noteq> [] \<and> hd (format_int64 a) = CHR ''-'' \<longleftrightarrow> neg"
    using ht by (simp add: fa)
  have cb: "cut CHR ''.'' (dec_of_nat n) = (dec_of_nat n, [], False)"
    by (rule cut_at_dot) (rule digits_no_dot [OF dec_of_nat_digits])
  have p: "parse_int64 (dec_of_nat n) = Some (word_of_int (int n))"
    using n by (intro parse_int64_dec) (simp add: in64_def)
  define N where "N = (word_of_int (int n) :: int64)"
  have an: "int n = \<bar>sint a\<bar>" by (simp add: n_def)
  have w: "sint N = int n" using n unfolding N_def sint_of_int64 by (intro wrap64_id) (simp add: in64_def)
  have m: "sint (sdiv64 MaxInt64 1) = 2 ^ 63 - 1" by (subst nonneg_parts) simp_all
  have "in64 (- int n)" using n by (simp add: in64_def)
  then have r: "(if neg then - N else N) = a"
    using w an by (intro int64_eqI) (auto simp: sint_neg64 neg_def)
  show "ParseMinorUnits (format_int64 a) c = Inr a"
    unfolding ParseMinorUnits_def Let_def trim_space_id [OF nsp] ng s2 cb
    using e ht(1) p m n r w unfolding N_def [symmetric] by (auto split: if_splits)
qed

lemma Money_Scan_String:
  assumes "Money_IsValid m" and "m_amount m \<noteq> MinInt64"
  shows "Money_Scan (SrcString (Money_String m)) = Inr m" and "Money_Scan (SrcBytes (Money_String m)) = Inr m"
proof -
  obtain a c where m: "m = \<lparr>m_amount = a, m_currency = c\<rparr>" by (cases m)
  have c: "Currency_IsSupported c" and a: "a \<noteq> MinInt64" using assms m by (simp_all add: Money_IsValid_def)
  note code = supported_code [OF c]
  have "\<exists>b. Money_String m = c @ '' '' @ b \<and> b \<noteq> [] \<and> (\<forall>x \<in> set b. \<not> is_space x) \<and> ParseMinorUnits b c = Inr a"
  proof (cases "Currency_Exponent c = 0")
    case True
    have "format_int64 a \<noteq> []" by (simp add: format_int64_def)
    with True show ?thesis
      using parse_printed_whole [OF True a] by (intro exI [of _ "format_int64 a"]) (simp add: Money_String_def m)
  next
    case False
    define neg where "neg \<longleftrightarrow> sint a < 0"
    define b where "b = (if neg then - a else a)"
    have E: "Currency_Exponent c \<in> {2, 3, 4}" using False code(4) by auto
    have "sint a \<noteq> - (2 ^ 63)" using a by (auto simp: int64_eq_iff)
    then have "in64 (- sint a)" using sint_bounds [of a] by (auto simp: in64_def)
    then have b: "0 \<le> sint b" by (simp add: b_def neg_def sint_neg64)
    have ba: "(if neg then - b else b) = a" by (simp add: b_def)
    let ?d = "ten_power (Currency_Exponent c)"
    let ?body = "format_int64 (sdiv64 b ?d) @ ''.'' @ fmt_zero_pad (Currency_Exponent c) (smod64 b ?d)"
    have "Money_String m = c @ '' '' @ (if neg then ''-'' else []) @ ?body"
      using False by (simp add: Money_String_def m Let_def neg_def b_def)
    then show ?thesis
      using parse_printed(1) [OF b E, of neg] parse_printed(2) [OF b E] ba
      by (intro exI [of _ "(if neg then ''-'' else []) @ ?body"]) (auto simp: is_space_def)
  qed
  then obtain b where "Money_String m = c @ '' '' @ b" "b \<noteq> []" "\<forall>x \<in> set b. \<not> is_space x"
    "ParseMinorUnits b c = Inr a" by blast
  then show "Money_Scan (SrcString (Money_String m)) = Inr m" "Money_Scan (SrcBytes (Money_String m)) = Inr m"
    using fields_two [OF code(2) _ code(3)] ParseCurrency_supported [OF c] by (simp_all add: Money_Scan_def m)
qed

section \<open>Properties\<close>

text \<open>
  C30: reading back what the database column or the JSON document was written with. For every
  amount of a supported currency except the smallest \<open>int64\<close>, \<open>Scan\<close> of the text \<open>String\<close> produced
  gives the same value, for exponents 0, 2, 3 and 4 and both signs; the JSON form gives back every
  amount of a supported currency.
\<close>

theorem Money_text_roundtrip:
  assumes "Money_IsValid m"
  shows "(m_amount m \<noteq> MinInt64 \<longrightarrow> Money_Scan (SrcString (Money_String m)) = Inr m)
    \<and> (m_amount m \<noteq> MinInt64 \<longrightarrow> Money_Scan (SrcBytes (Money_String m)) = Inr m)
    \<and> Money_of_wire (Money_wire m) = Inr m"
proof (intro conjI impI)
  show "Money_of_wire (Money_wire m) = Inr m"
    using assms ParseCurrency_supported [of "m_currency m"]
    by (simp add: Money_of_wire_def Money_wire_def Money_IsValid_def)
qed (simp_all add: assms Money_Scan_String)

theorem Money_text_roundtrip_witness:
  "Money_String \<lparr>m_amount = - 1005, m_currency = ''KWD''\<rparr> = ''KWD -1.005''
   \<and> Money_Scan (SrcString ''KWD -1.005'') = Inr \<lparr>m_amount = - 1005, m_currency = ''KWD''\<rparr>
   \<and> Money_of_wire \<lparr>w_amount = Some (- 1005), w_currency = ''KWD''\<rparr>
       = Inr \<lparr>m_amount = - 1005, m_currency = ''KWD''\<rparr>"
  using Money_text_roundtrip [of "\<lparr>m_amount = - 1005, m_currency = ''KWD''\<rparr>"]
  by code_simp

text \<open>
  Malformed decimal strings the parser does not refuse as malformed: a second minus sign in
  front cancels the first, a plus sign inside the fraction is read as a digit position, and a
  minus sign there is reported as an overflow.
\<close>

theorem ParseMinorUnits_accepts_stray_signs:
  "ParseMinorUnits ''--5'' ''USD'' = Inr 500
   \<and> ParseMinorUnits ''1.+5'' ''USD'' = Inr 105
   \<and> ParseMinorUnits ''1.-5'' ''USD'' = Inl ErrOverflow"
  by code_simp

end
