(* ===== verification/Api_Error.thy ===== *)
theory Api_Error
  imports Prelude
begin

text \<open>
  The platform's error representation, \<open>src/pkg/apierror/apierror.go\<close>: the published codes, their
  classification, the error value with its builders, wrapping, and the transport mappings.

  A Go \<open>error\<close> is a \<open>go_error\<close>: a platform error with its unexported cause, or any other error with
  the errors it wraps. \<open>errors_As\<close> is \<open>errors.As\<close> for the target type \<open>*Error\<close>: the first platform
  error of the tree in pre-order. \<open>Newf\<close> and \<open>Wrapf\<close> are \<open>New\<close> and \<open>Wrap\<close> on a formatted string.
\<close>

section \<open>Categories and codes\<close>

datatype Category =
    CategoryValidation | CategoryAuthentication | CategoryAuthorization | CategoryNotFound |
    CategoryConflict | CategoryBusinessRule | CategoryRateLimit | CategoryGateway |
    CategoryTimeout | CategoryInfrastructure | CategoryInternal

primrec category_str :: "Category \<Rightarrow> string" where
  "category_str CategoryValidation = ''VALIDATION''"
| "category_str CategoryAuthentication = ''AUTHENTICATION''"
| "category_str CategoryAuthorization = ''AUTHORIZATION''"
| "category_str CategoryNotFound = ''NOT_FOUND''"
| "category_str CategoryConflict = ''CONFLICT''"
| "category_str CategoryBusinessRule = ''BUSINESS_RULE''"
| "category_str CategoryRateLimit = ''RATE_LIMIT''"
| "category_str CategoryGateway = ''GATEWAY''"
| "category_str CategoryTimeout = ''TIMEOUT''"
| "category_str CategoryInfrastructure = ''INFRASTRUCTURE''"
| "category_str CategoryInternal = ''INTERNAL''"

text \<open>As in Go, a code is a string; the published ones are constants.\<close>

type_synonym Code = string

definition CodeValidationFailed :: Code where "CodeValidationFailed = ''VALIDATION_FAILED''"
definition CodeSensitiveDataInRequest :: Code where "CodeSensitiveDataInRequest = ''SENSITIVE_DATA_IN_REQUEST''"
definition CodeMalformedRequest :: Code where "CodeMalformedRequest = ''MALFORMED_REQUEST''"
definition CodeUnsupportedMediaType :: Code where "CodeUnsupportedMediaType = ''UNSUPPORTED_MEDIA_TYPE''"
definition CodeRequestTooLarge :: Code where "CodeRequestTooLarge = ''REQUEST_TOO_LARGE''"
definition CodeMissingRequiredHeader :: Code where "CodeMissingRequiredHeader = ''MISSING_REQUIRED_HEADER''"
definition CodeInvalidCursor :: Code where "CodeInvalidCursor = ''INVALID_CURSOR''"
definition CodeAmountInvalid :: Code where "CodeAmountInvalid = ''AMOUNT_INVALID''"
definition CodeCurrencyMismatch :: Code where "CodeCurrencyMismatch = ''CURRENCY_MISMATCH''"
definition CodeIdempotencyKeyRequired :: Code where "CodeIdempotencyKeyRequired = ''IDEMPOTENCY_KEY_REQUIRED''"
definition CodeIdempotencyKeyReused :: Code where "CodeIdempotencyKeyReused = ''IDEMPOTENCY_KEY_REUSED''"
definition CodeIdempotentRequestInProgress :: Code where "CodeIdempotentRequestInProgress = ''IDEMPOTENT_REQUEST_IN_PROGRESS''"
definition CodePreconditionRequired :: Code where "CodePreconditionRequired = ''PRECONDITION_REQUIRED''"
definition CodeUnauthenticated :: Code where "CodeUnauthenticated = ''UNAUTHENTICATED''"
definition CodeInvalidToken :: Code where "CodeInvalidToken = ''INVALID_TOKEN''"
definition CodeTokenExpired :: Code where "CodeTokenExpired = ''TOKEN_EXPIRED''"
definition CodeForbidden :: Code where "CodeForbidden = ''FORBIDDEN''"
definition CodeInsufficientScope :: Code where "CodeInsufficientScope = ''INSUFFICIENT_SCOPE''"
definition CodeDualControlRequired :: Code where "CodeDualControlRequired = ''DUAL_CONTROL_REQUIRED''"
definition CodeTenantMismatch :: Code where "CodeTenantMismatch = ''TENANT_MISMATCH''"
definition CodeMissingTenantContext :: Code where "CodeMissingTenantContext = ''MISSING_TENANT_CONTEXT''"
definition CodeResidencyPolicyViolation :: Code where "CodeResidencyPolicyViolation = ''RESIDENCY_POLICY_VIOLATION''"
definition CodeMerchantNotFound :: Code where "CodeMerchantNotFound = ''MERCHANT_NOT_FOUND''"
definition CodeMerchantNotActive :: Code where "CodeMerchantNotActive = ''MERCHANT_NOT_ACTIVE''"
definition CodeMerchantSuspended :: Code where "CodeMerchantSuspended = ''MERCHANT_SUSPENDED''"
definition CodeMerchantAlreadyExists :: Code where "CodeMerchantAlreadyExists = ''MERCHANT_ALREADY_EXISTS''"
definition CodeTerminationBlockedOpenPayments :: Code where "CodeTerminationBlockedOpenPayments = ''TERMINATION_BLOCKED_OPEN_PAYMENTS''"
definition CodeOnboardingCaseNotFound :: Code where "CodeOnboardingCaseNotFound = ''ONBOARDING_CASE_NOT_FOUND''"
definition CodeOnboardingAlreadyInProgress :: Code where "CodeOnboardingAlreadyInProgress = ''ONBOARDING_ALREADY_IN_PROGRESS''"
definition CodeKYCRequired :: Code where "CodeKYCRequired = ''KYC_REQUIRED''"
definition CodeComplianceAttestationRequired :: Code where "CodeComplianceAttestationRequired = ''COMPLIANCE_ATTESTATION_REQUIRED''"
definition CodeCertificationRequired :: Code where "CodeCertificationRequired = ''CERTIFICATION_REQUIRED''"
definition CodeCertificationFailed :: Code where "CodeCertificationFailed = ''CERTIFICATION_FAILED''"
definition CodePaymentNotFound :: Code where "CodePaymentNotFound = ''PAYMENT_NOT_FOUND''"
definition CodeRefundNotFound :: Code where "CodeRefundNotFound = ''REFUND_NOT_FOUND''"
definition CodePaymentAlreadyProcessed :: Code where "CodePaymentAlreadyProcessed = ''PAYMENT_ALREADY_PROCESSED''"
definition CodeInvalidStateTransition :: Code where "CodeInvalidStateTransition = ''INVALID_STATE_TRANSITION''"
definition CodeReconciliationPending :: Code where "CodeReconciliationPending = ''RECONCILIATION_PENDING''"
definition CodeAmountExceedsLimit :: Code where "CodeAmountExceedsLimit = ''AMOUNT_EXCEEDS_LIMIT''"
definition CodeDailyVolumeLimitExceeded :: Code where "CodeDailyVolumeLimitExceeded = ''DAILY_VOLUME_LIMIT_EXCEEDED''"
definition CodeRefundExceedsCaptured :: Code where "CodeRefundExceedsCaptured = ''REFUND_EXCEEDS_CAPTURED''"
definition CodeRefundWindowExpired :: Code where "CodeRefundWindowExpired = ''REFUND_WINDOW_EXPIRED''"
definition CodeCaptureExceedsAuthorized :: Code where "CodeCaptureExceedsAuthorized = ''CAPTURE_EXCEEDS_AUTHORIZED''"
definition CodeCaptureLimitExceeded :: Code where "CodeCaptureLimitExceeded = ''CAPTURE_LIMIT_EXCEEDED''"
definition CodePartialCaptureNotSupported :: Code where "CodePartialCaptureNotSupported = ''PARTIAL_CAPTURE_NOT_SUPPORTED''"
definition CodeAuthorizationExpired :: Code where "CodeAuthorizationExpired = ''AUTHORIZATION_EXPIRED''"
definition CodeCurrencyNotSupported :: Code where "CodeCurrencyNotSupported = ''CURRENCY_NOT_SUPPORTED''"
definition CodePaymentMethodNotSupported :: Code where "CodePaymentMethodNotSupported = ''PAYMENT_METHOD_NOT_SUPPORTED''"
definition CodeNoEligibleGateway :: Code where "CodeNoEligibleGateway = ''NO_ELIGIBLE_GATEWAY''"
definition CodeRiskDeclined :: Code where "CodeRiskDeclined = ''RISK_DECLINED''"
definition CodeThreeDsRequired :: Code where "CodeThreeDsRequired = ''THREE_DS_REQUIRED''"
definition CodeVelocityLimitExceeded :: Code where "CodeVelocityLimitExceeded = ''VELOCITY_LIMIT_EXCEEDED''"
definition CodeCountryBlocked :: Code where "CodeCountryBlocked = ''COUNTRY_BLOCKED''"
definition CodeGatewayDeclined :: Code where "CodeGatewayDeclined = ''GATEWAY_DECLINED''"
definition CodeGatewayTimeout :: Code where "CodeGatewayTimeout = ''GATEWAY_TIMEOUT''"
definition CodeGatewayUnavailable :: Code where "CodeGatewayUnavailable = ''GATEWAY_UNAVAILABLE''"
definition CodeGatewayContractViolation :: Code where "CodeGatewayContractViolation = ''GATEWAY_CONTRACT_VIOLATION''"
definition CodeGatewayCircuitOpen :: Code where "CodeGatewayCircuitOpen = ''GATEWAY_CIRCUIT_OPEN''"
definition CodeGatewayAuthenticationFailed :: Code where "CodeGatewayAuthenticationFailed = ''GATEWAY_AUTHENTICATION_FAILED''"
definition CodeGatewayNotConfigured :: Code where "CodeGatewayNotConfigured = ''GATEWAY_NOT_CONFIGURED''"
definition CodeGatewayNotCertified :: Code where "CodeGatewayNotCertified = ''GATEWAY_NOT_CERTIFIED''"
definition CodeGatewayNotFound :: Code where "CodeGatewayNotFound = ''GATEWAY_NOT_FOUND''"
definition CodeConnectionNotFound :: Code where "CodeConnectionNotFound = ''CONNECTION_NOT_FOUND''"
definition CodeCredentialRotationInProgress :: Code where "CodeCredentialRotationInProgress = ''CREDENTIAL_ROTATION_IN_PROGRESS''"
definition CodeWebhookSignatureInvalid :: Code where "CodeWebhookSignatureInvalid = ''WEBHOOK_SIGNATURE_INVALID''"
definition CodeWebhookReplayDetected :: Code where "CodeWebhookReplayDetected = ''WEBHOOK_REPLAY_DETECTED''"
definition CodeWebhookUnknownEventType :: Code where "CodeWebhookUnknownEventType = ''WEBHOOK_UNKNOWN_EVENT_TYPE''"
definition CodeWebhookUnknownGateway :: Code where "CodeWebhookUnknownGateway = ''WEBHOOK_UNKNOWN_GATEWAY''"
definition CodeConfigurationInvalid :: Code where "CodeConfigurationInvalid = ''CONFIGURATION_INVALID''"
definition CodeConfigurationNotFound :: Code where "CodeConfigurationNotFound = ''CONFIGURATION_NOT_FOUND''"
definition CodeConfigurationVersionConflict :: Code where "CodeConfigurationVersionConflict = ''CONFIGURATION_VERSION_CONFLICT''"
definition CodeConfigurationStale :: Code where "CodeConfigurationStale = ''CONFIGURATION_STALE''"
definition CodeWorkflowStepFailed :: Code where "CodeWorkflowStepFailed = ''WORKFLOW_STEP_FAILED''"
definition CodeWorkflowNotFound :: Code where "CodeWorkflowNotFound = ''WORKFLOW_NOT_FOUND''"
definition CodeWorkflowNotResumable :: Code where "CodeWorkflowNotResumable = ''WORKFLOW_NOT_RESUMABLE''"
definition CodeWorkflowSignalNotExpected :: Code where "CodeWorkflowSignalNotExpected = ''WORKFLOW_SIGNAL_NOT_EXPECTED''"
definition CodeRateLimited :: Code where "CodeRateLimited = ''RATE_LIMITED''"
definition CodeConcurrencyLimitExceeded :: Code where "CodeConcurrencyLimitExceeded = ''CONCURRENCY_LIMIT_EXCEEDED''"
definition CodeServiceUnavailable :: Code where "CodeServiceUnavailable = ''SERVICE_UNAVAILABLE''"
definition CodeDependencyFailure :: Code where "CodeDependencyFailure = ''DEPENDENCY_FAILURE''"
definition CodeInternalError :: Code where "CodeInternalError = ''INTERNAL_ERROR''"

lemmas code_defs =
  CodeValidationFailed_def CodeSensitiveDataInRequest_def CodeMalformedRequest_def
  CodeUnsupportedMediaType_def CodeRequestTooLarge_def CodeMissingRequiredHeader_def
  CodeInvalidCursor_def CodeAmountInvalid_def CodeCurrencyMismatch_def
  CodeIdempotencyKeyRequired_def CodeIdempotencyKeyReused_def
  CodeIdempotentRequestInProgress_def CodePreconditionRequired_def CodeUnauthenticated_def
  CodeInvalidToken_def CodeTokenExpired_def CodeForbidden_def CodeInsufficientScope_def
  CodeDualControlRequired_def CodeTenantMismatch_def CodeMissingTenantContext_def
  CodeResidencyPolicyViolation_def CodeMerchantNotFound_def CodeMerchantNotActive_def
  CodeMerchantSuspended_def CodeMerchantAlreadyExists_def
  CodeTerminationBlockedOpenPayments_def CodeOnboardingCaseNotFound_def
  CodeOnboardingAlreadyInProgress_def CodeKYCRequired_def CodeComplianceAttestationRequired_def
  CodeCertificationRequired_def CodeCertificationFailed_def CodePaymentNotFound_def
  CodeRefundNotFound_def CodePaymentAlreadyProcessed_def CodeInvalidStateTransition_def
  CodeReconciliationPending_def CodeAmountExceedsLimit_def CodeDailyVolumeLimitExceeded_def
  CodeRefundExceedsCaptured_def CodeRefundWindowExpired_def CodeCaptureExceedsAuthorized_def
  CodeCaptureLimitExceeded_def CodePartialCaptureNotSupported_def CodeAuthorizationExpired_def
  CodeCurrencyNotSupported_def CodePaymentMethodNotSupported_def CodeNoEligibleGateway_def
  CodeRiskDeclined_def CodeThreeDsRequired_def CodeVelocityLimitExceeded_def
  CodeCountryBlocked_def CodeGatewayDeclined_def CodeGatewayTimeout_def
  CodeGatewayUnavailable_def CodeGatewayContractViolation_def CodeGatewayCircuitOpen_def
  CodeGatewayAuthenticationFailed_def CodeGatewayNotConfigured_def CodeGatewayNotCertified_def
  CodeGatewayNotFound_def CodeConnectionNotFound_def CodeCredentialRotationInProgress_def
  CodeWebhookSignatureInvalid_def CodeWebhookReplayDetected_def CodeWebhookUnknownEventType_def
  CodeWebhookUnknownGateway_def CodeConfigurationInvalid_def CodeConfigurationNotFound_def
  CodeConfigurationVersionConflict_def CodeConfigurationStale_def CodeWorkflowStepFailed_def
  CodeWorkflowNotFound_def CodeWorkflowNotResumable_def CodeWorkflowSignalNotExpected_def
  CodeRateLimited_def CodeConcurrencyLimitExceeded_def CodeServiceUnavailable_def
  CodeDependencyFailure_def CodeInternalError_def

record code_spec =
  cs_category :: Category
  cs_retryable :: bool
  cs_message :: string

definition registry :: "(Code \<times> code_spec) list" where
  "registry = [
     (CodeValidationFailed, \<lparr>cs_category = CategoryValidation, cs_retryable = False,
        cs_message = ''the request failed validation''\<rparr>),
     (CodeSensitiveDataInRequest, \<lparr>cs_category = CategoryValidation, cs_retryable = False,
        cs_message = ''the request appears to contain a primary account number; card data must be tokenized at the gateway edge and must never be sent to this API''\<rparr>),
     (CodeMalformedRequest, \<lparr>cs_category = CategoryValidation, cs_retryable = False,
        cs_message = ''the request body could not be parsed''\<rparr>),
     (CodeUnsupportedMediaType, \<lparr>cs_category = CategoryValidation, cs_retryable = False,
        cs_message = ''content type must be application/json''\<rparr>),
     (CodeRequestTooLarge, \<lparr>cs_category = CategoryValidation, cs_retryable = False,
        cs_message = ''the request body exceeds the maximum permitted size''\<rparr>),
     (CodeMissingRequiredHeader, \<lparr>cs_category = CategoryValidation, cs_retryable = False,
        cs_message = ''a required header is missing''\<rparr>),
     (CodeInvalidCursor, \<lparr>cs_category = CategoryValidation, cs_retryable = False,
        cs_message = ''the pagination cursor is not valid''\<rparr>),
     (CodeAmountInvalid, \<lparr>cs_category = CategoryValidation, cs_retryable = False,
        cs_message = ''the amount is not valid''\<rparr>),
     (CodeCurrencyMismatch, \<lparr>cs_category = CategoryValidation, cs_retryable = False,
        cs_message = ''the currency does not match the currency of the payment being operated on''\<rparr>),
     (CodeIdempotencyKeyRequired, \<lparr>cs_category = CategoryValidation, cs_retryable = False,
        cs_message = ''this operation requires an Idempotency-Key header''\<rparr>),
     (CodeIdempotencyKeyReused, \<lparr>cs_category = CategoryValidation, cs_retryable = False,
        cs_message = ''this idempotency key was already used with a different request body''\<rparr>),
     (CodeIdempotentRequestInProgress, \<lparr>cs_category = CategoryConflict, cs_retryable = True,
        cs_message = ''a request with this idempotency key is currently in progress''\<rparr>),
     (CodePreconditionRequired, \<lparr>cs_category = CategoryConflict, cs_retryable = False,
        cs_message = ''this operation requires an If-Match header carrying a prior ETag''\<rparr>),
     (CodeUnauthenticated, \<lparr>cs_category = CategoryAuthentication, cs_retryable = False,
        cs_message = ''authentication is required''\<rparr>),
     (CodeInvalidToken, \<lparr>cs_category = CategoryAuthentication, cs_retryable = False,
        cs_message = ''the access token is invalid''\<rparr>),
     (CodeTokenExpired, \<lparr>cs_category = CategoryAuthentication, cs_retryable = False,
        cs_message = ''the access token has expired''\<rparr>),
     (CodeForbidden, \<lparr>cs_category = CategoryAuthorization, cs_retryable = False,
        cs_message = ''the caller is not permitted to perform this operation''\<rparr>),
     (CodeInsufficientScope, \<lparr>cs_category = CategoryAuthorization, cs_retryable = False,
        cs_message = ''the access token lacks a required scope''\<rparr>),
     (CodeDualControlRequired, \<lparr>cs_category = CategoryAuthorization, cs_retryable = False,
        cs_message = ''this operation requires a second, distinct approver''\<rparr>),
     (CodeTenantMismatch, \<lparr>cs_category = CategoryAuthorization, cs_retryable = False,
        cs_message = ''the requested resource belongs to a different tenant''\<rparr>),
     (CodeMissingTenantContext, \<lparr>cs_category = CategoryInternal, cs_retryable = False,
        cs_message = ''tenant context was not established for this operation''\<rparr>),
     (CodeResidencyPolicyViolation, \<lparr>cs_category = CategoryBusinessRule, cs_retryable = False,
        cs_message = ''the operation would move data outside its permitted residency region''\<rparr>),
     (CodeMerchantNotFound, \<lparr>cs_category = CategoryNotFound, cs_retryable = False,
        cs_message = ''merchant not found''\<rparr>),
     (CodeMerchantNotActive, \<lparr>cs_category = CategoryBusinessRule, cs_retryable = False,
        cs_message = ''the merchant is not active and cannot accept payments''\<rparr>),
     (CodeMerchantSuspended, \<lparr>cs_category = CategoryBusinessRule, cs_retryable = False,
        cs_message = ''the merchant is suspended''\<rparr>),
     (CodeMerchantAlreadyExists, \<lparr>cs_category = CategoryConflict, cs_retryable = False,
        cs_message = ''a merchant with this external reference already exists in this tenant''\<rparr>),
     (CodeTerminationBlockedOpenPayments, \<lparr>cs_category = CategoryBusinessRule, cs_retryable = False,
        cs_message = ''the merchant has open payments; settle, refund or void them before terminating''\<rparr>),
     (CodeOnboardingCaseNotFound, \<lparr>cs_category = CategoryNotFound, cs_retryable = False,
        cs_message = ''onboarding case not found''\<rparr>),
     (CodeOnboardingAlreadyInProgress, \<lparr>cs_category = CategoryConflict, cs_retryable = False,
        cs_message = ''onboarding is already in progress for this merchant''\<rparr>),
     (CodeKYCRequired, \<lparr>cs_category = CategoryBusinessRule, cs_retryable = False,
        cs_message = ''know-your-business verification must be completed first''\<rparr>),
     (CodeComplianceAttestationRequired, \<lparr>cs_category = CategoryBusinessRule, cs_retryable = False,
        cs_message = ''a current compliance attestation is required for this operation''\<rparr>),
     (CodeCertificationRequired, \<lparr>cs_category = CategoryBusinessRule, cs_retryable = False,
        cs_message = ''the gateway connection has not been certified''\<rparr>),
     (CodeCertificationFailed, \<lparr>cs_category = CategoryBusinessRule, cs_retryable = False,
        cs_message = ''gateway certification did not pass''\<rparr>),
     (CodePaymentNotFound, \<lparr>cs_category = CategoryNotFound, cs_retryable = False,
        cs_message = ''payment not found''\<rparr>),
     (CodeRefundNotFound, \<lparr>cs_category = CategoryNotFound, cs_retryable = False,
        cs_message = ''refund not found on this payment''\<rparr>),
     (CodePaymentAlreadyProcessed, \<lparr>cs_category = CategoryBusinessRule, cs_retryable = False,
        cs_message = ''the payment has already been processed''\<rparr>),
     (CodeInvalidStateTransition, \<lparr>cs_category = CategoryConflict, cs_retryable = False,
        cs_message = ''the requested operation is not valid for the payment's current state''\<rparr>),
     (CodeReconciliationPending, \<lparr>cs_category = CategoryConflict, cs_retryable = False,
        cs_message = ''the payment has an unresolved attempt and is awaiting reconciliation''\<rparr>),
     (CodeAmountExceedsLimit, \<lparr>cs_category = CategoryBusinessRule, cs_retryable = False,
        cs_message = ''the amount exceeds a configured limit''\<rparr>),
     (CodeDailyVolumeLimitExceeded, \<lparr>cs_category = CategoryBusinessRule, cs_retryable = False,
        cs_message = ''the merchant's configured daily volume limit would be exceeded''\<rparr>),
     (CodeRefundExceedsCaptured, \<lparr>cs_category = CategoryBusinessRule, cs_retryable = False,
        cs_message = ''the refund amount exceeds the captured amount''\<rparr>),
     (CodeRefundWindowExpired, \<lparr>cs_category = CategoryBusinessRule, cs_retryable = False,
        cs_message = ''the refund window for this payment has expired''\<rparr>),
     (CodeCaptureExceedsAuthorized, \<lparr>cs_category = CategoryBusinessRule, cs_retryable = False,
        cs_message = ''the capture amount exceeds the authorized amount''\<rparr>),
     (CodeCaptureLimitExceeded, \<lparr>cs_category = CategoryBusinessRule, cs_retryable = False,
        cs_message = ''the payment has used every partial capture permitted by its configuration''\<rparr>),
     (CodePartialCaptureNotSupported, \<lparr>cs_category = CategoryBusinessRule, cs_retryable = False,
        cs_message = ''the routed gateway does not support partial capture''\<rparr>),
     (CodeAuthorizationExpired, \<lparr>cs_category = CategoryBusinessRule, cs_retryable = False,
        cs_message = ''the authorization has expired and can no longer be captured''\<rparr>),
     (CodeCurrencyNotSupported, \<lparr>cs_category = CategoryBusinessRule, cs_retryable = False,
        cs_message = ''the currency is not enabled for this merchant''\<rparr>),
     (CodePaymentMethodNotSupported, \<lparr>cs_category = CategoryBusinessRule, cs_retryable = False,
        cs_message = ''the payment method is not enabled for this merchant''\<rparr>),
     (CodeNoEligibleGateway, \<lparr>cs_category = CategoryInfrastructure, cs_retryable = True,
        cs_message = ''no gateway is currently eligible to process this payment''\<rparr>),
     (CodeRiskDeclined, \<lparr>cs_category = CategoryBusinessRule, cs_retryable = False,
        cs_message = ''the payment was declined by risk policy''\<rparr>),
     (CodeThreeDsRequired, \<lparr>cs_category = CategoryBusinessRule, cs_retryable = False,
        cs_message = ''strong customer authentication is required for this payment''\<rparr>),
     (CodeVelocityLimitExceeded, \<lparr>cs_category = CategoryBusinessRule, cs_retryable = False,
        cs_message = ''a velocity limit was exceeded''\<rparr>),
     (CodeCountryBlocked, \<lparr>cs_category = CategoryBusinessRule, cs_retryable = False,
        cs_message = ''the country is blocked by policy''\<rparr>),
     (CodeGatewayDeclined, \<lparr>cs_category = CategoryGateway, cs_retryable = False,
        cs_message = ''the payment was declined by the payment gateway''\<rparr>),
     (CodeGatewayTimeout, \<lparr>cs_category = CategoryTimeout, cs_retryable = False,
        cs_message = ''the payment gateway did not respond in time; the outcome is unknown and is being reconciled''\<rparr>),
     (CodeGatewayUnavailable, \<lparr>cs_category = CategoryGateway, cs_retryable = True,
        cs_message = ''the payment gateway is unavailable''\<rparr>),
     (CodeGatewayContractViolation, \<lparr>cs_category = CategoryGateway, cs_retryable = False,
        cs_message = ''the gateway response failed validation''\<rparr>),
     (CodeGatewayCircuitOpen, \<lparr>cs_category = CategoryInfrastructure, cs_retryable = True,
        cs_message = ''the circuit breaker for this gateway is open''\<rparr>),
     (CodeGatewayAuthenticationFailed, \<lparr>cs_category = CategoryGateway, cs_retryable = False,
        cs_message = ''authentication with the payment gateway failed''\<rparr>),
     (CodeGatewayNotConfigured, \<lparr>cs_category = CategoryBusinessRule, cs_retryable = False,
        cs_message = ''the gateway is not configured for this merchant''\<rparr>),
     (CodeGatewayNotCertified, \<lparr>cs_category = CategoryBusinessRule, cs_retryable = False,
        cs_message = ''the gateway is not certified for this merchant and cannot be routed to''\<rparr>),
     (CodeGatewayNotFound, \<lparr>cs_category = CategoryNotFound, cs_retryable = False,
        cs_message = ''gateway not found''\<rparr>),
     (CodeConnectionNotFound, \<lparr>cs_category = CategoryNotFound, cs_retryable = False,
        cs_message = ''gateway connection not found for this merchant''\<rparr>),
     (CodeCredentialRotationInProgress, \<lparr>cs_category = CategoryConflict, cs_retryable = False,
        cs_message = ''a credential rotation is already in progress for this connection''\<rparr>),
     (CodeWebhookSignatureInvalid, \<lparr>cs_category = CategoryAuthentication, cs_retryable = False,
        cs_message = ''the webhook signature could not be verified''\<rparr>),
     (CodeWebhookReplayDetected, \<lparr>cs_category = CategoryAuthentication, cs_retryable = False,
        cs_message = ''the webhook appears to be a replay''\<rparr>),
     (CodeWebhookUnknownEventType, \<lparr>cs_category = CategoryValidation, cs_retryable = False,
        cs_message = ''unrecognised webhook event type''\<rparr>),
     (CodeWebhookUnknownGateway, \<lparr>cs_category = CategoryNotFound, cs_retryable = False,
        cs_message = ''no gateway is registered under that webhook path''\<rparr>),
     (CodeConfigurationInvalid, \<lparr>cs_category = CategoryValidation, cs_retryable = False,
        cs_message = ''the configuration is not valid''\<rparr>),
     (CodeConfigurationNotFound, \<lparr>cs_category = CategoryNotFound, cs_retryable = False,
        cs_message = ''no configuration exists for this merchant''\<rparr>),
     (CodeConfigurationVersionConflict, \<lparr>cs_category = CategoryConflict, cs_retryable = False,
        cs_message = ''the configuration was modified by another request''\<rparr>),
     (CodeConfigurationStale, \<lparr>cs_category = CategoryInfrastructure, cs_retryable = True,
        cs_message = ''the local configuration snapshot is too stale to serve this request safely''\<rparr>),
     (CodeWorkflowStepFailed, \<lparr>cs_category = CategoryInternal, cs_retryable = False,
        cs_message = ''a workflow step failed''\<rparr>),
     (CodeWorkflowNotFound, \<lparr>cs_category = CategoryNotFound, cs_retryable = False,
        cs_message = ''workflow instance not found''\<rparr>),
     (CodeWorkflowNotResumable, \<lparr>cs_category = CategoryConflict, cs_retryable = False,
        cs_message = ''the workflow instance is not in a resumable state''\<rparr>),
     (CodeWorkflowSignalNotExpected, \<lparr>cs_category = CategoryConflict, cs_retryable = False,
        cs_message = ''the workflow instance is not waiting for this signal''\<rparr>),
     (CodeRateLimited, \<lparr>cs_category = CategoryRateLimit, cs_retryable = True,
        cs_message = ''rate limit exceeded''\<rparr>),
     (CodeConcurrencyLimitExceeded, \<lparr>cs_category = CategoryRateLimit, cs_retryable = True,
        cs_message = ''too many concurrent requests''\<rparr>),
     (CodeServiceUnavailable, \<lparr>cs_category = CategoryInfrastructure, cs_retryable = True,
        cs_message = ''the service is temporarily unavailable''\<rparr>),
     (CodeDependencyFailure, \<lparr>cs_category = CategoryInfrastructure, cs_retryable = True,
        cs_message = ''a downstream dependency failed''\<rparr>),
     (CodeInternalError, \<lparr>cs_category = CategoryInternal, cs_retryable = False,
        cs_message = ''an unexpected internal error occurred''\<rparr>)]"

definition lookup_spec :: "Code \<Rightarrow> code_spec" where
  "lookup_spec c = (case map_of registry c of
      Some s \<Rightarrow> s
    | None \<Rightarrow> \<lparr>cs_category = CategoryInternal, cs_retryable = False, cs_message = ''unclassified error''\<rparr>)"

definition orDefault :: "string \<Rightarrow> string \<Rightarrow> string" where
  "orDefault s d = (if s = [] then d else s)"

text \<open>\<open>order\<close> is the order in which the Go runtime happens to iterate over the registry.\<close>

definition AllCodes :: "Code list \<Rightarrow> Code list" where
  "AllCodes order = insertion_sort (order)"

definition Spec :: "Code \<Rightarrow> Category option \<times> bool \<times> string \<times> bool" where
  "Spec c = (case map_of registry c of
      Some s \<Rightarrow> (Some (cs_category s), cs_retryable s, cs_message s, True)
    | None \<Rightarrow> (None, False, [], False))"

section \<open>Error values\<close>

record err_detail =
  d_field :: string
  d_code :: string
  d_message :: string
  d_rule_id :: string

record platform_error =
  e_code :: Code
  e_category :: Category
  e_message :: string
  e_detail :: string
  e_retryable :: bool
  e_details :: "err_detail list"
  e_retry_after :: int
  e_request_id :: string
  e_trace_id :: string

datatype go_error =
    Platform platform_error "go_error option"
  | OtherError string "go_error list"

fun first_some :: "'a option list \<Rightarrow> 'a option" where
  "first_some [] = None"
| "first_some (Some x # xs) = Some x"
| "first_some (None # xs) = first_some xs"

primrec errors_As :: "go_error \<Rightarrow> (platform_error \<times> go_error option) option" where
  "errors_As (Platform p c) = Some (p, c)"
| "errors_As (OtherError s es) = first_some (map errors_As es)"

fun Error_Error :: "go_error \<Rightarrow> string" where
  "Error_Error (Platform p (Some c)) = e_code p @ '': '' @ e_message p @ '': '' @ Error_Error c"
| "Error_Error (Platform p None) = e_code p @ '': '' @ e_message p"
| "Error_Error (OtherError s es) = s"

definition Error_Is :: "platform_error \<Rightarrow> go_error \<Rightarrow> bool" where
  "Error_Is e target = (case errors_As target of None \<Rightarrow> False | Some (t, _) \<Rightarrow> e_code t = e_code e)"

definition New :: "Code \<Rightarrow> string \<Rightarrow> platform_error" where
  "New code message =
     (let spec = lookup_spec code
      in \<lparr>e_code = code, e_category = cs_category spec, e_message = orDefault message (cs_message spec),
          e_detail = [], e_retryable = cs_retryable spec, e_details = [], e_retry_after = 0,
          e_request_id = [], e_trace_id = []\<rparr>)"

definition Wrap :: "go_error option \<Rightarrow> Code \<Rightarrow> string \<Rightarrow> go_error" where
  "Wrap cause code message =
     (case cause of
        None \<Rightarrow> Platform (New code message) None
      | Some c \<Rightarrow>
          (case errors_As c of
             Some (existing, _) \<Rightarrow>
               if code = CodeInternalError
               then Platform (if message \<noteq> [] then existing\<lparr>e_detail := message\<rparr> else existing) (Some c)
               else Platform (New code message) (Some c)
           | None \<Rightarrow> Platform (New code message) (Some c)))"

definition WithDetail :: "platform_error \<Rightarrow> err_detail \<Rightarrow> platform_error" where
  "WithDetail e d = e\<lparr>e_details := e_details e @ [d]\<rparr>"

definition WithDetails :: "platform_error \<Rightarrow> err_detail list \<Rightarrow> platform_error" where
  "WithDetails e ds = e\<lparr>e_details := e_details e @ ds\<rparr>"

definition WithRetryAfter :: "platform_error \<Rightarrow> int \<Rightarrow> platform_error" where
  "WithRetryAfter e seconds = e\<lparr>e_retry_after := seconds\<rparr>"

definition WithMessage :: "platform_error \<Rightarrow> string \<Rightarrow> platform_error" where
  "WithMessage e msg = e\<lparr>e_message := msg\<rparr>"

definition WithCorrelation :: "platform_error \<Rightarrow> string \<Rightarrow> string \<Rightarrow> platform_error" where
  "WithCorrelation e requestID traceID = e\<lparr>e_request_id := requestID, e_trace_id := traceID\<rparr>"

section \<open>Transport mappings\<close>

definition grpcInvalidArgument :: int where "grpcInvalidArgument = 3"
definition grpcDeadlineExceeded :: int where "grpcDeadlineExceeded = 4"
definition grpcNotFound :: int where "grpcNotFound = 5"
definition grpcPermissionDenied :: int where "grpcPermissionDenied = 7"
definition grpcResourceExhausted :: int where "grpcResourceExhausted = 8"
definition grpcFailedPrecond :: int where "grpcFailedPrecond = 9"
definition grpcAborted :: int where "grpcAborted = 10"
definition grpcInternal :: int where "grpcInternal = 13"
definition grpcUnavailable :: int where "grpcUnavailable = 14"
definition grpcUnauthenticated :: int where "grpcUnauthenticated = 16"

lemmas grpc_defs = grpcInvalidArgument_def grpcDeadlineExceeded_def grpcNotFound_def
  grpcPermissionDenied_def grpcResourceExhausted_def grpcFailedPrecond_def grpcAborted_def
  grpcInternal_def grpcUnavailable_def grpcUnauthenticated_def

definition codeHTTPOverride :: "(Code \<times> int) list" where
  "codeHTTPOverride =
    [(CodeValidationFailed, 400),
     (CodeMalformedRequest, 400),
     (CodeSensitiveDataInRequest, 400),
     (CodeMissingRequiredHeader, 400),
     (CodeIdempotencyKeyRequired, 400),
     (CodeUnsupportedMediaType, 415),
     (CodeRequestTooLarge, 413),
     (CodeIdempotencyKeyReused, 422),
     (CodeIdempotentRequestInProgress, 409),
     (CodePreconditionRequired, 428),
     (CodeConfigurationVersionConflict, 412),
     (CodeInvalidStateTransition, 409),
     (CodePaymentAlreadyProcessed, 409),
     (CodeMerchantNotActive, 409),
     (CodeOnboardingAlreadyInProgress, 409),
     (CodeNoEligibleGateway, 503),
     (CodeGatewayTimeout, 504),
     (CodeThreeDsRequired, 422),
     (CodeGatewayDeclined, 402)]"

definition codeGRPCOverride :: "(Code \<times> int) list" where
  "codeGRPCOverride =
    [(CodeConfigurationVersionConflict, grpcFailedPrecond),
     (CodeInvalidStateTransition, grpcFailedPrecond),
     (CodePreconditionRequired, grpcFailedPrecond),
     (CodeGatewayDeclined, grpcFailedPrecond)]"

primrec categoryHTTP :: "Category \<Rightarrow> int" where
  "categoryHTTP CategoryValidation = 422"
| "categoryHTTP CategoryAuthentication = 401"
| "categoryHTTP CategoryAuthorization = 403"
| "categoryHTTP CategoryNotFound = 404"
| "categoryHTTP CategoryConflict = 409"
| "categoryHTTP CategoryBusinessRule = 422"
| "categoryHTTP CategoryRateLimit = 429"
| "categoryHTTP CategoryGateway = 502"
| "categoryHTTP CategoryTimeout = 504"
| "categoryHTTP CategoryInfrastructure = 503"
| "categoryHTTP CategoryInternal = 500"

primrec categoryGRPC :: "Category \<Rightarrow> int" where
  "categoryGRPC CategoryValidation = grpcInvalidArgument"
| "categoryGRPC CategoryAuthentication = grpcUnauthenticated"
| "categoryGRPC CategoryAuthorization = grpcPermissionDenied"
| "categoryGRPC CategoryNotFound = grpcNotFound"
| "categoryGRPC CategoryConflict = grpcAborted"
| "categoryGRPC CategoryBusinessRule = grpcFailedPrecond"
| "categoryGRPC CategoryRateLimit = grpcResourceExhausted"
| "categoryGRPC CategoryGateway = grpcUnavailable"
| "categoryGRPC CategoryTimeout = grpcDeadlineExceeded"
| "categoryGRPC CategoryInfrastructure = grpcUnavailable"
| "categoryGRPC CategoryInternal = grpcInternal"

definition Error_HTTPStatus :: "platform_error \<Rightarrow> int" where
  "Error_HTTPStatus e = (case map_of codeHTTPOverride (e_code e) of
      Some s \<Rightarrow> s | None \<Rightarrow> categoryHTTP (e_category e))"

definition Error_GRPCCode :: "platform_error \<Rightarrow> int" where
  "Error_GRPCCode e = (case map_of codeGRPCOverride (e_code e) of
      Some c \<Rightarrow> c | None \<Rightarrow> categoryGRPC (e_category e))"

definition IsRetryable :: "go_error \<Rightarrow> bool" where
  "IsRetryable err = (case errors_As err of Some (e, _) \<Rightarrow> e_retryable e | None \<Rightarrow> False)"

definition CodeOf :: "go_error \<Rightarrow> Code" where
  "CodeOf err = (case errors_As err of Some (e, _) \<Rightarrow> e_code e | None \<Rightarrow> CodeInternalError)"

definition CategoryOf :: "go_error \<Rightarrow> Category" where
  "CategoryOf err = (case errors_As err of Some (e, _) \<Rightarrow> e_category e | None \<Rightarrow> CategoryInternal)"

definition HTTPStatusOf :: "go_error \<Rightarrow> int" where
  "HTTPStatusOf err = (case errors_As err of Some (e, _) \<Rightarrow> Error_HTTPStatus e | None \<Rightarrow> 500)"

definition From :: "go_error option \<Rightarrow> go_error option" where
  "From err = (case err of
      None \<Rightarrow> None
    | Some x \<Rightarrow> (case errors_As x of
          Some (e, c) \<Rightarrow> Some (Platform e c)
        | None \<Rightarrow> Some (Wrap (Some x) CodeInternalError ''an unexpected internal error occurred'')))"

section \<open>Wrapping\<close>

lemma New_simps [simp]:
  "e_code (New c m) = c" "e_category (New c m) = cs_category (lookup_spec c)"
  "e_retryable (New c m) = cs_retryable (lookup_spec c)"
  by (simp_all add: New_def Let_def)

lemma HTTPStatus_cong:
  "e_code e = e_code f \<Longrightarrow> e_category e = e_category f \<Longrightarrow> Error_HTTPStatus e = Error_HTTPStatus f"
  by (simp add: Error_HTTPStatus_def split: option.split)

lemma lookup_internal: "lookup_spec CodeInternalError
    = \<lparr>cs_category = CategoryInternal, cs_retryable = False, cs_message = ''an unexpected internal error occurred''\<rparr>"
  by code_simp

lemma HTTPStatus_internal: "Error_HTTPStatus (New CodeInternalError m) = 500"
proof -
  have "map_of codeHTTPOverride CodeInternalError = None" by code_simp
  then show ?thesis by (simp add: Error_HTTPStatus_def lookup_internal)
qed

lemma Wrap_internal_classification:
  "CodeOf (Wrap (Some c) CodeInternalError m) = CodeOf c"
  "CategoryOf (Wrap (Some c) CodeInternalError m) = CategoryOf c"
  "IsRetryable (Wrap (Some c) CodeInternalError m) = IsRetryable c"
  "HTTPStatusOf (Wrap (Some c) CodeInternalError m) = HTTPStatusOf c"
  by (auto simp: CodeOf_def CategoryOf_def IsRetryable_def HTTPStatusOf_def Wrap_def lookup_internal
      HTTPStatus_internal split: option.splits intro: HTTPStatus_cong)

section \<open>The registry\<close>

lemma registry_distinct: "distinct (map fst registry)"
  by code_simp

text \<open>The gRPC code of a registry row, without the search in the registry.\<close>

definition row_grpc :: "Code \<times> code_spec \<Rightarrow> int" where
  "row_grpc e = (case map_of codeGRPCOverride (fst e) of
      Some c \<Rightarrow> c | None \<Rightarrow> categoryGRPC (cs_category (snd e)))"

lemma registered_New:
  assumes "map_of registry c = Some s"
  shows "Error_GRPCCode (New c m) = row_grpc (c, s)" and "e_retryable (New c m) = cs_retryable s"
  using assms
  by (simp_all add: Error_GRPCCode_def row_grpc_def lookup_spec_def split: option.splits)

lemma unregistered_New:
  assumes "map_of registry c = None"
  shows "Error_GRPCCode (New c m) = grpcInternal" and "\<not> e_retryable (New c m)"
proof -
  have "set (map fst codeGRPCOverride) \<subseteq> set (map fst registry)" by code_simp
  then have "map_of codeGRPCOverride c = None" using assms by (auto simp: map_of_eq_None_iff)
  then show "Error_GRPCCode (New c m) = grpcInternal" "\<not> e_retryable (New c m)"
    using assms by (simp_all add: Error_GRPCCode_def lookup_spec_def)
qed

definition retry_invited :: "Code list" where
  "retry_invited = [CodeMerchantAlreadyExists, CodeOnboardingAlreadyInProgress,
     CodeReconciliationPending, CodeGatewayContractViolation, CodeGatewayAuthenticationFailed,
     CodeCredentialRotationInProgress, CodeWorkflowNotResumable, CodeWorkflowSignalNotExpected]"

lemma retry_invited_rows:
  "map fst (filter (\<lambda>e. \<not> cs_retryable (snd e) \<and> row_grpc e \<in> {grpcUnavailable, grpcAborted}) registry)
     = retry_invited"
  by code_simp

lemma retryable_rows:
  "map fst (filter (\<lambda>e. cs_retryable (snd e)) registry)
     = [CodeIdempotentRequestInProgress, CodeNoEligibleGateway, CodeGatewayUnavailable,
        CodeGatewayCircuitOpen, CodeConfigurationStale, CodeRateLimited,
        CodeConcurrencyLimitExceeded, CodeServiceUnavailable, CodeDependencyFailure]"
  by code_simp

lemma registry_rows_iff:
  assumes "map_of registry c = Some s"
  shows "P (c, s) \<longleftrightarrow> c \<in> set (map fst (filter P registry))"
proof -
  have "(c, s) \<in> set registry" using assms by (rule map_of_SomeD)
  then show ?thesis
    using registry_distinct by (force dest: eq_key_imp_eq_value)
qed

section \<open>Properties\<close>

text \<open>
  C35: wrapping an error as \<open>INTERNAL_ERROR\<close> on its way up through any number of layers changes
  neither its code nor its category, retryability or HTTP status; wrapping it once under any
  other code replaces the code.
\<close>

theorem Wrap_keeps_classification:
  fixes msgs :: "string list"
  defines "rewrap \<equiv> \<lambda>err. fold (\<lambda>m e. Wrap (Some e) CodeInternalError m) msgs err"
  shows "CodeOf (rewrap err) = CodeOf err \<and> CategoryOf (rewrap err) = CategoryOf err
    \<and> IsRetryable (rewrap err) = IsRetryable err \<and> HTTPStatusOf (rewrap err) = HTTPStatusOf err
    \<and> (code = CodeInternalError \<or> CodeOf (Wrap (Some err) code m) = code)"
proof -
  have "CodeOf (rewrap e) = CodeOf e \<and> CategoryOf (rewrap e) = CategoryOf e
    \<and> IsRetryable (rewrap e) = IsRetryable e \<and> HTTPStatusOf (rewrap e) = HTTPStatusOf e" for e
    unfolding rewrap_def by (induction msgs arbitrary: e) (simp_all add: Wrap_internal_classification)
  moreover have "code = CodeInternalError \<or> CodeOf (Wrap (Some err) code m) = code"
    by (auto simp: CodeOf_def Wrap_def split: option.splits)
  ultimately show ?thesis by blast
qed

text \<open>
  The codes published as not retryable whose gRPC status, \<open>UNAVAILABLE\<close> or \<open>ABORTED\<close>, makes
  client libraries retry them all the same. The override table covers four such codes; exactly
  these eight remain, the contract violation and the pending reconciliation among them.
\<close>

theorem nonretryable_codes_with_retry_status:
  "\<not> e_retryable (New c m) \<and> Error_GRPCCode (New c m) \<in> {grpcUnavailable, grpcAborted}
     \<longleftrightarrow> c \<in> {CodeMerchantAlreadyExists, CodeOnboardingAlreadyInProgress,
          CodeReconciliationPending, CodeGatewayContractViolation, CodeGatewayAuthenticationFailed,
          CodeCredentialRotationInProgress, CodeWorkflowNotResumable, CodeWorkflowSignalNotExpected}"
proof (cases "map_of registry c")
  case None
  then have "c \<notin> set (map fst registry)" by (simp add: map_of_eq_None_iff)
  moreover have "set retry_invited \<subseteq> set (map fst registry)"
    unfolding retry_invited_rows [symmetric] by auto
  ultimately show ?thesis
    using unregistered_New [OF None, of m] by (auto simp: retry_invited_def grpc_defs)
next
  case (Some s)
  from registry_rows_iff [OF Some, of "\<lambda>e. \<not> cs_retryable (snd e) \<and> row_grpc e \<in> {grpcUnavailable, grpcAborted}"]
  have "\<not> cs_retryable s \<and> row_grpc (c, s) \<in> {grpcUnavailable, grpcAborted} \<longleftrightarrow> c \<in> set retry_invited"
    unfolding retry_invited_rows by simp
  then show ?thesis
    using registered_New [OF Some, of m] by (simp add: retry_invited_def)
qed

end
