(* ===== verification/Fsm.thy ===== *)
theory Fsm
  imports Api_Error "HOL-Library.AList" "HOL-Library.Product_Lexorder"
begin

text \<open>
  The declarative state machine of \<open>src/internal/domain/shared/fsm.go\<close>. The state type is any
  linear order: Go's state types are defined string types and are sorted as strings. The
  constructor's panics are values of \<open>fsm_panic\<close>, the errors of \<open>Transition\<close> values of \<open>fsm_error\<close>
  from which \<open>fsm_code\<close> gives the published code.

  The locale \<open>lifecycle\<close> is what a machine that the constructor accepted promises its users; every
  machine of the domain interprets it.
\<close>

record 's state_machine =
  sm_name :: string
  sm_transitions :: "('s \<times> 's set) list"
  sm_terminal :: "'s set"
  sm_initial :: 's
  sm_all :: "'s list"

datatype 's fsm_panic =
    InitialNotInUniverse
  | TerminalNotInUniverse 's
  | UnknownFromState 's
  | UnknownToState 's
  | TerminalHasOutgoing 's

text \<open>\<open>sm.transitions[from]\<close>: a missing key of the outer map is the nil map, which has no members.\<close>

definition succs :: "('s \<times> 's set) list \<Rightarrow> 's \<Rightarrow> 's set" where
  "succs ts from = (case map_of ts from of None \<Rightarrow> {} | Some tos \<Rightarrow> tos)"

fun add_terminals :: "'s set \<Rightarrow> 's list \<Rightarrow> 's set \<Rightarrow> ('s fsm_panic, 's set) result" where
  "add_terminals univs [] fin = Inr fin"
| "add_terminals univs (s # ss) fin =
     (if s \<notin> univs then Inl (TerminalNotInUniverse s) else add_terminals univs ss (insert s fin))"

fun add_transitions :: "'s set \<Rightarrow> 's set \<Rightarrow> ('s \<times> 's) list \<Rightarrow> ('s \<times> 's set) list
    \<Rightarrow> ('s fsm_panic, ('s \<times> 's set) list) result" where
  "add_transitions univs fin [] ts = Inr ts"
| "add_transitions univs fin ((from, to) # es) ts =
     (if from \<notin> univs then Inl (UnknownFromState from)
      else if to \<notin> univs then Inl (UnknownToState to)
      else if from \<in> fin then Inl (TerminalHasOutgoing from)
      else add_transitions univs fin es (AList.update from (insert to (succs ts from)) ts))"

definition NewStateMachine :: "string \<Rightarrow> 's::linorder \<Rightarrow> 's list \<Rightarrow> 's list \<Rightarrow> ('s \<times> 's) list
    \<Rightarrow> ('s fsm_panic, 's state_machine) result" where
  "NewStateMachine name init univs fin edges =
     (if init \<notin> set univs then Inl InitialNotInUniverse
      else case add_terminals (set univs) fin {} of
          Inl e \<Rightarrow> Inl e
        | Inr terminal \<Rightarrow>
            (case add_transitions (set univs) terminal edges [] of
               Inl e \<Rightarrow> Inl e
             | Inr ts \<Rightarrow> Inr \<lparr>sm_name = name, sm_transitions = ts, sm_terminal = terminal,
                              sm_initial = init, sm_all = sort univs\<rparr>))"

fun IsKnown_in :: "'s list \<Rightarrow> 's \<Rightarrow> bool" where
  "IsKnown_in [] s = False"
| "IsKnown_in (x # xs) s = (if x = s then True else IsKnown_in xs s)"

definition IsKnown :: "'s state_machine \<Rightarrow> 's \<Rightarrow> bool" where
  "IsKnown sm s = IsKnown_in (sm_all sm) s"

definition IsTerminal :: "'s state_machine \<Rightarrow> 's \<Rightarrow> bool" where
  "IsTerminal sm s \<longleftrightarrow> s \<in> sm_terminal sm"

definition CanTransition :: "'s state_machine \<Rightarrow> 's \<Rightarrow> 's \<Rightarrow> bool" where
  "CanTransition sm from to =
     (if from = to then to \<in> succs (sm_transitions sm) from
      else to \<in> succs (sm_transitions sm) from)"

definition Next :: "'s::linorder state_machine \<Rightarrow> 's \<Rightarrow> 's list" where
  "Next sm from = sorted_list_of_set (succs (sm_transitions sm) from)"

datatype 's fsm_error =
    UnknownCurrentState 's
  | UnknownTargetState 's
  | TerminalState 's 's
  | IllegalTransition 's 's "'s list"

primrec fsm_code :: "'s fsm_error \<Rightarrow> Code" where
  "fsm_code (UnknownCurrentState s) = CodeInternalError"
| "fsm_code (UnknownTargetState s) = CodeInternalError"
| "fsm_code (TerminalState from to) = CodeInvalidStateTransition"
| "fsm_code (IllegalTransition from to allowed) = CodeInvalidStateTransition"

definition Transition :: "'s::linorder state_machine \<Rightarrow> 's \<Rightarrow> 's \<Rightarrow> 's fsm_error option" where
  "Transition sm from to =
     (if \<not> IsKnown sm from then Some (UnknownCurrentState from)
      else if \<not> IsKnown sm to then Some (UnknownTargetState to)
      else if CanTransition sm from to then None
      else if IsTerminal sm from then Some (TerminalState from to)
      else Some (IllegalTransition from to (Next sm from)))"

definition Edges :: "'s::linorder state_machine \<Rightarrow> ('s \<times> 's) list" where
  "Edges sm = sort (concat (map (\<lambda>(from, tos). map (Pair from) (sorted_list_of_set tos)) (sm_transitions sm)))"

definition Mermaid :: "('s::linorder \<Rightarrow> string) \<Rightarrow> 's state_machine \<Rightarrow> string" where
  "Mermaid str sm =
     ''stateDiagram-v2'' @ [CHR 0x0A] @ ''    [*] --> '' @ str (sm_initial sm) @ [CHR 0x0A]
     @ concat (map (\<lambda>(from, to). ''    '' @ str from @ '' --> '' @ str to @ [CHR 0x0A]) (Edges sm))
     @ concat (map (\<lambda>s. if IsTerminal sm s then ''    '' @ str s @ '' --> [*]'' @ [CHR 0x0A] else []) (sm_all sm))"

section \<open>What the constructor builds\<close>

lemma IsKnown_iff [simp]: "IsKnown sm s \<longleftrightarrow> s \<in> set (sm_all sm)"
proof -
  have "IsKnown_in xs s \<longleftrightarrow> s \<in> set xs" for xs by (induction xs) auto
  then show ?thesis by (simp add: IsKnown_def)
qed

lemma CanTransition_iff: "CanTransition sm from to \<longleftrightarrow> to \<in> succs (sm_transitions sm) from"
  by (simp add: CanTransition_def)

lemma add_terminals_Inr:
  "add_terminals univs ss fin = Inr res \<longleftrightarrow> set ss \<subseteq> univs \<and> res = fin \<union> set ss"
  by (induction ss arbitrary: fin) auto

lemma succs_update:
  "succs (AList.update from (insert to (succs ts from)) ts) s
     = (if s = from then insert to (succs ts from) else succs ts s)"
  by (simp add: succs_def update_conv')

lemma add_transitions_Inr:
  "add_transitions univs fin es ts = Inr res \<Longrightarrow>
     (\<forall>(f, t) \<in> set es. f \<in> univs \<and> t \<in> univs \<and> f \<notin> fin)
     \<and> succs res f = succs ts f \<union> {t. (f, t) \<in> set es}"
proof (induction univs fin es ts rule: add_transitions.induct)
  case (2 univs fin x y es ts)
  then have rest: "add_transitions univs fin es (AList.update x (insert y (succs ts x)) ts) = Inr res"
    and ok: "x \<in> univs" "y \<in> univs" "x \<notin> fin"
    by (auto split: if_splits)
  then show ?case using 2(1) [OF _ _ _ rest] by (auto simp: succs_update split: if_splits)
qed auto

lemma add_transitions_ok:
  "\<forall>(f, t) \<in> set es. f \<in> univs \<and> t \<in> univs \<and> f \<notin> fin \<Longrightarrow> \<exists>res. add_transitions univs fin es ts = Inr res"
  by (induction univs fin es ts rule: add_transitions.induct) auto

text \<open>The constructor panics exactly when the declaration is inconsistent.\<close>

lemma NewStateMachine_ok_iff:
  "(\<exists>sm. NewStateMachine name init univs fin edges = Inr sm) \<longleftrightarrow>
     init \<in> set univs \<and> set fin \<subseteq> set univs
     \<and> (\<forall>(f, t) \<in> set edges. f \<in> set univs \<and> t \<in> set univs \<and> f \<notin> set fin)"
proof (cases "set fin \<subseteq> set univs")
  case True
  then have "add_terminals (set univs) fin {} = Inr (set fin)" by (simp add: add_terminals_Inr)
  moreover have "(\<exists>ts. add_transitions (set univs) (set fin) edges [] = Inr ts)
      \<longleftrightarrow> (\<forall>(f, t) \<in> set edges. f \<in> set univs \<and> t \<in> set univs \<and> f \<notin> set fin)"
    using add_transitions_ok [of edges "set univs" "set fin" "[]"]
    by (auto dest!: add_transitions_Inr [THEN conjunct1])
  ultimately show ?thesis
    using True by (cases "add_transitions (set univs) (set fin) edges []") (auto simp: NewStateMachine_def)
next
  case False
  then show ?thesis
    by (auto simp: NewStateMachine_def add_terminals_Inr split: sum.splits)
qed

lemma NewStateMachine_Inr:
  assumes "NewStateMachine name init univs fin edges = Inr sm"
  shows "sm_initial sm = init" and "set (sm_all sm) = set univs" and "sm_terminal sm = set fin"
    and "succs (sm_transitions sm) f = {t. (f, t) \<in> set edges}" and "sorted (sm_all sm)"
proof -
  obtain terminal ts where t: "add_terminals (set univs) fin {} = Inr terminal"
    and ts: "add_transitions (set univs) terminal edges [] = Inr ts"
    and sm: "sm = \<lparr>sm_name = name, sm_transitions = ts, sm_terminal = terminal,
                   sm_initial = init, sm_all = sort univs\<rparr>"
    using assms by (auto simp: NewStateMachine_def split: if_splits sum.splits)
  show "sm_initial sm = init" "set (sm_all sm) = set univs" "sm_terminal sm = set fin" "sorted (sm_all sm)"
    using t sm by (auto simp: add_terminals_Inr)
  show "succs (sm_transitions sm) f = {t. (f, t) \<in> set edges}"
    using add_transitions_Inr [OF ts, of f] sm by (simp add: succs_def)
qed

lemma add_transitions_wf:
  "add_transitions univs fin es ts = Inr res \<Longrightarrow> distinct (map fst ts) \<Longrightarrow> \<forall>(f, tos) \<in> set ts. finite tos
    \<Longrightarrow> distinct (map fst res) \<and> (\<forall>(f, tos) \<in> set res. finite tos)"
proof (induction univs fin es ts rule: add_transitions.induct)
  case (2 univs fin x y es ts)
  have rest: "add_transitions univs fin es (AList.update x (insert y (succs ts x)) ts) = Inr res"
    and c: "\<not> x \<notin> univs" "\<not> y \<notin> univs" "\<not> x \<in> fin"
    using 2(2) by (auto split: if_splits)
  have "finite (succs ts x)" using 2(4) by (auto simp: succs_def dest: map_of_SomeD split: option.splits)
  then have fin: "\<forall>p \<in> insert (x, insert y (succs ts x)) (set ts). finite (snd p)"
    using 2(4) by auto
  have "set (AList.update k v al) \<subseteq> insert (k, v) (set al)" for k :: 'a and v al
    by (induction al) auto
  then have "\<forall>p \<in> set (AList.update x (insert y (succs ts x)) ts). finite (snd p)"
    using fin by (meson subsetD)
  then show ?case using 2(1) [OF c rest] 2(3) by (simp add: distinct_update case_prod_beta)
qed auto

lemma NewStateMachine_edges:
  fixes sm :: "'s::linorder state_machine"
  assumes "NewStateMachine name init univs fin edges = Inr sm"
  shows "set (Edges sm) = set edges" and "sorted (Edges sm)" and "distinct (Edges sm)"
proof -
  let ?ts = "sm_transitions sm"
  obtain terminal where "add_transitions (set univs) terminal edges [] = Inr ?ts"
    using assms by (auto simp: NewStateMachine_def split: if_splits sum.splits)
  then have wf: "distinct (map fst ?ts)" "\<forall>(f, tos) \<in> set ?ts. finite tos"
    using add_transitions_wf [OF \<open>add_transitions (set univs) terminal edges [] = Inr ?ts\<close>] by simp_all
  have s: "succs ?ts f = {t. \<exists>tos. (f, tos) \<in> set ?ts \<and> t \<in> tos}" for f
    by (simp add: succs_def map_of_eq_Some_iff [OF wf(1), symmetric] split: option.splits)
  have e: "(f, t) \<in> set (Edges sm) \<longleftrightarrow> (\<exists>tos. (f, tos) \<in> set ?ts \<and> t \<in> set (sorted_list_of_set tos))" for f t
    by (auto simp: Edges_def)
  have "(f, tos) \<in> set ?ts \<Longrightarrow> set (sorted_list_of_set tos) = tos" for f tos
    using wf(2) by auto
  then have "(f, t) \<in> set (Edges sm) \<longleftrightarrow> t \<in> succs ?ts f" for f t
    by (simp add: e s cong: conj_cong)
  then show "set (Edges sm) = set edges" by (auto simp: NewStateMachine_Inr(4) [OF assms])
  show "sorted (Edges sm)" by (simp add: Edges_def)
  have "distinct (concat (map (\<lambda>(f, tos). map (Pair f) (sorted_list_of_set tos)) ts))"
    if "distinct (map fst ts)" for ts :: "('s \<times> 's set) list"
    using that
  proof (induction ts)
    case (Cons a ts)
    then have "fst a \<notin> fst ` set ts" by simp
    then show ?case using Cons by (auto simp: distinct_map inj_on_def split: prod.splits) force
  qed simp
  then show "distinct (Edges sm)" using wf(1) by (simp add: Edges_def)
qed

section \<open>The contract of a lifecycle\<close>

locale lifecycle =
  fixes sm :: "'s::linorder state_machine"
    and name :: string and init :: 's and univs :: "'s list" and fin :: "'s list"
    and edges :: "('s \<times> 's) list"
  assumes built: "NewStateMachine name init univs fin edges = Inr sm"
begin

lemma declared:
  "init \<in> set univs" "set fin \<subseteq> set univs"
  "(f, t) \<in> set edges \<Longrightarrow> f \<in> set univs \<and> t \<in> set univs \<and> f \<notin> set fin"
  using NewStateMachine_ok_iff [of name init univs fin edges] built by auto

lemma can_iff: "CanTransition sm f t \<longleftrightarrow> (f, t) \<in> set edges"
  by (simp add: CanTransition_iff NewStateMachine_Inr(4) [OF built])

lemma transition_ok_iff: "Transition sm f t = None \<longleftrightarrow> (f, t) \<in> set edges"
  using declared(3) [of f t] NewStateMachine_Inr(2) [OF built]
  by (auto simp: Transition_def can_iff)

lemma transition_code:
  assumes "Transition sm f t = Some e" and "f \<in> set univs" and "t \<in> set univs"
  shows "fsm_code e = CodeInvalidStateTransition"
  using assms NewStateMachine_Inr(2) [OF built] by (auto simp: Transition_def split: if_splits)

lemma next_eq: "set (Next sm f) = {t. (f, t) \<in> set edges}" and next_sorted: "sorted (Next sm f)"
proof -
  have "{t. (f, t) \<in> set edges} \<subseteq> snd ` set edges" by force
  then have "finite {t. (f, t) \<in> set edges}" by (rule finite_subset) simp
  then show "set (Next sm f) = {t. (f, t) \<in> set edges}" "sorted (Next sm f)"
    by (simp_all add: Next_def NewStateMachine_Inr(4) [OF built])
qed

lemma terminal_iff: "IsTerminal sm s \<longleftrightarrow> s \<in> set fin"
  by (simp add: IsTerminal_def NewStateMachine_Inr(3) [OF built])

lemma terminal_stuck: "IsTerminal sm f \<Longrightarrow> Transition sm f t \<noteq> None"
  using declared(3) [of f t] by (auto simp: terminal_iff transition_ok_iff)

text \<open>The states a sequence of accepted transitions leads through.\<close>

inductive path :: "'s \<Rightarrow> 's \<Rightarrow> bool" where
  refl: "path s s"
| step: "path s t \<Longrightarrow> Transition sm t u = None \<Longrightarrow> path s u"

lemma path_known: "path s t \<Longrightarrow> s \<in> set univs \<Longrightarrow> t \<in> set univs"
  by (induction rule: path.induct) (use declared(3) in \<open>auto simp: transition_ok_iff\<close>)

lemma path_terminal: "path s t \<Longrightarrow> IsTerminal sm s \<Longrightarrow> t = s"
  by (induction rule: path.induct) (auto dest: terminal_stuck)

end

section \<open>Properties\<close>

text \<open>
  C34: a machine the constructor accepts permits exactly the declared transitions: \<open>Transition\<close>
  returns no error for a pair of states if and only if the pair is in the table, self-transitions
  included; \<open>Edges\<close> lists the table sorted and without duplicates; \<open>Next\<close> lists the permitted next
  states; and no transition ever leaves a terminal state.
\<close>

theorem NewStateMachine_enforces_table:
  assumes "NewStateMachine name init univs fin edges = Inr sm"
  shows "(Transition sm f t = None \<longleftrightarrow> (f, t) \<in> set edges)
    \<and> set (Edges sm) = set edges \<and> sorted (Edges sm) \<and> distinct (Edges sm)
    \<and> set (Next sm f) = {t. (f, t) \<in> set edges}
    \<and> (IsTerminal sm f \<longrightarrow> f \<in> set fin \<and> Next sm f = [] \<and> Transition sm f t \<noteq> None)"
proof -
  have l: "lifecycle sm name init univs fin edges" using assms by unfold_locales
  have "IsTerminal sm f \<longrightarrow> f \<in> set fin \<and> Next sm f = [] \<and> Transition sm f t \<noteq> None"
    using lifecycle.next_eq [OF l, of f] lifecycle.declared(3) [OF l, of f] lifecycle.terminal_iff [OF l, of f]
      lifecycle.terminal_stuck [OF l, of f t] by (cases "Next sm f") auto
  then show ?thesis
    by (simp add: lifecycle.transition_ok_iff [OF l] lifecycle.next_eq [OF l] NewStateMachine_edges [OF assms])
qed

theorem NewStateMachine_enforces_table_witness:
  "\<exists>sm. NewStateMachine ''door'' ''OPEN'' [''OPEN'', ''SHUT'', ''GONE''] [''GONE'']
      [(''OPEN'', ''SHUT''), (''SHUT'', ''OPEN''), (''SHUT'', ''GONE'')] = Inr sm
    \<and> Transition sm ''SHUT'' ''OPEN'' = None \<and> Transition sm ''SHUT'' ''SHUT'' \<noteq> None
    \<and> Transition sm ''GONE'' ''OPEN'' \<noteq> None"
proof -
  let ?new = "NewStateMachine ''door'' ''OPEN'' [''OPEN'', ''SHUT'', ''GONE''] [''GONE'']
      [(''OPEN'', ''SHUT''), (''SHUT'', ''OPEN''), (''SHUT'', ''GONE'')]"
  have "\<exists>sm. ?new = Inr sm" by (simp add: NewStateMachine_ok_iff)
  then obtain sm where sm: "?new = Inr sm" by blast
  show ?thesis
    by (rule exI [of _ sm])
      (simp add: sm NewStateMachine_enforces_table [OF sm, THEN conjunct1])
qed

end
