(* ===== verification/Ids.thy ===== *)
theory Ids
  imports Prelude
begin

unbundle bit_operations_syntax

text \<open>
  Prefixed ULIDs, \<open>src/pkg/ids/ids.go\<close>: the generator with its monotonic-within-a-millisecond state,
  the Crockford Base32 encoder written out symbol by symbol, the parser and the timestamp decoder.
  The millisecond reading of the clock and the ten bytes that \<open>randomize\<close> fills in are arguments of
  \<open>NewAt\<close>; the panic on an unregistered prefix is \<open>None\<close>. Minting is serialised by the generator's
  mutex, so one call is one step on the generator state.
\<close>

type_synonym ID = string
type_synonym Prefix = string

definition prefixes :: "Prefix list" where
  "prefixes = [''ten'', ''cli'', ''mrc'', ''onb'', ''wfr'', ''wfs'', ''gw'', ''gwc'', ''cfv'', ''pay'',
     ''att'', ''ref'', ''rpl'', ''led'', ''whk'', ''evt'', ''aud'', ''rcn'', ''req'', ''crt'']"

datatype id_error = ErrEmpty | ErrMalformedID | ErrUnknownPrefix | ErrPrefixMismatch | ErrBadEncoding

definition encodedLen :: nat where "encodedLen = 26"

definition crockford :: string where "crockford = ''0123456789ABCDEFGHJKMNPQRSTVWXYZ''"

definition decodeTable :: "char \<Rightarrow> byte" where
  "decodeTable =
     (fold (\<lambda>(i, c) t. t(c := word_of_nat i, lower_char c := word_of_nat i))
        (List.enumerate 0 crockford) (\<lambda>_. 0xFF))
     (CHR ''i'' := 1, CHR ''I'' := 1, CHR ''l'' := 1, CHR ''L'' := 1, CHR ''o'' := 0, CHR ''O'' := 0)"

text \<open>\<open>strings.IndexByte\<close>\<close>

definition index_byte :: "char \<Rightarrow> string \<Rightarrow> int" where
  "index_byte c s = (if c \<in> set s then int (length (takeWhile (\<lambda>x. x \<noteq> c) s)) else -1)"

definition ID_Prefix :: "ID \<Rightarrow> Prefix" where
  "ID_Prefix i = (let k = index_byte CHR ''_'' i in if k \<le> 0 then [] else take (nat k) i)"

record generator =
  g_lastMS :: "64 word"
  g_lastRand :: "byte list"

definition defaultGenerator :: generator where
  "defaultGenerator = \<lparr>g_lastMS = 0, g_lastRand = replicate 10 0\<rparr>"

text \<open>\<open>increment\<close> walks from the last byte to the first; the result is \<open>False\<close> on overflow.\<close>

fun increment_from :: "byte list \<Rightarrow> byte list \<times> bool" where
  "increment_from [] = ([], False)"
| "increment_from (b # bs) =
     (if b + 1 \<noteq> 0 then ((b + 1) # bs, True)
      else let (r, ok) = increment_from bs in (0 # r, ok))"

definition increment :: "byte list \<Rightarrow> byte list \<times> bool" where
  "increment b = (let (r, ok) = increment_from (rev b) in (rev r, ok))"

text \<open>The symbol for a five-bit value.\<close>

definition sym :: "byte \<Rightarrow> char" where
  "sym v = crockford ! unat v"

definition encode :: "byte list \<Rightarrow> string" where
  "encode raw =
    [sym (drop_bit 5 (raw!0 AND 224)),
     sym (raw!0 AND 31),
     sym (drop_bit 3 (raw!1 AND 248)),
     sym (push_bit 2 (raw!1 AND 7) OR drop_bit 6 (raw!2 AND 192)),
     sym (drop_bit 1 (raw!2 AND 62)),
     sym (push_bit 4 (raw!2 AND 1) OR drop_bit 4 (raw!3 AND 240)),
     sym (push_bit 1 (raw!3 AND 15) OR drop_bit 7 (raw!4 AND 128)),
     sym (drop_bit 2 (raw!4 AND 124)),
     sym (push_bit 3 (raw!4 AND 3) OR drop_bit 5 (raw!5 AND 224)),
     sym (raw!5 AND 31),
     sym (drop_bit 3 (raw!6 AND 248)),
     sym (push_bit 2 (raw!6 AND 7) OR drop_bit 6 (raw!7 AND 192)),
     sym (drop_bit 1 (raw!7 AND 62)),
     sym (push_bit 4 (raw!7 AND 1) OR drop_bit 4 (raw!8 AND 240)),
     sym (push_bit 1 (raw!8 AND 15) OR drop_bit 7 (raw!9 AND 128)),
     sym (drop_bit 2 (raw!9 AND 124)),
     sym (push_bit 3 (raw!9 AND 3) OR drop_bit 5 (raw!10 AND 224)),
     sym (raw!10 AND 31),
     sym (drop_bit 3 (raw!11 AND 248)),
     sym (push_bit 2 (raw!11 AND 7) OR drop_bit 6 (raw!12 AND 192)),
     sym (drop_bit 1 (raw!12 AND 62)),
     sym (push_bit 4 (raw!12 AND 1) OR drop_bit 4 (raw!13 AND 240)),
     sym (push_bit 1 (raw!13 AND 15) OR drop_bit 7 (raw!14 AND 128)),
     sym (drop_bit 2 (raw!14 AND 124)),
     sym (push_bit 3 (raw!14 AND 3) OR drop_bit 5 (raw!15 AND 224)),
     sym (raw!15 AND 31)]"

definition ms_bytes :: "64 word \<Rightarrow> byte list" where
  "ms_bytes ms = [ucast (drop_bit 40 ms), ucast (drop_bit 32 ms), ucast (drop_bit 24 ms),
     ucast (drop_bit 16 ms), ucast (drop_bit 8 ms), ucast ms]"

definition NewAt :: "generator \<Rightarrow> Prefix \<Rightarrow> 64 word \<Rightarrow> byte list \<Rightarrow> (generator \<times> ID) option" where
  "NewAt g p t rnd =
     (if p \<notin> set prefixes then None
      else let (ms, entropy) =
             (if t = g_lastMS g
              then (let (entropy, ok) = increment (g_lastRand g)
                    in if \<not> ok then (t + 1, rnd) else (t, entropy))
              else (t, rnd));
             g' = \<lparr>g_lastMS = ms, g_lastRand = entropy\<rparr>
           in Some (g', p @ ''_'' @ encode (ms_bytes ms @ entropy)))"

definition Parse :: "string \<Rightarrow> (id_error, ID) result" where
  "Parse s =
     (if s = [] then Inl ErrEmpty
      else let i = index_byte CHR ''_'' s
           in if i \<le> 0 \<or> int (length s) - i - 1 \<noteq> int encodedLen then Inl ErrMalformedID
              else if take (nat i) s \<notin> set prefixes then Inl ErrUnknownPrefix
              else let body = drop (nat i + 1) s
                   in if decodeTable (body ! 0) > 7 then Inl ErrBadEncoding
                      else if \<exists>j \<in> set [0..<encodedLen]. decodeTable (body ! j) = 0xFF then Inl ErrBadEncoding
                      else Inr s)"

definition ParseAs :: "string \<Rightarrow> Prefix \<Rightarrow> (id_error, ID) result" where
  "ParseAs s want =
     (case Parse s of
        Inl e \<Rightarrow> Inl e
      | Inr i \<Rightarrow> if ID_Prefix i \<noteq> want then Inl ErrPrefixMismatch else Inr i)"

definition Validate :: "string \<Rightarrow> Prefix \<Rightarrow> id_error option" where
  "Validate s want = (case ParseAs s want of Inl e \<Rightarrow> Some e | Inr _ \<Rightarrow> None)"

text \<open>The loop of \<open>TimeOf\<close> over the first ten symbols; \<open>None\<close> is the zero time.\<close>

fun time_symbols :: "string \<Rightarrow> 64 word \<Rightarrow> 64 word option" where
  "time_symbols [] ms = Some ms"
| "time_symbols (c # cs) ms =
     (if decodeTable c = 0xFF then None
      else time_symbols cs (push_bit 5 ms OR ucast (decodeTable c)))"

definition TimeOf :: "ID \<Rightarrow> 64 word option" where
  "TimeOf i =
     (let k = index_byte CHR ''_'' i
      in if k \<le> 0 \<or> int (length i) - k - 1 \<noteq> int encodedLen then None
         else time_symbols (take 10 (drop (nat k + 1) i)) 0)"

definition Compare :: "ID \<Rightarrow> ID \<Rightarrow> int" where
  "Compare a b = (if a < b then -1 else if a > b then 1 else 0)"

section \<open>The encoder as positional notation\<close>

text \<open>Big-endian values of byte strings and of digit strings.\<close>

definition bytes_value :: "byte list \<Rightarrow> int" where
  "bytes_value bs = foldl (\<lambda>a b. a * 256 + uint b) 0 bs"

definition digits_value :: "int list \<Rightarrow> int" where
  "digits_value ds = foldl (\<lambda>a d. a * 32 + d) 0 ds"

text \<open>The eight base-32 digits of five bytes.\<close>

definition five :: "int \<Rightarrow> int \<Rightarrow> int \<Rightarrow> int \<Rightarrow> int \<Rightarrow> int list" where
  "five a b c d e =
     [a div 8, (a mod 8) * 4 + b div 64, b mod 64 div 2, (b mod 2) * 16 + c div 16,
      (c mod 16) * 2 + d div 128, d mod 128 div 4, (d mod 4) * 8 + e div 32, e mod 32]"

lemma five_horner:
  "digits_value [a1, a2 * 4 + b1, b2, b3 * 16 + c1, c2 * 2 + d1, d2, d3 * 8 + e1, e2]
    = ((((8 * a1 + a2) * 256 + (64 * b1 + (2 * b2 + b3))) * 256 + (16 * c1 + c2)) * 256
       + (128 * d1 + (4 * d2 + d3))) * 256 + (32 * e1 + e2)"
  by (simp add: digits_value_def algebra_simps)

lemma five_value: "digits_value (five a b c d e) = (((a * 256 + b) * 256 + c) * 256 + d) * 256 + e"
proof -
  have "b mod 2 = b mod 64 mod 2" "d mod 4 = d mod 128 mod 4" by (simp_all add: mod_mod_cancel)
  then show ?thesis by (simp only: five_def five_horner mult_div_mod_eq)
qed

text \<open>Masks and shifts on one byte, read as division and remainder.\<close>

lemma and_low: "(n :: int) AND (2 ^ j - 1) = n mod 2 ^ j"
  by (simp flip: mask_eq_exp_minus_1 take_bit_eq_mask take_bit_eq_mod)

lemma mask_field: "((n :: int) AND ((2 ^ j - 1) * 2 ^ k)) div 2 ^ k = n div 2 ^ k mod 2 ^ j"
proof -
  have "drop_bit k (n AND push_bit k (2 ^ j - 1)) = drop_bit k n AND (2 ^ j - 1)"
    by (simp add: drop_bit_push_bit)
  then show ?thesis by (simp only: and_low drop_bit_eq_div push_bit_eq_mult)
qed

lemma or_low: "0 \<le> y \<Longrightarrow> y < 2 ^ k \<Longrightarrow> (x * 2 ^ k) OR y = x * 2 ^ k + (y :: int)"
  using concat_bit_def [of k y x] concat_bit_eq [of k y x]
  by (simp add: take_bit_int_eq_self push_bit_eq_mult or.commute)

lemma byte_range: "0 \<le> uint (b :: byte)" "uint (b :: byte) < 256"
  using uint_lt2p [of b] by simp_all

lemma drop_field:
  fixes b w :: byte
  assumes "uint w = (2 ^ j - 1) * 2 ^ k"
  shows "uint (drop_bit k (b AND w)) = uint b div 2 ^ k mod 2 ^ j"
proof -
  have "uint (drop_bit k x) = uint x div 2 ^ k" for x :: byte
    unfolding unsigned_drop_bit_eq unfolding take_bit_eq_mod drop_bit_eq_div using byte_range [of x] by simp
  then show ?thesis by (simp only: uint_and assms mask_field)
qed

lemma push_low:
  fixes b w :: byte
  assumes "uint w = 2 ^ j - 1" and "j + k \<le> 8"
  shows "uint (push_bit k (b AND w)) = uint b mod 2 ^ j * 2 ^ k"
proof -
  have "uint b mod 2 ^ j * 2 ^ k < 2 ^ j * 2 ^ k" by simp
  also have "\<dots> \<le> 2 ^ 8" using assms(2) by (simp only: power_add [symmetric] power_increasing)
  finally have "uint b mod 2 ^ j * 2 ^ k mod 2 ^ 8 = uint b mod 2 ^ j * 2 ^ k" by (intro mod_pos_pos_trivial) auto
  then show ?thesis
    unfolding unsigned_push_bit_eq unfolding uint_and assms(1) and_low push_bit_eq_mult take_bit_eq_mod by simp
qed

lemma mod_div_swap: "0 < c \<Longrightarrow> 0 < d \<Longrightarrow> n mod (d * c) div c = n div c mod (d :: int)"
  by (simp add: zmod_zmult2_eq mult.commute [of d])

lemma byte_masks:
  fixes b :: byte
  shows "uint (drop_bit 5 (b AND 224)) = uint b div 32" "uint (b AND 31) = uint b mod 32"
    "uint (drop_bit 3 (b AND 248)) = uint b div 8" "uint (drop_bit 6 (b AND 192)) = uint b div 64"
    "uint (drop_bit 1 (b AND 62)) = uint b mod 64 div 2" "uint (drop_bit 4 (b AND 240)) = uint b div 16"
    "uint (drop_bit 7 (b AND 128)) = uint b div 128" "uint (drop_bit 2 (b AND 124)) = uint b mod 128 div 4"
    "uint (push_bit 2 (b AND 7)) = uint b mod 8 * 4" "uint (push_bit 4 (b AND 1)) = uint b mod 2 * 16"
    "uint (push_bit 1 (b AND 15)) = uint b mod 16 * 2" "uint (push_bit 3 (b AND 3)) = uint b mod 4 * 8"
proof -
  have r: "0 \<le> uint b" "uint b < 256" by (rule byte_range)+
  note field = drop_field [where b = b] and low = push_low [where b = b]
  show "uint (drop_bit 5 (b AND 224)) = uint b div 32" by (subst field [of 224 3 5]) (use r in \<open>simp_all add: pos_imp_zdiv_nonneg_iff\<close>)
  show "uint (b AND 31) = uint b mod 32" using drop_field [of 31 5 0 b] by simp
  show "uint (drop_bit 3 (b AND 248)) = uint b div 8" by (subst field [of 248 5 3]) (use r in \<open>simp_all add: pos_imp_zdiv_nonneg_iff\<close>)
  show "uint (drop_bit 6 (b AND 192)) = uint b div 64" by (subst field [of 192 2 6]) (use r in \<open>simp_all add: pos_imp_zdiv_nonneg_iff\<close>)
  show "uint (drop_bit 1 (b AND 62)) = uint b mod 64 div 2"
    by (subst field [of 62 5 1]) (simp_all add: mod_div_swap [of 2 32, simplified])
  show "uint (drop_bit 4 (b AND 240)) = uint b div 16" by (subst field [of 240 4 4]) (use r in \<open>simp_all add: pos_imp_zdiv_nonneg_iff\<close>)
  show "uint (drop_bit 7 (b AND 128)) = uint b div 128" by (subst field [of 128 1 7]) (use r in \<open>simp_all add: pos_imp_zdiv_nonneg_iff\<close>)
  show "uint (drop_bit 2 (b AND 124)) = uint b mod 128 div 4"
    by (subst field [of 124 5 2]) (simp_all add: mod_div_swap [of 4 32, simplified])
  show "uint (push_bit 2 (b AND 7)) = uint b mod 8 * 4" by (subst low [of 7 3 2]) simp_all
  show "uint (push_bit 4 (b AND 1)) = uint b mod 2 * 16" by (subst low [of 1 1 4]) simp_all
  show "uint (push_bit 1 (b AND 15)) = uint b mod 16 * 2" by (subst low [of 15 4 1]) simp_all
  show "uint (push_bit 3 (b AND 3)) = uint b mod 4 * 8" by (subst low [of 3 2 3]) simp_all
qed

lemma byte_pairs:
  fixes a b :: byte
  shows "uint (push_bit 2 (a AND 7) OR drop_bit 6 (b AND 192)) = uint a mod 8 * 4 + uint b div 64"
    "uint (push_bit 4 (a AND 1) OR drop_bit 4 (b AND 240)) = uint a mod 2 * 16 + uint b div 16"
    "uint (push_bit 1 (a AND 15) OR drop_bit 7 (b AND 128)) = uint a mod 16 * 2 + uint b div 128"
    "uint (push_bit 3 (a AND 3) OR drop_bit 5 (b AND 224)) = uint a mod 4 * 8 + uint b div 32"
proof -
  have 0: "0 \<le> uint b div 64" "uint b div 64 < 2 ^ 2" "0 \<le> uint b div 16" "uint b div 16 < 2 ^ 4"
    "0 \<le> uint b div 128" "uint b div 128 < 2 ^ 1" "0 \<le> uint b div 32" "uint b div 32 < 2 ^ 3"
    using byte_range [of b] by (simp_all add: pos_imp_zdiv_nonneg_iff)
  show "uint (push_bit 2 (a AND 7) OR drop_bit 6 (b AND 192)) = uint a mod 8 * 4 + uint b div 64"
    "uint (push_bit 4 (a AND 1) OR drop_bit 4 (b AND 240)) = uint a mod 2 * 16 + uint b div 16"
    "uint (push_bit 1 (a AND 15) OR drop_bit 7 (b AND 128)) = uint a mod 16 * 2 + uint b div 128"
    "uint (push_bit 3 (a AND 3) OR drop_bit 5 (b AND 224)) = uint a mod 4 * 8 + uint b div 32"
    unfolding uint_or byte_masks
    using or_low [OF 0(1,2), of "uint a mod 8"] or_low [OF 0(3,4), of "uint a mod 2"]
      or_low [OF 0(5,6), of "uint a mod 16"] or_low [OF 0(7,8), of "uint a mod 4"] by simp_all
qed

text \<open>The 26 base-32 digits of sixteen bytes: three bits, five bits, then three groups of five bytes.\<close>

definition raw_digits :: "byte list \<Rightarrow> int list" where
  "raw_digits raw =
     (let b = \<lambda>i. uint (raw ! i)
      in [b 0 div 32, b 0 mod 32] @ five (b 1) (b 2) (b 3) (b 4) (b 5)
         @ five (b 6) (b 7) (b 8) (b 9) (b 10) @ five (b 11) (b 12) (b 13) (b 14) (b 15))"

definition chr32 :: "int \<Rightarrow> char" where
  "chr32 d = crockford ! nat d"

lemma sym_chr32: "sym v = chr32 (uint v)"
  by (simp only: sym_def chr32_def unat_eq_nat_uint)

lemma encode_digits: "encode raw = map chr32 (raw_digits raw)"
  unfolding encode_def raw_digits_def five_def Let_def sym_chr32 byte_masks byte_pairs by simp

definition digit32 :: "int \<Rightarrow> bool" where
  "digit32 d \<longleftrightarrow> 0 \<le> d \<and> d < 32"

lemma digit32_pair:
  assumes "0 \<le> u" "u < k" "0 \<le> v" "v < m" "k * m = 32"
  shows "digit32 (u * m + v)"
proof -
  have "u * m + v < (u + 1) * m" using assms by (simp add: algebra_simps)
  also have "\<dots> \<le> k * m" using assms by (intro mult_right_mono) auto
  finally show ?thesis using assms by (simp add: digit32_def)
qed

lemma five_digits:
  assumes "\<forall>x \<in> {a, b, c, d, e}. 0 \<le> x \<and> x < 256"
  shows "list_all digit32 (five a b c d e)"
proof -
  have r: "0 \<le> a" "a < 256" "0 \<le> b" "b < 256" "0 \<le> c" "c < 256" "0 \<le> d" "d < 256" "0 \<le> e" "e < 256"
    using assms by auto
  have "digit32 (a mod 8 * 4 + b div 64)" by (rule digit32_pair [of _ 8]) (use r in \<open>simp_all add: pos_imp_zdiv_nonneg_iff\<close>)
  moreover have "digit32 (b mod 2 * 16 + c div 16)" by (rule digit32_pair [of _ 2]) (use r in \<open>simp_all add: pos_imp_zdiv_nonneg_iff\<close>)
  moreover have "digit32 (c mod 16 * 2 + d div 128)" by (rule digit32_pair [of _ 16]) (use r in \<open>simp_all add: pos_imp_zdiv_nonneg_iff\<close>)
  moreover have "digit32 (d mod 4 * 8 + e div 32)" by (rule digit32_pair [of _ 4]) (use r in \<open>simp_all add: pos_imp_zdiv_nonneg_iff\<close>)
  moreover have "digit32 (a div 8)" using r by (simp add: digit32_def pos_imp_zdiv_nonneg_iff)
  moreover have "digit32 (b mod 64 div 2)" "digit32 (d mod 128 div 4)" "digit32 (e mod 32)"
    by (simp_all add: digit32_def mod_div_swap [of 2 32, simplified] mod_div_swap [of 4 32, simplified])
  ultimately show ?thesis by (simp only: five_def list.pred_inject simp_thms)
qed

lemma raw_digits_digits: "list_all digit32 (raw_digits raw)"
proof -
  have "digit32 (uint (raw ! 0) div 32)" "digit32 (uint (raw ! 0) mod 32)"
    using byte_range [of "raw ! 0"] by (simp_all add: digit32_def pos_imp_zdiv_nonneg_iff)
  then show ?thesis
    using five_digits byte_range by (simp add: raw_digits_def Let_def)
qed

lemma length_raw_digits: "length (raw_digits raw) = 26"
  by (simp add: raw_digits_def five_def Let_def)

lemma digits_value_from: "foldl (\<lambda>a d. a * 32 + d) a ds = a * 32 ^ length ds + digits_value ds"
  unfolding digits_value_def
proof (induction ds arbitrary: a)
  case (Cons d ds)
  show ?case using Cons [of "a * 32 + d"] Cons [of d] by (simp add: algebra_simps)
qed simp

lemma digits_value_append: "digits_value (xs @ ys) = digits_value xs * 32 ^ length ys + digits_value ys"
  using digits_value_from [of "digits_value xs" ys] by (simp add: digits_value_def)

lemma digits_value_Cons: "digits_value (d # ds) = d * 32 ^ length ds + digits_value ds"
  using digits_value_append [of "[d]" ds] by (simp add: digits_value_def)

lemma bytes_value_from: "foldl (\<lambda>a b. a * 256 + uint b) a bs = a * 256 ^ length bs + bytes_value bs"
  unfolding bytes_value_def
proof (induction bs arbitrary: a)
  case (Cons b bs)
  show ?case using Cons [of "a * 256 + uint b"] Cons [of "uint b"] by (simp add: algebra_simps)
qed simp

lemma bytes_value_append: "bytes_value (xs @ ys) = bytes_value xs * 256 ^ length ys + bytes_value ys"
  using bytes_value_from [of "bytes_value xs" ys] by (simp add: bytes_value_def)

lemma bytes_value_Cons: "bytes_value (b # bs) = uint b * 256 ^ length bs + bytes_value bs"
  using bytes_value_append [of "[b]" bs] by (simp add: bytes_value_def)

lemma bytes_value_bounds: "0 \<le> bytes_value bs" "bytes_value bs < 256 ^ length bs"
proof (induction bs)
  case (Cons b bs)
  have "uint b * 256 ^ length bs \<le> 255 * 256 ^ length bs"
    using byte_range [of b] by (intro mult_right_mono) auto
  then show "0 \<le> bytes_value (b # bs)" "bytes_value (b # bs) < 256 ^ length (b # bs)"
    using Cons byte_range [of b] unfolding bytes_value_Cons length_Cons power_Suc by (simp, linarith)
qed (simp_all add: bytes_value_def)

lemma digits_value_bounds: "list_all digit32 ds \<Longrightarrow> 0 \<le> digits_value ds \<and> digits_value ds < 32 ^ length ds"
proof (induction ds)
  case (Cons d ds)
  then have d: "0 \<le> d" "d \<le> 31" by (simp_all add: digit32_def)
  then have "d * 32 ^ length ds \<le> 31 * 32 ^ length ds" "0 \<le> d * 32 ^ length ds"
    by (auto intro: mult_right_mono)
  moreover have "0 \<le> digits_value ds \<and> digits_value ds < 32 ^ length ds" using Cons by simp
  ultimately show ?case unfolding digits_value_Cons length_Cons power_Suc by linarith
qed (simp add: digits_value_def)

text \<open>The first ten symbols carry the first six bytes, the whole text all sixteen.\<close>

lemma raw_digits_values:
  assumes "length raw = 16"
  shows "digits_value (take 10 (raw_digits raw)) = bytes_value (take 6 raw)"
    and "digits_value (raw_digits raw) = bytes_value raw"
proof -
  let ?b = "\<lambda>i. uint (raw ! i)"
  have t10: "take 10 (raw_digits raw) = [?b 0 div 32, ?b 0 mod 32] @ five (?b 1) (?b 2) (?b 3) (?b 4) (?b 5)"
    by (simp add: raw_digits_def five_def Let_def)
  have "[0..<16] = [0, 1, 2, 3, 4, 5, 6, 7, 8, 9, 10, 11, 12, 13, 14, 15]" by code_simp
  then have raw: "raw = map ((!) raw) [0, 1, 2, 3, 4, 5, 6, 7, 8, 9, 10, 11, 12, 13, 14, 15]"
    using map_nth [of raw] assms by simp
  have six: "take 6 raw = map ((!) raw) [0, 1, 2, 3, 4, 5]" by (subst raw) simp
  have 2: "digits_value [?b 0 div 32, ?b 0 mod 32] = ?b 0" by (simp add: digits_value_def)
  have l5: "length (five a b c d e) = 8" for a b c d e by (simp add: five_def)
  show v6: "digits_value (take 10 (raw_digits raw)) = bytes_value (take 6 raw)"
    unfolding t10 six digits_value_append 2 five_value l5 by (simp add: bytes_value_def)
  have "raw_digits raw = (take 10 (raw_digits raw) @ five (?b 6) (?b 7) (?b 8) (?b 9) (?b 10))
      @ five (?b 11) (?b 12) (?b 13) (?b 14) (?b 15)"
    unfolding t10 by (simp add: raw_digits_def Let_def)
  then have "digits_value (raw_digits raw) = (digits_value (take 10 (raw_digits raw)) * 32 ^ 8
      + digits_value (five (?b 6) (?b 7) (?b 8) (?b 9) (?b 10))) * 32 ^ 8
      + digits_value (five (?b 11) (?b 12) (?b 13) (?b 14) (?b 15))"
    using digits_value_append l5 by metis
  also have "\<dots> = bytes_value (map ((!) raw) [0, 1, 2, 3, 4, 5, 6, 7, 8, 9, 10, 11, 12, 13, 14, 15])"
    unfolding v6 six by (simp add: five_value bytes_value_def)
  finally show "digits_value (raw_digits raw) = bytes_value raw" using raw by simp
qed

section \<open>Order and decoding of the symbols\<close>

lemma crockford_sorted: "sorted_wrt (<) crockford"
  by code_simp

lemma length_crockford: "length crockford = 32"
  by (simp add: crockford_def)

lemma chr32_less_iff: "digit32 x \<Longrightarrow> digit32 y \<Longrightarrow> chr32 x < chr32 y \<longleftrightarrow> x < y"
proof -
  assume d: "digit32 x" "digit32 y"
  have lt: "chr32 a < chr32 b" if "digit32 a" "digit32 b" "a < b" for a b
    using that sorted_wrt_nth_less [OF crockford_sorted, of "nat a" "nat b"]
    by (simp add: chr32_def digit32_def length_crockford)
  show ?thesis using lt [OF d] lt [OF d(2,1)] by (cases x y rule: linorder_cases) auto
qed

lemma digits_order:
  assumes "length xs = length ys" "list_all digit32 xs" "list_all digit32 ys"
  shows "map chr32 xs < map chr32 ys \<longleftrightarrow> digits_value xs < digits_value ys"
  using assms
proof (induction xs ys rule: list_induct2)
  case (Cons x xs y ys)
  have b: "0 \<le> digits_value xs" "digits_value xs < 32 ^ length xs" "0 \<le> digits_value ys" "digits_value ys < 32 ^ length xs"
    using Cons digits_value_bounds [of xs] digits_value_bounds [of ys] by auto
  have c: "chr32 x < chr32 y \<longleftrightarrow> x < y" "chr32 y < chr32 x \<longleftrightarrow> y < x"
    using Cons by (simp_all add: chr32_less_iff)
  let ?P = "32 ^ length xs :: int"
  have lt: "u < v \<Longrightarrow> u * ?P + a < v * ?P + b" if "a < ?P" "0 \<le> b" for u v a b :: int
  proof -
    assume "u < v"
    then have "(u + 1) * ?P \<le> v * ?P" by (intro mult_right_mono) auto
    then show ?thesis using that by (simp add: algebra_simps)
  qed
  consider "x < y" | "y < x" | "x = y" by linarith
  then show ?case
  proof cases
    case 1
    then show ?thesis using c lt [OF b(2,3) 1] Cons(1) by (simp add: digits_value_Cons)
  next
    case 2
    then have "chr32 x \<noteq> chr32 y" using c by auto
    then show ?thesis using 2 c lt [OF b(4,1) 2] Cons(1) by (simp add: digits_value_Cons)
  next
    case 3
    then show ?thesis using Cons by (simp add: digits_value_Cons)
  qed
qed (simp add: digits_value_def)

lemma encode_less_iff:
  assumes "length r = 16" "length s = 16"
  shows "encode r < encode s \<longleftrightarrow> bytes_value r < bytes_value s"
  using digits_order [of "raw_digits r" "raw_digits s"] assms
  by (simp add: encode_digits raw_digits_digits length_raw_digits raw_digits_values)

lemma length_encode [simp]: "length (encode raw) = 26"
  by (simp add: encode_digits length_raw_digits)

lemma decode_chr32: "digit32 d \<Longrightarrow> decodeTable (chr32 d) = word_of_int d"
proof -
  have "list_all (\<lambda>d. decodeTable (chr32 d) = word_of_int d) [0..31]" by code_simp
  then show "digit32 d \<Longrightarrow> decodeTable (chr32 d) = word_of_int d" by (simp add: list_all_iff digit32_def)
qed

lemma uint_digit: "digit32 d \<Longrightarrow> uint (word_of_int d :: byte) = d"
  by (simp add: digit32_def uint_word_of_int)

lemma decode_valid: "digit32 d \<Longrightarrow> decodeTable (chr32 d) \<noteq> 0xFF"
proof
  assume "digit32 d" "decodeTable (chr32 d) = 0xFF"
  then have "uint (word_of_int d :: byte) = uint (0xFF :: byte)" by (simp add: decode_chr32)
  then show False using \<open>digit32 d\<close> by (simp add: uint_digit) (simp add: digit32_def)
qed

text \<open>One step of the timestamp loop: shift in a five-bit symbol.\<close>

lemma shift_in:
  fixes ms v :: "64 word"
  assumes "uint v < 32"
  shows "push_bit 5 ms OR v = ms * 32 + v"
proof -
  let ?x = "uint ms mod 2 ^ 59"
  have p: "uint (push_bit 5 ms) = ?x * 2 ^ 5"
  proof -
    have "uint (push_bit 5 ms) = (uint ms * 2 ^ 5) mod 2 ^ 64"
      unfolding unsigned_push_bit_eq unfolding push_bit_eq_mult take_bit_eq_mod by simp
    also have "\<dots> = ?x * 2 ^ 5" using mult_mod_right [of "2 ^ 5" "uint ms" "2 ^ 59"] by (simp add: mult.commute)
    finally show ?thesis .
  qed
  have "?x * 2 ^ 5 + uint v < 2 ^ 64"
    using assms pos_mod_bound [of "2 ^ 59" "uint ms"] by simp
  have o: "uint (push_bit 5 ms OR v) = uint (push_bit 5 ms) + uint v"
    unfolding uint_or p by (rule or_low) (use assms in auto)
  have "push_bit 5 ms OR v = push_bit 5 ms + v"
  proof (rule word_uint_eqI)
    have "uint (push_bit 5 ms) + uint v < 2 ^ 64"
      using o uint_lt2p [of "push_bit 5 ms OR v"] by simp
    then show "uint (push_bit 5 ms OR v) = uint (push_bit 5 ms + v)"
      by (simp add: o uint_word_ariths)
  qed
  then show ?thesis by (simp add: push_bit_eq_mult)
qed

lemma time_symbols_value:
  "list_all digit32 ds \<Longrightarrow>
   time_symbols (map chr32 ds) ms = Some (ms * 32 ^ length ds + word_of_int (digits_value ds))"
proof (induction ds arbitrary: ms)
  case Nil
  then show ?case by (simp add: digits_value_def)
next
  case (Cons d ds)
  have d: "digit32 d" using Cons by simp
  let ?v = "ucast (decodeTable (chr32 d)) :: 64 word"
  have v: "?v = word_of_int d" and "uint ?v < 32"
    using d by (auto simp: decode_chr32 digit32_def unsigned_of_int take_bit_eq_mod)
  then have "time_symbols (map chr32 (d # ds)) ms = time_symbols (map chr32 ds) (ms * 32 + word_of_int d)"
    using decode_valid [OF d] shift_in [of ?v ms] by simp
  also have "\<dots> = Some ((ms * 32 + word_of_int d) * 32 ^ length ds + word_of_int (digits_value ds))"
    using Cons by simp
  also have "\<dots> = Some (ms * 32 ^ length (d # ds) + word_of_int (digits_value (d # ds)))"
    by (simp add: digits_value_Cons algebra_simps of_int_power)
  finally show ?case .
qed

section \<open>The generator\<close>

lemma byte_of_ms: "uint (ucast (drop_bit k ms) :: byte) = uint (ms :: 64 word) div 2 ^ k mod 256"
proof -
  have "uint (ucast (drop_bit k ms) :: byte) = uint (drop_bit k ms) mod 2 ^ 8"
    by (simp add: unsigned_ucast_eq take_bit_eq_mod)
  also have "uint (drop_bit k ms) = uint ms div 2 ^ k"
    unfolding unsigned_drop_bit_eq unfolding take_bit_eq_mod drop_bit_eq_div using uint_lt2p [of ms] by simp
  finally show ?thesis by simp
qed

lemma mod_split8: "n mod 2 ^ (k + 8) = 2 ^ k * (n div 2 ^ k mod 256) + n mod (2 ^ k :: int)"
  using zmod_zmult2_eq [of 256 n "2 ^ k"] by (simp add: power_add)

lemma ms_bytes_value: "bytes_value (ms_bytes ms) = uint ms mod 2 ^ 48"
proof -
  define f where "f k = uint ms div 2 ^ k mod 256" for k
  define m where "m k = uint ms mod 2 ^ k" for k
  have step: "m (k + 8) = 2 ^ k * f k + m k" for k unfolding m_def f_def by (rule mod_split8)
  have low: "uint (ucast ms :: byte) = f 0" using byte_of_ms [of 0 ms] by (simp add: f_def)
  have "bytes_value (ms_bytes ms) = ((((f 40 * 256 + f 32) * 256 + f 24) * 256 + f 16) * 256 + f 8) * 256 + f 0"
    unfolding ms_bytes_def bytes_value_def foldl_Cons foldl_Nil byte_of_ms low by (simp add: f_def)
  also have "\<dots> = m 48"
    using step [of 40] step [of 32] step [of 24] step [of 16] step [of 8] step [of 0]
    by (simp add: m_def [of 0])
  finally show ?thesis by (simp add: m_def)
qed

lemma length_ms_bytes [simp]: "length (ms_bytes ms) = 6"
  by (simp add: ms_bytes_def)

text \<open>The little-endian reading that the increment loop walks along.\<close>

fun rev_value :: "byte list \<Rightarrow> int" where
  "rev_value [] = 0"
| "rev_value (b # bs) = uint b + 256 * rev_value bs"

lemma bytes_value_rev: "bytes_value (rev bs) = rev_value bs"
  by (induction bs) (simp_all add: bytes_value_append bytes_value_Cons, simp_all add: bytes_value_def)

lemma byte_succ_0: "(b :: byte) + 1 = 0 \<longleftrightarrow> uint b = 255"
proof -
  have "(x + 1) mod 256 = 0 \<longleftrightarrow> x = 255" if "0 \<le> x" "x < 256" for x :: int
    using that by presburger
  then show ?thesis using byte_range [of b] by (simp add: word_uint_eq_iff uint_word_ariths)
qed

lemma byte_succ: "(b :: byte) + 1 \<noteq> 0 \<Longrightarrow> uint (b + 1) = uint b + 1"
  using byte_range [of b] by (simp add: byte_succ_0 uint_word_ariths)

lemma increment_from_value:
  "increment_from bs = (r, ok) \<Longrightarrow> length r = length bs \<and> (ok \<longrightarrow> rev_value r = rev_value bs + 1)"
proof (induction bs arbitrary: r)
  case (Cons b bs)
  show ?case
  proof (cases "b + 1 = 0")
    case True
    then have "uint b = 255" by (simp add: byte_succ_0)
    then show ?thesis using Cons True by (auto split: prod.splits)
  next
    case False
    then show ?thesis using Cons.prems byte_succ [of b] by auto
  qed
qed simp

lemma increment_value:
  "increment bs = (r, ok) \<Longrightarrow> length r = length bs \<and> (ok \<longrightarrow> bytes_value r = bytes_value bs + 1)"
  using increment_from_value [of "rev bs"] bytes_value_rev [of "rev bs"]
  by (auto simp: increment_def bytes_value_rev split: prod.splits)

text \<open>The 128-bit value of the identifier last minted.\<close>

definition last_value :: "generator \<Rightarrow> int" where
  "last_value g = uint (g_lastMS g) * 2 ^ 80 + bytes_value (g_lastRand g)"

definition gen_ok :: "generator \<Rightarrow> bool" where
  "gen_ok g \<longleftrightarrow> length (g_lastRand g) = 10 \<and> uint (g_lastMS g) < 2 ^ 48"

text \<open>
  One request to the generator: the clock reading is not before the last one and fits the 48 bits
  of a ULID, and the entropy of the current millisecond is not exhausted.
\<close>

definition request_ok :: "generator \<Rightarrow> 64 word \<Rightarrow> byte list \<Rightarrow> bool" where
  "request_ok g t rnd \<longleftrightarrow> length rnd = 10 \<and> uint t < 2 ^ 48 \<and> g_lastMS g \<le> t
     \<and> (t = g_lastMS g \<longrightarrow> snd (increment (g_lastRand g)))"

lemma NewAt_step:
  assumes "p \<in> set prefixes" "gen_ok g" "request_ok g t rnd"
  shows "\<exists>entropy g'. NewAt g p t rnd = Some (g', p @ ''_'' @ encode (ms_bytes t @ entropy))
    \<and> g' = \<lparr>g_lastMS = t, g_lastRand = entropy\<rparr> \<and> length entropy = 10 \<and> gen_ok g'
    \<and> bytes_value (ms_bytes t @ entropy) = last_value g' \<and> last_value g < last_value g'"
proof -
  define entropy where "entropy = (if t = g_lastMS g then fst (increment (g_lastRand g)) else rnd)"
  have new: "NewAt g p t rnd
      = Some (\<lparr>g_lastMS = t, g_lastRand = entropy\<rparr>, p @ ''_'' @ encode (ms_bytes t @ entropy))"
    using assms by (auto simp: NewAt_def entropy_def request_ok_def Let_def split: prod.splits)
  have len: "length entropy = 10"
    using assms increment_value [of "g_lastRand g"]
    by (auto simp: entropy_def request_ok_def gen_ok_def prod_eq_iff)
  have t: "uint t < 2 ^ 48" using assms by (simp add: request_ok_def)
  have v: "bytes_value (ms_bytes t @ entropy) = uint t * 2 ^ 80 + bytes_value entropy"
    using t len by (simp add: bytes_value_append ms_bytes_value)
  have "uint (g_lastMS g) * 2 ^ 80 + bytes_value (g_lastRand g) < uint t * 2 ^ 80 + bytes_value entropy"
  proof (cases "t = g_lastMS g")
    case True
    then show ?thesis
      using assms increment_value [of "g_lastRand g" entropy True]
      by (auto simp: entropy_def request_ok_def prod_eq_iff)
  next
    case False
    then have "uint (g_lastMS g) + 1 \<le> uint t"
      using assms by (auto simp: request_ok_def word_le_def word_uint_eq_iff)
    then have "(uint (g_lastMS g) + 1) * 2 ^ 80 \<le> uint t * 2 ^ 80" by (intro mult_right_mono) auto
    moreover have "bytes_value (g_lastRand g) < 2 ^ 80"
      using assms bytes_value_bounds(2) [of "g_lastRand g"] by (simp add: gen_ok_def)
    ultimately show ?thesis using bytes_value_bounds(1) [of entropy] by simp
  qed
  then show ?thesis using new len t v by (simp add: last_value_def gen_ok_def)
qed

text \<open>A run of the generator under one prefix, and the runs whose requests are all well-behaved.\<close>

fun mint :: "Prefix \<Rightarrow> generator \<Rightarrow> (64 word \<times> byte list) list \<Rightarrow> ID list option" where
  "mint p g [] = Some []"
| "mint p g ((t, rnd) # rs) =
     (case NewAt g p t rnd of
        None \<Rightarrow> None
      | Some (g', i) \<Rightarrow> (case mint p g' rs of None \<Rightarrow> None | Some is \<Rightarrow> Some (i # is)))"

fun requests_ok :: "Prefix \<Rightarrow> generator \<Rightarrow> (64 word \<times> byte list) list \<Rightarrow> bool" where
  "requests_ok p g [] = True"
| "requests_ok p g ((t, rnd) # rs) =
     (request_ok g t rnd \<and> (case NewAt g p t rnd of None \<Rightarrow> False | Some (g', i) \<Rightarrow> requests_ok p g' rs))"

definition minted :: "Prefix \<Rightarrow> int \<Rightarrow> ID \<Rightarrow> bool" where
  "minted p v i \<longleftrightarrow> (\<exists>raw. length raw = 16 \<and> i = p @ ''_'' @ encode raw \<and> bytes_value raw = v)"

lemma minted_order: "minted p v i \<Longrightarrow> minted p w j \<Longrightarrow> i < j \<longleftrightarrow> v < w"
proof -
  have "q @ x < q @ y \<longleftrightarrow> x < y" for q x y :: string by (induction q) auto
  then show "minted p v i \<Longrightarrow> minted p w j \<Longrightarrow> i < j \<longleftrightarrow> v < w"
    unfolding minted_def by (auto simp: encode_less_iff)
qed

lemma mint_increasing:
  assumes "p \<in> set prefixes" "gen_ok g" "requests_ok p g rs"
  shows "\<exists>is vs. mint p g rs = Some is \<and> list_all2 (minted p) vs is \<and> sorted_wrt (<) (last_value g # vs)"
  using assms
proof (induction p g rs rule: mint.induct)
  case (1 p g)
  then show ?case by simp
next
  case (2 p g t rnd rs)
  obtain entropy g' where s: "NewAt g p t rnd = Some (g', p @ ''_'' @ encode (ms_bytes t @ entropy))"
    "length entropy = 10" "gen_ok g'" "bytes_value (ms_bytes t @ entropy) = last_value g'"
    "last_value g < last_value g'"
    using NewAt_step [of p g t rnd] 2 by auto
  then obtain "is" vs where r: "mint p g' rs = Some is" "list_all2 (minted p) vs is"
    "sorted_wrt (<) (last_value g' # vs)"
    using 2(1) [OF s(1) refl 2(2) s(3)] 2(4) by auto
  have "minted p (last_value g') (p @ ''_'' @ encode (ms_bytes t @ entropy))"
    unfolding minted_def using s by (intro exI [of _ "ms_bytes t @ entropy"]) simp
  then show ?case
    using s r by (intro exI [of _ "(p @ ''_'' @ encode (ms_bytes t @ entropy)) # is"]
        exI [of _ "last_value g' # vs"]) force
qed

section \<open>Parsing what was minted\<close>

lemma prefixes_ok: "p \<in> set prefixes \<Longrightarrow> p \<noteq> [] \<and> CHR ''_'' \<notin> set p"
proof -
  have "list_all (\<lambda>p. p \<noteq> [] \<and> CHR ''_'' \<notin> set p) prefixes" by code_simp
  then show "p \<in> set prefixes \<Longrightarrow> p \<noteq> [] \<and> CHR ''_'' \<notin> set p" by (simp add: list_all_iff)
qed

lemma index_minted: "CHR ''_'' \<notin> set p \<Longrightarrow> index_byte CHR ''_'' (p @ ''_'' @ body) = int (length p)"
  by (induction p) (auto simp: index_byte_def)

lemma Parse_minted:
  assumes p: "p \<in> set prefixes" and raw: "length raw = 16"
  shows "Parse (p @ ''_'' @ encode raw) = Inr (p @ ''_'' @ encode raw)"
    and "ID_Prefix (p @ ''_'' @ encode raw) = p"
    and "TimeOf (p @ ''_'' @ encode raw) = Some (word_of_int (bytes_value (take 6 raw)))"
proof -
  note px = prefixes_ok [OF p]
  have i: "index_byte CHR ''_'' (p @ ''_'' @ encode raw) = int (length p)"
    using px by (intro index_minted) simp
  have valid: "decodeTable (encode raw ! j) \<noteq> 0xFF" if "j < 26" for j
    using that raw_digits_digits [of raw] length_raw_digits [of raw]
    by (simp add: encode_digits list_all_length decode_valid)
  have "digit32 (uint (raw ! 0) div 32)" "uint (raw ! 0) div 32 < 8"
    using byte_range [of "raw ! 0"] by (simp_all add: digit32_def pos_imp_zdiv_nonneg_iff)
  moreover have "encode raw ! 0 = chr32 (uint (raw ! 0) div 32)"
    by (simp add: encode_digits raw_digits_def Let_def)
  ultimately have top: "\<not> decodeTable (encode raw ! 0) > 7"
    by (simp add: decode_chr32 word_less_def uint_digit)
  show "Parse (p @ ''_'' @ encode raw) = Inr (p @ ''_'' @ encode raw)"
    using px p top valid unfolding Parse_def Let_def i by (auto simp: encodedLen_def)
  show "ID_Prefix (p @ ''_'' @ encode raw) = p"
    using px unfolding ID_Prefix_def Let_def i by simp
  have "list_all digit32 (take 10 (raw_digits raw))"
    using raw_digits_digits [of raw] by (auto simp: list_all_iff dest: in_set_takeD)
  then show "TimeOf (p @ ''_'' @ encode raw) = Some (word_of_int (bytes_value (take 6 raw)))"
    using px time_symbols_value [of "take 10 (raw_digits raw)" 0] raw_digits_values(1) [OF raw]
    unfolding TimeOf_def Let_def i by (simp add: encodedLen_def encode_digits take_map length_raw_digits)
qed

lemma decode_some:
  "decodeTable CHR ''0'' = 0" "decodeTable CHR ''1'' = 1" "decodeTable CHR ''2'' = 2"
  "decodeTable CHR ''3'' = 3" "decodeTable CHR ''4'' = 4" "decodeTable CHR ''5'' = 5"
  "decodeTable CHR ''6'' = 6" "decodeTable CHR ''7'' = 7" "decodeTable CHR ''8'' = 8"
  "decodeTable CHR ''9'' = 9" "decodeTable CHR ''J'' = 18" "decodeTable CHR ''B'' = 11"
  "decodeTable CHR ''C'' = 12" "decodeTable CHR ''Z'' = 31" "decodeTable CHR ''K'' = 19"
  "decodeTable CHR ''Q'' = 23" "decodeTable CHR ''W'' = 28" "decodeTable CHR ''E'' = 14"
  "decodeTable CHR ''R'' = 24" "decodeTable CHR ''T'' = 26" "decodeTable CHR ''Y'' = 30"
  "decodeTable CHR ''V'' = 27" "decodeTable CHR ''A'' = 10" "decodeTable CHR ''j'' = 18"
  "decodeTable CHR ''b'' = 11" "decodeTable CHR ''z'' = 31" "decodeTable CHR ''k'' = 19"
  "decodeTable CHR ''q'' = 23" "decodeTable CHR ''w'' = 28" "decodeTable CHR ''e'' = 14"
  "decodeTable CHR ''r'' = 24" "decodeTable CHR ''t'' = 26" "decodeTable CHR ''y'' = 30"
  "decodeTable CHR ''v'' = 27" "decodeTable CHR ''a'' = 10" "decodeTable CHR ''U'' = 0xFF"
proof -
  have "map decodeTable ''0123456789JBCZKQWERTYVAjbzkqwertyvaU'' = [0, 1, 2, 3, 4, 5, 6, 7, 8, 9, 18, 11, 12, 31, 19, 23, 28, 14, 24, 26, 30, 27, 10, 18, 11, 31, 19, 23, 28, 14, 24, 26, 30, 27, 10, 0xFF]"
    by code_simp
  then show
  "decodeTable CHR ''0'' = 0" "decodeTable CHR ''1'' = 1" "decodeTable CHR ''2'' = 2"
  "decodeTable CHR ''3'' = 3" "decodeTable CHR ''4'' = 4" "decodeTable CHR ''5'' = 5"
  "decodeTable CHR ''6'' = 6" "decodeTable CHR ''7'' = 7" "decodeTable CHR ''8'' = 8"
  "decodeTable CHR ''9'' = 9" "decodeTable CHR ''J'' = 18" "decodeTable CHR ''B'' = 11"
  "decodeTable CHR ''C'' = 12" "decodeTable CHR ''Z'' = 31" "decodeTable CHR ''K'' = 19"
  "decodeTable CHR ''Q'' = 23" "decodeTable CHR ''W'' = 28" "decodeTable CHR ''E'' = 14"
  "decodeTable CHR ''R'' = 24" "decodeTable CHR ''T'' = 26" "decodeTable CHR ''Y'' = 30"
  "decodeTable CHR ''V'' = 27" "decodeTable CHR ''A'' = 10" "decodeTable CHR ''j'' = 18"
  "decodeTable CHR ''b'' = 11" "decodeTable CHR ''z'' = 31" "decodeTable CHR ''k'' = 19"
  "decodeTable CHR ''q'' = 23" "decodeTable CHR ''w'' = 28" "decodeTable CHR ''e'' = 14"
  "decodeTable CHR ''r'' = 24" "decodeTable CHR ''t'' = 26" "decodeTable CHR ''y'' = 30"
  "decodeTable CHR ''v'' = 27" "decodeTable CHR ''a'' = 10" "decodeTable CHR ''U'' = 0xFF"
    by simp_all
qed

section \<open>Properties\<close>

text \<open>
  C33: identifiers minted one after another under one prefix are strictly increasing as strings,
  hence pairwise distinct, as long as the clock does not run backwards and the 80 bits of entropy
  of a millisecond are not exhausted: lexicographic order is minting order.
\<close>

theorem minted_ids_strictly_increase:
  assumes "p \<in> set prefixes" and "gen_ok g" and "requests_ok p g rs"
  shows "\<exists>is. mint p g rs = Some is \<and> length is = length rs \<and> sorted_wrt (<) is \<and> distinct is"
proof -
  obtain "is" vs where m: "mint p g rs = Some is" and l: "list_all2 (minted p) vs is"
    and s: "sorted_wrt (<) (last_value g # vs)"
    using mint_increasing [OF assms] by blast
  have "sorted_wrt (<) is"
    unfolding sorted_wrt_iff_nth_less
  proof (intro allI impI)
    fix i j
    assume ij: "i < j" "j < length is"
    then have "minted p (vs ! i) (is ! i)" "minted p (vs ! j) (is ! j)" "vs ! i < vs ! j"
      using l s by (auto simp: list_all2_conv_all_nth sorted_wrt_nth_less)
    then show "is ! i < is ! j" by (simp add: minted_order)
  qed
  moreover have "length is = length rs"
    using m by (induction p g rs arbitrary: "is" rule: mint.induct) (auto split: option.splits prod.splits)
  ultimately show ?thesis using m strict_sorted_iff by blast
qed

theorem minted_ids_strictly_increase_witness:
  "\<exists>is. mint ''pay'' defaultGenerator
      [(1700000000000, replicate 10 7), (1700000000000, replicate 10 7), (1700000000001, replicate 10 0)] = Some is
    \<and> sorted_wrt (<) is \<and> distinct is"
proof -
  have r: "requests_ok ''pay'' defaultGenerator
      [(1700000000000, replicate 10 7), (1700000000000, replicate 10 7), (1700000000001, replicate 10 0)]"
    by code_simp
  have "''pay'' \<in> set prefixes" "gen_ok defaultGenerator" by code_simp+
  from minted_ids_strictly_increase [OF this r] show ?thesis by blast
qed

text \<open>
  An identifier the generator returns is accepted by the parser, under its own prefix and no
  other, and the creation time recovered from it is the millisecond it was stamped with.
\<close>

theorem minted_id_roundtrip:
  assumes "p \<in> set prefixes" and "gen_ok g" and "request_ok g t rnd"
  shows "\<exists>g' i. NewAt g p t rnd = Some (g', i) \<and> ParseAs i p = Inr i \<and> TimeOf i = Some t
    \<and> (\<forall>q. q \<noteq> p \<longrightarrow> ParseAs i q = Inl ErrPrefixMismatch)"
proof -
  obtain entropy g' where s: "NewAt g p t rnd = Some (g', p @ ''_'' @ encode (ms_bytes t @ entropy))"
    "length entropy = 10"
    using NewAt_step [OF assms] by auto
  have t: "uint t < 2 ^ 48" using assms by (simp add: request_ok_def)
  have "word_of_int (bytes_value (ms_bytes t)) = t" using t by (simp add: ms_bytes_value)
  then show ?thesis
    using s Parse_minted [OF assms(1), of "ms_bytes t @ entropy"] by (auto simp: ParseAs_def)
qed

theorem minted_id_roundtrip_witness:
  "\<exists>g' i. NewAt defaultGenerator ''ref'' 1700000000000 (replicate 10 255) = Some (g', i)
     \<and> ParseAs i ''ref'' = Inr i \<and> TimeOf i = Some 1700000000000"
proof -
  have "''ref'' \<in> set prefixes" "gen_ok defaultGenerator"
    "request_ok defaultGenerator 1700000000000 (replicate 10 255)" by code_simp+
  from minted_id_roundtrip [OF this] show ?thesis by blast
qed

text \<open>
  The parser keeps the letter case of what it accepts, and the string order the package
  compares identifiers by is then not chronological: here a payment identifier typed in lower case
  compares as later than one minted after it. The identifier shown at the top of the package is
  refused, since its alphabet excludes the letter U.
\<close>

theorem lowercase_ids_break_the_order:
  "Parse ''pay_01jb8z9k2qw3e4r5t6y7v8a9b0'' = Inr ''pay_01jb8z9k2qw3e4r5t6y7v8a9b0''
   \<and> Parse ''pay_01JC8Z9K2QW3E4R5T6Y7V8A9B0'' = Inr ''pay_01JC8Z9K2QW3E4R5T6Y7V8A9B0''
   \<and> the (TimeOf ''pay_01jb8z9k2qw3e4r5t6y7v8a9b0'') < the (TimeOf ''pay_01JC8Z9K2QW3E4R5T6Y7V8A9B0'')
   \<and> Compare ''pay_01jb8z9k2qw3e4r5t6y7v8a9b0'' ''pay_01JC8Z9K2QW3E4R5T6Y7V8A9B0'' = 1
   \<and> Parse ''pay_01JB8Z9K2QW3E4R5T6Y7U8I9O0'' = Inl ErrBadEncoding"
  by (simp add: Parse_def TimeOf_def Compare_def index_byte_def encodedLen_def prefixes_def decode_some
      push_bit_eq_mult upt_rec less_char_def)

end
