(* ===== verification/Shared_Kernel.thy ===== *)
theory Shared_Kernel
  imports Api_Error Money Ids
begin

text \<open>
  The shared kernel of the domain layer, \<open>src/internal/domain/shared/types.go\<close> and
  \<open>primitives.go\<close>: identifiers and their parsers, gateway slugs, environments, versions, tiers,
  countries, merchant category codes, payment methods and gateway operations.

  From here on an operation that fails returns the published code of its error: of the error value
  that \<open>New\<close> or \<open>Wrap\<close> builds, the code determines category, retryability and transport status; the
  formatted message and the field details are left out. An instant is an \<open>int\<close> number of nanoseconds
  since the epoch, a duration an \<open>int\<close> in the range of \<open>int64\<close>, and \<open>clock.Now()\<close> an argument \<open>now\<close>.
\<close>

type_synonym 'a outcome = "(Code, 'a) result"
type_synonym time = int
type_synonym duration = int
type_synonym version = int64

text \<open>The zero \<open>time.Time\<close>, the first instant of year 1.\<close>

definition zero_time :: time where "zero_time = - 62135596800000000000"

text \<open>\<open>Time.Sub\<close> saturates at the range of a duration.\<close>

definition time_Sub :: "time \<Rightarrow> time \<Rightarrow> duration" where
  "time_Sub a b = max (- (2 ^ 63)) (min (2 ^ 63 - 1) (a - b))"

section \<open>Identifiers\<close>

definition wrapIDErr :: "(id_error, ID) result \<Rightarrow> ID outcome" where
  "wrapIDErr r = (case r of Inl _ \<Rightarrow> Inl CodeValidationFailed | Inr i \<Rightarrow> Inr i)"

definition ParseTenantID :: "string \<Rightarrow> ID outcome" where
  "ParseTenantID s = wrapIDErr (ParseAs s ''ten'')"

definition ParseMerchantID :: "string \<Rightarrow> ID outcome" where
  "ParseMerchantID s = wrapIDErr (ParseAs s ''mrc'')"

definition ParsePaymentID :: "string \<Rightarrow> ID outcome" where
  "ParsePaymentID s = wrapIDErr (ParseAs s ''pay'')"

definition ParseAttemptID :: "string \<Rightarrow> ID outcome" where
  "ParseAttemptID s = wrapIDErr (ParseAs s ''att'')"

definition ParseRefundID :: "string \<Rightarrow> ID outcome" where
  "ParseRefundID s = wrapIDErr (ParseAs s ''ref'')"

definition ParseWorkflowID :: "string \<Rightarrow> ID outcome" where
  "ParseWorkflowID s = wrapIDErr (ParseAs s ''wfr'')"

definition maxGatewaySlug :: nat where "maxGatewaySlug = 32"

definition slug_char :: "char \<Rightarrow> bool" where
  "slug_char c \<longleftrightarrow> (CHR ''a'' \<le> c \<and> c \<le> CHR ''z'') \<or> (CHR ''0'' \<le> c \<and> c \<le> CHR ''9'') \<or> c = CHR ''-''"

definition ParseGatewayID :: "string \<Rightarrow> string outcome" where
  "ParseGatewayID s0 =
     (let s = trim_space (to_lower s0)
      in if s = [] \<or> length s > maxGatewaySlug then Inl CodeValidationFailed
         else if hd s < CHR ''a'' \<or> hd s > CHR ''z'' then Inl CodeValidationFailed
         else if \<exists>c \<in> set s. \<not> slug_char c then Inl CodeValidationFailed
         else Inr s)"

section \<open>Environment, version and tier\<close>

definition EnvironmentSandbox :: string where "EnvironmentSandbox = ''sandbox''"
definition EnvironmentProduction :: string where "EnvironmentProduction = ''production''"

definition Environment_IsValid :: "string \<Rightarrow> bool" where
  "Environment_IsValid e \<longleftrightarrow> e = EnvironmentSandbox \<or> e = EnvironmentProduction"

definition Environment_IsProduction :: "string \<Rightarrow> bool" where
  "Environment_IsProduction e \<longleftrightarrow> e = EnvironmentProduction"

definition ParseEnvironment :: "string \<Rightarrow> string outcome" where
  "ParseEnvironment s =
     (let e = to_lower (trim_space s)
      in if \<not> Environment_IsValid e then Inl CodeValidationFailed else Inr e)"

definition Version_Next :: "version \<Rightarrow> version" where
  "Version_Next v = v + 1"

definition TierPooled :: string where "TierPooled = ''POOLED''"
definition TierSiloed :: string where "TierSiloed = ''SILOED''"

definition TenantTier_IsValid :: "string \<Rightarrow> bool" where
  "TenantTier_IsValid t \<longleftrightarrow> t = TierPooled \<or> t = TierSiloed"

section \<open>Countries and merchant categories\<close>

definition countries :: "string list" where
  "countries = str_fields (
     ''AD AE AF AG AI AL AM AO AQ AR AS AT AU AW AX AZ BA BB BD BE BF BG BH BI BJ BL BM BN BO BQ BR BS BT BV BW BY BZ '' @
     ''CA CC CD CF CG CH CI CK CL CM CN CO CR CU CV CW CX CY CZ DE DJ DK DM DO DZ EC EE EG EH ER ES ET FI FJ FK FM FO FR '' @
     ''GA GB GD GE GF GG GH GI GL GM GN GP GQ GR GS GT GU GW GY HK HM HN HR HT HU ID IE IL IM IN IO IQ IR IS IT JE JM JO JP '' @
     ''KE KG KH KI KM KN KP KR KW KY KZ LA LB LC LI LK LR LS LT LU LV LY MA MC MD ME MF MG MH MK ML MM MN MO MP MQ MR MS MT '' @
     ''MU MV MW MX MY MZ NA NC NE NF NG NI NL NO NP NR NU NZ OM PA PE PF PG PH PK PL PM PN PR PS PT PW PY QA RE RO RS RU RW '' @
     ''SA SB SC SD SE SG SH SI SJ SK SL SM SN SO SR SS ST SV SX SY SZ TC TD TF TG TH TJ TK TL TM TN TO TR TT TV TW TZ UA UG '' @
     ''UM US UY UZ VA VC VE VG VI VN VU WF WS YE YT ZA ZM ZW'')"

definition ParseCountry :: "string \<Rightarrow> string outcome" where
  "ParseCountry s =
     (let c = to_upper (trim_space s)
      in if c \<notin> set countries then Inl CodeValidationFailed else Inr c)"

definition Country_IsValid :: "string \<Rightarrow> bool" where
  "Country_IsValid c \<longleftrightarrow> c \<in> set countries"

definition eeaCountries :: "string list" where
  "eeaCountries = str_fields
     ''AT BE BG HR CY CZ DK EE FI FR DE GR HU IS IE IT LV LI LT LU MT NL NO PL PT RO SK SI ES SE GB''"

definition Country_IsSCAJurisdiction :: "string \<Rightarrow> bool" where
  "Country_IsSCAJurisdiction c \<longleftrightarrow> c \<in> set eeaCountries"

definition ParseMCC :: "string \<Rightarrow> string outcome" where
  "ParseMCC s0 =
     (let s = trim_space s0
      in if length s \<noteq> 4 then Inl CodeValidationFailed
         else if \<exists>c \<in> set s. c < CHR ''0'' \<or> c > CHR ''9'' then Inl CodeValidationFailed
         else Inr s)"

definition prohibitedMCCs :: "(string \<times> string) list" where
  "prohibitedMCCs =
    [(''5967'', ''inbound teleservices / adult''),
     (''7273'', ''dating and escort services''),
     (''7995'', ''gambling and betting transactions''),
     (''6051'', ''quasi-cash and cryptocurrency''),
     (''5122'', ''drugs and pharmaceutical proprietaries''),
     (''5912'', ''drug stores and pharmacies requiring specific licensing''),
     (''5993'', ''cigar stores and stands''),
     (''7994'', ''video game arcades and gambling-adjacent establishments'')]"

definition MCC_IsProhibited :: "string \<Rightarrow> bool \<times> string" where
  "MCC_IsProhibited m = (case map_of prohibitedMCCs m of None \<Rightarrow> (False, []) | Some reason \<Rightarrow> (True, reason))"

section \<open>Payment methods\<close>

type_synonym PaymentMethod = string

definition MethodCard :: PaymentMethod where "MethodCard = ''CARD''"
definition MethodApplePay :: PaymentMethod where "MethodApplePay = ''APPLE_PAY''"
definition MethodGooglePay :: PaymentMethod where "MethodGooglePay = ''GOOGLE_PAY''"
definition MethodPayPal :: PaymentMethod where "MethodPayPal = ''PAYPAL''"
definition MethodSEPADebit :: PaymentMethod where "MethodSEPADebit = ''SEPA_DEBIT''"
definition MethodACHDebit :: PaymentMethod where "MethodACHDebit = ''ACH_DEBIT''"
definition MethodIdeal :: PaymentMethod where "MethodIdeal = ''IDEAL''"
definition MethodSofort :: PaymentMethod where "MethodSofort = ''SOFORT''"
definition MethodBancontact :: PaymentMethod where "MethodBancontact = ''BANCONTACT''"
definition MethodUPI :: PaymentMethod where "MethodUPI = ''UPI''"
definition MethodBLIK :: PaymentMethod where "MethodBLIK = ''BLIK''"

record methodTraits =
  mt_separateCapture :: bool
  mt_async :: bool
  mt_sca :: bool
  mt_refundable :: bool

definition paymentMethods :: "(PaymentMethod \<times> methodTraits) list" where
  "paymentMethods =
    [(MethodCard, \<lparr>mt_separateCapture = True, mt_async = False, mt_sca = True, mt_refundable = True\<rparr>),
     (MethodApplePay, \<lparr>mt_separateCapture = True, mt_async = False, mt_sca = True, mt_refundable = True\<rparr>),
     (MethodGooglePay, \<lparr>mt_separateCapture = True, mt_async = False, mt_sca = True, mt_refundable = True\<rparr>),
     (MethodPayPal, \<lparr>mt_separateCapture = True, mt_async = False, mt_sca = False, mt_refundable = True\<rparr>),
     (MethodSEPADebit, \<lparr>mt_separateCapture = False, mt_async = True, mt_sca = False, mt_refundable = True\<rparr>),
     (MethodACHDebit, \<lparr>mt_separateCapture = False, mt_async = True, mt_sca = False, mt_refundable = True\<rparr>),
     (MethodIdeal, \<lparr>mt_separateCapture = False, mt_async = False, mt_sca = False, mt_refundable = True\<rparr>),
     (MethodSofort, \<lparr>mt_separateCapture = False, mt_async = True, mt_sca = False, mt_refundable = True\<rparr>),
     (MethodBancontact, \<lparr>mt_separateCapture = False, mt_async = False, mt_sca = False, mt_refundable = True\<rparr>),
     (MethodUPI, \<lparr>mt_separateCapture = False, mt_async = False, mt_sca = False, mt_refundable = True\<rparr>),
     (MethodBLIK, \<lparr>mt_separateCapture = False, mt_async = False, mt_sca = False, mt_refundable = True\<rparr>)]"

text \<open>Indexing the map by an unknown method gives the zero traits.\<close>

definition traits_of :: "PaymentMethod \<Rightarrow> methodTraits" where
  "traits_of m = (case map_of paymentMethods m of
      Some t \<Rightarrow> t
    | None \<Rightarrow> \<lparr>mt_separateCapture = False, mt_async = False, mt_sca = False, mt_refundable = False\<rparr>)"

definition PaymentMethod_IsValid :: "PaymentMethod \<Rightarrow> bool" where
  "PaymentMethod_IsValid m \<longleftrightarrow> map_of paymentMethods m \<noteq> None"

definition ParsePaymentMethod :: "string \<Rightarrow> PaymentMethod outcome" where
  "ParsePaymentMethod s =
     (let m = to_upper (trim_space s)
      in if \<not> PaymentMethod_IsValid m then Inl CodeValidationFailed else Inr m)"

definition SupportsSeparateCapture :: "PaymentMethod \<Rightarrow> bool" where
  "SupportsSeparateCapture m = mt_separateCapture (traits_of m)"

definition IsAsynchronous :: "PaymentMethod \<Rightarrow> bool" where
  "IsAsynchronous m = mt_async (traits_of m)"

definition RequiresSCAConsideration :: "PaymentMethod \<Rightarrow> bool" where
  "RequiresSCAConsideration m = mt_sca (traits_of m)"

definition IsRefundable :: "PaymentMethod \<Rightarrow> bool" where
  "IsRefundable m = mt_refundable (traits_of m)"

definition AllPaymentMethods :: "PaymentMethod list \<Rightarrow> PaymentMethod list" where
  "AllPaymentMethods order = insertion_sort order"

section \<open>Gateway operations\<close>

datatype Operation = OpAuthorize | OpCapture | OpRefund | OpVoid | OpLookup | OpProvision | OpWebhook

primrec Operation_str :: "Operation \<Rightarrow> string" where
  "Operation_str OpAuthorize = ''authorize''"
| "Operation_str OpCapture = ''capture''"
| "Operation_str OpRefund = ''refund''"
| "Operation_str OpVoid = ''void''"
| "Operation_str OpLookup = ''lookup''"
| "Operation_str OpProvision = ''provision''"
| "Operation_str OpWebhook = ''webhook_register''"

primrec IsMoneyMoving :: "Operation \<Rightarrow> bool" where
  "IsMoneyMoving OpAuthorize = True"
| "IsMoneyMoving OpCapture = True"
| "IsMoneyMoving OpRefund = True"
| "IsMoneyMoving OpVoid = True"
| "IsMoneyMoving OpLookup = False"
| "IsMoneyMoving OpProvision = False"
| "IsMoneyMoving OpWebhook = False"

section \<open>Properties\<close>

lemma slug_char_stable:
  assumes "slug_char c"
  shows "\<not> is_space c" and "lower_char c = c"
  using assms by (auto simp: slug_char_def is_space_def lower_char_def less_eq_char_def Let_def)

text \<open>
  C36: a gateway identifier the parser returns is a slug, one to 32 lower-case letters, digits and
  hyphens starting with a letter, and parsing it again returns it unchanged: the value is safe to
  interpolate into metric labels, cache keys and secret paths.
\<close>

theorem ParseGatewayID_canonical:
  assumes "ParseGatewayID s = Inr g"
  shows "0 < length g \<and> length g \<le> 32 \<and> CHR ''a'' \<le> hd g \<and> hd g \<le> CHR ''z''
    \<and> (\<forall>c \<in> set g. slug_char c) \<and> ParseGatewayID g = Inr g"
proof -
  have g: "g = trim_space (to_lower s)" "g \<noteq> []" "length g \<le> 32" "\<not> hd g < CHR ''a''" "\<not> hd g > CHR ''z''"
    and slug: "\<forall>c \<in> set g. slug_char c"
    using assms by (auto simp: ParseGatewayID_def Let_def maxGatewaySlug_def split: if_splits)
  have "to_lower g = g"
    unfolding to_lower_def by (rule map_idI) (use slug slug_char_stable in blast)
  moreover have "trim_space g = g" using slug slug_char_stable by (intro trim_space_id) blast
  ultimately have "ParseGatewayID g = Inr g"
    using g slug by (auto simp: ParseGatewayID_def Let_def maxGatewaySlug_def)
  then show ?thesis using g slug by (simp add: not_less)
qed

theorem ParseGatewayID_canonical_witness:
  "ParseGatewayID '' Stripe-EU '' = Inr ''stripe-eu'' \<and> ParseGatewayID ''stripe-eu'' = Inr ''stripe-eu''"
  using ParseGatewayID_canonical [of "'' Stripe-EU ''" "''stripe-eu''"] by code_simp

end
