(* ===== verification/Payment_State.thy ===== *)
theory Payment_State
  imports Fsm Shared_Kernel
begin

text \<open>
  The states, attempt outcomes, refund statuses and decline reasons of
  \<open>src/internal/domain/payment/state.go\<close> and \<open>refund.go\<close>, with the three transition tables and the
  predicates on them. States are datatypes; \<open>State_str\<close> and its siblings give the persisted strings,
  by which the types are ordered as Go orders them. Each table interprets the \<open>lifecycle\<close> contract.
\<close>

section \<open>Payment states\<close>

datatype State =
    StateCreated | StateRequiresAction | StateProcessing | StatePending | StateAuthorized |
    StateCaptured | StateSettled | StatePartiallyRefunded | StateRefunded | StateVoided |
    StateFailed | StateCanceled | StateExpired | StateDisputed

primrec State_str :: "State \<Rightarrow> string" where
  "State_str StateCreated = ''CREATED''"
| "State_str StateRequiresAction = ''REQUIRES_ACTION''"
| "State_str StateProcessing = ''PROCESSING''"
| "State_str StatePending = ''PENDING''"
| "State_str StateAuthorized = ''AUTHORIZED''"
| "State_str StateCaptured = ''CAPTURED''"
| "State_str StateSettled = ''SETTLED''"
| "State_str StatePartiallyRefunded = ''PARTIALLY_REFUNDED''"
| "State_str StateRefunded = ''REFUNDED''"
| "State_str StateVoided = ''VOIDED''"
| "State_str StateFailed = ''FAILED''"
| "State_str StateCanceled = ''CANCELED''"
| "State_str StateExpired = ''EXPIRED''"
| "State_str StateDisputed = ''DISPUTED''"

lemma State_str_inj: "State_str a = State_str b \<longleftrightarrow> a = b"
  by (cases a; cases b) simp_all

instantiation State :: linorder
begin

definition less_eq_State :: "State \<Rightarrow> State \<Rightarrow> bool" where
  "less_eq_State a b \<longleftrightarrow> State_str a \<le> State_str b"

definition less_State :: "State \<Rightarrow> State \<Rightarrow> bool" where
  "less_State a b \<longleftrightarrow> State_str a < State_str b"

instance
  by standard (auto simp: less_eq_State_def less_State_def State_str_inj less_le)

end

definition AllStates :: "State list" where
  "AllStates =
    [StateCreated, StateRequiresAction, StateProcessing, StatePending, StateAuthorized,
     StateCaptured, StateSettled, StatePartiallyRefunded, StateRefunded, StateVoided,
     StateFailed, StateCanceled, StateExpired, StateDisputed]"

definition terminalStates :: "State list" where
  "terminalStates = [StateFailed, StateCanceled, StateVoided, StateExpired]"

definition machine_edges :: "(State \<times> State) list" where
  "machine_edges =
    [(StateCreated, StateProcessing), (StateCreated, StateRequiresAction),
     (StateCreated, StateFailed), (StateCreated, StateCanceled),
     (StateRequiresAction, StateProcessing), (StateRequiresAction, StateFailed),
     (StateRequiresAction, StateCanceled), (StateRequiresAction, StateExpired),
     (StateProcessing, StateAuthorized), (StateProcessing, StateCaptured),
     (StateProcessing, StatePending), (StateProcessing, StateFailed),
     (StateProcessing, StateRequiresAction), (StatePending, StateAuthorized),
     (StatePending, StateCaptured), (StatePending, StateFailed),
     (StatePending, StateExpired), (StateAuthorized, StateCaptured),
     (StateAuthorized, StateVoided), (StateAuthorized, StateExpired),
     (StateAuthorized, StateFailed), (StateCaptured, StateSettled),
     (StateCaptured, StatePartiallyRefunded), (StateCaptured, StateRefunded),
     (StateCaptured, StateDisputed), (StateSettled, StatePartiallyRefunded),
     (StateSettled, StateRefunded), (StateSettled, StateDisputed),
     (StatePartiallyRefunded, StatePartiallyRefunded), (StatePartiallyRefunded, StateRefunded),
     (StatePartiallyRefunded, StateDisputed), (StateRefunded, StateDisputed),
     (StateDisputed, StateRefunded), (StateDisputed, StateCaptured),
     (StateDisputed, StateSettled)]"

definition machine :: "State state_machine" where
  "machine = projr (NewStateMachine ''payment'' StateCreated AllStates terminalStates machine_edges)"

definition State_IsTerminal :: "State \<Rightarrow> bool" where
  "State_IsTerminal s = IsTerminal machine s"

definition State_IsKnown :: "State \<Rightarrow> bool" where
  "State_IsKnown s = IsKnown machine s"

definition State_IsSuccessful :: "State \<Rightarrow> bool" where
  "State_IsSuccessful s \<longleftrightarrow> s \<in> {StateAuthorized, StateCaptured, StateSettled, StatePartiallyRefunded}"

definition State_IsInFlight :: "State \<Rightarrow> bool" where
  "State_IsInFlight s \<longleftrightarrow> s = StateProcessing \<or> s = StatePending \<or> s = StateRequiresAction"

definition State_AllowsRefund :: "State \<Rightarrow> bool" where
  "State_AllowsRefund s \<longleftrightarrow> s \<in> {StateCaptured, StateSettled, StatePartiallyRefunded}"

text \<open>Reading a persisted state; a string outside the set has no \<open>State\<close>.\<close>

definition State_of :: "string \<Rightarrow> State option" where
  "State_of s = find (\<lambda>st. State_str st = s) AllStates"

section \<open>Attempt outcomes\<close>

datatype AttemptOutcome =
    OutcomePending | OutcomeDispatched | OutcomeSuccess | OutcomeDeclined | OutcomeError |
    OutcomeTimeoutUnknown

primrec Outcome_str :: "AttemptOutcome \<Rightarrow> string" where
  "Outcome_str OutcomePending = ''PENDING''"
| "Outcome_str OutcomeDispatched = ''DISPATCHED''"
| "Outcome_str OutcomeSuccess = ''SUCCESS''"
| "Outcome_str OutcomeDeclined = ''DECLINED''"
| "Outcome_str OutcomeError = ''ERROR''"
| "Outcome_str OutcomeTimeoutUnknown = ''TIMEOUT_UNKNOWN''"

lemma Outcome_str_inj: "Outcome_str a = Outcome_str b \<longleftrightarrow> a = b"
  by (cases a; cases b) simp_all

instantiation AttemptOutcome :: linorder
begin

definition less_eq_AttemptOutcome :: "AttemptOutcome \<Rightarrow> AttemptOutcome \<Rightarrow> bool" where
  "less_eq_AttemptOutcome a b \<longleftrightarrow> Outcome_str a \<le> Outcome_str b"

definition less_AttemptOutcome :: "AttemptOutcome \<Rightarrow> AttemptOutcome \<Rightarrow> bool" where
  "less_AttemptOutcome a b \<longleftrightarrow> Outcome_str a < Outcome_str b"

instance
  by standard (auto simp: less_eq_AttemptOutcome_def less_AttemptOutcome_def Outcome_str_inj less_le)

end

definition AllAttemptOutcomes :: "AttemptOutcome list" where
  "AllAttemptOutcomes = [OutcomePending, OutcomeDispatched, OutcomeSuccess,
     OutcomeDeclined, OutcomeError, OutcomeTimeoutUnknown]"

definition terminalOutcomes :: "AttemptOutcome list" where
  "terminalOutcomes = [OutcomeSuccess, OutcomeDeclined, OutcomeError]"

definition attempt_edges :: "(AttemptOutcome \<times> AttemptOutcome) list" where
  "attempt_edges =
    [(OutcomePending, OutcomeDispatched), (OutcomePending, OutcomeError),
     (OutcomeDispatched, OutcomeSuccess), (OutcomeDispatched, OutcomeDeclined),
     (OutcomeDispatched, OutcomeError), (OutcomeDispatched, OutcomeTimeoutUnknown),
     (OutcomeTimeoutUnknown, OutcomeSuccess), (OutcomeTimeoutUnknown, OutcomeDeclined),
     (OutcomeTimeoutUnknown, OutcomeError)]"

definition attemptMachine :: "AttemptOutcome state_machine" where
  "attemptMachine = projr (NewStateMachine ''payment_attempt'' OutcomePending AllAttemptOutcomes
     terminalOutcomes attempt_edges)"

definition Outcome_IsTerminal :: "AttemptOutcome \<Rightarrow> bool" where
  "Outcome_IsTerminal o1 = IsTerminal attemptMachine o1"

definition Outcome_PermitsFailover :: "AttemptOutcome \<Rightarrow> bool" where
  "Outcome_PermitsFailover o1 \<longleftrightarrow> o1 = OutcomeError"

definition RequiresReconciliation :: "AttemptOutcome \<Rightarrow> bool" where
  "RequiresReconciliation o1 \<longleftrightarrow> o1 = OutcomeTimeoutUnknown"

definition Outcome_of :: "string \<Rightarrow> AttemptOutcome option" where
  "Outcome_of s = find (\<lambda>x. Outcome_str x = s) AllAttemptOutcomes"

section \<open>Refund statuses\<close>

datatype RefundStatus =
    RefundPending | RefundSubmitted | RefundSucceeded | RefundFailed | RefundCanceled

primrec RefundStatus_str :: "RefundStatus \<Rightarrow> string" where
  "RefundStatus_str RefundPending = ''PENDING''"
| "RefundStatus_str RefundSubmitted = ''SUBMITTED''"
| "RefundStatus_str RefundSucceeded = ''SUCCEEDED''"
| "RefundStatus_str RefundFailed = ''FAILED''"
| "RefundStatus_str RefundCanceled = ''CANCELED''"

lemma RefundStatus_str_inj: "RefundStatus_str a = RefundStatus_str b \<longleftrightarrow> a = b"
  by (cases a; cases b) simp_all

instantiation RefundStatus :: linorder
begin

definition less_eq_RefundStatus :: "RefundStatus \<Rightarrow> RefundStatus \<Rightarrow> bool" where
  "less_eq_RefundStatus a b \<longleftrightarrow> RefundStatus_str a \<le> RefundStatus_str b"

definition less_RefundStatus :: "RefundStatus \<Rightarrow> RefundStatus \<Rightarrow> bool" where
  "less_RefundStatus a b \<longleftrightarrow> RefundStatus_str a < RefundStatus_str b"

instance
  by standard (auto simp: less_eq_RefundStatus_def less_RefundStatus_def RefundStatus_str_inj less_le)

end

definition AllRefundStatuses :: "RefundStatus list" where
  "AllRefundStatuses = [RefundPending, RefundSubmitted, RefundSucceeded, RefundFailed, RefundCanceled]"

definition terminalRefunds :: "RefundStatus list" where
  "terminalRefunds = [RefundSucceeded, RefundFailed, RefundCanceled]"

definition refund_edges :: "(RefundStatus \<times> RefundStatus) list" where
  "refund_edges =
    [(RefundPending, RefundSubmitted), (RefundPending, RefundCanceled),
     (RefundPending, RefundFailed), (RefundSubmitted, RefundSucceeded),
     (RefundSubmitted, RefundFailed)]"

definition refundMachine :: "RefundStatus state_machine" where
  "refundMachine = projr (NewStateMachine ''refund'' RefundPending AllRefundStatuses
     terminalRefunds refund_edges)"

definition RefundStatus_IsTerminal :: "RefundStatus \<Rightarrow> bool" where
  "RefundStatus_IsTerminal s = IsTerminal refundMachine s"

definition RefundStatus_of :: "string \<Rightarrow> RefundStatus option" where
  "RefundStatus_of s = find (\<lambda>x. RefundStatus_str x = s) AllRefundStatuses"

section \<open>Decline reasons and capture methods\<close>

text \<open>\<open>DeclineUnset\<close> is the empty string, \<open>DeclineOther\<close> a reason outside the published set.\<close>

datatype DeclineReason =
    DeclineIssuerUnavailable | DeclineTryAgainLater | DeclineProcessingError |
    DeclineDoNotHonorSoft | DeclineInsufficientFunds | DeclineCardExpired |
    DeclineIncorrectNumber | DeclineIncorrectCVC | DeclineStolenCard | DeclineLostCard |
    DeclineFraudulent | DeclineRestrictedCard | DeclineInvalidAccount |
    DeclineCurrencyNotSupp | DeclineAuthRequired | DeclineBlockedByRisk | DeclineUnknown
  | DeclineUnset | DeclineOther string

primrec DeclineReason_str :: "DeclineReason \<Rightarrow> string" where
  "DeclineReason_str DeclineIssuerUnavailable = ''ISSUER_UNAVAILABLE''"
| "DeclineReason_str DeclineTryAgainLater = ''TRY_AGAIN_LATER''"
| "DeclineReason_str DeclineProcessingError = ''PROCESSING_ERROR''"
| "DeclineReason_str DeclineDoNotHonorSoft = ''DO_NOT_HONOR''"
| "DeclineReason_str DeclineInsufficientFunds = ''INSUFFICIENT_FUNDS''"
| "DeclineReason_str DeclineCardExpired = ''CARD_EXPIRED''"
| "DeclineReason_str DeclineIncorrectNumber = ''INCORRECT_NUMBER''"
| "DeclineReason_str DeclineIncorrectCVC = ''INCORRECT_CVC''"
| "DeclineReason_str DeclineStolenCard = ''STOLEN_CARD''"
| "DeclineReason_str DeclineLostCard = ''LOST_CARD''"
| "DeclineReason_str DeclineFraudulent = ''FRAUDULENT''"
| "DeclineReason_str DeclineRestrictedCard = ''RESTRICTED_CARD''"
| "DeclineReason_str DeclineInvalidAccount = ''INVALID_ACCOUNT''"
| "DeclineReason_str DeclineCurrencyNotSupp = ''CURRENCY_NOT_SUPPORTED''"
| "DeclineReason_str DeclineAuthRequired = ''AUTHENTICATION_REQUIRED''"
| "DeclineReason_str DeclineBlockedByRisk = ''BLOCKED_BY_GATEWAY_RISK''"
| "DeclineReason_str DeclineUnknown = ''UNKNOWN''"
| "DeclineReason_str DeclineUnset = []"
| "DeclineReason_str (DeclineOther s) = s"

definition softDeclines :: "DeclineReason list" where
  "softDeclines = [DeclineIssuerUnavailable, DeclineTryAgainLater, DeclineProcessingError, DeclineDoNotHonorSoft]"

definition Decline_PermitsFailover :: "DeclineReason \<Rightarrow> bool" where
  "Decline_PermitsFailover d \<longleftrightarrow> d \<in> set softDeclines"

definition Decline_IsHard :: "DeclineReason \<Rightarrow> bool" where
  "Decline_IsHard d \<longleftrightarrow> \<not> Decline_PermitsFailover d"

text \<open>\<open>CaptureUnset\<close> is the empty string, \<open>CaptureOther\<close> a string that is not a capture method.\<close>

datatype CaptureMethod = CaptureAutomatic | CaptureManual | CaptureUnset | CaptureOther string

primrec CaptureMethod_str :: "CaptureMethod \<Rightarrow> string" where
  "CaptureMethod_str CaptureAutomatic = ''AUTOMATIC''"
| "CaptureMethod_str CaptureManual = ''MANUAL''"
| "CaptureMethod_str CaptureUnset = []"
| "CaptureMethod_str (CaptureOther s) = s"

definition CaptureMethod_IsValid :: "CaptureMethod \<Rightarrow> bool" where
  "CaptureMethod_IsValid c \<longleftrightarrow> c = CaptureAutomatic \<or> c = CaptureManual"

section \<open>The three lifecycles\<close>

lemma all_states [simp]: "s \<in> set AllStates" by (cases s) (simp_all add: AllStates_def)
lemma all_outcomes [simp]: "x \<in> set AllAttemptOutcomes" by (cases x) (simp_all add: AllAttemptOutcomes_def)
lemma all_refund_statuses [simp]: "x \<in> set AllRefundStatuses" by (cases x) (simp_all add: AllRefundStatuses_def)

lemma machine_built:
  "NewStateMachine ''payment'' StateCreated AllStates terminalStates machine_edges = Inr machine"
proof -
  have "\<exists>sm. NewStateMachine ''payment'' StateCreated AllStates terminalStates machine_edges = Inr sm"
    unfolding NewStateMachine_ok_iff by (auto simp: terminalStates_def machine_edges_def)
  then show ?thesis by (auto simp: machine_def)
qed

lemma attemptMachine_built:
  "NewStateMachine ''payment_attempt'' OutcomePending AllAttemptOutcomes terminalOutcomes attempt_edges
     = Inr attemptMachine"
proof -
  have "\<exists>sm. NewStateMachine ''payment_attempt'' OutcomePending AllAttemptOutcomes terminalOutcomes attempt_edges = Inr sm"
    unfolding NewStateMachine_ok_iff by (auto simp: terminalOutcomes_def attempt_edges_def)
  then show ?thesis by (auto simp: attemptMachine_def)
qed

lemma refundMachine_built:
  "NewStateMachine ''refund'' RefundPending AllRefundStatuses terminalRefunds refund_edges = Inr refundMachine"
proof -
  have "\<exists>sm. NewStateMachine ''refund'' RefundPending AllRefundStatuses terminalRefunds refund_edges = Inr sm"
    unfolding NewStateMachine_ok_iff by (auto simp: terminalRefunds_def refund_edges_def)
  then show ?thesis by (auto simp: refundMachine_def)
qed

interpretation pay: lifecycle machine "''payment''" StateCreated AllStates terminalStates machine_edges
  by unfold_locales (rule machine_built)

interpretation att: lifecycle attemptMachine "''payment_attempt''" OutcomePending AllAttemptOutcomes
  terminalOutcomes attempt_edges
  by unfold_locales (rule attemptMachine_built)

interpretation rfd: lifecycle refundMachine "''refund''" RefundPending AllRefundStatuses
  terminalRefunds refund_edges
  by unfold_locales (rule refundMachine_built)

lemma State_IsTerminal_iff: "State_IsTerminal s \<longleftrightarrow> s \<in> set terminalStates"
  by (simp add: State_IsTerminal_def pay.terminal_iff)

text \<open>The persisted form of a state is read back as that state.\<close>

lemma find_eq: "x \<in> set xs \<Longrightarrow> find (\<lambda>y. y = x) xs = Some x"
  by (induction xs) auto

lemma of_str [simp]:
  "State_of (State_str s) = Some s" "Outcome_of (Outcome_str x) = Some x"
  "RefundStatus_of (RefundStatus_str r) = Some r"
  by (simp_all add: State_of_def Outcome_of_def RefundStatus_of_def find_eq State_str_inj Outcome_str_inj
      RefundStatus_str_inj)

end
