(* ===== verification/Digest.thy ===== *)
theory Digest
  imports Prelude Ids
begin

unbundle bit_operations_syntax

text \<open>
  The digests of the Go standard library that the program calls: \<open>crypto/sha256\<close>, \<open>crypto/hmac\<close>
  over it, and the encodings \<open>encoding/hex\<close> and \<open>encoding/base32\<close> without padding. Strings enter as
  their bytes. No collision resistance is assumed anywhere; the lemmas are about lengths and
  alphabets only.
\<close>

type_synonym word32 = "32 word"

definition bytes_of :: "string \<Rightarrow> byte list" where
  "bytes_of s = map of_char s"

definition rotr :: "nat \<Rightarrow> word32 \<Rightarrow> word32" where
  "rotr n x = drop_bit n x OR push_bit (32 - n) x"

text \<open>
  The constants of the standard, as it defines them: the first 32 bits of the fractional parts of the
  cube roots of the first 64 primes, and of the square roots of the first eight. The root is built
  bit by bit.
\<close>

definition root_floor :: "nat \<Rightarrow> int \<Rightarrow> int" where
  "root_floor k n = foldl (\<lambda>r b. if (r + 2 ^ b) ^ k \<le> n then r + 2 ^ b else r) 0 (rev [0..<36])"

definition small_primes :: "int list" where
  "small_primes = filter (\<lambda>n. \<forall>d \<in> set [2..n - 1]. n mod d \<noteq> 0) [2..311]"

definition root_fraction :: "nat \<Rightarrow> int \<Rightarrow> word32" where
  "root_fraction k p = word_of_int (root_floor k (p * 2 ^ (32 * k)))"

definition sha_K :: "word32 list" where
  "sha_K = map (root_fraction 3) small_primes"

text \<open>The eight working variables.\<close>

type_synonym sha_state = "word32 \<times> word32 \<times> word32 \<times> word32 \<times> word32 \<times> word32 \<times> word32 \<times> word32"

definition sha_H0 :: sha_state where
  "sha_H0 = (root_fraction 2 2, root_fraction 2 3, root_fraction 2 5, root_fraction 2 7,
     root_fraction 2 11, root_fraction 2 13, root_fraction 2 17, root_fraction 2 19)"

definition word_of_bytes :: "byte list \<Rightarrow> word32" where
  "word_of_bytes bs = foldl (\<lambda>a b. push_bit 8 a OR ucast b) 0 bs"

definition bytes_of_word :: "word32 \<Rightarrow> byte list" where
  "bytes_of_word w = [ucast (drop_bit 24 w), ucast (drop_bit 16 w), ucast (drop_bit 8 w), ucast w]"

text \<open>Padding: a one bit, zeros up to 56 modulo 64 bytes, the length in bits as eight bytes.\<close>

definition sha_pad :: "byte list \<Rightarrow> byte list" where
  "sha_pad msg =
     (let n = length msg;
          k = (119 - n mod 64) mod 64;
          l = (word_of_nat (8 * n) :: 64 word)
      in msg @ [0x80] @ replicate k 0
         @ map (\<lambda>i. ucast (drop_bit i l)) [56, 48, 40, 32, 24, 16, 8, 0])"

function chunks :: "nat \<Rightarrow> 'a list \<Rightarrow> 'a list list" where
  "chunks n xs = (if xs = [] \<or> n = 0 then [] else take n xs # chunks n (drop n xs))"
  by pat_completeness auto
termination
  by (relation "measure (\<lambda>(n, xs). length xs)") auto

declare chunks.simps [simp del]

text \<open>The message schedule, most recent word first: \<open>W[t-2]\<close> is element 1, \<open>W[t-16]\<close> element 15.\<close>

definition schedule_next :: "word32 list \<Rightarrow> word32" where
  "schedule_next w =
     (let s0 = (let x = w ! 14 in rotr 7 x XOR rotr 18 x XOR drop_bit 3 x);
          s1 = (let x = w ! 1 in rotr 17 x XOR rotr 19 x XOR drop_bit 10 x)
      in w ! 15 + s0 + w ! 6 + s1)"

definition schedule :: "byte list \<Rightarrow> word32 list" where
  "schedule block =
     rev (((\<lambda>w. schedule_next w # w) ^^ 48) (rev (map word_of_bytes (chunks 4 block))))"

fun sha_round :: "word32 \<times> word32 \<Rightarrow> sha_state \<Rightarrow> sha_state" where
  "sha_round (k, w) (a, b, c, d, e, f, g, h) =
     (let S1 = rotr 6 e XOR rotr 11 e XOR rotr 25 e;
          ch = (e AND f) XOR (NOT e AND g);
          t1 = h + S1 + ch + k + w;
          S0 = rotr 2 a XOR rotr 13 a XOR rotr 22 a;
          maj = (a AND b) XOR (a AND c) XOR (b AND c);
          t2 = S0 + maj
      in (t1 + t2, a, b, c, d + t1, e, f, g))"

fun add_state :: "sha_state \<Rightarrow> sha_state \<Rightarrow> sha_state" where
  "add_state (a, b, c, d, e, f, g, h) (a', b', c', d', e', f', g', h') =
     (a + a', b + b', c + c', d + d', e + e', f + f', g + g', h + h')"

definition sha_block :: "byte list \<Rightarrow> sha_state \<Rightarrow> sha_state" where
  "sha_block block st = add_state st (fold sha_round (zip sha_K (schedule block)) st)"

fun state_bytes :: "sha_state \<Rightarrow> byte list" where
  "state_bytes (a, b, c, d, e, f, g, h) = concat (map bytes_of_word [a, b, c, d, e, f, g, h])"

definition sha256 :: "byte list \<Rightarrow> byte list" where
  "sha256 msg = state_bytes (fold sha_block (chunks 64 (sha_pad msg)) sha_H0)"

definition hmac_sha256 :: "byte list \<Rightarrow> byte list \<Rightarrow> byte list" where
  "hmac_sha256 key msg =
     (let k0 = (if length key > 64 then sha256 key else key);
          k = k0 @ replicate (64 - length k0) 0
      in sha256 (map (\<lambda>b. b XOR 0x5c) k @ sha256 (map (\<lambda>b. b XOR 0x36) k @ msg)))"

definition hex_digit :: "nat \<Rightarrow> char" where
  "hex_digit d = ''0123456789abcdef'' ! d"

definition hex_of :: "byte list \<Rightarrow> string" where
  "hex_of bs = concat (map (\<lambda>b. [hex_digit (unat b div 16), hex_digit (unat b mod 16)]) bs)"

definition base32_alphabet :: string where
  "base32_alphabet = ''ABCDEFGHIJKLMNOPQRSTUVWXYZ234567''"

text \<open>Five bytes are eight symbols; a shorter last group is padded with zero bits.\<close>

definition base32_group :: "byte list \<Rightarrow> string" where
  "base32_group bs =
     (let b = (\<lambda>i. if i < length bs then uint (bs ! i) else 0)
      in take ((8 * length bs + 4) div 5)
           (map (\<lambda>d. base32_alphabet ! nat d) (five (b 0) (b 1) (b 2) (b 3) (b 4))))"

definition base32_nopad :: "byte list \<Rightarrow> string" where
  "base32_nopad bs = concat (map base32_group (chunks 5 bs))"

section \<open>Lengths and alphabets\<close>

lemma length_sha256 [simp]: "length (sha256 msg) = 32"
proof -
  have "length (state_bytes st) = 32" for st
    by (cases st rule: state_bytes.cases) (simp add: bytes_of_word_def)
  then show ?thesis by (simp add: sha256_def)
qed

lemma length_hmac [simp]: "length (hmac_sha256 key msg) = 32"
  by (simp add: hmac_sha256_def Let_def)

lemma length_hex [simp]: "length (hex_of bs) = 2 * length bs"
  by (induction bs) (simp_all add: hex_of_def)

lemma base32_group_chars: "set (base32_group bs) \<subseteq> set base32_alphabet"
proof -
  define b where "b = (\<lambda>i. if i < length bs then uint (bs ! i) else 0)"
  have "list_all digit32 (five (b 0) (b 1) (b 2) (b 3) (b 4))"
    by (rule five_digits) (auto simp: b_def byte_range)
  moreover have "length base32_alphabet = 32" by (simp add: base32_alphabet_def)
  ultimately have "set (map (\<lambda>d. base32_alphabet ! nat d) (five (b 0) (b 1) (b 2) (b 3) (b 4))) \<subseteq> set base32_alphabet"
    by (auto simp: list_all_iff digit32_def)
  then show ?thesis
    unfolding base32_group_def Let_def b_def [symmetric] using set_take_subset by fastforce
qed

lemma base32_nopad_chars: "set (base32_nopad bs) \<subseteq> set base32_alphabet"
  using base32_group_chars by (auto simp: base32_nopad_def)

lemma base32_group_full: "length bs = 5 \<Longrightarrow> length (base32_group bs) = 8"
  by (simp add: base32_group_def Let_def five_def)

lemma chunks_step: "0 < n \<Longrightarrow> xs \<noteq> [] \<Longrightarrow> chunks n xs = take n xs # chunks n (drop n xs)"
  by (subst chunks.simps) simp

lemma length_base32_32: "length bs = 32 \<Longrightarrow> 32 \<le> length (base32_nopad bs)"
proof -
  assume l: "length bs = 32"
  have s: "chunks 5 (drop k bs) = take 5 (drop k bs) # chunks 5 (drop (k + 5) bs)" if "k < 32" for k
    using chunks_step [of 5 "drop k bs"] that l by (simp add: add.commute)
  have "chunks 5 bs = take 5 bs # take 5 (drop 5 bs) # take 5 (drop 10 bs) # take 5 (drop 15 bs) # chunks 5 (drop 20 bs)"
    using s [of 0] s [of 5] s [of 10] s [of 15] by simp
  then show ?thesis using l by (simp add: base32_nopad_def base32_group_full)
qed

end
