(* ===== verification/Payment_Attempt.thy ===== *)
theory Payment_Attempt
  imports Payment_State Digest
begin

text \<open>
  One execution of a payment instruction against one gateway: \<open>src/internal/domain/payment/attempt.go\<close>.
  The identifier a constructor mints and the instant \<open>clock.Now()\<close> returns are arguments. Every method
  with a pointer receiver returns the updated record, or the error's code and no change, as the code
  checks the transition before it writes a field.
\<close>

record Attempt =
  a_id :: ID
  a_paymentID :: ID
  a_tenantID :: ID
  a_gatewayID :: string
  a_connectionID :: ID
  a_operation :: Operation
  a_sequence :: int
  a_amount :: money
  a_outcome :: AttemptOutcome
  a_gatewayRef :: string
  a_idempotencyKey :: string
  a_declineReason :: DeclineReason
  a_errorCode :: string
  a_errorMessage :: string
  a_rawStatus :: string
  a_networkAdviceNoRetry :: bool
  a_dispatchedAt :: "time option"
  a_resolvedAt :: "time option"
  a_latency :: duration
  a_createdAt :: time
  a_updatedAt :: time

section \<open>The gateway idempotency key\<close>

definition defaultKeySalt :: string where
  "defaultKeySalt = ''payments-platform/gateway-idempotency/v1''"

definition DeriveGatewayIdempotencyKey :: "ID \<Rightarrow> Operation \<Rightarrow> string \<Rightarrow> string" where
  "DeriveGatewayIdempotencyKey attemptID op salt =
     (let mac = hmac_sha256 (bytes_of salt) (bytes_of attemptID @ [0] @ bytes_of (Operation_str op));
          enc = base32_nopad mac
      in to_lower (take 32 enc))"

section \<open>Operations\<close>

definition newAttempt :: "ID \<Rightarrow> ID \<Rightarrow> ID \<Rightarrow> string \<Rightarrow> Operation \<Rightarrow> int \<Rightarrow> money \<Rightarrow> time \<Rightarrow> Attempt" where
  "newAttempt aid paymentID tenantID gatewayID op seq amount now =
     \<lparr>a_id = aid, a_paymentID = paymentID, a_tenantID = tenantID, a_gatewayID = gatewayID,
      a_connectionID = [], a_operation = op, a_sequence = seq, a_amount = amount,
      a_outcome = OutcomePending, a_gatewayRef = [],
      a_idempotencyKey = DeriveGatewayIdempotencyKey aid op defaultKeySalt,
      a_declineReason = DeclineUnset, a_errorCode = [], a_errorMessage = [], a_rawStatus = [],
      a_networkAdviceNoRetry = False, a_dispatchedAt = None, a_resolvedAt = None, a_latency = 0,
      a_createdAt = now, a_updatedAt = now\<rparr>"

text \<open>A transition of the attempt machine as the methods use it: the error's code, or no error.\<close>

definition attempt_move :: "Attempt \<Rightarrow> AttemptOutcome \<Rightarrow> Code option" where
  "attempt_move a to = map_option fsm_code (Transition attemptMachine (a_outcome a) to)"

definition Attempt_BindConnection :: "ID \<Rightarrow> Attempt \<Rightarrow> Attempt outcome" where
  "Attempt_BindConnection cid a =
     (if cid = [] then Inl CodeValidationFailed
      else if a_connectionID a = cid then Inr a
      else if a_connectionID a \<noteq> [] then Inl CodeInvalidStateTransition
      else if a_outcome a \<noteq> OutcomePending then Inl CodeInvalidStateTransition
      else Inr (a\<lparr>a_connectionID := cid\<rparr>))"

definition Attempt_Dispatch :: "time \<Rightarrow> Attempt \<Rightarrow> Attempt outcome" where
  "Attempt_Dispatch now a =
     (case attempt_move a OutcomeDispatched of
        Some e \<Rightarrow> Inl e
      | None \<Rightarrow> Inr (a\<lparr>a_outcome := OutcomeDispatched, a_dispatchedAt := Some now, a_updatedAt := now\<rparr>))"

definition Attempt_resolve :: "time \<Rightarrow> Attempt \<Rightarrow> Attempt" where
  "Attempt_resolve now a =
     (let a' = a\<lparr>a_resolvedAt := Some now, a_updatedAt := now\<rparr>
      in case a_dispatchedAt a' of None \<Rightarrow> a' | Some d \<Rightarrow> a'\<lparr>a_latency := time_Sub now d\<rparr>)"

definition Attempt_Succeed :: "string \<Rightarrow> string \<Rightarrow> time \<Rightarrow> Attempt \<Rightarrow> Attempt outcome" where
  "Attempt_Succeed gatewayRef rawStatus now a =
     (case attempt_move a OutcomeSuccess of
        Some e \<Rightarrow> Inl e
      | None \<Rightarrow> Inr (Attempt_resolve now
          (a\<lparr>a_outcome := OutcomeSuccess, a_gatewayRef := gatewayRef, a_rawStatus := rawStatus\<rparr>)))"

definition Attempt_Decline :: "DeclineReason \<Rightarrow> string \<Rightarrow> string \<Rightarrow> bool \<Rightarrow> time \<Rightarrow> Attempt \<Rightarrow> Attempt outcome" where
  "Attempt_Decline reason0 gatewayRef rawStatus noRetry now a =
     (case attempt_move a OutcomeDeclined of
        Some e \<Rightarrow> Inl e
      | None \<Rightarrow>
          let reason = (if reason0 = DeclineUnset then DeclineUnknown else reason0)
          in Inr (Attempt_resolve now
               (a\<lparr>a_outcome := OutcomeDeclined, a_declineReason := reason, a_gatewayRef := gatewayRef,
                  a_rawStatus := rawStatus, a_networkAdviceNoRetry := noRetry\<rparr>)))"

definition Attempt_Fail :: "string \<Rightarrow> string \<Rightarrow> time \<Rightarrow> Attempt \<Rightarrow> Attempt outcome" where
  "Attempt_Fail code message now a =
     (case attempt_move a OutcomeError of
        Some e \<Rightarrow> Inl e
      | None \<Rightarrow> Inr (Attempt_resolve now
          (a\<lparr>a_outcome := OutcomeError, a_errorCode := code, a_errorMessage := message\<rparr>)))"

definition Attempt_TimeOut :: "string \<Rightarrow> time \<Rightarrow> Attempt \<Rightarrow> Attempt outcome" where
  "Attempt_TimeOut message now a =
     (case attempt_move a OutcomeTimeoutUnknown of
        Some e \<Rightarrow> Inl e
      | None \<Rightarrow>
          let a' = a\<lparr>a_outcome := OutcomeTimeoutUnknown, a_errorCode := CodeGatewayTimeout,
                     a_errorMessage := message, a_updatedAt := now\<rparr>
          in Inr (case a_dispatchedAt a' of None \<Rightarrow> a' | Some d \<Rightarrow> a'\<lparr>a_latency := time_Sub now d\<rparr>))"

definition Attempt_Reconcile :: "AttemptOutcome \<Rightarrow> string \<Rightarrow> string \<Rightarrow> DeclineReason \<Rightarrow> time \<Rightarrow> Attempt \<Rightarrow> Attempt outcome" where
  "Attempt_Reconcile to gatewayRef rawStatus reason0 now a =
     (if a_outcome a \<noteq> OutcomeTimeoutUnknown then Inl CodeInvalidStateTransition
      else case attempt_move a to of
          Some e \<Rightarrow> Inl e
        | None \<Rightarrow>
            let a1 = a\<lparr>a_outcome := to\<rparr>;
                a2 = (if gatewayRef \<noteq> [] then a1\<lparr>a_gatewayRef := gatewayRef\<rparr> else a1);
                a3 = (if rawStatus \<noteq> [] then a2\<lparr>a_rawStatus := rawStatus\<rparr> else a2);
                a4 = (if to = OutcomeDeclined
                      then a3\<lparr>a_declineReason := (if reason0 = DeclineUnset then DeclineUnknown else reason0)\<rparr>
                      else a3)
            in Inr (Attempt_resolve now a4))"

definition Attempt_PermitsFailover :: "Attempt \<Rightarrow> bool" where
  "Attempt_PermitsFailover a =
     (if a_networkAdviceNoRetry a then False
      else case a_outcome a of
          OutcomeError \<Rightarrow> True
        | OutcomeDeclined \<Rightarrow> Decline_PermitsFailover (a_declineReason a)
        | _ \<Rightarrow> False)"

text \<open>
  \<open>RehydrateAttempt\<close>: the persisted fields are the record, with the outcome column as the string the
  database holds; an unknown string is refused.
\<close>

definition RehydrateAttempt :: "string \<Rightarrow> Attempt \<Rightarrow> Attempt outcome" where
  "RehydrateAttempt stored a =
     (case Outcome_of stored of None \<Rightarrow> Inl CodeInternalError | Some x \<Rightarrow> Inr (a\<lparr>a_outcome := x\<rparr>))"

section \<open>The operations as one step\<close>

datatype attempt_op =
    DoBind ID
  | DoDispatch time
  | DoSucceed string string time
  | DoDecline DeclineReason string string bool time
  | DoFail string string time
  | DoTimeOut string time
  | DoReconcile AttemptOutcome string string DeclineReason time

primrec attempt_step :: "attempt_op \<Rightarrow> Attempt \<Rightarrow> Attempt outcome" where
  "attempt_step (DoBind cid) = Attempt_BindConnection cid"
| "attempt_step (DoDispatch now) = Attempt_Dispatch now"
| "attempt_step (DoSucceed r s now) = Attempt_Succeed r s now"
| "attempt_step (DoDecline d r s n now) = Attempt_Decline d r s n now"
| "attempt_step (DoFail c m now) = Attempt_Fail c m now"
| "attempt_step (DoTimeOut m now) = Attempt_TimeOut m now"
| "attempt_step (DoReconcile x r s d now) = Attempt_Reconcile x r s d now"

text \<open>An operation that fails leaves the attempt as it was.\<close>

definition attempt_exec :: "attempt_op \<Rightarrow> Attempt \<Rightarrow> Attempt" where
  "attempt_exec op a = (case attempt_step op a of Inl _ \<Rightarrow> a | Inr a' \<Rightarrow> a')"

lemmas attempt_defs = Attempt_BindConnection_def Attempt_Dispatch_def Attempt_Succeed_def
  Attempt_Decline_def Attempt_Fail_def Attempt_TimeOut_def Attempt_Reconcile_def

lemma attempt_move_iff: "attempt_move a to = None \<longleftrightarrow> (a_outcome a, to) \<in> set attempt_edges"
  by (simp add: attempt_move_def att.transition_ok_iff)

lemma resolve_simps [simp]:
  "a_id (Attempt_resolve now a) = a_id a" "a_paymentID (Attempt_resolve now a) = a_paymentID a"
  "a_tenantID (Attempt_resolve now a) = a_tenantID a" "a_gatewayID (Attempt_resolve now a) = a_gatewayID a"
  "a_connectionID (Attempt_resolve now a) = a_connectionID a" "a_operation (Attempt_resolve now a) = a_operation a"
  "a_sequence (Attempt_resolve now a) = a_sequence a" "a_amount (Attempt_resolve now a) = a_amount a"
  "a_outcome (Attempt_resolve now a) = a_outcome a" "a_idempotencyKey (Attempt_resolve now a) = a_idempotencyKey a"
  "a_declineReason (Attempt_resolve now a) = a_declineReason a" "a_createdAt (Attempt_resolve now a) = a_createdAt a"
  "a_networkAdviceNoRetry (Attempt_resolve now a) = a_networkAdviceNoRetry a"
  "a_dispatchedAt (Attempt_resolve now a) = a_dispatchedAt a" "a_resolvedAt (Attempt_resolve now a) = Some now"
  by (simp_all add: Attempt_resolve_def Let_def split: option.splits)

text \<open>What no operation touches.\<close>

lemma attempt_step_fixed:
  assumes "attempt_step op a = Inr b"
  shows "a_id b = a_id a" "a_paymentID b = a_paymentID a" "a_tenantID b = a_tenantID a"
    "a_gatewayID b = a_gatewayID a" "a_operation b = a_operation a" "a_sequence b = a_sequence a"
    "a_amount b = a_amount a" "a_idempotencyKey b = a_idempotencyKey a" "a_createdAt b = a_createdAt a"
  using assms
  by (cases op; auto simp: attempt_defs Let_def split: if_splits option.splits)+

text \<open>Every operation either keeps the outcome or follows an edge of the table.\<close>

lemma attempt_step_outcome:
  assumes "attempt_step op a = Inr b"
  shows "a_outcome b = a_outcome a \<and> (\<exists>cid. op = DoBind cid) \<or> (a_outcome a, a_outcome b) \<in> set attempt_edges"
  using assms
  by (cases op) (auto simp: attempt_defs Let_def attempt_move_iff split: if_splits option.splits)

section \<open>The invariant of an attempt\<close>

definition attempt_stamps :: "Attempt \<Rightarrow> bool" where
  "attempt_stamps a \<longleftrightarrow>
     (a_outcome a = OutcomePending \<longrightarrow> a_dispatchedAt a = None)
     \<and> (a_outcome a \<in> {OutcomeDispatched, OutcomeSuccess, OutcomeDeclined, OutcomeTimeoutUnknown}
          \<longrightarrow> a_dispatchedAt a \<noteq> None)
     \<and> (a_resolvedAt a \<noteq> None \<longleftrightarrow> Outcome_IsTerminal (a_outcome a))
     \<and> (a_outcome a = OutcomeDeclined \<longrightarrow> a_declineReason a \<noteq> DeclineUnset)"

definition attempt_inv :: "Attempt \<Rightarrow> bool" where
  "attempt_inv a \<longleftrightarrow> attempt_stamps a
     \<and> a_idempotencyKey a = DeriveGatewayIdempotencyKey (a_id a) (a_operation a) defaultKeySalt"

lemma Outcome_IsTerminal_iff:
  "Outcome_IsTerminal x \<longleftrightarrow> x \<in> {OutcomeSuccess, OutcomeDeclined, OutcomeError}"
  by (simp add: Outcome_IsTerminal_def att.terminal_iff terminalOutcomes_def)

lemma newAttempt_inv: "attempt_inv (newAttempt aid pid tid gw op n amount now)"
  by (simp add: attempt_inv_def attempt_stamps_def newAttempt_def Outcome_IsTerminal_iff)

lemma attempt_step_stamps:
  assumes "attempt_stamps a" and "attempt_step op a = Inr b"
  shows "attempt_stamps b"
  using assms
  by (cases op; cases "a_outcome a"; cases "a_dispatchedAt a")
    (auto simp: attempt_stamps_def attempt_defs Let_def attempt_move_iff attempt_edges_def Outcome_IsTerminal_iff
      split: if_splits option.split_asm)

lemma attempt_exec_inv:
  assumes "attempt_inv a"
  shows "attempt_inv (attempt_exec op a)"
proof (cases "attempt_step op a")
  case (Inl e)
  then show ?thesis using assms by (simp add: attempt_exec_def)
next
  case (Inr b)
  have "a_idempotencyKey b = DeriveGatewayIdempotencyKey (a_id b) (a_operation b) defaultKeySalt"
    using assms attempt_step_fixed [OF Inr] by (simp add: attempt_inv_def)
  then have "attempt_inv b \<longleftrightarrow> attempt_stamps b" by (simp add: attempt_inv_def)
  moreover have "attempt_stamps b" using attempt_step_stamps [OF _ Inr] assms by (simp add: attempt_inv_def)
  ultimately have "attempt_inv b" by simp
  then show ?thesis using Inr by (simp add: attempt_exec_def)
qed

interpretation attempt: guarded_system
  "\<lambda>a. \<exists>aid pid tid gw op n amount now. a = newAttempt aid pid tid gw op n amount now"
  attempt_exec attempt_inv
  by unfold_locales (auto simp: newAttempt_inv attempt_exec_inv)

lemma terminal_attempt_step:
  assumes "Outcome_IsTerminal (a_outcome a)"
  shows "attempt_exec op a = a"
proof (cases "attempt_step op a")
  case (Inl e)
  then show ?thesis by (simp add: attempt_exec_def)
next
  case (Inr b)
  have "b = a"
    using assms Inr
    by (cases op; cases "a_outcome a")
      (auto simp: attempt_defs Let_def attempt_move_iff attempt_edges_def Outcome_IsTerminal_iff
        split: if_splits option.splits)
  then show ?thesis using Inr by (simp add: attempt_exec_def)
qed

lemma connection_step:
  "a_connectionID a \<noteq> [] \<or> a_outcome a \<noteq> OutcomePending \<Longrightarrow>
   a_connectionID (attempt_exec op a) = a_connectionID a
   \<and> (a_connectionID (attempt_exec op a) \<noteq> [] \<or> a_outcome (attempt_exec op a) \<noteq> OutcomePending)"
  by (cases op; cases "a_outcome a")
    (auto simp: attempt_exec_def attempt_defs Let_def attempt_move_iff attempt_edges_def
      split: if_splits option.splits sum.splits)

section \<open>Properties\<close>

text \<open>
  C31: the record of a resolved attempt is evidence that nothing edits. Once an attempt has
  succeeded, been declined or failed, no sequence of operations changes any of its fields; and once
  its connection is recorded, or it has left PENDING, no sequence of operations changes the
  connection.
\<close>

theorem resolved_attempt_is_immutable:
  "(Outcome_IsTerminal (a_outcome a) \<longrightarrow> fold attempt_exec ops a = a)
   \<and> (a_connectionID a \<noteq> [] \<or> a_outcome a \<noteq> OutcomePending
        \<longrightarrow> a_connectionID (fold attempt_exec ops a) = a_connectionID a)"
proof (intro conjI impI)
  assume t: "Outcome_IsTerminal (a_outcome a)"
  show "fold attempt_exec ops a = a"
    by (induction ops) (simp_all add: terminal_attempt_step [OF t])
next
  assume "a_connectionID a \<noteq> [] \<or> a_outcome a \<noteq> OutcomePending"
  then show "a_connectionID (fold attempt_exec ops a) = a_connectionID a"
  proof (induction ops arbitrary: a)
    case (Cons op ops)
    from connection_step [OF Cons.prems, of op] show ?case using Cons.IH [of "attempt_exec op a"] by simp
  qed simp
qed

text \<open>An attempt that was dispatched and declined for lack of funds.\<close>

definition sample_attempt :: Attempt where
  "sample_attempt = fold attempt_exec
     [DoBind ''gwc_1'', DoDispatch 10, DoDecline DeclineInsufficientFunds ''ch_1'' ''declined'' False 25]
     (newAttempt ''att_1'' ''pay_1'' ''ten_1'' ''stripe'' OpAuthorize 1 \<lparr>m_amount = 100, m_currency = ''USD''\<rparr> 5)"

lemma sample_attempt_simps:
  "a_outcome sample_attempt = OutcomeDeclined" "a_connectionID sample_attempt = ''gwc_1''"
  "a_latency sample_attempt = 15" "a_declineReason sample_attempt = DeclineInsufficientFunds"
  by (simp_all add: sample_attempt_def attempt_exec_def newAttempt_def attempt_defs Let_def
      attempt_move_iff [THEN iffD2] attempt_edges_def Attempt_resolve_def time_Sub_def)

theorem resolved_attempt_is_immutable_witness:
  "fold attempt_exec [DoSucceed ''ch_2'' ''ok'' 30, DoBind ''gwc_2''] sample_attempt = sample_attempt
   \<and> a_connectionID (fold attempt_exec [DoBind ''gwc_2''] sample_attempt) = ''gwc_1''"
  using resolved_attempt_is_immutable [of sample_attempt "[DoSucceed ''ch_2'' ''ok'' 30, DoBind ''gwc_2'']"]
    resolved_attempt_is_immutable [of sample_attempt "[DoBind ''gwc_2'']"]
  by (simp add: sample_attempt_simps Outcome_IsTerminal_iff)

text \<open>
  C4: whatever has been done to an attempt, failover to another gateway is permitted only when it
  ended in ERROR or in a decline whose reason is on the soft list, and never when the scheme advised
  against a retry: not while it is pending, in flight or of unknown outcome, not after a success,
  and not after a decline without a reason. The key sent to the gateway is the one derived from the
  attempt's identity and never changes.
\<close>

theorem failover_only_after_definite_refusal:
  fixes ops aid pid tid gw op n amount now
  defines "a \<equiv> fold attempt_exec ops (newAttempt aid pid tid gw op n amount now)"
  shows "(Attempt_PermitsFailover a \<longleftrightarrow> \<not> a_networkAdviceNoRetry a \<and>
        (a_outcome a = OutcomeError
         \<or> a_outcome a = OutcomeDeclined \<and> a_declineReason a \<in> set softDeclines))
    \<and> (a_outcome a = OutcomeDeclined \<longrightarrow> a_declineReason a \<noteq> DeclineUnset)
    \<and> (a_resolvedAt a \<noteq> None \<longleftrightarrow> Outcome_IsTerminal (a_outcome a))
    \<and> a_idempotencyKey a = DeriveGatewayIdempotencyKey aid op defaultKeySalt"
proof -
  have inv: "attempt_inv a" unfolding a_def by (intro attempt.reach_from_initial) blast
  have "a_id (fold attempt_exec ops b) = a_id b \<and> a_operation (fold attempt_exec ops b) = a_operation b" for b
  proof (induction ops arbitrary: b)
    case (Cons x xs)
    have "a_id (attempt_exec x b) = a_id b \<and> a_operation (attempt_exec x b) = a_operation b"
      by (cases "attempt_step x b") (simp_all add: attempt_exec_def attempt_step_fixed)
    then show ?case using Cons [of "attempt_exec x b"] by simp
  qed simp
  then have "a_id a = aid" "a_operation a = op" by (simp_all add: a_def newAttempt_def)
  moreover have "Attempt_PermitsFailover a \<longleftrightarrow> \<not> a_networkAdviceNoRetry a \<and>
        (a_outcome a = OutcomeError
         \<or> a_outcome a = OutcomeDeclined \<and> a_declineReason a \<in> set softDeclines)"
    by (cases "a_outcome a") (auto simp: Attempt_PermitsFailover_def Decline_PermitsFailover_def)
  ultimately show ?thesis using inv by (auto simp: attempt_inv_def attempt_stamps_def)
qed

theorem failover_only_after_definite_refusal_witness:
  "\<not> Attempt_PermitsFailover sample_attempt \<and> a_declineReason sample_attempt \<noteq> DeclineUnset"
  using failover_only_after_definite_refusal
    [of "[DoBind ''gwc_1'', DoDispatch 10, DoDecline DeclineInsufficientFunds ''ch_1'' ''declined'' False 25]"
      "''att_1''" "''pay_1''" "''ten_1''" "''stripe''" OpAuthorize 1 "\<lparr>m_amount = 100, m_currency = ''USD''\<rparr>" 5]
  unfolding sample_attempt_def [symmetric] by (simp add: sample_attempt_simps softDeclines_def)

text \<open>
  The gateway idempotency key is 32 characters of the lower-case Base32 alphabet for every
  attempt, operation and salt.
\<close>

theorem gateway_key_shape:
  "length (DeriveGatewayIdempotencyKey aid op salt) = 32
   \<and> set (DeriveGatewayIdempotencyKey aid op salt) \<subseteq> set ''abcdefghijklmnopqrstuvwxyz234567''"
proof -
  define mac where "mac = hmac_sha256 (bytes_of salt) (bytes_of aid @ [0] @ bytes_of (Operation_str op))"
  have key: "DeriveGatewayIdempotencyKey aid op salt = map lower_char (take 32 (base32_nopad mac))"
    by (simp add: DeriveGatewayIdempotencyKey_def mac_def to_lower_def Let_def)
  have "length mac = 32" by (simp add: mac_def)
  then have "length (DeriveGatewayIdempotencyKey aid op salt) = 32"
    using length_base32_32 [of mac] by (simp add: key)
  moreover have "set (take 32 (base32_nopad mac)) \<subseteq> set base32_alphabet"
    using base32_nopad_chars [of mac] set_take_subset by fastforce
  moreover have "lower_char ` set base32_alphabet \<subseteq> set ''abcdefghijklmnopqrstuvwxyz234567''"
    by code_simp
  ultimately show ?thesis unfolding key by auto
qed

text \<open>
  An attempt of unknown outcome is accepted by \<open>Fail\<close>, not only by \<open>Reconcile\<close>, and then permits
  failover although money may have moved at the first gateway.
\<close>

theorem unknown_outcome_can_be_failed:
  assumes "a_outcome a = OutcomeTimeoutUnknown" and "\<not> a_networkAdviceNoRetry a"
  shows "\<exists>b. Attempt_Fail code message now a = Inr b \<and> a_outcome b = OutcomeError \<and> Attempt_PermitsFailover b"
proof -
  have "attempt_move a OutcomeError = None" using assms by (simp add: attempt_move_iff attempt_edges_def)
  then show ?thesis using assms by (simp add: Attempt_Fail_def Attempt_PermitsFailover_def)
qed

theorem unknown_outcome_can_be_failed_witness:
  "\<exists>b. Attempt_Fail ''x'' ''gave up'' 9 (sample_attempt\<lparr>a_outcome := OutcomeTimeoutUnknown, a_networkAdviceNoRetry := False\<rparr>)
     = Inr b \<and> a_outcome b = OutcomeError \<and> Attempt_PermitsFailover b"
  by (rule unknown_outcome_can_be_failed) simp_all

end
