(* ===== verification/Payment_Refund.thy ===== *)
theory Payment_Refund
  imports Payment_State
begin

text \<open>
  One return of funds against a captured payment: \<open>src/internal/domain/payment/refund.go\<close>. A refund is
  part of the payment aggregate; \<open>markSucceeded\<close> is package-private and is called by
  \<open>Payment.ConfirmRefund\<close> only.
\<close>

datatype RefundReason =
    RefundReasonRequestedByCustomer | RefundReasonDuplicate | RefundReasonFraudulent |
    RefundReasonProductUnavailable | RefundReasonServiceNotProvided | RefundReasonPricingError |
    RefundReasonDisputeConceded | RefundReasonOther
  | RefundReasonUnlisted string

primrec RefundReason_str :: "RefundReason \<Rightarrow> string" where
  "RefundReason_str RefundReasonRequestedByCustomer = ''REQUESTED_BY_CUSTOMER''"
| "RefundReason_str RefundReasonDuplicate = ''DUPLICATE''"
| "RefundReason_str RefundReasonFraudulent = ''FRAUDULENT''"
| "RefundReason_str RefundReasonProductUnavailable = ''PRODUCT_UNAVAILABLE''"
| "RefundReason_str RefundReasonServiceNotProvided = ''SERVICE_NOT_PROVIDED''"
| "RefundReason_str RefundReasonPricingError = ''PRICING_ERROR''"
| "RefundReason_str RefundReasonDisputeConceded = ''DISPUTE_CONCEDED''"
| "RefundReason_str RefundReasonOther = ''OTHER''"
| "RefundReason_str (RefundReasonUnlisted s) = s"

definition refundReasons :: "RefundReason list" where
  "refundReasons = [RefundReasonRequestedByCustomer, RefundReasonDuplicate, RefundReasonFraudulent,
     RefundReasonProductUnavailable, RefundReasonServiceNotProvided, RefundReasonPricingError,
     RefundReasonDisputeConceded, RefundReasonOther]"

definition RefundReason_IsValid :: "RefundReason \<Rightarrow> bool" where
  "RefundReason_IsValid r \<longleftrightarrow> r \<in> set refundReasons"

record Refund =
  r_id :: ID
  r_paymentID :: ID
  r_tenantID :: ID
  r_amount :: money
  r_reason :: RefundReason
  r_status :: RefundStatus
  r_gatewayRef :: string
  r_idempotencyKey :: string
  r_failureCode :: string
  r_failureMessage :: string
  r_createdAt :: time
  r_updatedAt :: time
  r_submittedAt :: "time option"
  r_settledAt :: "time option"

definition newRefund :: "ID \<Rightarrow> ID \<Rightarrow> ID \<Rightarrow> money \<Rightarrow> RefundReason \<Rightarrow> string \<Rightarrow> time \<Rightarrow> Refund" where
  "newRefund rid paymentID tenantID amount reason0 key now =
     (let reason = (if \<not> RefundReason_IsValid reason0 then RefundReasonOther else reason0)
      in \<lparr>r_id = rid, r_paymentID = paymentID, r_tenantID = tenantID, r_amount = amount,
          r_reason = reason, r_status = RefundPending, r_gatewayRef = [], r_idempotencyKey = key,
          r_failureCode = [], r_failureMessage = [], r_createdAt = now, r_updatedAt = now,
          r_submittedAt = None, r_settledAt = None\<rparr>)"

definition refund_move :: "Refund \<Rightarrow> RefundStatus \<Rightarrow> Code option" where
  "refund_move r to = map_option fsm_code (Transition refundMachine (r_status r) to)"

definition Refund_MarkSubmitted :: "string \<Rightarrow> time \<Rightarrow> Refund \<Rightarrow> Refund outcome" where
  "Refund_MarkSubmitted gatewayRef now r =
     (case refund_move r RefundSubmitted of
        Some e \<Rightarrow> Inl e
      | None \<Rightarrow> Inr (r\<lparr>r_status := RefundSubmitted, r_gatewayRef := gatewayRef,
                        r_submittedAt := Some now, r_updatedAt := now\<rparr>))"

definition Refund_markSucceeded :: "string \<Rightarrow> time \<Rightarrow> Refund \<Rightarrow> Refund outcome" where
  "Refund_markSucceeded gatewayRef now r =
     (case refund_move r RefundSucceeded of
        Some e \<Rightarrow> Inl e
      | None \<Rightarrow>
          let r1 = r\<lparr>r_status := RefundSucceeded\<rparr>;
              r2 = (if gatewayRef \<noteq> [] then r1\<lparr>r_gatewayRef := gatewayRef\<rparr> else r1)
          in Inr (r2\<lparr>r_settledAt := Some now, r_updatedAt := now\<rparr>))"

definition Refund_MarkFailed :: "string \<Rightarrow> string \<Rightarrow> time \<Rightarrow> Refund \<Rightarrow> Refund outcome" where
  "Refund_MarkFailed code message now r =
     (case refund_move r RefundFailed of
        Some e \<Rightarrow> Inl e
      | None \<Rightarrow> Inr (r\<lparr>r_status := RefundFailed, r_failureCode := code, r_failureMessage := message,
                        r_updatedAt := now\<rparr>))"

definition Refund_Cancel :: "time \<Rightarrow> Refund \<Rightarrow> Refund outcome" where
  "Refund_Cancel now r =
     (case refund_move r RefundCanceled of
        Some e \<Rightarrow> Inl e
      | None \<Rightarrow> Inr (r\<lparr>r_status := RefundCanceled, r_updatedAt := now\<rparr>))"

definition RehydrateRefund :: "string \<Rightarrow> Refund \<Rightarrow> Refund outcome" where
  "RehydrateRefund stored r =
     (case RefundStatus_of stored of None \<Rightarrow> Inl CodeInternalError | Some x \<Rightarrow> Inr (r\<lparr>r_status := x\<rparr>))"

text \<open>The operations other packages may call.\<close>

datatype refund_op =
    DoMarkSubmitted string time
  | DoMarkFailed string string time
  | DoCancel time

primrec refund_step :: "refund_op \<Rightarrow> Refund \<Rightarrow> Refund outcome" where
  "refund_step (DoMarkSubmitted g now) = Refund_MarkSubmitted g now"
| "refund_step (DoMarkFailed c m now) = Refund_MarkFailed c m now"
| "refund_step (DoCancel now) = Refund_Cancel now"

lemmas refund_defs = Refund_MarkSubmitted_def Refund_markSucceeded_def Refund_MarkFailed_def Refund_Cancel_def

lemma refund_move_iff: "refund_move r to = None \<longleftrightarrow> (r_status r, to) \<in> set refund_edges"
  by (simp add: refund_move_def rfd.transition_ok_iff)

text \<open>The part of a refund that still counts against the ceiling, and the part that was paid out.\<close>

definition refund_inflight :: "Refund \<Rightarrow> bool" where
  "refund_inflight r \<longleftrightarrow> r_status r = RefundPending \<or> r_status r = RefundSubmitted"

definition inflight_of :: "Refund \<Rightarrow> int" where
  "inflight_of r = (if refund_inflight r then sint (m_amount (r_amount r)) else 0)"

definition succeeded_of :: "Refund \<Rightarrow> int" where
  "succeeded_of r = (if r_status r = RefundSucceeded then sint (m_amount (r_amount r)) else 0)"

text \<open>
  A refund that other packages drive keeps its amount and its identity, never succeeds, and never
  counts for more against the ceiling than before.
\<close>

lemma refund_step_effect:
  assumes "refund_step op r = Inr s"
  shows "r_amount s = r_amount r" "r_id s = r_id r" "r_paymentID s = r_paymentID r"
    "r_tenantID s = r_tenantID r" "r_idempotencyKey s = r_idempotencyKey r"
    "refund_inflight r" "r_status r \<noteq> RefundSucceeded" "r_status s \<noteq> RefundSucceeded"
  using assms
  by (cases op; auto simp: refund_defs refund_move_iff refund_edges_def refund_inflight_def split: option.splits)+

lemma markSucceeded_effect:
  assumes "Refund_markSucceeded g now r = Inr s"
  shows "r_amount s = r_amount r" "r_id s = r_id r" "r_paymentID s = r_paymentID r"
    "r_tenantID s = r_tenantID r" "r_status r = RefundSubmitted" "r_status s = RefundSucceeded"
  using assms
  by (auto simp: refund_defs refund_move_iff refund_edges_def Let_def split: option.splits if_splits)

end
