(* ===== verification/Calendar.thy ===== *)
theory Calendar
  imports Ids
begin

text \<open>
  What the code uses of Go's \<open>time\<close> package beyond instants: the civil date of an instant in UTC, the
  instant of a civil date, and the RFC 3339 rendering with trimmed nanoseconds. On top of it
  \<open>PartitionMonth\<close> of \<open>src/pkg/ids/ids.go\<close>. Dates are those of the proleptic Gregorian calendar, days
  are counted from 1970-01-01 and years start in March inside the two conversions.
\<close>

section \<open>Civil dates\<close>

definition days_from_civil :: "int \<Rightarrow> int \<Rightarrow> int \<Rightarrow> int" where
  "days_from_civil y0 m d =
     (let y = (if m \<le> 2 then y0 - 1 else y0);
          era = y div 400;
          yoe = y mod 400;
          mp = (m + 9) mod 12;
          doy = (153 * mp + 2) div 5 + d - 1;
          doe = yoe * 365 + yoe div 4 - yoe div 100 + doy
      in era * 146097 + doe - 719468)"

definition civil_from_days :: "int \<Rightarrow> int \<times> int \<times> int" where
  "civil_from_days z0 =
     (let z = z0 + 719468;
          era = z div 146097;
          doe = z mod 146097;
          yoe = (doe - doe div 1460 + doe div 36524 - doe div 146096) div 365;
          doy = doe - (365 * yoe + yoe div 4 - yoe div 100);
          mp = (5 * doy + 2) div 153;
          d = doy - (153 * mp + 2) div 5 + 1;
          m = (if mp < 10 then mp + 3 else mp - 9)
      in (yoe + era * 400 + (if m \<le> 2 then 1 else 0), m, d))"

definition ns_per_day :: int where "ns_per_day = 86400000000000"

definition time_Year :: "int \<Rightarrow> int" where "time_Year t = fst (civil_from_days (t div ns_per_day))"
definition time_Month :: "int \<Rightarrow> int" where "time_Month t = fst (snd (civil_from_days (t div ns_per_day)))"

text \<open>\<open>time.Date\<close> at midnight UTC, for a month in 1 to 12 and a day in 1 to 31.\<close>

definition time_Date :: "int \<Rightarrow> int \<Rightarrow> int \<Rightarrow> int" where
  "time_Date y m d = days_from_civil y m d * ns_per_day"

section \<open>RFC 3339\<close>

definition pad_dec :: "nat \<Rightarrow> int \<Rightarrow> string" where
  "pad_dec w n = (let s = dec_of_nat (nat \<bar>n\<bar>)
     in (if n < 0 then ''-'' else []) @ replicate (w - length s) CHR ''0'' @ s)"

definition trim_zeros :: "string \<Rightarrow> string" where
  "trim_zeros s = rev (dropWhile (\<lambda>c. c = CHR ''0'') (rev s))"

definition rfc3339nano :: "int \<Rightarrow> string" where
  "rfc3339nano t =
     (let (y, m, d) = civil_from_days (t div ns_per_day);
          ns = t mod ns_per_day;
          s = ns div 1000000000;
          frac = trim_zeros (pad_dec 9 (ns mod 1000000000))
      in pad_dec 4 y @ ''-'' @ pad_dec 2 m @ ''-'' @ pad_dec 2 d @ ''T'' @
         pad_dec 2 (s div 3600) @ '':'' @ pad_dec 2 (s div 60 mod 60) @ '':'' @ pad_dec 2 (s mod 60) @
         (if frac = [] then [] else ''.'' @ frac) @ ''Z'')"

section \<open>The partition month of an identifier\<close>

text \<open>
  \<open>None\<close> is the zero time, for a string that is not an identifier. \<open>TimeOf\<close> gives milliseconds, which
  \<open>time.UnixMilli\<close> reads as a signed number.
\<close>

definition PartitionMonth :: "ID \<Rightarrow> int option" where
  "PartitionMonth i =
     (case TimeOf i of
        None \<Rightarrow> None
      | Some ms \<Rightarrow> let t = sint ms * 1000000 in Some (time_Date (time_Year t) (time_Month t) 1))"

end
