(* ===== verification/Payment.thy ===== *)
theory Payment
  imports Payment_Attempt Payment_Refund Calendar "HOL-Library.AList"
begin

text \<open>
  The payment aggregate, \<open>src/internal/domain/payment/payment.go\<close>, and its events, \<open>events.go\<close>. The
  aggregate is one record; a method that changes it returns the new record, or the code of its
  error. \<open>ConfirmRefund\<close> writes to the refund before its later checks can fail, so it returns the
  record in both cases. Attempts and refunds are entities inside the aggregate that other packages
  reach through pointers: \<open>DoAttempt\<close> and \<open>DoRefund\<close> below are their methods applied in place. A Go map of
  strings is an association list and \<open>None\<close> the nil map; an event's payload is a list of keys and values.
\<close>

section \<open>Events\<close>

datatype EventType =
    EventPaymentCreated | EventPaymentAttempted | EventPaymentRequiresAction |
    EventPaymentAuthorized | EventPaymentCaptured | EventPaymentFailed | EventPaymentVoided |
    EventPaymentCanceled | EventPaymentExpired | EventPaymentRefunded | EventPaymentSettled |
    EventPaymentDisputed | EventPaymentDisputeResolved | EventPaymentReconciliationRequired

primrec EventType_str :: "EventType \<Rightarrow> string" where
  "EventType_str EventPaymentCreated = ''payment.created.v1''"
| "EventType_str EventPaymentAttempted = ''payment.attempted.v1''"
| "EventType_str EventPaymentRequiresAction = ''payment.requires_action.v1''"
| "EventType_str EventPaymentAuthorized = ''payment.authorized.v1''"
| "EventType_str EventPaymentCaptured = ''payment.captured.v1''"
| "EventType_str EventPaymentFailed = ''payment.failed.v1''"
| "EventType_str EventPaymentVoided = ''payment.voided.v1''"
| "EventType_str EventPaymentCanceled = ''payment.canceled.v1''"
| "EventType_str EventPaymentExpired = ''payment.expired.v1''"
| "EventType_str EventPaymentRefunded = ''payment.refunded.v1''"
| "EventType_str EventPaymentSettled = ''payment.settled.v1''"
| "EventType_str EventPaymentDisputed = ''payment.disputed.v1''"
| "EventType_str EventPaymentDisputeResolved = ''payment.dispute_resolved.v1''"
| "EventType_str EventPaymentReconciliationRequired = ''payment.reconciliation_required.v1''"

definition AllEventTypes :: "EventType list" where
  "AllEventTypes = [EventPaymentCreated, EventPaymentAttempted, EventPaymentRequiresAction,
     EventPaymentAuthorized, EventPaymentCaptured, EventPaymentFailed,
     EventPaymentVoided, EventPaymentCanceled, EventPaymentExpired,
     EventPaymentRefunded, EventPaymentSettled, EventPaymentDisputed,
     EventPaymentDisputeResolved, EventPaymentReconciliationRequired]"

definition EventType_Topic :: "EventType \<Rightarrow> string" where
  "EventType_Topic t = ''pp.payments.payment.v1''"

datatype payload_value = PStr string | PMoney money | PInt int | PBool bool

type_synonym payload = "(string \<times> payload_value) list"

record Event =
  e_type :: EventType
  e_paymentID :: ID
  e_tenantID :: ID
  e_merchantID :: ID
  e_occurredAt :: time
  e_version :: version
  e_payload :: payload
  e_correlation :: string

definition Event_AggregateID :: "Event \<Rightarrow> string" where
  "Event_AggregateID e = e_paymentID e"

definition Event_IsTerminalOutcome :: "Event \<Rightarrow> bool" where
  "Event_IsTerminalOutcome e \<longleftrightarrow> e_type e \<in> {EventPaymentFailed, EventPaymentVoided, EventPaymentCanceled,
     EventPaymentExpired, EventPaymentRefunded}"

definition Event_RequiresOperatorAttention :: "Event \<Rightarrow> bool" where
  "Event_RequiresOperatorAttention e \<longleftrightarrow> e_type e = EventPaymentReconciliationRequired"

section \<open>The aggregate\<close>

record PaymentMethodReference =
  pm_token :: string
  pm_brand :: string
  pm_last4 :: string
  pm_expMonth :: int
  pm_expYear :: int
  pm_country :: string
  pm_networkToken :: bool

record CustomerReference =
  c_merchantCustomerID :: string
  c_emailHash :: string
  c_ipAddress :: string
  c_country :: string

record Payment =
  p_id :: ID
  p_tenantID :: ID
  p_merchantID :: ID
  p_amount :: money
  p_captureMethod :: CaptureMethod
  p_paymentMethod :: PaymentMethod
  p_methodRef :: PaymentMethodReference
  p_state :: State
  p_version :: version
  p_baseVersion :: version
  p_authorizedAmount :: money
  p_capturedAmount :: money
  p_refundedAmount :: money
  p_attempts :: "Attempt list"
  p_refunds :: "Refund list"
  p_selectedGateway :: string
  p_routingPlanID :: ID
  p_description :: string
  p_statementRef :: string
  p_metadata :: "(string \<times> string) list option"
  p_customer :: CustomerReference
  p_idempotencyKey :: string
  p_correlationID :: string
  p_createdAt :: time
  p_updatedAt :: time
  p_authorizedAt :: "time option"
  p_capturedAt :: "time option"
  p_authExpiresAt :: "time option"
  p_events :: "Event list"

record NewPaymentParams =
  np_tenantID :: ID
  np_merchantID :: ID
  np_amount :: money
  np_paymentMethod :: PaymentMethod
  np_methodRef :: PaymentMethodReference
  np_captureMethod :: CaptureMethod
  np_description :: string
  np_statementRef :: string
  np_metadata :: "(string \<times> string) list option"
  np_customer :: CustomerReference
  np_idempotencyKey :: string
  np_correlationID :: string

datatype NextActionType = ActionRedirect | ActionThreeDSChall | ActionDisplayQR | ActionAwaitTransfer

primrec NextActionType_str :: "NextActionType \<Rightarrow> string" where
  "NextActionType_str ActionRedirect = ''REDIRECT''"
| "NextActionType_str ActionThreeDSChall = ''THREE_DS_CHALLENGE''"
| "NextActionType_str ActionDisplayQR = ''DISPLAY_QR_CODE''"
| "NextActionType_str ActionAwaitTransfer = ''AWAIT_BANK_TRANSFER''"

record NextAction =
  na_type :: NextActionType
  na_redirectURL :: string
  na_expiresAt :: "time option"

definition copyMetadata :: "(string \<times> string) list option \<Rightarrow> (string \<times> string) list option" where
  "copyMetadata m = (case m of None \<Rightarrow> None | Some kvs \<Rightarrow> Some (fold (\<lambda>(k, v) out. AList.update k v out) kvs []))"

definition touch :: "time \<Rightarrow> Payment \<Rightarrow> Payment" where
  "touch now p = p\<lparr>p_updatedAt := now, p_version := Version_Next (p_version p)\<rparr>"

definition raise :: "EventType \<Rightarrow> time \<Rightarrow> payload \<Rightarrow> Payment \<Rightarrow> Payment" where
  "raise t at payload p = p\<lparr>p_events := p_events p @
     [\<lparr>e_type = t, e_paymentID = p_id p, e_tenantID = p_tenantID p, e_merchantID = p_merchantID p,
       e_occurredAt = at, e_version = p_version p, e_payload = payload, e_correlation = p_correlationID p\<rparr>]\<rparr>"

text \<open>The machine's answer to a move of the payment.\<close>

definition payment_move :: "Payment \<Rightarrow> State \<Rightarrow> Code option" where
  "payment_move p to = map_option fsm_code (Transition machine (p_state p) to)"

text \<open>The common path of state changes with no invariant of their own; \<open>None\<close> is the empty event type.\<close>

definition transition :: "State \<Rightarrow> EventType option \<Rightarrow> payload \<Rightarrow> time \<Rightarrow> Payment \<Rightarrow> Payment outcome" where
  "transition to evt payload now p =
     (case payment_move p to of
        Some e \<Rightarrow> Inl e
      | None \<Rightarrow>
          let p1 = touch now (p\<lparr>p_state := to\<rparr>)
          in Inr (case evt of None \<Rightarrow> p1 | Some t \<Rightarrow> raise t now payload p1))"

definition Payment_New :: "ID \<Rightarrow> NewPaymentParams \<Rightarrow> time \<Rightarrow> Payment outcome" where
  "Payment_New pid q now =
     (if np_tenantID q = [] then Inl CodeMissingTenantContext
      else if np_merchantID q = [] then Inl CodeValidationFailed
      else if \<not> Money_IsValid (np_amount q) then Inl CodeAmountInvalid
      else if \<not> Money_IsPositive (np_amount q) then Inl CodeAmountInvalid
      else if \<not> PaymentMethod_IsValid (np_paymentMethod q) then Inl CodePaymentMethodNotSupported
      else if pm_token (np_methodRef q) = [] then Inl CodeValidationFailed
      else let cm = (if np_captureMethod q = CaptureUnset then CaptureAutomatic else np_captureMethod q)
      in if \<not> CaptureMethod_IsValid cm then Inl CodeValidationFailed
      else if cm = CaptureManual \<and> \<not> SupportsSeparateCapture (np_paymentMethod q) then Inl CodeValidationFailed
      else if np_idempotencyKey q = [] then Inl CodeIdempotencyKeyRequired
      else let zero = Money_Zero (m_currency (np_amount q));
               pay = \<lparr>p_id = pid, p_tenantID = np_tenantID q, p_merchantID = np_merchantID q,
                      p_amount = np_amount q, p_captureMethod = cm, p_paymentMethod = np_paymentMethod q,
                      p_methodRef = np_methodRef q, p_state = StateCreated, p_version = 1,
                      p_baseVersion = 0, p_authorizedAmount = zero, p_capturedAmount = zero,
                      p_refundedAmount = zero, p_attempts = [], p_refunds = [], p_selectedGateway = [],
                      p_routingPlanID = [], p_description = np_description q,
                      p_statementRef = np_statementRef q, p_metadata = copyMetadata (np_metadata q),
                      p_customer = np_customer q, p_idempotencyKey = np_idempotencyKey q,
                      p_correlationID = np_correlationID q, p_createdAt = now, p_updatedAt = now,
                      p_authorizedAt = None, p_capturedAt = None, p_authExpiresAt = None, p_events = []\<rparr>
           in Inr (raise EventPaymentCreated now
                [(''amount'', PMoney (p_amount pay)), (''paymentMethod'', PStr (p_paymentMethod pay)),
                 (''captureMethod'', PStr (CaptureMethod_str (p_captureMethod pay)))] pay))"

definition MarkPersisted :: "Payment \<Rightarrow> Payment" where
  "MarkPersisted p = p\<lparr>p_baseVersion := p_version p\<rparr>"

definition LatestAttempt :: "Payment \<Rightarrow> Attempt option" where
  "LatestAttempt p = (if length (p_attempts p) = 0 then None else Some (p_attempts p ! (length (p_attempts p) - 1)))"

definition SuccessfulAttempt :: "Payment \<Rightarrow> Attempt option" where
  "SuccessfulAttempt p = find (\<lambda>a. a_outcome a = OutcomeSuccess) (p_attempts p)"

definition HasUnresolvedAttempt :: "Payment \<Rightarrow> bool" where
  "HasUnresolvedAttempt p \<longleftrightarrow> (\<exists>a \<in> set (p_attempts p). RequiresReconciliation (a_outcome a))"

definition RefundableAmount :: "Payment \<Rightarrow> money" where
  "RefundableAmount p =
     (case Money_Sub (p_capturedAmount p) (p_refundedAmount p) of
        Inl _ \<Rightarrow> Money_Zero (m_currency (p_amount p))
      | Inr remaining \<Rightarrow> remaining)"

definition CapturableAmount :: "Payment \<Rightarrow> money" where
  "CapturableAmount p =
     (let base = (if Money_IsZero (p_authorizedAmount p) then p_amount p else p_authorizedAmount p)
      in case Money_Sub base (p_capturedAmount p) of
           Inl _ \<Rightarrow> Money_Zero (m_currency (p_amount p))
         | Inr remaining \<Rightarrow> remaining)"

section \<open>State transitions\<close>

definition StartAttempt :: "ID \<Rightarrow> string \<Rightarrow> ID \<Rightarrow> Operation \<Rightarrow> time \<Rightarrow> Payment \<Rightarrow> (Payment \<times> Attempt) outcome" where
  "StartAttempt aid gatewayID planID op now p =
     (if State_IsTerminal (p_state p) then Inl CodeInvalidStateTransition
      else if SuccessfulAttempt p \<noteq> None \<and> op = OpAuthorize then Inl CodePaymentAlreadyProcessed
      else if HasUnresolvedAttempt p then Inl CodePaymentAlreadyProcessed
      else let a = newAttempt aid (p_id p) (p_tenantID p) gatewayID op (int (length (p_attempts p)) + 1) (p_amount p) now;
               p1 = touch now (p\<lparr>p_attempts := p_attempts p @ [a], p_selectedGateway := gatewayID,
                                 p_routingPlanID := planID\<rparr>)
           in Inr (raise EventPaymentAttempted now
                [(''attemptId'', PStr (a_id a)), (''gatewayId'', PStr gatewayID),
                 (''operation'', PStr (Operation_str op)), (''sequence'', PInt (a_sequence a))] p1, a))"

definition MarkProcessing :: "time \<Rightarrow> Payment \<Rightarrow> Payment outcome" where
  "MarkProcessing now p = transition StateProcessing None [] now p"

definition RequireAction :: "NextAction \<Rightarrow> time \<Rightarrow> Payment \<Rightarrow> Payment outcome" where
  "RequireAction action now p = transition StateRequiresAction (Some EventPaymentRequiresAction)
     [(''actionType'', PStr (NextActionType_str (na_type action))),
      (''redirectUrl'', PStr (na_redirectURL action))] now p"

definition MarkPending :: "time \<Rightarrow> Payment \<Rightarrow> Payment outcome" where
  "MarkPending now p = transition StatePending None [] now p"

definition MarkAuthorized :: "money \<Rightarrow> time option \<Rightarrow> time \<Rightarrow> Payment \<Rightarrow> Payment outcome" where
  "MarkAuthorized authorized expiresAt now p =
     (if m_currency authorized \<noteq> m_currency (p_amount p) then Inl CodeGatewayContractViolation
      else if \<not> Money_IsPositive authorized then Inl CodeGatewayContractViolation
      else case Money_GreaterThan authorized (p_amount p) of
          Inl _ \<Rightarrow> Inl CodeInternalError
        | Inr exceeds \<Rightarrow>
            if exceeds then Inl CodeGatewayContractViolation
            else case payment_move p StateAuthorized of
                Some e \<Rightarrow> Inl e
              | None \<Rightarrow>
                  let p1 = touch now (p\<lparr>p_state := StateAuthorized, p_authorizedAmount := authorized,
                                        p_authorizedAt := Some now, p_authExpiresAt := expiresAt\<rparr>)
                  in Inr (raise EventPaymentAuthorized now
                       [(''authorizedAmount'', PMoney authorized), (''gatewayId'', PStr (p_selectedGateway p1))] p1))"

definition capture_ceiling :: "Payment \<Rightarrow> money" where
  "capture_ceiling p = (if Money_IsZero (p_authorizedAmount p) then p_amount p else p_authorizedAmount p)"

definition MarkCaptured :: "money \<Rightarrow> time \<Rightarrow> Payment \<Rightarrow> Payment outcome" where
  "MarkCaptured captured now p =
     (if m_currency captured \<noteq> m_currency (p_amount p) then Inl CodeGatewayContractViolation
      else if \<not> Money_IsPositive captured then Inl CodeAmountInvalid
      else case Money_Add (p_capturedAmount p) captured of
          Inl _ \<Rightarrow> Inl CodeInternalError
        | Inr newTotal \<Rightarrow>
      (case Money_GreaterThan newTotal (capture_ceiling p) of
          Inl _ \<Rightarrow> Inl CodeInternalError
        | Inr over \<Rightarrow>
            if over then Inl CodeCaptureExceedsAuthorized
            else case payment_move p StateCaptured of
                Some e \<Rightarrow> Inl e
              | None \<Rightarrow>
                  let p1 = p\<lparr>p_state := StateCaptured, p_capturedAmount := newTotal,
                             p_capturedAt := (if p_capturedAt p = None then Some now else p_capturedAt p)\<rparr>;
                      p2 = touch now p1
                  in Inr (raise EventPaymentCaptured now
                       [(''capturedAmount'', PMoney captured), (''capturedTotal'', PMoney newTotal),
                        (''gatewayId'', PStr (p_selectedGateway p2))] p2)))"

definition MarkFailed :: "DeclineReason \<Rightarrow> string \<Rightarrow> time \<Rightarrow> Payment \<Rightarrow> Payment outcome" where
  "MarkFailed reason detail now p =
     (if HasUnresolvedAttempt p then Inl CodeInvalidStateTransition
      else case payment_move p StateFailed of
          Some e \<Rightarrow> Inl e
        | None \<Rightarrow>
            let p1 = touch now (p\<lparr>p_state := StateFailed\<rparr>)
            in Inr (raise EventPaymentFailed now
                 [(''declineReason'', PStr (DeclineReason_str reason)), (''detail'', PStr detail),
                  (''gatewayId'', PStr (p_selectedGateway p1))] p1))"

definition Void :: "time \<Rightarrow> Payment \<Rightarrow> Payment outcome" where
  "Void now p =
     (if \<not> Money_IsZero (p_capturedAmount p) then Inl CodeInvalidStateTransition
      else transition StateVoided (Some EventPaymentVoided) [(''gatewayId'', PStr (p_selectedGateway p))] now p)"

definition Cancel :: "string \<Rightarrow> time \<Rightarrow> Payment \<Rightarrow> Payment outcome" where
  "Cancel reason now p = transition StateCanceled (Some EventPaymentCanceled) [(''reason'', PStr reason)] now p"

definition Expire :: "time \<Rightarrow> Payment \<Rightarrow> Payment outcome" where
  "Expire now p = transition StateExpired (Some EventPaymentExpired) [] now p"

definition MarkSettled :: "time \<Rightarrow> string \<Rightarrow> time \<Rightarrow> Payment \<Rightarrow> Payment outcome" where
  "MarkSettled settledAt settlementRef now p = transition StateSettled (Some EventPaymentSettled)
     [(''settledAt'', PStr (rfc3339nano settledAt)), (''settlementRef'', PStr settlementRef)] now p"

text \<open>The loop of \<open>AddRefund\<close> over the refunds still in flight.\<close>

primrec committed_refunds :: "money \<Rightarrow> Refund list \<Rightarrow> (money_error, money) result" where
  "committed_refunds committed [] = Inr committed"
| "committed_refunds committed (r # rs) =
     (if r_status r = RefundPending \<or> r_status r = RefundSubmitted
      then case Money_Add committed (r_amount r) of
             Inl e \<Rightarrow> Inl e
           | Inr m \<Rightarrow> committed_refunds m rs
      else committed_refunds committed rs)"

definition AddRefund :: "ID \<Rightarrow> money \<Rightarrow> RefundReason \<Rightarrow> string \<Rightarrow> time \<Rightarrow> Payment \<Rightarrow> (Payment \<times> Refund) outcome" where
  "AddRefund rid amount reason key now p =
     (if \<not> State_AllowsRefund (p_state p) then Inl CodeInvalidStateTransition
      else if m_currency amount \<noteq> m_currency (p_amount p) then Inl CodeValidationFailed
      else if \<not> Money_IsPositive amount then Inl CodeAmountInvalid
      else case committed_refunds (p_refundedAmount p) (p_refunds p) of
          Inl _ \<Rightarrow> Inl CodeInternalError
        | Inr committed \<Rightarrow>
      (case Money_Add committed amount of
          Inl _ \<Rightarrow> Inl CodeInternalError
        | Inr prospective \<Rightarrow>
      (case Money_GreaterThan prospective (p_capturedAmount p) of
          Inl _ \<Rightarrow> Inl CodeInternalError
        | Inr over \<Rightarrow>
            if over then Inl CodeRefundExceedsCaptured
            else let r = newRefund rid (p_id p) (p_tenantID p) amount reason key now
                 in Inr (touch now (p\<lparr>p_refunds := p_refunds p @ [r]\<rparr>), r))))"

text \<open>The index of the first refund with the identifier.\<close>

primrec find_refund :: "ID \<Rightarrow> Refund list \<Rightarrow> nat option" where
  "find_refund rid [] = None"
| "find_refund rid (r # rs) = (if r_id r = rid then Some 0 else map_option Suc (find_refund rid rs))"

definition ConfirmRefund :: "ID \<Rightarrow> string \<Rightarrow> time \<Rightarrow> Payment \<Rightarrow> Code option \<times> Payment" where
  "ConfirmRefund refundID gatewayRef now p =
     (case find_refund refundID (p_refunds p) of
        None \<Rightarrow> (Some CodeValidationFailed, p)
      | Some i \<Rightarrow>
     (case Refund_markSucceeded gatewayRef now (p_refunds p ! i) of
        Inl e \<Rightarrow> (Some e, p)
      | Inr target \<Rightarrow>
          let p1 = p\<lparr>p_refunds := (p_refunds p)[i := target]\<rparr>
          in case Money_Add (p_refundedAmount p1) (r_amount target) of
               Inl _ \<Rightarrow> (Some CodeInternalError, p1)
             | Inr newTotal \<Rightarrow>
          (case Money_Cmp newTotal (p_capturedAmount p1) of
               Inl _ \<Rightarrow> (Some CodeInternalError, p1)
             | Inr cmp \<Rightarrow>
                 let next = (if cmp \<ge> 0 then StateRefunded else StatePartiallyRefunded)
                 in case payment_move p1 next of
                      Some e \<Rightarrow> (Some e, p1)
                    | None \<Rightarrow>
                        (None, raise EventPaymentRefunded now
                           [(''refundId'', PStr refundID), (''refundAmount'', PMoney (r_amount target)),
                            (''refundedTotal'', PMoney newTotal), (''fullyRefunded'', PBool (next = StateRefunded))]
                           (touch now (p1\<lparr>p_state := next, p_refundedAmount := newTotal\<rparr>))))))"

definition MarkDisputed :: "string \<Rightarrow> string \<Rightarrow> time \<Rightarrow> Payment \<Rightarrow> Payment outcome" where
  "MarkDisputed disputeRef reasonCode now p = transition StateDisputed (Some EventPaymentDisputed)
     [(''disputeRef'', PStr disputeRef), (''reasonCode'', PStr reasonCode)] now p"

definition settledLike :: "Payment \<Rightarrow> bool" where
  "settledLike p \<longleftrightarrow> (\<exists>e \<in> set (rev (p_events p)). e_type e = EventPaymentSettled)"

definition ResolveDispute :: "bool \<Rightarrow> time \<Rightarrow> Payment \<Rightarrow> Payment outcome" where
  "ResolveDispute won now p =
     (if p_state p \<noteq> StateDisputed then Inl CodeInvalidStateTransition
      else let next = (if won then (if p_capturedAt p \<noteq> None \<and> settledLike p then StateSettled else StateCaptured)
                       else StateRefunded)
           in transition next (Some EventPaymentDisputeResolved) [(''won'', PBool won)] now p)"

definition RequireReconciliation :: "ID \<Rightarrow> string \<Rightarrow> time \<Rightarrow> Payment \<Rightarrow> Payment" where
  "RequireReconciliation attemptID reason now p =
     (let p1 = touch now p
      in raise EventPaymentReconciliationRequired now
           [(''attemptId'', PStr attemptID), (''reason'', PStr reason),
            (''gatewayId'', PStr (p_selectedGateway p1))] p1)"

definition DrainEvents :: "Payment \<Rightarrow> Payment \<times> Event list" where
  "DrainEvents p = (p\<lparr>p_events := []\<rparr>, p_events p)"

text \<open>
  \<open>Rehydrate\<close>: the persisted fields are the record, with the state column as the string the database
  holds. The base version is the stored version, and no event is pending.
\<close>

definition Rehydrate :: "string \<Rightarrow> Payment \<Rightarrow> Payment outcome" where
  "Rehydrate stored p =
     (case State_of stored of
        None \<Rightarrow> Inl CodeInternalError
      | Some s \<Rightarrow> Inr (p\<lparr>p_state := s, p_baseVersion := p_version p,
                         p_metadata := copyMetadata (p_metadata p), p_events := []\<rparr>))"

section \<open>The operations as one step\<close>

datatype payment_op =
    DoStartAttempt ID string ID Operation time
  | DoProcessing time
  | DoRequireAction NextAction time
  | DoPending time
  | DoAuthorized money "time option" time
  | DoCaptured money time
  | DoFailed DeclineReason string time
  | DoVoid time
  | DoCancelPayment string time
  | DoExpire time
  | DoSettled time string time
  | DoAddRefund ID money RefundReason string time
  | DoConfirmRefund ID string time
  | DoDisputed string string time
  | DoResolveDispute bool time
  | DoRequireReconciliation ID string time
  | DoAttempt nat attempt_op
  | DoRefund nat refund_op
  | DoPersist
  | DoDrain

definition lift_outcome :: "Payment \<Rightarrow> Payment outcome \<Rightarrow> Code option \<times> Payment" where
  "lift_outcome p r = (case r of Inl e \<Rightarrow> (Some e, p) | Inr q \<Rightarrow> (None, q))"

text \<open>
  The aggregate after a call, and the error it returned. A caller that holds no attempt or refund of
  the given position changes nothing.
\<close>

primrec payment_step :: "payment_op \<Rightarrow> Payment \<Rightarrow> Code option \<times> Payment" where
  "payment_step (DoStartAttempt aid g pl op now) p = lift_outcome p (map_sum id fst (StartAttempt aid g pl op now p))"
| "payment_step (DoProcessing now) p = lift_outcome p (MarkProcessing now p)"
| "payment_step (DoRequireAction a now) p = lift_outcome p (RequireAction a now p)"
| "payment_step (DoPending now) p = lift_outcome p (MarkPending now p)"
| "payment_step (DoAuthorized m ex now) p = lift_outcome p (MarkAuthorized m ex now p)"
| "payment_step (DoCaptured m now) p = lift_outcome p (MarkCaptured m now p)"
| "payment_step (DoFailed d t now) p = lift_outcome p (MarkFailed d t now p)"
| "payment_step (DoVoid now) p = lift_outcome p (Void now p)"
| "payment_step (DoCancelPayment r now) p = lift_outcome p (Cancel r now p)"
| "payment_step (DoExpire now) p = lift_outcome p (Expire now p)"
| "payment_step (DoSettled at r now) p = lift_outcome p (MarkSettled at r now p)"
| "payment_step (DoAddRefund rid m r k now) p = lift_outcome p (map_sum id fst (AddRefund rid m r k now p))"
| "payment_step (DoConfirmRefund rid g now) p = ConfirmRefund rid g now p"
| "payment_step (DoDisputed d r now) p = lift_outcome p (MarkDisputed d r now p)"
| "payment_step (DoResolveDispute won now) p = lift_outcome p (ResolveDispute won now p)"
| "payment_step (DoRequireReconciliation a r now) p = (None, RequireReconciliation a r now p)"
| "payment_step (DoAttempt n op) p =
     (if n < length (p_attempts p)
      then lift_outcome p (map_sum id (\<lambda>a. p\<lparr>p_attempts := (p_attempts p)[n := a]\<rparr>) (attempt_step op (p_attempts p ! n)))
      else (None, p))"
| "payment_step (DoRefund n op) p =
     (if n < length (p_refunds p)
      then lift_outcome p (map_sum id (\<lambda>r. p\<lparr>p_refunds := (p_refunds p)[n := r]\<rparr>) (refund_step op (p_refunds p ! n)))
      else (None, p))"
| "payment_step DoPersist p = (None, MarkPersisted p)"
| "payment_step DoDrain p = (None, fst (DrainEvents p))"

text \<open>
  The aggregate in memory after a call, and the aggregate as a unit of work persists it: a call that
  returns an error is not followed by a save.
\<close>

definition payment_exec :: "payment_op \<Rightarrow> Payment \<Rightarrow> Payment" where
  "payment_exec op p = snd (payment_step op p)"

definition payment_commit :: "payment_op \<Rightarrow> Payment \<Rightarrow> Payment" where
  "payment_commit op p = (case payment_step op p of (None, q) \<Rightarrow> q | (Some _, _) \<Rightarrow> p)"

end
