(* ===== verification/Payment_Invariants.thy ===== *)
theory Payment_Invariants
  imports Payment
begin

text \<open>
  The invariant of the payment aggregate: the money invariants I1 and I2, one currency, what the state
  says of the amounts, and the record of attempts. Each operation is summarised once by what it changes
  and raises; preservation rests on these summaries. The \<open>guarded_system\<close> contract is interpreted twice,
  for the aggregate in memory and for the aggregate as units of work save it.
\<close>

section \<open>Summaries of the operations\<close>

abbreviation amount_of :: "money \<Rightarrow> int" where "amount_of m \<equiv> sint (m_amount m)"

text \<open>The fields an operation leaves alone unless its summary says otherwise.\<close>

definition same_identity :: "Payment \<Rightarrow> Payment \<Rightarrow> bool" where
  "same_identity p q \<longleftrightarrow> p_id q = p_id p \<and> p_tenantID q = p_tenantID p \<and> p_merchantID q = p_merchantID p
     \<and> p_amount q = p_amount p \<and> p_captureMethod q = p_captureMethod p
     \<and> p_paymentMethod q = p_paymentMethod p \<and> p_methodRef q = p_methodRef p
     \<and> p_idempotencyKey q = p_idempotencyKey p \<and> p_createdAt q = p_createdAt p"

definition same_funds :: "Payment \<Rightarrow> Payment \<Rightarrow> bool" where
  "same_funds p q \<longleftrightarrow> p_authorizedAmount q = p_authorizedAmount p \<and> p_capturedAmount q = p_capturedAmount p
     \<and> p_refundedAmount q = p_refundedAmount p"

text \<open>One version and, for a given list, these events more.\<close>

definition bumped :: "EventType list \<Rightarrow> Payment \<Rightarrow> Payment \<Rightarrow> bool" where
  "bumped ts p q \<longleftrightarrow> p_version q = p_version p + 1 \<and> p_baseVersion q = p_baseVersion p
     \<and> (\<exists>es. p_events q = p_events p @ es \<and> map e_type es = ts
          \<and> (\<forall>e \<in> set es. e_version e = p_version q \<and> e_paymentID e = p_id p))"

lemmas same_defs = same_identity_def same_funds_def bumped_def

lemma transition_summary:
  assumes "transition to evt payload now p = Inr q"
  shows "(p_state p, to) \<in> set machine_edges \<and> p_state q = to \<and> same_identity p q \<and> same_funds p q
    \<and> p_attempts q = p_attempts p \<and> p_refunds q = p_refunds p
    \<and> bumped (case evt of None \<Rightarrow> [] | Some t \<Rightarrow> [t]) p q"
  using assms
  by (auto simp: transition_def payment_move_def pay.transition_ok_iff Let_def touch_def raise_def Version_Next_def
      same_defs split: option.splits)

lemma payment_move_iff: "payment_move p to = None \<longleftrightarrow> (p_state p, to) \<in> set machine_edges"
  by (simp add: payment_move_def pay.transition_ok_iff)

lemma payment_move_eq:
  "payment_move p to = (if (p_state p, to) \<in> set machine_edges then None else Some CodeInvalidStateTransition)"
  using payment_move_iff [of p to] pay.transition_code [of "p_state p" to]
  by (auto simp: payment_move_def)

lemma GreaterThan_Inr_iff:
  "Money_GreaterThan m n = Inr b \<longleftrightarrow> m_currency m = m_currency n \<and> (b \<longleftrightarrow> amount_of n < amount_of m)"
  by (auto simp: Money_GreaterThan_def Money_Cmp_def)

lemma Cmp_Inr_nonneg:
  "Money_Cmp m n = Inr c \<Longrightarrow> m_currency m = m_currency n \<and> (c \<ge> 0 \<longleftrightarrow> amount_of n \<le> amount_of m)"
  by (auto simp: Money_Cmp_def split: if_splits)

lemma StartAttempt_summary:
  assumes "StartAttempt aid g pl op now p = Inr (q, a)"
  shows "\<not> State_IsTerminal (p_state p) \<and> \<not> HasUnresolvedAttempt p
    \<and> (op = OpAuthorize \<longrightarrow> SuccessfulAttempt p = None)
    \<and> a = newAttempt aid (p_id p) (p_tenantID p) g op (int (length (p_attempts p)) + 1) (p_amount p) now
    \<and> p_attempts q = p_attempts p @ [a] \<and> p_refunds q = p_refunds p \<and> p_state q = p_state p
    \<and> p_selectedGateway q = g \<and> same_identity p q \<and> same_funds p q \<and> bumped [EventPaymentAttempted] p q"
  using assms
  by (auto simp: StartAttempt_def Let_def touch_def raise_def Version_Next_def same_defs split: if_splits)

lemma MarkAuthorized_summary:
  assumes "MarkAuthorized m ex now p = Inr q"
  shows "(p_state p, StateAuthorized) \<in> set machine_edges \<and> p_state q = StateAuthorized
    \<and> m_currency m = m_currency (p_amount p) \<and> 0 < amount_of m \<and> amount_of m \<le> amount_of (p_amount p)
    \<and> p_authorizedAmount q = m \<and> p_capturedAmount q = p_capturedAmount p \<and> p_refundedAmount q = p_refundedAmount p
    \<and> p_attempts q = p_attempts p \<and> p_refunds q = p_refunds p \<and> same_identity p q
    \<and> bumped [EventPaymentAuthorized] p q"
proof -
  have c: "m_currency m = m_currency (p_amount p)" and pos: "0 < amount_of m"
    and g: "Money_GreaterThan m (p_amount p) = Inr False" and mv: "payment_move p StateAuthorized = None"
    using assms by (auto simp: MarkAuthorized_def Money_IsPositive_def split: if_splits sum.splits option.splits)
  show ?thesis using assms c pos mv g
    by (auto simp: MarkAuthorized_def Money_IsPositive_def payment_move_iff GreaterThan_Inr_iff
        Let_def touch_def raise_def Version_Next_def same_defs)
qed

lemma MarkCaptured_summary:
  assumes "MarkCaptured m now p = Inr q"
  shows "(p_state p, StateCaptured) \<in> set machine_edges \<and> p_state q = StateCaptured
    \<and> 0 < amount_of m \<and> m_currency (p_capturedAmount q) = m_currency (p_capturedAmount p)
    \<and> amount_of (p_capturedAmount q) = amount_of (p_capturedAmount p) + amount_of m
    \<and> amount_of (p_capturedAmount q) \<le> amount_of (capture_ceiling p)
    \<and> p_authorizedAmount q = p_authorizedAmount p \<and> p_refundedAmount q = p_refundedAmount p
    \<and> p_attempts q = p_attempts p \<and> p_refunds q = p_refunds p \<and> same_identity p q
    \<and> bumped [EventPaymentCaptured] p q"
proof -
  obtain t where c: "m_currency m = m_currency (p_amount p)" and pos: "0 < amount_of m"
    and t: "Money_Add (p_capturedAmount p) m = Inr t"
    and g: "Money_GreaterThan t (capture_ceiling p) = Inr False" and mv: "payment_move p StateCaptured = None"
    using assms by (auto simp: MarkCaptured_def Money_IsPositive_def split: if_splits sum.splits option.splits)
  have q: "p_state q = StateCaptured" "p_capturedAmount q = t" "p_authorizedAmount q = p_authorizedAmount p"
    "p_refundedAmount q = p_refundedAmount p" "p_attempts q = p_attempts p" "p_refunds q = p_refunds p"
    "same_identity p q" "bumped [EventPaymentCaptured] p q"
    using assms c pos t g mv
    by (auto simp: MarkCaptured_def Money_IsPositive_def Let_def touch_def raise_def Version_Next_def same_defs)
  show ?thesis using q pos t g mv
    by (auto simp: Money_Add_Inr_iff GreaterThan_Inr_iff payment_move_iff)
qed

lemma MarkFailed_summary:
  assumes "MarkFailed d t now p = Inr q"
  shows "\<not> HasUnresolvedAttempt p \<and> (p_state p, StateFailed) \<in> set machine_edges \<and> p_state q = StateFailed
    \<and> same_identity p q \<and> same_funds p q \<and> p_attempts q = p_attempts p \<and> p_refunds q = p_refunds p
    \<and> bumped [EventPaymentFailed] p q"
  using assms
  by (auto simp: MarkFailed_def payment_move_iff Let_def touch_def raise_def Version_Next_def same_defs
      split: if_splits option.splits)

lemma committed_refunds_value:
  "committed_refunds c rs = Inr m \<Longrightarrow>
   m_currency m = m_currency c \<and> amount_of m = amount_of c + sum_list (map inflight_of rs)"
proof (induction rs arbitrary: c)
  case (Cons r rs)
  show ?case
  proof (cases "r_status r = RefundPending \<or> r_status r = RefundSubmitted")
    case True
    then obtain n where n: "Money_Add c (r_amount r) = Inr n" "committed_refunds n rs = Inr m"
      using Cons.prems by (auto split: sum.splits)
    from Cons.IH [OF n(2)] n(1) True show ?thesis
      by (auto simp: Money_Add_Inr_iff inflight_of_def refund_inflight_def)
  next
    case False
    then show ?thesis using Cons.IH [of c] Cons.prems by (auto simp: inflight_of_def refund_inflight_def)
  qed
qed simp

lemma AddRefund_summary:
  assumes "AddRefund rid m reason key now p = Inr (q, r)"
  shows "State_AllowsRefund (p_state p) \<and> m_currency m = m_currency (p_amount p) \<and> 0 < amount_of m
    \<and> amount_of (p_refundedAmount p) + sum_list (map inflight_of (p_refunds p)) + amount_of m
        \<le> amount_of (p_capturedAmount p)
    \<and> r = newRefund rid (p_id p) (p_tenantID p) m reason key now
    \<and> p_refunds q = p_refunds p @ [r] \<and> p_attempts q = p_attempts p \<and> p_state q = p_state p
    \<and> same_identity p q \<and> same_funds p q \<and> bumped [] p q"
proof -
  obtain c t where s: "State_AllowsRefund (p_state p)" "m_currency m = m_currency (p_amount p)" "0 < amount_of m"
    and c: "committed_refunds (p_refundedAmount p) (p_refunds p) = Inr c" and t: "Money_Add c m = Inr t"
    and g: "Money_GreaterThan t (p_capturedAmount p) = Inr False"
    using assms by (auto simp: AddRefund_def Money_IsPositive_def split: if_splits sum.splits)
  have q: "r = newRefund rid (p_id p) (p_tenantID p) m reason key now" "p_refunds q = p_refunds p @ [r]"
    "p_attempts q = p_attempts p" "p_state q = p_state p" "same_identity p q" "same_funds p q" "bumped [] p q"
    using assms s c t g
    by (auto simp: AddRefund_def Money_IsPositive_def Let_def touch_def Version_Next_def same_defs)
  show ?thesis using q s t g committed_refunds_value [OF c] by (auto simp: Money_Add_Inr_iff GreaterThan_Inr_iff)
qed

lemma find_refund_Some: "find_refund rid rs = Some i \<Longrightarrow> i < length rs \<and> r_id (rs ! i) = rid"
  by (induction rs arbitrary: i) (auto split: if_splits)

lemma ConfirmRefund_summary:
  assumes "ConfirmRefund rid g now p = (None, q)"
  shows "\<exists>i target. i < length (p_refunds p) \<and> r_id (p_refunds p ! i) = rid
    \<and> Refund_markSucceeded g now (p_refunds p ! i) = Inr target
    \<and> p_refunds q = (p_refunds p)[i := target]
    \<and> m_currency (p_refundedAmount q) = m_currency (p_refundedAmount p)
    \<and> amount_of (p_refundedAmount q) = amount_of (p_refundedAmount p) + amount_of (r_amount target)
    \<and> p_state q = (if amount_of (p_capturedAmount p) \<le> amount_of (p_refundedAmount q)
                   then StateRefunded else StatePartiallyRefunded)
    \<and> (p_state p, p_state q) \<in> set machine_edges
    \<and> p_authorizedAmount q = p_authorizedAmount p \<and> p_capturedAmount q = p_capturedAmount p
    \<and> p_attempts q = p_attempts p \<and> same_identity p q \<and> bumped [EventPaymentRefunded] p q"
proof -
  obtain i target t c where i: "find_refund rid (p_refunds p) = Some i"
    and target: "Refund_markSucceeded g now (p_refunds p ! i) = Inr target"
    and t: "Money_Add (p_refundedAmount p) (r_amount target) = Inr t"
    and c: "Money_Cmp t (p_capturedAmount p) = Inr c"
    using assms by (auto simp: ConfirmRefund_def Let_def split: option.splits sum.splits)
  define nx where "nx = (if c \<ge> 0 then StateRefunded else StatePartiallyRefunded)"
  have mv: "(p_state p, nx) \<in> set machine_edges"
    using assms i target t c
    by (auto simp: ConfirmRefund_def Let_def payment_move_iff nx_def split: option.splits)
  have q: "p_refunds q = (p_refunds p)[i := target]" "p_refundedAmount q = t" "p_state q = nx"
    "p_authorizedAmount q = p_authorizedAmount p" "p_capturedAmount q = p_capturedAmount p"
    "p_attempts q = p_attempts p" "same_identity p q" "bumped [EventPaymentRefunded] p q"
    using assms i target t c
    by (auto simp: ConfirmRefund_def Let_def nx_def touch_def raise_def Version_Next_def same_defs
        split: option.splits)
  show ?thesis
    using q mv target t Cmp_Inr_nonneg [OF c] find_refund_Some [OF i]
    by (intro exI [of _ i] exI [of _ target]) (auto simp: Money_Add_Inr_iff nx_def)
qed

text \<open>A failed confirmation may still have marked the refund as succeeded.\<close>

lemma ConfirmRefund_error:
  assumes "ConfirmRefund rid g now p = (Some e, q)"
  shows "q = p \<or> (\<exists>i target. i < length (p_refunds p) \<and> Refund_markSucceeded g now (p_refunds p ! i) = Inr target
    \<and> q = p\<lparr>p_refunds := (p_refunds p)[i := target]\<rparr>)"
proof (cases "find_refund rid (p_refunds p)")
  case None
  then show ?thesis using assms by (simp add: ConfirmRefund_def)
next
  case (Some i)
  show ?thesis
  proof (cases "Refund_markSucceeded g now (p_refunds p ! i)")
    case (Inl e)
    then show ?thesis using assms Some by (simp add: ConfirmRefund_def)
  next
    case (Inr target)
    have "q = p\<lparr>p_refunds := (p_refunds p)[i := target]\<rparr>"
      using assms Some Inr by (auto simp: ConfirmRefund_def Let_def split: option.splits sum.splits)
    then show ?thesis using Inr find_refund_Some [OF Some] by blast
  qed
qed

lemma ResolveDispute_summary:
  assumes "ResolveDispute won now p = Inr q"
  shows "p_state p = StateDisputed \<and> p_state q \<in> {StateRefunded, StateCaptured, StateSettled}
    \<and> (p_state q = StateRefunded \<longleftrightarrow> \<not> won) \<and> same_identity p q \<and> same_funds p q
    \<and> p_attempts q = p_attempts p \<and> p_refunds q = p_refunds p \<and> bumped [EventPaymentDisputeResolved] p q"
  using assms transition_summary [of _ "Some EventPaymentDisputeResolved" "[(''won'', PBool won)]" now p q]
  by (auto simp: ResolveDispute_def Let_def split: if_splits)

section \<open>The invariant of the aggregate\<close>

definition captured_like :: "State \<Rightarrow> bool" where
  "captured_like s \<longleftrightarrow> s \<in> {StateCaptured, StateSettled, StatePartiallyRefunded, StateRefunded, StateDisputed}"

text \<open>I1 and I2, in one currency: nothing is captured beyond the ceiling, nothing refunded beyond the capture.\<close>

definition funds_inv :: "Payment \<Rightarrow> bool" where
  "funds_inv p \<longleftrightarrow>
     0 < amount_of (p_amount p)
     \<and> 0 \<le> amount_of (p_authorizedAmount p) \<and> amount_of (p_authorizedAmount p) \<le> amount_of (p_amount p)
     \<and> 0 \<le> amount_of (p_capturedAmount p) \<and> amount_of (p_capturedAmount p) \<le> amount_of (capture_ceiling p)
     \<and> 0 \<le> amount_of (p_refundedAmount p)
     \<and> amount_of (p_refundedAmount p) + sum_list (map inflight_of (p_refunds p)) \<le> amount_of (p_capturedAmount p)
     \<and> amount_of (p_refundedAmount p) \<le> sum_list (map succeeded_of (p_refunds p))
     \<and> (\<forall>r \<in> set (p_refunds p). 0 < amount_of (r_amount r))"

definition currency_inv :: "Payment \<Rightarrow> bool" where
  "currency_inv p \<longleftrightarrow> (let c = m_currency (p_amount p) in
     m_currency (p_authorizedAmount p) = c \<and> m_currency (p_capturedAmount p) = c
     \<and> m_currency (p_refundedAmount p) = c \<and> (\<forall>r \<in> set (p_refunds p). m_currency (r_amount r) = c))"

definition state_inv :: "Payment \<Rightarrow> bool" where
  "state_inv p \<longleftrightarrow> (0 < amount_of (p_capturedAmount p) \<longleftrightarrow> captured_like (p_state p))
     \<and> (p_state p = StateAuthorized \<longrightarrow> 0 < amount_of (p_authorizedAmount p))
     \<and> (p_state p = StatePartiallyRefunded \<longrightarrow> 0 < amount_of (p_refundedAmount p)
          \<and> amount_of (p_refundedAmount p) < amount_of (p_capturedAmount p))"

definition attempts_inv :: "Payment \<Rightarrow> bool" where
  "attempts_inv p \<longleftrightarrow>
     (\<forall>i < length (p_attempts p). a_sequence (p_attempts p ! i) = int i + 1)
     \<and> (\<forall>a \<in> set (p_attempts p). attempt_inv a \<and> a_paymentID a = p_id p \<and> a_tenantID a = p_tenantID p
          \<and> a_amount a = p_amount p)
     \<and> (\<forall>r \<in> set (p_refunds p). r_paymentID r = p_id p \<and> r_tenantID r = p_tenantID p)"

definition payment_inv :: "Payment \<Rightarrow> bool" where
  "payment_inv p \<longleftrightarrow> funds_inv p \<and> currency_inv p \<and> state_inv p \<and> attempts_inv p"

text \<open>The refunded total is the sum of the refunds that succeeded.\<close>

definition books_balance :: "Payment \<Rightarrow> bool" where
  "books_balance p \<longleftrightarrow> amount_of (p_refundedAmount p) = sum_list (map succeeded_of (p_refunds p))"

lemma ball_update: "\<forall>x \<in> set xs. P x \<Longrightarrow> P y \<Longrightarrow> \<forall>x \<in> set (xs[i := y]). P x"
  using set_update_subset_insert [of xs i y] by blast

text \<open>Operations that move the state and nothing else.\<close>

definition pure_move :: "Payment \<Rightarrow> Payment \<Rightarrow> bool" where
  "pure_move p q \<longleftrightarrow> same_identity p q \<and> same_funds p q \<and> p_attempts q = p_attempts p \<and> p_refunds q = p_refunds p
     \<and> (p_state q = p_state p
        \<or> captured_like (p_state q) = captured_like (p_state p) \<and> p_state q \<notin> {StateAuthorized, StatePartiallyRefunded})"

lemma pure_move_inv:
  assumes "payment_inv p" and "pure_move p q"
  shows "payment_inv q" and "books_balance p \<Longrightarrow> books_balance q"
proof -
  have eq: "p_amount q = p_amount p" "p_authorizedAmount q = p_authorizedAmount p"
    "p_capturedAmount q = p_capturedAmount p" "p_refundedAmount q = p_refundedAmount p"
    "p_attempts q = p_attempts p" "p_refunds q = p_refunds p" "p_id q = p_id p" "p_tenantID q = p_tenantID p"
    using assms(2) by (simp_all add: pure_move_def same_identity_def same_funds_def)
  have "capture_ceiling q = capture_ceiling p" by (simp add: capture_ceiling_def eq)
  then have "funds_inv q" "currency_inv q" "attempts_inv q"
    using assms(1) by (simp_all add: payment_inv_def funds_inv_def currency_inv_def attempts_inv_def eq)
  moreover have "state_inv q"
    using assms by (auto simp: payment_inv_def state_inv_def pure_move_def eq)
  ultimately show "payment_inv q" by (simp add: payment_inv_def)
  show "books_balance p \<Longrightarrow> books_balance q" by (simp add: books_balance_def eq)
qed

text \<open>The edges of the table that capture nothing.\<close>

definition quiet_targets :: "State list" where
  "quiet_targets = [StateProcessing, StateRequiresAction, StatePending, StateVoided, StateCanceled, StateExpired,
     StateFailed, StateSettled, StateDisputed]"

lemma quiet_edges:
  "list_all (\<lambda>(s, t). (t \<in> set quiet_targets \<longrightarrow> captured_like s = captured_like t)
     \<and> (s = StateDisputed \<longrightarrow> captured_like t \<and> t \<notin> {StateAuthorized, StatePartiallyRefunded})) machine_edges"
  by code_simp

lemma edge_quiet:
  "(s, t) \<in> set machine_edges \<Longrightarrow> t \<in> set quiet_targets \<or> s = StateDisputed \<Longrightarrow>
   captured_like t = captured_like s \<and> t \<notin> {StateAuthorized, StatePartiallyRefunded}"
  using quiet_edges by (force simp: list_all_iff captured_like_def quiet_targets_def)

lemma transition_pure:
  assumes "transition to evt payload now p = Inr q" and "to \<in> set quiet_targets \<or> p_state p = StateDisputed"
  shows "pure_move p q"
  using transition_summary [OF assms(1)] edge_quiet [of "p_state p" to] assms(2) by (auto simp: pure_move_def)

lemma lift_None: "lift_outcome p r = (None, q) \<longleftrightarrow> r = Inr q"
  by (auto simp: lift_outcome_def split: sum.splits)

lemma map_sum_Inr: "map_sum f g r = Inr y \<longleftrightarrow> (\<exists>x. r = Inr x \<and> y = g x)"
  by (cases r) auto

lemmas quiet_defs = MarkProcessing_def RequireAction_def MarkPending_def Cancel_def Expire_def MarkSettled_def
  MarkDisputed_def

fun quiet_op :: "payment_op \<Rightarrow> bool" where
  "quiet_op (DoStartAttempt _ _ _ _ _) = False"
| "quiet_op (DoAuthorized _ _ _) = False"
| "quiet_op (DoCaptured _ _) = False"
| "quiet_op (DoAddRefund _ _ _ _ _) = False"
| "quiet_op (DoConfirmRefund _ _ _) = False"
| "quiet_op (DoAttempt _ _) = False"
| "quiet_op (DoRefund _ _) = False"
| "quiet_op _ = True"

lemma unsaved_pure:
  "pure_move p (RequireReconciliation a r now p)" "pure_move p (MarkPersisted p)" "pure_move p (fst (DrainEvents p))"
  by (simp_all add: pure_move_def same_identity_def same_funds_def RequireReconciliation_def Let_def touch_def
      raise_def MarkPersisted_def DrainEvents_def)

lemma quiet_op_pure:
  assumes "payment_step op p = (None, q)" and "quiet_op op"
  shows "pure_move p q"
proof (cases op)
  case (DoFailed d t now)
  then have "MarkFailed d t now p = Inr q" using assms by (simp add: lift_None)
  then show ?thesis using edge_quiet [of "p_state p" StateFailed] MarkFailed_summary
    by (auto simp: pure_move_def quiet_targets_def)
next
  case (DoResolveDispute won now)
  then have "ResolveDispute won now p = Inr q" using assms by (simp add: lift_None)
  then show ?thesis using ResolveDispute_summary [of won now p q] by (auto simp: pure_move_def captured_like_def)
next
  case (DoVoid now)
  then show ?thesis using assms
    by (auto simp: lift_None Void_def quiet_targets_def intro: transition_pure split: if_splits)
qed (use assms in \<open>auto simp: lift_None quiet_defs quiet_targets_def unsaved_pure intro: transition_pure\<close>)

lemma zero_iff: "Money_IsZero m \<longleftrightarrow> amount_of m = 0"
  by (simp add: Money_IsZero_def int64_eq_iff)

lemmas inv_defs = payment_inv_def funds_inv_def currency_inv_def state_inv_def attempts_inv_def

lemma same_funds_ceiling: "same_identity p q \<Longrightarrow> same_funds p q \<Longrightarrow> capture_ceiling q = capture_ceiling p"
  by (simp add: same_identity_def same_funds_def capture_ceiling_def)

text \<open>An operation that leaves the totals and the state alone, but may touch the attempts and the refunds.\<close>

lemma entities_inv:
  assumes "payment_inv p" "same_identity p q" "same_funds p q" "p_state q = p_state p" "attempts_inv q"
    and "\<forall>r \<in> set (p_refunds q). 0 < amount_of (r_amount r) \<and> m_currency (r_amount r) = m_currency (p_amount p)"
    and "amount_of (p_refundedAmount p) + sum_list (map inflight_of (p_refunds q)) \<le> amount_of (p_capturedAmount p)"
    and "sum_list (map succeeded_of (p_refunds p)) \<le> sum_list (map succeeded_of (p_refunds q))"
  shows "payment_inv q"
proof -
  have eq: "p_amount q = p_amount p" "p_authorizedAmount q = p_authorizedAmount p"
    "p_capturedAmount q = p_capturedAmount p" "p_refundedAmount q = p_refundedAmount p"
    using assms(2,3) by (simp_all add: same_identity_def same_funds_def)
  have "funds_inv q"
    using assms(1,6,7,8) same_funds_ceiling [OF assms(2,3)] by (simp add: payment_inv_def funds_inv_def eq)
  moreover have "currency_inv q" using assms(1,6) by (simp add: payment_inv_def currency_inv_def eq Let_def)
  moreover have "state_inv q" using assms(1,4) by (simp add: payment_inv_def state_inv_def eq)
  ultimately show ?thesis using assms(5) by (simp add: payment_inv_def)
qed

lemma refunds_ok:
  "payment_inv p \<Longrightarrow>
   \<forall>r \<in> set (p_refunds p). 0 < amount_of (r_amount r) \<and> m_currency (r_amount r) = m_currency (p_amount p)"
  by (simp add: payment_inv_def funds_inv_def currency_inv_def Let_def)

lemma StartAttempt_inv:
  assumes "payment_inv p" and "StartAttempt aid g pl op now p = Inr (q, a)"
  shows "payment_inv q" and "books_balance p \<Longrightarrow> books_balance q"
proof -
  note s = StartAttempt_summary [OF assms(2)]
  have inv: "attempts_inv p" using assms(1) by (simp add: payment_inv_def)
  have "attempts_inv q"
    using s inv newAttempt_inv
    by (auto simp: attempts_inv_def same_identity_def nth_append newAttempt_def less_Suc_eq)
  then show "payment_inv q"
    using s assms(1) refunds_ok [OF assms(1)]
    by (intro entities_inv [OF assms(1)]) (simp_all add: payment_inv_def funds_inv_def)
  show "books_balance p \<Longrightarrow> books_balance q" using s by (simp add: books_balance_def same_funds_def)
qed

lemma AddRefund_inv:
  assumes "payment_inv p" and "AddRefund rid m reason key now p = Inr (q, r)"
  shows "payment_inv q" and "books_balance p \<Longrightarrow> books_balance q"
proof -
  note s = AddRefund_summary [OF assms(2)]
  have inv: "attempts_inv p" using assms(1) by (simp add: payment_inv_def)
  have r: "inflight_of r = amount_of m" "succeeded_of r = 0" "r_amount r = m" "r_paymentID r = p_id p" "r_tenantID r = p_tenantID p"
    using s by (simp_all add: newRefund_def Let_def inflight_of_def refund_inflight_def succeeded_of_def)
  have "attempts_inv q" using s inv r by (auto simp: attempts_inv_def same_identity_def)
  then show "payment_inv q"
    using s assms(1) refunds_ok [OF assms(1)] r
    by (intro entities_inv [OF assms(1)]) auto
  show "books_balance p \<Longrightarrow> books_balance q" using s r by (simp add: books_balance_def same_funds_def)
qed

lemma attempt_field_inv:
  assumes "payment_inv p" "n < length (p_attempts p)" "attempt_step op (p_attempts p ! n) = Inr a"
  shows "payment_inv (p\<lparr>p_attempts := (p_attempts p)[n := a]\<rparr>)"
proof -
  have inv: "attempts_inv p" using assms(1) by (simp add: payment_inv_def)
  have mem: "p_attempts p ! n \<in> set (p_attempts p)" using assms(2) by simp
  have a: "a_sequence a = a_sequence (p_attempts p ! n)" "attempt_inv a" "a_paymentID a = p_id p"
    "a_tenantID a = p_tenantID p" "a_amount a = p_amount p"
    using inv mem attempt_step_fixed [OF assms(3)] attempt_exec_inv [of "p_attempts p ! n" op] assms(3)
    by (auto simp: attempts_inv_def attempt_exec_def)
  have "\<forall>b \<in> set ((p_attempts p)[n := a]). attempt_inv b \<and> a_paymentID b = p_id p \<and> a_tenantID b = p_tenantID p
      \<and> a_amount b = p_amount p"
    using inv a by (intro ball_update) (auto simp: attempts_inv_def)
  then have "attempts_inv (p\<lparr>p_attempts := (p_attempts p)[n := a]\<rparr>)"
    using inv a(1) assms(2) by (auto simp: attempts_inv_def nth_list_update)
  then show ?thesis
    using assms(1) refunds_ok [OF assms(1)]
    by (intro entities_inv [OF assms(1)]) (simp_all add: payment_inv_def funds_inv_def same_identity_def same_funds_def)
qed

text \<open>One refund changes its status in place and the totals stay.\<close>

lemma refund_field_inv:
  assumes "payment_inv p" "i < length (p_refunds p)"
    and r: "r_amount r = r_amount (p_refunds p ! i)" "r_paymentID r = r_paymentID (p_refunds p ! i)"
      "r_tenantID r = r_tenantID (p_refunds p ! i)"
    and "refund_inflight (p_refunds p ! i)"
  shows "payment_inv (p\<lparr>p_refunds := (p_refunds p)[i := r]\<rparr>)"
proof -
  have inv: "attempts_inv p" using assms(1) by (simp add: payment_inv_def)
  have mem: "p_refunds p ! i \<in> set (p_refunds p)" using assms(2) by simp
  have pos: "0 < amount_of (r_amount (p_refunds p ! i))" using refunds_ok [OF assms(1)] mem by blast
  have "\<forall>b \<in> set ((p_refunds p)[i := r]). r_paymentID b = p_id p \<and> r_tenantID b = p_tenantID p"
    using inv r mem by (intro ball_update) (auto simp: attempts_inv_def)
  then have a: "attempts_inv (p\<lparr>p_refunds := (p_refunds p)[i := r]\<rparr>)" using inv by (simp add: attempts_inv_def)
  have b: "\<forall>b \<in> set ((p_refunds p)[i := r]). 0 < amount_of (r_amount b) \<and> m_currency (r_amount b) = m_currency (p_amount p)"
    using refunds_ok [OF assms(1)] r mem by (intro ball_update) auto
  have "inflight_of r \<le> inflight_of (p_refunds p ! i)" "succeeded_of (p_refunds p ! i) \<le> succeeded_of r"
    using assms(6) r pos by (auto simp: inflight_of_def succeeded_of_def refund_inflight_def)
  then show ?thesis
    using assms(1,2) a b
    by (intro entities_inv [OF assms(1)])
      (simp_all add: payment_inv_def funds_inv_def same_identity_def same_funds_def sum_list_update_int)
qed

lemma MarkAuthorized_inv:
  assumes "payment_inv p" and "MarkAuthorized m ex now p = Inr q"
  shows "payment_inv q" and "books_balance p \<Longrightarrow> books_balance q"
proof -
  note s = MarkAuthorized_summary [OF assms(2)]
  have "\<not> captured_like (p_state p)" using s by (auto simp: machine_edges_def captured_like_def)
  then have cap: "amount_of (p_capturedAmount p) = 0" using assms(1) by (auto simp: inv_defs)
  have c: "capture_ceiling q = m" using s by (simp add: capture_ceiling_def zero_iff)
  show "payment_inv q"
    using s c cap assms(1) by (auto simp: inv_defs same_identity_def captured_like_def Let_def)
  show "books_balance p \<Longrightarrow> books_balance q" using s by (simp add: books_balance_def)
qed

lemma MarkCaptured_inv:
  assumes "payment_inv p" and "MarkCaptured m now p = Inr q"
  shows "payment_inv q" and "books_balance p \<Longrightarrow> books_balance q"
proof -
  note s = MarkCaptured_summary [OF assms(2)]
  have c: "capture_ceiling q = capture_ceiling p" using s by (simp add: capture_ceiling_def same_identity_def)
  have funds: "funds_inv p" and "currency_inv p" "attempts_inv p" using assms(1) by (simp_all add: payment_inv_def)
  then have "funds_inv q" "currency_inv q" "attempts_inv q"
    using s c by (simp_all add: funds_inv_def currency_inv_def attempts_inv_def same_identity_def Let_def)
  moreover have "state_inv q" using s funds by (simp add: state_inv_def captured_like_def funds_inv_def)
  ultimately show "payment_inv q" by (simp add: payment_inv_def)
  show "books_balance p \<Longrightarrow> books_balance q" using s by (simp add: books_balance_def)
qed

lemma edges_into_refunded:
  "(s, StateRefunded) \<in> set machine_edges \<or> (s, StatePartiallyRefunded) \<in> set machine_edges \<Longrightarrow> captured_like s"
  by (auto simp: machine_edges_def captured_like_def)

lemma markSucceeded_sums:
  assumes "i < length rs" and "Refund_markSucceeded g now (rs ! i) = Inr r"
  shows "sum_list (map inflight_of (rs[i := r])) = sum_list (map inflight_of rs) - amount_of (r_amount r)"
    and "sum_list (map succeeded_of (rs[i := r])) = sum_list (map succeeded_of rs) + amount_of (r_amount r)"
  using markSucceeded_effect [OF assms(2)] assms(1)
  by (simp_all add: sum_list_update_int inflight_of_def succeeded_of_def refund_inflight_def)

lemma inflight_nonneg:
  "payment_inv p \<Longrightarrow> 0 \<le> sum_list (map inflight_of (p_refunds p))"
  using refunds_ok [of p] by (intro sum_list_nonneg) (force simp: inflight_of_def)

lemma ConfirmRefund_inv:
  assumes "payment_inv p" and "ConfirmRefund rid g now p = (None, q)"
  shows "payment_inv q" and "books_balance p \<Longrightarrow> books_balance q"
proof -
  obtain i r where i: "i < length (p_refunds p)" and r: "Refund_markSucceeded g now (p_refunds p ! i) = Inr r"
    and q: "p_refunds q = (p_refunds p)[i := r]"
      "m_currency (p_refundedAmount q) = m_currency (p_refundedAmount p)"
      "amount_of (p_refundedAmount q) = amount_of (p_refundedAmount p) + amount_of (r_amount r)"
      "p_state q = (if amount_of (p_capturedAmount p) \<le> amount_of (p_refundedAmount q)
                   then StateRefunded else StatePartiallyRefunded)"
      "(p_state p, p_state q) \<in> set machine_edges"
      "p_authorizedAmount q = p_authorizedAmount p" "p_capturedAmount q = p_capturedAmount p"
      "p_attempts q = p_attempts p" "same_identity p q"
    using ConfirmRefund_summary [OF assms(2)] by blast
  note eff = markSucceeded_effect [OF r]
  define p' where "p' = p\<lparr>p_refunds := (p_refunds p)[i := r]\<rparr>"
  have p': "payment_inv p'" unfolding p'_def
    using eff by (intro refund_field_inv [OF assms(1) i]) (simp_all add: refund_inflight_def)
  have f: "p_refunds p' = p_refunds q" "p_amount p' = p_amount q" "p_authorizedAmount p' = p_authorizedAmount q"
    "p_capturedAmount p' = p_capturedAmount q" "p_attempts p' = p_attempts q" "p_id p' = p_id q" "p_tenantID p' = p_tenantID q"
    "p_refundedAmount p' = p_refundedAmount p"
    using q by (simp_all add: p'_def same_identity_def)
  have ceil: "capture_ceiling p' = capture_ceiling q" by (simp add: capture_ceiling_def f)
  have pos: "0 < amount_of (r_amount r)"
    using refunds_ok [OF p'] i by (simp add: p'_def set_update_memI)
  note sums = markSucceeded_sums [OF i r]
  have fp: "funds_inv p" "state_inv p" using assms(1) by (simp_all add: payment_inv_def)
  have "funds_inv q"
    using p' fp(1) pos sums unfolding payment_inv_def funds_inv_def ceil f q by simp
  moreover have "currency_inv q" "attempts_inv q"
    using p' q(2) unfolding payment_inv_def currency_inv_def attempts_inv_def f by simp_all
  moreover have "state_inv q"
  proof -
    have "captured_like (p_state p)" using q(4,5) by (intro edges_into_refunded) (auto split: if_splits)
    then have "0 < amount_of (p_capturedAmount q)" using fp(2) q(7) by (simp add: state_inv_def)
    then show ?thesis using q(3,4,7) pos fp(1)
      by (auto simp: state_inv_def captured_like_def funds_inv_def split: if_splits)
  qed
  ultimately show "payment_inv q" by (simp add: payment_inv_def)
  show "books_balance p \<Longrightarrow> books_balance q" using sums q by (simp add: books_balance_def)
qed

lemma refund_step_sums:
  assumes "i < length rs" and "refund_step op (rs ! i) = Inr r"
  shows "sum_list (map succeeded_of (rs[i := r])) = sum_list (map succeeded_of rs)"
  using refund_step_effect [OF assms(2)] assms(1) by (simp add: sum_list_update_int succeeded_of_def)

lemma payment_step_inv:
  assumes "payment_inv p" and "payment_step op p = (None, q)"
  shows "payment_inv q \<and> (books_balance p \<longrightarrow> books_balance q)"
proof (cases "quiet_op op")
  case True
  then show ?thesis using pure_move_inv [OF assms(1) quiet_op_pure [OF assms(2)]] by blast
next
  case False
  show ?thesis
  proof (cases op)
    case (DoStartAttempt aid g pl op now)
    then show ?thesis using assms StartAttempt_inv [OF assms(1)] by (auto simp: lift_None map_sum_Inr)
  next
    case (DoAuthorized m ex now)
    then show ?thesis using assms MarkAuthorized_inv [OF assms(1)] by (auto simp: lift_None)
  next
    case (DoCaptured m now)
    then show ?thesis using assms MarkCaptured_inv [OF assms(1)] by (auto simp: lift_None)
  next
    case (DoAddRefund rid m r k now)
    then show ?thesis using assms AddRefund_inv [OF assms(1)] by (auto simp: lift_None map_sum_Inr)
  next
    case (DoConfirmRefund rid g now)
    then show ?thesis using assms ConfirmRefund_inv [OF assms(1)] by auto
  next
    case (DoAttempt n aop)
    then show ?thesis using assms attempt_field_inv [OF assms(1)]
      by (auto simp: lift_None map_sum_Inr books_balance_def split: if_splits)
  next
    case (DoRefund n rop)
    then show ?thesis
    proof (cases "n < length (p_refunds p)")
      case True
      then obtain r where r: "refund_step rop (p_refunds p ! n) = Inr r" "q = p\<lparr>p_refunds := (p_refunds p)[n := r]\<rparr>"
        using assms(2) DoRefund by (auto simp: lift_None map_sum_Inr)
      note eff = refund_step_effect [OF r(1)]
      have "payment_inv q" unfolding r(2) using eff by (intro refund_field_inv [OF assms(1) True])
      then show ?thesis using refund_step_sums [OF True r(1)] by (simp add: r(2) books_balance_def)
    qed (use assms in simp)
  qed (use False in simp_all)
qed

text \<open>A call that returns an error leaves the aggregate as it was, but for a refund marked by \<open>ConfirmRefund\<close>.\<close>

lemma payment_step_error:
  assumes "payment_step op p = (Some e, q)"
  shows "q = p \<or> (\<exists>rid g now. op = DoConfirmRefund rid g now)"
  using assms by (cases op) (auto simp: lift_outcome_def split: sum.splits if_splits)

lemma payment_exec_inv:
  assumes "payment_inv p"
  shows "payment_inv (payment_exec op p)"
proof -
  obtain e q where s: "payment_step op p = (e, q)" by fastforce
  show ?thesis
  proof (cases e)
    case None
    then show ?thesis using payment_step_inv [OF assms] s by (simp add: payment_exec_def)
  next
    case (Some c)
    show ?thesis
    proof (cases "q = p")
      case False
      then obtain rid g now where "ConfirmRefund rid g now p = (Some c, q)"
        using payment_step_error [of op p c q] s Some by auto
      then obtain i r where i: "i < length (p_refunds p)" "Refund_markSucceeded g now (p_refunds p ! i) = Inr r"
        "q = p\<lparr>p_refunds := (p_refunds p)[i := r]\<rparr>"
        using ConfirmRefund_error False by blast
      have "payment_inv q" unfolding i(3) using markSucceeded_effect [OF i(2)]
        by (intro refund_field_inv [OF assms i(1)]) (simp_all add: refund_inflight_def)
      then show ?thesis using s by (simp add: payment_exec_def)
    qed (use s assms in \<open>simp add: payment_exec_def\<close>)
  qed
qed

lemma payment_commit_inv:
  "payment_inv p \<and> books_balance p \<Longrightarrow> payment_inv (payment_commit op p) \<and> books_balance (payment_commit op p)"
  using payment_step_inv [of p op] by (auto simp: payment_commit_def split: prod.splits option.splits)

lemma New_Inr:
  assumes "Payment_New pid q now = Inr p"
  shows "payment_inv p" "books_balance p" "p_state p = StateCreated" "p_version p = 1" "p_baseVersion p = 0"
    "p_attempts p = []" "p_refunds p = []" "map e_type (p_events p) = [EventPaymentCreated]"
  using assms
  by (auto simp: Payment_New_def Let_def raise_def inv_defs books_balance_def captured_like_def Money_Zero_def Money_IsPositive_def
      capture_ceiling_def Money_IsZero_def split: if_splits)

interpretation payment: guarded_system "\<lambda>p. \<exists>pid q now. Payment_New pid q now = Inr p" payment_exec payment_inv
  by unfold_locales (auto intro: New_Inr payment_exec_inv)

interpretation saved: guarded_system "\<lambda>p. \<exists>pid q now. Payment_New pid q now = Inr p" payment_commit
  "\<lambda>p. payment_inv p \<and> books_balance p"
  by unfold_locales (use New_Inr in blast, rule payment_commit_inv)

end
