(* ===== verification/Payment_Properties.thy ===== *)
theory Payment_Properties
  imports Payment_Invariants
begin

text \<open>
  What the payment aggregate guarantees to its callers, over every sequence of calls: the money
  invariants, exact books of refunds, when a refund is admitted and confirmed, final states, the
  protection of unknown outcomes and versioned changes. The last four properties show where the
  aggregate alone does less than its comments say.
\<close>

section \<open>Properties of the aggregate\<close>

lemma exec_same_identity: "same_identity p (payment_exec op p)"
proof -
  obtain e q where s: "payment_step op p = (e, q)" by fastforce
  have "same_identity p q"
  proof (cases e)
    case None
    show ?thesis
    proof (cases "quiet_op op")
      case True
      then show ?thesis using quiet_op_pure s None by (simp add: pure_move_def)
    next
      case False
      have refl: "same_identity p p" by (simp add: same_identity_def)
      show ?thesis using s None False
        by (cases op) (auto simp: lift_None map_sum_Inr same_identity_def split: if_splits
            dest!: StartAttempt_summary AddRefund_summary MarkAuthorized_summary MarkCaptured_summary ConfirmRefund_summary)
    qed
  next
    case (Some c)
    then show ?thesis
      using payment_step_error [of op p c q] ConfirmRefund_error [of _ _ _ p c q] s
      by (fastforce simp: same_identity_def)
  qed
  then show ?thesis using s by (simp add: payment_exec_def)
qed

lemma run_same_identity: "same_identity p (fold payment_exec ops p)"
proof (induction ops arbitrary: p)
  case (Cons op ops)
  show ?case using Cons [of "payment_exec op p"] exec_same_identity [of p op] by (simp add: same_identity_def)
qed (simp add: same_identity_def)

text \<open>
  C1: the money invariants I1 and I2 of the aggregate. Whatever methods are called on a payment that
  \<open>New\<close> created, in whatever order and whether they succeed or fail, the amount, merchant and tenant stay
  as created, what was captured never exceeds what was authorized (or the amount, when nothing was
  authorized separately) nor the amount of the payment, the refunded total the aggregate keeps
  (\<open>refundedAmount\<close>) together with the refunds still in flight never exceeds what was captured, that total
  never counts more than the refunds that succeeded, the refundable amount is captured minus the total
  and never negative, and something was captured exactly when the state says so. The bound is on the
  total and not on the refunds marked as succeeded: a confirmation that fails leaves its refund marked and
  uncounted, as the lemma \<open>failed_confirmation_lets_books_drift\<close> shows.
\<close>

theorem payment_money_invariant:
  assumes "Payment_New pid params now = Inr p0"
  defines "p \<equiv> \<lambda>ops. fold payment_exec ops p0"
  shows "p_amount (p ops) = np_amount params \<and> p_merchantID (p ops) = np_merchantID params
    \<and> p_tenantID (p ops) = np_tenantID params
    \<and> amount_of (p_capturedAmount (p ops)) \<le> amount_of (capture_ceiling (p ops))
    \<and> amount_of (capture_ceiling (p ops)) \<le> amount_of (p_amount (p ops))
    \<and> amount_of (p_refundedAmount (p ops)) + sum_list (map inflight_of (p_refunds (p ops)))
        \<le> amount_of (p_capturedAmount (p ops))
    \<and> amount_of (p_refundedAmount (p ops)) \<le> sum_list (map succeeded_of (p_refunds (p ops)))
    \<and> amount_of (RefundableAmount (p ops)) = amount_of (p_capturedAmount (p ops)) - amount_of (p_refundedAmount (p ops))
    \<and> 0 \<le> amount_of (RefundableAmount (p ops))
    \<and> (0 < amount_of (p_capturedAmount (p ops)) \<longleftrightarrow> captured_like (p_state (p ops)))"
proof -
  let ?q = "fold payment_exec ops p0"
  have inv: "payment_inv ?q" using assms(1) by (intro payment.reach_from_initial) blast
  have new: "p_amount p0 = np_amount params" "p_merchantID p0 = np_merchantID params" "p_tenantID p0 = np_tenantID params"
    using assms(1) by (auto simp: Payment_New_def Let_def raise_def split: if_splits)
  have f: "0 \<le> amount_of (p_refundedAmount ?q)" "amount_of (p_refundedAmount ?q) \<le> amount_of (p_capturedAmount ?q)"
    "m_currency (p_refundedAmount ?q) = m_currency (p_capturedAmount ?q)"
    using inv inflight_nonneg [OF inv] by (auto simp: inv_defs Let_def)
  have "in64 (amount_of (p_capturedAmount ?q) - amount_of (p_refundedAmount ?q))"
    using f sint_bounds [of "m_amount (p_capturedAmount ?q)"] by (simp add: in64_def)
  then obtain m where m: "Money_Sub (p_capturedAmount ?q) (p_refundedAmount ?q) = Inr m"
    using f by (simp add: Money_Sub_exact)
  then have r: "amount_of (RefundableAmount ?q) = amount_of (p_capturedAmount ?q) - amount_of (p_refundedAmount ?q)"
    using Money_Sub_Inr_iff [THEN iffD1, OF m] m by (simp add: RefundableAmount_def)
  have ceil: "amount_of (capture_ceiling ?q) \<le> amount_of (p_amount ?q)"
    using inv by (simp add: capture_ceiling_def inv_defs)
  show ?thesis
    unfolding p_def using run_same_identity [of p0 ops] new inv f r ceil
    by (simp add: same_identity_def payment_inv_def funds_inv_def state_inv_def)
qed

text \<open>A card payment of 100.00 USD, and the runs the examples below share.\<close>

definition usd :: "int64 \<Rightarrow> money" where "usd n = \<lparr>m_amount = n, m_currency = ''USD''\<rparr>"

definition sample_params :: NewPaymentParams where
  "sample_params = \<lparr>np_tenantID = ''ten_1'', np_merchantID = ''mrc_1'', np_amount = usd 10000,
     np_paymentMethod = ''CARD'',
     np_methodRef = \<lparr>pm_token = ''tok_1'', pm_brand = ''visa'', pm_last4 = ''4242'', pm_expMonth = 12,
       pm_expYear = 2030, pm_country = ''US'', pm_networkToken = False\<rparr>,
     np_captureMethod = CaptureUnset, np_description = [], np_statementRef = [], np_metadata = None,
     np_customer = \<lparr>c_merchantCustomerID = ''c1'', c_emailHash = [], c_ipAddress = [], c_country = ''US''\<rparr>,
     np_idempotencyKey = ''idem-1'', np_correlationID = ''corr-1''\<rparr>"

definition sample_payment :: Payment where
  "sample_payment = projr (Payment_New ''pay_1'' sample_params 100)"

lemmas sample_new_simps = Payment_New_def sample_params_def usd_def Money_IsValid_def Currency_IsSupported_def currencies_def
  Money_IsPositive_def PaymentMethod_IsValid_def paymentMethods_def MethodCard_def CaptureMethod_IsValid_def Let_def

lemma sample_created: "Payment_New ''pay_1'' sample_params 100 = Inr sample_payment"
proof -
  have "\<exists>p. Payment_New ''pay_1'' sample_params 100 = Inr p"
    by (simp add: sample_new_simps)
  then show ?thesis by (auto simp: sample_payment_def)
qed

lemma sample_payment_simps:
  "p_state sample_payment = StateCreated" "p_amount sample_payment = usd 10000"
  "p_authorizedAmount sample_payment = usd 0" "p_capturedAmount sample_payment = usd 0"
  "p_refundedAmount sample_payment = usd 0" "p_refunds sample_payment = []" "p_attempts sample_payment = []"
  "p_id sample_payment = ''pay_1''" "p_tenantID sample_payment = ''ten_1''" "p_capturedAt sample_payment = None"
  by (simp_all add: sample_payment_def sample_new_simps Money_Zero_def raise_def)

definition sample_captured :: Payment where
  "sample_captured = fold payment_exec [DoProcessing 101, DoCaptured (usd 9000) 102] sample_payment"

lemmas run_simps = payment_exec_def MarkProcessing_def MarkCaptured_def MarkDisputed_def transition_def payment_move_def
  lift_outcome_def touch_def raise_def Let_def Money_IsPositive_def GreaterThan_Inr_iff
  capture_ceiling_def Money_IsZero_def Version_Next_def usd_def Money_Add_def Money_GreaterThan_def Money_Cmp_def

lemma move_ok: "(s, to) \<in> set machine_edges \<Longrightarrow> Transition machine s to = None"
  by (simp add: pay.transition_ok_iff)

lemma sample_captured_simps:
  "p_state sample_captured = StateCaptured" "p_amount sample_captured = usd 10000"
  "p_capturedAmount sample_captured = usd 9000" "p_refundedAmount sample_captured = usd 0"
  "p_refunds sample_captured = []" "p_id sample_captured = ''pay_1''" "p_tenantID sample_captured = ''ten_1''"
  by (simp_all add: sample_captured_def run_simps sample_payment_simps [unfolded usd_def] move_ok machine_edges_def)

lemma sample_captured_inv: "payment_inv sample_captured"
  unfolding sample_captured_def using sample_created by (intro payment.reach_from_initial) blast

theorem payment_money_invariant_witness:
  "amount_of (p_amount sample_captured) = 10000 \<and> amount_of (RefundableAmount sample_captured) = 9000
   \<and> 0 < amount_of (p_capturedAmount sample_captured)"
  using payment_money_invariant [OF sample_created, of "[DoProcessing 101, DoCaptured (usd 9000) 102]"]
  unfolding sample_captured_def [symmetric]
  by (simp add: sample_captured_simps sample_params_def usd_def captured_like_def)

text \<open>
  C2: a payment as it is saved keeps exact books. When every unit of work either succeeds and is
  saved or fails and is discarded, the refunded total is at all times the sum of the refunds that
  succeeded, so refunds paid out and refunds in flight together never exceed the captured amount.
\<close>

theorem saved_payment_books_balance:
  assumes "Payment_New pid params now = Inr p0"
  shows "amount_of (p_refundedAmount (fold payment_commit ops p0))
      = sum_list (map succeeded_of (p_refunds (fold payment_commit ops p0)))
    \<and> sum_list (map succeeded_of (p_refunds (fold payment_commit ops p0)))
        + sum_list (map inflight_of (p_refunds (fold payment_commit ops p0)))
      \<le> amount_of (p_capturedAmount (fold payment_commit ops p0))"
proof -
  have "payment_inv (fold payment_commit ops p0) \<and> books_balance (fold payment_commit ops p0)"
    using assms by (intro saved.reach_from_initial) blast
  then show ?thesis by (auto simp: payment_inv_def funds_inv_def books_balance_def)
qed

lemma committed_refunds_total:
  "\<forall>r \<in> set rs. 0 < amount_of (r_amount r) \<and> m_currency (r_amount r) = m_currency c \<Longrightarrow>
   0 \<le> amount_of c \<Longrightarrow> in64 (amount_of c + sum_list (map inflight_of rs)) \<Longrightarrow>
   \<exists>m. committed_refunds c rs = Inr m"
proof (induction rs arbitrary: c)
  case (Cons r rs)
  have nonneg: "0 \<le> sum_list (map inflight_of rs)"
    using Cons.prems(1) by (intro sum_list_nonneg) (force simp: inflight_of_def)
  show ?case
  proof (cases "r_status r = RefundPending \<or> r_status r = RefundSubmitted")
    case True
    then have "inflight_of r = amount_of (r_amount r)" by (simp add: inflight_of_def refund_inflight_def)
    then have in64: "in64 (amount_of c + amount_of (r_amount r))"
      using Cons.prems nonneg by (auto simp: in64_def)
    then obtain n where n: "Money_Add c (r_amount r) = Inr n"
      using Cons.prems(1) by (simp add: Money_Add_exact)
    have n': "m_currency n = m_currency c" "amount_of n = amount_of c + amount_of (r_amount r)"
      using Money_Add_Inr_iff [THEN iffD1, OF n] by simp_all
    have "\<exists>m. committed_refunds n rs = Inr m"
      using Cons.prems n' \<open>inflight_of r = _\<close> by (intro Cons.IH) (auto simp: algebra_simps)
    then show ?thesis using True n by simp
  next
    case False
    then show ?thesis using Cons.prems Cons.IH [of c] by (auto simp: inflight_of_def refund_inflight_def)
  qed
qed simp

text \<open>
  C24: on a payment that satisfies the invariant, \<open>AddRefund\<close> admits a refund exactly when the state
  allows refunds, the currency is the payment's, the amount is positive, and the amount together with
  everything refunded and everything in flight fits in the captured amount; the admitted refund is
  pending and in flight from then on.
\<close>

theorem AddRefund_admits_iff:
  assumes "payment_inv p"
  shows "(\<exists>q r. AddRefund rid m reason key now p = Inr (q, r) \<and> r_status r = RefundPending \<and> r_amount r = m
            \<and> p_refunds q = p_refunds p @ [r])
    \<longleftrightarrow> State_AllowsRefund (p_state p) \<and> m_currency m = m_currency (p_amount p) \<and> 0 < amount_of m
        \<and> amount_of (p_refundedAmount p) + sum_list (map inflight_of (p_refunds p)) + amount_of m
            \<le> amount_of (p_capturedAmount p)" (is "?L \<longleftrightarrow> ?R")
proof
  assume ?L
  then show ?R using AddRefund_summary by blast
next
  assume R: ?R
  have c: "m_currency (p_refundedAmount p) = m_currency (p_amount p)" "m_currency (p_capturedAmount p) = m_currency (p_amount p)"
    and z: "0 \<le> amount_of (p_refundedAmount p)"
    using assms by (simp_all add: inv_defs Let_def)
  note n = inflight_nonneg [OF assms]
  have "in64 (amount_of (p_refundedAmount p) + sum_list (map inflight_of (p_refunds p)))"
    using R z n sint_bounds [of "m_amount (p_capturedAmount p)"] by (auto simp: in64_def)
  then obtain k where k: "committed_refunds (p_refundedAmount p) (p_refunds p) = Inr k"
    using committed_refunds_total [of "p_refunds p" "p_refundedAmount p"] refunds_ok [OF assms] z c by auto
  note kv = committed_refunds_value [OF k]
  have "in64 (amount_of k + amount_of m)"
    using R z n kv sint_bounds [of "m_amount (p_capturedAmount p)"] by (auto simp: in64_def)
  then obtain t where t: "Money_Add k m = Inr t" using R kv c by (simp add: Money_Add_exact)
  have "Money_GreaterThan t (p_capturedAmount p) = Inr False"
    using Money_Add_Inr_iff [THEN iffD1, OF t] kv c R by (simp add: GreaterThan_Inr_iff)
  then show ?L using R k t
    by (simp add: AddRefund_def Money_IsPositive_def Let_def newRefund_def touch_def)
qed

theorem AddRefund_admits_iff_witness:
  "(\<exists>q r. AddRefund ''ref_1'' (usd 9000) RefundReasonOther ''k'' 5 sample_captured = Inr (q, r)
        \<and> r_status r = RefundPending \<and> r_amount r = usd 9000 \<and> p_refunds q = [r])
   \<and> \<not> (\<exists>q r. AddRefund ''ref_1'' (usd 9001) RefundReasonOther ''k'' 5 sample_captured = Inr (q, r)
        \<and> r_status r = RefundPending \<and> r_amount r = usd 9001 \<and> p_refunds q = [r])"
  using AddRefund_admits_iff [OF sample_captured_inv, of "''ref_1''" "usd 9000" RefundReasonOther "''k''" 5]
    AddRefund_admits_iff [OF sample_captured_inv, of "''ref_1''" "usd 9001" RefundReasonOther "''k''" 5]
  by (simp add: sample_captured_simps State_AllowsRefund_def usd_def)

text \<open>
  C25: confirming a submitted refund cannot fail while the payment is captured, settled or partially
  refunded: the refund becomes succeeded, its amount moves from the amount in flight to the refunded
  total, and the payment becomes refunded exactly when everything captured has been returned.
\<close>

theorem ConfirmRefund_progress:
  assumes inv: "payment_inv p" and st: "State_AllowsRefund (p_state p)"
    and i: "find_refund rid (p_refunds p) = Some i" and sub: "r_status (p_refunds p ! i) = RefundSubmitted"
  shows "\<exists>q. ConfirmRefund rid g now p = (None, q) \<and> payment_inv q
    \<and> r_status (p_refunds q ! i) = RefundSucceeded
    \<and> amount_of (p_refundedAmount q) = amount_of (p_refundedAmount p) + amount_of (r_amount (p_refunds p ! i))
    \<and> p_state q = (if amount_of (p_refundedAmount q) = amount_of (p_capturedAmount p)
                   then StateRefunded else StatePartiallyRefunded)"
proof -
  let ?r = "p_refunds p ! i"
  have len: "i < length (p_refunds p)" using find_refund_Some [OF i] by simp
  then have mem: "?r \<in> set (p_refunds p)" by simp
  obtain target where target: "Refund_markSucceeded g now ?r = Inr target"
    using sub by (simp add: Refund_markSucceeded_def refund_move_def rfd.transition_ok_iff refund_edges_def Let_def
        split: option.splits)
  note eff = markSucceeded_effect [OF target]
  have cur: "m_currency (r_amount target) = m_currency (p_refundedAmount p)"
    "m_currency (p_refundedAmount p) = m_currency (p_capturedAmount p)"
    and z: "0 \<le> amount_of (p_refundedAmount p)" "0 < amount_of (r_amount target)"
    using inv refunds_ok [OF inv] mem eff(1) by (auto simp: inv_defs Let_def)
  have le: "amount_of (p_refundedAmount p) + amount_of (r_amount target) \<le> amount_of (p_capturedAmount p)"
  proof -
    have "inflight_of ?r \<le> sum_list (map inflight_of (p_refunds p))"
      using refunds_ok [OF inv] mem by (intro member_le_sum_list) (force simp: inflight_of_def)+
    then show ?thesis using inv sub eff(1) by (simp add: inv_defs inflight_of_def refund_inflight_def)
  qed
  have "in64 (amount_of (p_refundedAmount p) + amount_of (r_amount target))"
    using le z sint_bounds [of "m_amount (p_capturedAmount p)"] by (simp add: in64_def)
  then obtain t where t: "Money_Add (p_refundedAmount p) (r_amount target) = Inr t"
    using cur by (simp add: Money_Add_exact)
  have "m_currency t = m_currency (p_capturedAmount p)"
    using Money_Add_Inr_iff [THEN iffD1, OF t] cur(2) by (elim conjE) (rule trans)
  then obtain c where c: "Money_Cmp t (p_capturedAmount p) = Inr c"
    by (cases "Money_Cmp t (p_capturedAmount p)") (auto simp: Money_Cmp_def split: if_splits)
  have mv: "payment_move p' (if b then StateRefunded else StatePartiallyRefunded) = None"
    if "p_state p' = p_state p" for p' b
    using st that by (auto simp: payment_move_iff State_AllowsRefund_def machine_edges_def)
  obtain q where q: "ConfirmRefund rid g now p = (None, q)"
    using i target t c by (simp add: ConfirmRefund_def Let_def mv)
  obtain j s where j: "p_refunds q = (p_refunds p)[j := s]" "j < length (p_refunds p)"
    "Refund_markSucceeded g now (p_refunds p ! j) = Inr s"
    "amount_of (p_refundedAmount q) = amount_of (p_refundedAmount p) + amount_of (r_amount s)"
    "p_state q = (if amount_of (p_capturedAmount p) \<le> amount_of (p_refundedAmount q)
                   then StateRefunded else StatePartiallyRefunded)"
    using ConfirmRefund_summary [OF q] by blast
  have refunds: "p_refunds q = (p_refunds p)[i := target]" "p_refundedAmount q = t"
    using q i target t c by (auto simp: ConfirmRefund_def Let_def mv touch_def raise_def)
  have tot: "amount_of t = amount_of (p_refundedAmount p) + amount_of (r_amount target)"
    using Money_Add_Inr_iff [THEN iffD1, OF t] by simp
  show ?thesis
    using q ConfirmRefund_inv(1) [OF inv q] refunds len eff j(5) le tot by auto
qed

definition sample_refunding :: Payment where
  "sample_refunding = fold payment_exec
     [DoAddRefund ''ref_1'' (usd 4000) RefundReasonDuplicate ''k1'' 103, DoRefund 0 (DoMarkSubmitted ''re_1'' 104)]
     sample_captured"

lemma refund_ok: "(r_status r, to) \<in> set refund_edges \<Longrightarrow> refund_move r to = None"
  by (simp add: refund_move_iff)

lemma sample_refunding_simps:
  "p_state sample_refunding = StateCaptured" "p_capturedAmount sample_refunding = usd 9000"
  "p_refundedAmount sample_refunding = usd 0" "find_refund ''ref_1'' (p_refunds sample_refunding) = Some 0"
  "r_status (p_refunds sample_refunding ! 0) = RefundSubmitted"
  "r_amount (p_refunds sample_refunding ! 0) = usd 4000"
  by (simp_all add: sample_refunding_def payment_exec_def lift_outcome_def AddRefund_def sample_captured_simps
      State_AllowsRefund_def usd_def Money_IsPositive_def Money_Add_def Money_GreaterThan_def Money_Cmp_def Let_def
      newRefund_def touch_def Refund_MarkSubmitted_def refund_ok refund_edges_def)

lemma sample_refunding_entities:
  "p_amount sample_refunding = usd 10000"
  "p_refunds sample_refunding = [(newRefund ''ref_1'' ''pay_1'' ''ten_1'' (usd 4000) RefundReasonDuplicate ''k1'' 103)
     \<lparr>r_status := RefundSubmitted, r_gatewayRef := ''re_1'', r_submittedAt := Some 104, r_updatedAt := 104\<rparr>]"
  by (simp_all add: sample_refunding_def payment_exec_def lift_outcome_def AddRefund_def sample_captured_simps
      State_AllowsRefund_def usd_def Money_IsPositive_def Money_Add_def Money_GreaterThan_def Money_Cmp_def Let_def
      newRefund_def touch_def Refund_MarkSubmitted_def refund_ok refund_edges_def)

text \<open>The same run with every call saved, up to the confirmation.\<close>

lemma commit_ok: "fst (payment_step op p) = None \<Longrightarrow> payment_commit op p = payment_exec op p"
  by (auto simp: payment_commit_def payment_exec_def split: prod.splits)

lemma saved_captured:
  "payment_commit (DoCaptured (usd 9000) 102) (payment_commit (DoProcessing 101) sample_payment) = sample_captured"
proof -
  have "fst (payment_step (DoProcessing 101) sample_payment) = None"
    by (simp add: run_simps sample_payment_simps [unfolded usd_def] move_ok machine_edges_def)
  moreover have "fst (payment_step (DoCaptured (usd 9000) 102) (payment_exec (DoProcessing 101) sample_payment)) = None"
    by (simp add: run_simps sample_payment_simps [unfolded usd_def] move_ok machine_edges_def)
  ultimately show ?thesis by (simp add: commit_ok sample_captured_def)
qed

lemma saved_refunding:
  "payment_commit (DoRefund 0 (DoMarkSubmitted ''re_1'' 104))
     (payment_commit (DoAddRefund ''ref_1'' (usd 4000) RefundReasonDuplicate ''k1'' 103) sample_captured) = sample_refunding"
proof -
  note run = payment_exec_def lift_outcome_def AddRefund_def sample_captured_simps
      State_AllowsRefund_def usd_def Money_IsPositive_def Money_Add_def Money_GreaterThan_def Money_Cmp_def Let_def
      newRefund_def touch_def Refund_MarkSubmitted_def refund_ok refund_edges_def
  have "fst (payment_step (DoAddRefund ''ref_1'' (usd 4000) RefundReasonDuplicate ''k1'' 103) sample_captured) = None"
    by (simp add: run)
  moreover have "fst (payment_step (DoRefund 0 (DoMarkSubmitted ''re_1'' 104))
      (payment_exec (DoAddRefund ''ref_1'' (usd 4000) RefundReasonDuplicate ''k1'' 103) sample_captured)) = None"
    by (simp add: run)
  ultimately show ?thesis by (simp add: commit_ok sample_refunding_def)
qed

definition refunded_ops :: "payment_op list" where
  "refunded_ops = [DoProcessing 101, DoCaptured (usd 9000) 102,
     DoAddRefund ''ref_1'' (usd 4000) RefundReasonDuplicate ''k1'' 103, DoRefund 0 (DoMarkSubmitted ''re_1'' 104),
     DoConfirmRefund ''ref_1'' ''re_1'' 105]"

lemma saved_refunded:
  "p_refundedAmount (fold payment_commit refunded_ops sample_payment) = usd 4000"
  by (simp add: refunded_ops_def saved_captured saved_refunding)
    (simp add: payment_commit_def ConfirmRefund_def sample_refunding_simps sample_refunding_entities Refund_markSucceeded_def
      newRefund_def refund_ok refund_edges_def Let_def usd_def Money_Add_def Money_GreaterThan_def Money_Cmp_def
      payment_move_def move_ok machine_edges_def touch_def raise_def)

theorem saved_payment_books_balance_witness:
  "amount_of (p_refundedAmount (fold payment_commit refunded_ops sample_payment)) = 4000
   \<and> sum_list (map succeeded_of (p_refunds (fold payment_commit refunded_ops sample_payment))) = 4000"
  using saved_payment_books_balance [OF sample_created, of refunded_ops] by (simp add: saved_refunded usd_def)

lemma sample_refunding_inv: "payment_inv sample_refunding"
  unfolding sample_refunding_def by (intro payment.run_inv sample_captured_inv)

theorem ConfirmRefund_progress_witness:
  "\<exists>q. ConfirmRefund ''ref_1'' ''re_1'' 105 sample_refunding = (None, q) \<and> amount_of (p_refundedAmount q) = 4000
     \<and> p_state q = StatePartiallyRefunded"
  using ConfirmRefund_progress [OF sample_refunding_inv _ sample_refunding_simps(4,5), of "''re_1''" 105]
  by (auto simp: sample_refunding_simps State_AllowsRefund_def usd_def)

lemma terminal_edges: "State_IsTerminal s \<Longrightarrow> (s, to) \<notin> set machine_edges"
  using pay.declared(3) [of s to] by (auto simp: State_IsTerminal_def pay.terminal_iff)

lemma terminal_exec:
  assumes t: "State_IsTerminal (p_state p)"
  shows "p_state (payment_exec op p) = p_state p \<and> same_funds p (payment_exec op p)
    \<and> length (p_attempts (payment_exec op p)) = length (p_attempts p)
    \<and> length (p_refunds (payment_exec op p)) = length (p_refunds p)"
proof -
  have no: "payment_move p to \<noteq> None" for to using terminal_edges [OF t, of to] by (simp add: payment_move_iff)
  have tr: "transition to evt pl now p = Inl (the (payment_move p to))" for to evt pl now
    using no [of to] by (auto simp: transition_def)
  have confirm: "snd (ConfirmRefund rid g now p) = p
      \<or> (\<exists>i target. snd (ConfirmRefund rid g now p) = p\<lparr>p_refunds := (p_refunds p)[i := target]\<rparr>)" for rid g now
  proof (cases "ConfirmRefund rid g now p")
    case (Pair e q)
    show ?thesis
    proof (cases e)
      case None
      then show ?thesis using ConfirmRefund_summary [of rid g now p q] Pair terminal_edges [OF t] by blast
    next
      case (Some c)
      then show ?thesis using ConfirmRefund_error [of rid g now p c q] Pair by auto
    qed
  qed
  have refund: "\<not> State_AllowsRefund (p_state p)"
    using t by (auto simp: State_IsTerminal_iff terminalStates_def State_AllowsRefund_def)
  have disp: "p_state p \<noteq> StateDisputed" using t by (auto simp: State_IsTerminal_iff terminalStates_def)
  show ?thesis
  proof (cases op)
    case (DoConfirmRefund rid g now)
    then show ?thesis using confirm [of rid g now] by (auto simp: payment_exec_def same_funds_def)
  next
    case (DoStartAttempt aid g pl op now)
    then show ?thesis using t by (simp add: payment_exec_def StartAttempt_def lift_outcome_def same_funds_def)
  next
    case (DoAuthorized m ex now)
    have "\<not> (\<exists>q. MarkAuthorized m ex now p = Inr q)" using MarkAuthorized_summary terminal_edges [OF t] by blast
    then show ?thesis using DoAuthorized
      by (cases "MarkAuthorized m ex now p") (simp_all add: payment_exec_def lift_outcome_def same_funds_def)
  next
    case (DoCaptured m now)
    have "\<not> (\<exists>q. MarkCaptured m now p = Inr q)" using MarkCaptured_summary terminal_edges [OF t] by blast
    then show ?thesis using DoCaptured
      by (cases "MarkCaptured m now p") (simp_all add: payment_exec_def lift_outcome_def same_funds_def)
  next
    case (DoFailed d s now)
    have "\<not> (\<exists>q. MarkFailed d s now p = Inr q)" using MarkFailed_summary terminal_edges [OF t] by blast
    then show ?thesis using DoFailed
      by (cases "MarkFailed d s now p") (simp_all add: payment_exec_def lift_outcome_def same_funds_def)
  qed (use refund disp in \<open>auto simp: tr payment_exec_def lift_outcome_def same_funds_def quiet_defs Void_def
      AddRefund_def ResolveDispute_def RequireReconciliation_def MarkPersisted_def DrainEvents_def touch_def raise_def Let_def
      map_sum_Inr split: sum.splits if_splits\<close>)
qed

text \<open>
  C26: the states FAILED, CANCELED, VOIDED and EXPIRED are final. No sequence of calls changes the state
  or the amounts of a payment in one of them, and no further attempt is started.
\<close>

theorem terminal_payments_are_final:
  assumes "State_IsTerminal (p_state p)"
  shows "p_state (fold payment_exec ops p) = p_state p \<and> same_funds p (fold payment_exec ops p)
    \<and> length (p_attempts (fold payment_exec ops p)) = length (p_attempts p)
    \<and> length (p_refunds (fold payment_exec ops p)) = length (p_refunds p)"
  using assms
proof (induction ops arbitrary: p)
  case (Cons op ops)
  show ?case
    using Cons.IH [of "payment_exec op p"] Cons.prems terminal_exec [OF Cons.prems, of op]
    by (simp add: same_funds_def)
qed (simp add: same_funds_def)

theorem terminal_payments_are_final_witness:
  "p_state (fold payment_exec [DoProcessing 1, DoCaptured (usd 5) 2] (sample_payment\<lparr>p_state := StateVoided\<rparr>)) = StateVoided"
  using terminal_payments_are_final [of "sample_payment\<lparr>p_state := StateVoided\<rparr>" "[DoProcessing 1, DoCaptured (usd 5) 2]"]
  by (simp add: State_IsTerminal_iff terminalStates_def)

fun resolves_attempt :: "payment_op \<Rightarrow> bool" where
  "resolves_attempt (DoAttempt _ _) = True"
| "resolves_attempt _ = False"

lemma unresolved_exec:
  assumes u: "HasUnresolvedAttempt p" and "\<not> resolves_attempt op"
  shows "p_attempts (payment_exec op p) = p_attempts p
    \<and> (p_state (payment_exec op p) = StateFailed \<longrightarrow> p_state p = StateFailed)"
proof -
  obtain e q where s: "payment_step op p = (e, q)" by fastforce
  have tr: "p_attempts q = p_attempts p \<and> p_state q = to" if "transition to evt pl now p = Inr q" for to evt pl now
    using transition_summary [OF that] by simp
  have "p_attempts q = p_attempts p \<and> (p_state q = StateFailed \<longrightarrow> p_state p = StateFailed)"
  proof (cases e)
    case (Some c)
    then show ?thesis
      using payment_step_error [of op p c q] ConfirmRefund_error [of _ _ _ p c q] s by fastforce
  next
    case None
    show ?thesis
    proof (cases op)
      case (DoStartAttempt aid g pl op now)
      then show ?thesis using s None u by (auto simp: lift_None map_sum_Inr dest: StartAttempt_summary)
    next
      case (DoFailed d t now)
      then show ?thesis using s None u by (auto simp: lift_None dest: MarkFailed_summary)
    next
      case (DoVoid now)
      then show ?thesis using s None by (auto simp: lift_None Void_def split: if_splits dest!: tr)
    next
      case (DoConfirmRefund rid g now)
      then show ?thesis using s None ConfirmRefund_summary [of rid g now p q] by (auto split: if_splits)
    next
      case (DoResolveDispute won now)
      then show ?thesis using s None by (auto simp: lift_None dest: ResolveDispute_summary)
    next
      case (DoRequireReconciliation a r now)
      then show ?thesis using s None by (auto simp: RequireReconciliation_def touch_def raise_def Let_def)
    qed (use s None assms(2) in \<open>auto simp: lift_None map_sum_Inr quiet_defs MarkPersisted_def DrainEvents_def
        split: if_splits dest!: tr MarkAuthorized_summary MarkCaptured_summary AddRefund_summary\<close>)
  qed
  then show ?thesis using s by (simp add: payment_exec_def)
qed

text \<open>
  C3: while an attempt is of unknown outcome the payment cannot be retried or failed. As long as no
  call resolves one of its attempts, no sequence of calls starts another attempt or moves the payment to
  FAILED, and the attempt stays open for the reconciler.
\<close>

theorem unknown_outcome_blocks_retry_and_failure:
  assumes "HasUnresolvedAttempt p" and "\<not> (\<exists>op \<in> set ops. resolves_attempt op)" and "p_state p \<noteq> StateFailed"
  shows "p_attempts (fold payment_exec ops p) = p_attempts p \<and> HasUnresolvedAttempt (fold payment_exec ops p)
    \<and> p_state (fold payment_exec ops p) \<noteq> StateFailed"
  using assms
proof (induction ops arbitrary: p)
  case (Cons op ops)
  have u: "p_attempts (payment_exec op p) = p_attempts p" "p_state (payment_exec op p) \<noteq> StateFailed"
    using unresolved_exec [OF Cons.prems(1), of op] Cons.prems(2,3) by auto
  then have "HasUnresolvedAttempt (payment_exec op p)" using Cons.prems(1) by (simp add: HasUnresolvedAttempt_def)
  then show ?case using Cons.IH [of "payment_exec op p"] u Cons.prems(2) by simp
qed simp

definition unknown_payment :: Payment where
  "unknown_payment = sample_payment\<lparr>p_state := StateProcessing, p_attempts :=
     [(newAttempt ''att_1'' ''pay_1'' ''ten_1'' ''stripe'' OpAuthorize 1 (usd 10000) 101)\<lparr>a_outcome := OutcomeTimeoutUnknown\<rparr>]\<rparr>"

theorem unknown_outcome_blocks_retry_and_failure_witness:
  "length (p_attempts (fold payment_exec
      [DoStartAttempt ''att_2'' ''adyen'' ''plan'' OpAuthorize 200, DoFailed DeclineUnknown [] 201] unknown_payment)) = 1"
proof -
  have u: "HasUnresolvedAttempt unknown_payment" "p_state unknown_payment \<noteq> StateFailed" "length (p_attempts unknown_payment) = 1"
    by (simp_all add: unknown_payment_def HasUnresolvedAttempt_def RequiresReconciliation_def)
  show ?thesis
    using unknown_outcome_blocks_retry_and_failure
      [OF u(1) _ u(2), of "[DoStartAttempt ''att_2'' ''adyen'' ''plan'' OpAuthorize 200, DoFailed DeclineUnknown [] 201]"] u(3)
    by simp
qed

fun mutates_payment :: "payment_op \<Rightarrow> bool" where
  "mutates_payment (DoAttempt _ _) = False"
| "mutates_payment (DoRefund _ _) = False"
| "mutates_payment DoPersist = False"
| "mutates_payment DoDrain = False"
| "mutates_payment _ = True"

definition versioned :: "Payment \<Rightarrow> Payment \<Rightarrow> bool" where
  "versioned p q \<longleftrightarrow> (\<exists>ts. length ts \<le> 1 \<and> bumped ts p q)"

lemma versionedI: "bumped [] p q \<Longrightarrow> versioned p q" "bumped [t] p q \<Longrightarrow> versioned p q"
  by (force simp: versioned_def)+

lemma transition_versioned: "transition to evt pl now p = Inr q \<Longrightarrow> versioned p q"
  using transition_summary [of to evt pl now p q] by (auto intro: versionedI split: option.splits)

lemma success_versioned:
  assumes "payment_step op p = (None, q)" and "mutates_payment op"
  shows "versioned p q"
proof (cases op)
  case (DoStartAttempt aid g pl op now)
  then show ?thesis using assms(1)
    by (auto simp: lift_None map_sum_Inr dest!: StartAttempt_summary intro: versionedI)
next
  case (DoAuthorized m ex now)
  then show ?thesis using assms(1) by (auto simp: lift_None dest!: MarkAuthorized_summary intro: versionedI)
next
  case (DoCaptured m now)
  then show ?thesis using assms(1) by (auto simp: lift_None dest!: MarkCaptured_summary intro: versionedI)
next
  case (DoFailed d t now)
  then show ?thesis using assms(1) by (auto simp: lift_None dest!: MarkFailed_summary intro: versionedI)
next
  case (DoVoid now)
  then show ?thesis using assms(1) by (auto simp: lift_None Void_def split: if_splits intro: transition_versioned)
next
  case (DoAddRefund rid m r k now)
  then show ?thesis using assms(1)
    by (auto simp: lift_None map_sum_Inr dest!: AddRefund_summary intro: versionedI)
next
  case (DoConfirmRefund rid g now)
  then have "ConfirmRefund rid g now p = (None, q)" using assms(1) by simp
  then show ?thesis using ConfirmRefund_summary by (blast intro: versionedI)
next
  case (DoResolveDispute won now)
  then show ?thesis using assms(1) by (auto simp: lift_None dest!: ResolveDispute_summary intro: versionedI)
next
  case (DoRequireReconciliation a r now)
  then have "bumped [EventPaymentReconciliationRequired] p q" using assms(1)
    by (auto simp: RequireReconciliation_def touch_def raise_def Let_def bumped_def Version_Next_def)
  then show ?thesis by (rule versionedI)
qed (use assms in \<open>simp_all add: lift_None quiet_defs transition_versioned\<close>)

text \<open>
  C27: every successful call that changes the payment takes the version up by one, leaves the version
  the row is expected to hold alone, and stamps the events it raises with the new version and the
  payment's identity; a call that fails changes neither the version nor the pending events.
\<close>

theorem changes_are_versioned:
  assumes "payment_step op p = (e, q)" and "mutates_payment op"
  shows "(e = None \<longrightarrow> (\<exists>ts. length ts \<le> 1 \<and> bumped ts p q))
    \<and> (e \<noteq> None \<longrightarrow> p_version q = p_version p \<and> p_events q = p_events p)"
proof (cases e)
  case (Some c)
  then have "q = p \<or> (\<exists>i target. q = p\<lparr>p_refunds := (p_refunds p)[i := target]\<rparr>)"
    using payment_step_error [of op p c q] ConfirmRefund_error [of _ _ _ p c q] assms(1) by auto
  then show ?thesis using Some by auto
next
  case None
  then show ?thesis using success_versioned [of op p q] assms by (simp add: versioned_def)
qed

theorem changes_are_versioned_witness:
  "\<exists>q. payment_step (DoProcessing 7) sample_payment = (None, q) \<and> p_version q = p_version sample_payment + 1"
proof -
  obtain q where q: "payment_step (DoProcessing 7) sample_payment = (None, q)"
    by (simp add: lift_outcome_def MarkProcessing_def transition_def payment_move_def sample_payment_simps move_ok machine_edges_def)
  then show ?thesis using changes_are_versioned [OF q] by (auto simp: bumped_def)
qed

text \<open>
  An unknown outcome does not keep a payment out of a terminal state. An authorized payment with
  an attempt of unknown outcome can be voided, although the documentation of \<open>HasUnresolvedAttempt\<close>
  says that such a payment must not be allowed to reach a terminal state.
\<close>

theorem void_ignores_unknown_outcome:
  assumes "HasUnresolvedAttempt p" and "p_state p = StateAuthorized" and "amount_of (p_capturedAmount p) = 0"
  shows "\<exists>q. Void now p = Inr q \<and> State_IsTerminal (p_state q) \<and> HasUnresolvedAttempt q"
  using assms
  by (simp add: Void_def zero_iff transition_def payment_move_def move_ok machine_edges_def Let_def touch_def raise_def
      HasUnresolvedAttempt_def State_IsTerminal_iff terminalStates_def)

theorem void_ignores_unknown_outcome_witness:
  "\<exists>q. Void 300 (unknown_payment\<lparr>p_state := StateAuthorized\<rparr>) = Inr q \<and> State_IsTerminal (p_state q) \<and> HasUnresolvedAttempt q"
  by (rule void_ignores_unknown_outcome)
    (simp_all add: unknown_payment_def HasUnresolvedAttempt_def RequiresReconciliation_def sample_payment_simps usd_def)

text \<open>
  A won dispute does not restore the position before the dispute. Whatever a payment was before, once
  it has been reloaded a won dispute makes it CAPTURED, because the settlement is looked for among the
  events of the current unit of work only, and a partially refunded payment loses that state.
\<close>

theorem won_dispute_forgets_settlement:
  assumes "Rehydrate ''DISPUTED'' row = Inr p" and "ResolveDispute True now p = Inr q"
  shows "p_state q = StateCaptured"
proof -
  have "p_state p = StateDisputed" "p_events p = []"
    using assms(1) by (auto simp: Rehydrate_def State_of_def AllStates_def)
  then show ?thesis using assms(2) transition_summary
    by (auto simp: ResolveDispute_def settledLike_def Let_def)
qed

theorem won_dispute_forgets_settlement_witness:
  "\<exists>p q. Rehydrate ''DISPUTED'' (sample_captured\<lparr>p_refundedAmount := usd 4000\<rparr>) = Inr p
     \<and> ResolveDispute True 9 p = Inr q \<and> p_state q = StateCaptured"
proof -
  obtain p where p: "Rehydrate ''DISPUTED'' (sample_captured\<lparr>p_refundedAmount := usd 4000\<rparr>) = Inr p" "p_state p = StateDisputed"
    "p_events p = []"
    by (auto simp: Rehydrate_def State_of_def AllStates_def)
  then obtain q where q: "ResolveDispute True 9 p = Inr q"
    by (auto simp: ResolveDispute_def settledLike_def transition_def payment_move_def move_ok machine_edges_def Let_def)
  show ?thesis using won_dispute_forgets_settlement [OF p(1) q] p(1) q by blast
qed

definition drift_ops :: "payment_op list" where
  "drift_ops = [DoDisputed ''dp_1'' ''fraud'' 106, DoConfirmRefund ''ref_1'' [] 107, DoResolveDispute True 108,
     DoAddRefund ''ref_2'' (usd 9000) RefundReasonDuplicate ''k2'' 109]"

text \<open>
  A failed confirmation is not without effect. Confirming a partial refund while the payment is
  disputed returns an error but leaves the refund succeeded and the refunded total unchanged, so on the
  same aggregate a later refund of the full amount is admitted and the refunds exceed what was captured.
\<close>

theorem failed_confirmation_lets_books_drift:
  "fst (payment_step (DoConfirmRefund ''ref_1'' [] 107)
      (payment_exec (DoDisputed ''dp_1'' ''fraud'' 106) sample_refunding)) = Some CodeInvalidStateTransition
   \<and> amount_of (p_capturedAmount (fold payment_exec drift_ops sample_refunding)) = 9000
   \<and> sum_list (map succeeded_of (p_refunds (fold payment_exec drift_ops sample_refunding)))
       + sum_list (map inflight_of (p_refunds (fold payment_exec drift_ops sample_refunding))) = 13000"
proof -
  define d where "d = payment_exec (DoDisputed ''dp_1'' ''fraud'' 106) sample_refunding"
  let ?r = "(newRefund ''ref_1'' ''pay_1'' ''ten_1'' (usd 4000) RefundReasonDuplicate ''k1'' 103)
     \<lparr>r_status := RefundSucceeded, r_gatewayRef := ''re_1'', r_submittedAt := Some 104, r_settledAt := Some 107,
      r_updatedAt := 107\<rparr>"
  have d_simps: "p_state d = StateDisputed" "p_capturedAmount d = usd 9000" "p_refundedAmount d = usd 0"
    "p_refunds d = p_refunds sample_refunding" "p_amount d = usd 10000"
    by (simp_all add: d_def payment_exec_def lift_outcome_def MarkDisputed_def transition_def payment_move_eq
        sample_refunding_simps sample_refunding_entities machine_edges_def Let_def touch_def raise_def)
  have c: "ConfirmRefund ''ref_1'' [] 107 d = (Some CodeInvalidStateTransition, d\<lparr>p_refunds := [?r]\<rparr>)"
    by (simp add: ConfirmRefund_def d_simps sample_refunding_entities Refund_markSucceeded_def refund_ok refund_edges_def
        newRefund_def usd_def Money_Add_def Money_Cmp_def payment_move_eq machine_edges_def Let_def)
  define w where "w = payment_exec (DoResolveDispute True 108) (d\<lparr>p_refunds := [?r]\<rparr>)"
  have w_simps: "State_AllowsRefund (p_state w)" "p_capturedAmount w = usd 9000" "p_refundedAmount w = usd 0"
    "p_refunds w = [?r]" "p_amount w = usd 10000"
    by (simp_all add: w_def payment_exec_def lift_outcome_def ResolveDispute_def transition_def payment_move_eq d_simps
        machine_edges_def Let_def touch_def raise_def State_AllowsRefund_def)
  have a: "AddRefund ''ref_2'' (usd 9000) RefundReasonDuplicate ''k2'' 109 w
      = Inr (touch 109 (w\<lparr>p_refunds := [?r, newRefund ''ref_2'' (p_id w) (p_tenantID w) (usd 9000) RefundReasonDuplicate ''k2'' 109]\<rparr>),
          newRefund ''ref_2'' (p_id w) (p_tenantID w) (usd 9000) RefundReasonDuplicate ''k2'' 109)"
    by (simp add: AddRefund_def w_simps usd_def Money_IsPositive_def Money_Add_def Money_GreaterThan_def Money_Cmp_def Let_def)
  have run: "fold payment_exec drift_ops sample_refunding
      = touch 109 (w\<lparr>p_refunds := [?r, newRefund ''ref_2'' (p_id w) (p_tenantID w) (usd 9000) RefundReasonDuplicate ''k2'' 109]\<rparr>)"
  proof -
    have "payment_exec (DoConfirmRefund ''ref_1'' [] 107) d = d\<lparr>p_refunds := [?r]\<rparr>"
      using c by (simp add: payment_exec_def)
    then show ?thesis
      using a by (simp add: drift_ops_def d_def [symmetric] w_def [symmetric] payment_exec_def [of "DoAddRefund _ _ _ _ _"]
          lift_outcome_def)
  qed
  show ?thesis unfolding run d_def [symmetric] using c w_simps
    by (simp add: touch_def succeeded_of_def inflight_of_def refund_inflight_def newRefund_def Let_def usd_def)
qed

definition double_ops :: "payment_op list" where
  "double_ops =
    [DoStartAttempt ''att_1'' ''stripe'' ''plan'' OpAuthorize 101, DoStartAttempt ''att_2'' ''adyen'' ''plan'' OpAuthorize 102,
     DoAttempt 0 (DoDispatch 103), DoAttempt 1 (DoDispatch 104),
     DoAttempt 0 (DoSucceed ''ch_1'' ''ok'' 105), DoAttempt 1 (DoSucceed ''ch_2'' ''ok'' 106)]"

lemma attempt_ok: "(a_outcome a, to) \<in> set attempt_edges \<Longrightarrow> attempt_move a to = None"
  by (simp add: attempt_move_iff)

text \<open>
  The aggregate alone does not keep invariant I3. Two authorization attempts started before the
  first one is dispatched can both succeed: \<open>StartAttempt\<close> looks for a successful and for an unknown
  attempt, not for one that is pending or in flight.
\<close>

theorem two_authorizations_can_succeed:
  "map (\<lambda>a. (a_gatewayID a, a_operation a, a_outcome a)) (p_attempts (fold payment_exec double_ops sample_payment))
     = [(''stripe'', OpAuthorize, OutcomeSuccess), (''adyen'', OpAuthorize, OutcomeSuccess)]"
  by (simp add: double_ops_def payment_exec_def lift_outcome_def StartAttempt_def sample_payment_simps State_IsTerminal_iff
      terminalStates_def SuccessfulAttempt_def HasUnresolvedAttempt_def RequiresReconciliation_def newAttempt_def
      Let_def touch_def raise_def Attempt_Dispatch_def Attempt_Succeed_def attempt_ok attempt_edges_def)

end
