(* ===== verification/Ledger.thy ===== *)
theory Ledger
  imports Shared_Kernel Calendar "HOL-Library.AList"
begin

text \<open>
  The double-entry shadow ledger, \<open>src/internal/domain/ledger\<close>: the chart of accounts and the balance of
  an account (\<open>account.go\<close>), one immutable line (\<open>entry.go\<close>), and the balanced group of lines with the five
  builders (\<open>transaction.go\<close>), and the way back from persisted rows (\<open>rehydrate.go\<close>). Sides, account types
  and entry types are string types in the code: a string outside the published set is an \<open>Other\<close> value.
  The zero \<open>time.Time\<close> is the instant \<open>zero_time\<close>. Identifiers a constructor mints are arguments; a builder,
  which reads the clock and mints an identifier once per line, takes both as functions of the place of
  the call in its text.
\<close>

section \<open>Sides and the chart of accounts\<close>

datatype Side = SideDebit | SideCredit | SideOther string

primrec Side_str :: "Side \<Rightarrow> string" where
  "Side_str SideDebit = ''DEBIT''"
| "Side_str SideCredit = ''CREDIT''"
| "Side_str (SideOther s) = s"

definition Side_IsValid :: "Side \<Rightarrow> bool" where
  "Side_IsValid s \<longleftrightarrow> s = SideDebit \<or> s = SideCredit"

definition Side_Opposite :: "Side \<Rightarrow> Side" where
  "Side_Opposite s = (if s = SideDebit then SideCredit else SideDebit)"

definition ParseSide :: "string \<Rightarrow> Side outcome" where
  "ParseSide s =
     (let v = to_upper (trim_space s)
      in if v = ''DEBIT'' then Inr SideDebit
         else if v = ''CREDIT'' then Inr SideCredit
         else Inl CodeValidationFailed)"

datatype AccountType =
    AccountMerchantReceivable | AccountGatewayClearing | AccountFeesPayable |
    AccountRefundsPayable | AccountDisputesHeld | AccountSettlementSuspense
  | AccountOther string

primrec AccountType_str :: "AccountType \<Rightarrow> string" where
  "AccountType_str AccountMerchantReceivable = ''MERCHANT_RECEIVABLE''"
| "AccountType_str AccountGatewayClearing = ''GATEWAY_CLEARING''"
| "AccountType_str AccountFeesPayable = ''FEES_PAYABLE''"
| "AccountType_str AccountRefundsPayable = ''REFUNDS_PAYABLE''"
| "AccountType_str AccountDisputesHeld = ''DISPUTES_HELD''"
| "AccountType_str AccountSettlementSuspense = ''SETTLEMENT_SUSPENSE''"
| "AccountType_str (AccountOther s) = s"

definition normalSides :: "(AccountType \<times> Side) list" where
  "normalSides =
    [(AccountMerchantReceivable, SideCredit), (AccountGatewayClearing, SideDebit),
     (AccountFeesPayable, SideCredit), (AccountRefundsPayable, SideCredit),
     (AccountDisputesHeld, SideDebit), (AccountSettlementSuspense, SideDebit)]"

definition AccountType_IsValid :: "AccountType \<Rightarrow> bool" where
  "AccountType_IsValid t \<longleftrightarrow> map_of normalSides t \<noteq> None"

definition AccountType_NormalSide :: "AccountType \<Rightarrow> Side" where
  "AccountType_NormalSide t = (case map_of normalSides t of Some s \<Rightarrow> s | None \<Rightarrow> SideOther [])"

definition ParseAccountType :: "string \<Rightarrow> AccountType outcome" where
  "ParseAccountType s =
     (let v = to_upper (trim_space s)
      in case find (\<lambda>t. AccountType_str t = v) (map fst normalSides) of
           Some t \<Rightarrow> Inr t
         | None \<Rightarrow> Inl CodeValidationFailed)"

text \<open>The keys of the table in the order of their names.\<close>

definition AllAccountTypes :: "AccountType list" where
  "AllAccountTypes = sort_key AccountType_str (map fst normalSides)"

record AccountKey =
  k_tenantID :: ID
  k_merchantID :: ID
  k_type :: AccountType
  k_currency :: currency

definition AccountKey_Validate :: "AccountKey \<Rightarrow> Code option" where
  "AccountKey_Validate k =
     (if k_tenantID k = [] then Some CodeMissingTenantContext
      else if k_merchantID k = [] then Some CodeValidationFailed
      else if \<not> AccountType_IsValid (k_type k) then Some CodeValidationFailed
      else if \<not> Currency_IsSupported (k_currency k) then Some CodeCurrencyNotSupported
      else None)"

definition AccountKey_String :: "AccountKey \<Rightarrow> string" where
  "AccountKey_String k =
     AccountType_str (k_type k) @ '':'' @ k_currency k @ '':'' @ k_tenantID k @ '':'' @ k_merchantID k"

section \<open>Lines\<close>

text \<open>\<open>EntryUnset\<close> is the empty string, which \<open>AddEntry\<close> replaces by the type of the group.\<close>

datatype EntryType =
    EntryCapture | EntryRefund | EntryFee | EntryChargeback | EntryChargebackReversal |
    EntrySettlement | EntryAdjustment
  | EntryUnset | EntryOther string

primrec EntryType_str :: "EntryType \<Rightarrow> string" where
  "EntryType_str EntryCapture = ''CAPTURE''"
| "EntryType_str EntryRefund = ''REFUND''"
| "EntryType_str EntryFee = ''FEE''"
| "EntryType_str EntryChargeback = ''CHARGEBACK''"
| "EntryType_str EntryChargebackReversal = ''CHARGEBACK_REVERSAL''"
| "EntryType_str EntrySettlement = ''SETTLEMENT''"
| "EntryType_str EntryAdjustment = ''ADJUSTMENT''"
| "EntryType_str EntryUnset = []"
| "EntryType_str (EntryOther s) = s"

definition entryTypes :: "EntryType list" where
  "entryTypes = [EntryCapture, EntryRefund, EntryFee, EntryChargeback, EntryChargebackReversal,
     EntrySettlement, EntryAdjustment]"

definition EntryType_IsValid :: "EntryType \<Rightarrow> bool" where
  "EntryType_IsValid t \<longleftrightarrow> t \<in> set entryTypes"

definition ParseEntryType :: "string \<Rightarrow> EntryType outcome" where
  "ParseEntryType s =
     (let v = to_upper (trim_space s)
      in case find (\<lambda>t. EntryType_str t = v) entryTypes of
           Some t \<Rightarrow> Inr t
         | None \<Rightarrow> Inl CodeValidationFailed)"

definition AllEntryTypes :: "EntryType list" where
  "AllEntryTypes = sort_key EntryType_str entryTypes"

record Entry =
  l_id :: ID
  l_tenantID :: ID
  l_merchantID :: ID
  l_transactionID :: ID
  l_account :: AccountType
  l_side :: Side
  l_amount :: money
  l_entryType :: EntryType
  l_paymentID :: ID
  l_attemptID :: ID
  l_refundID :: ID
  l_gatewayRef :: string
  l_description :: string
  l_occurredAt :: time
  l_recordedAt :: time
  l_partitionMonth :: time

record NewEntryParams =
  ne_tenantID :: ID
  ne_merchantID :: ID
  ne_transactionID :: ID
  ne_account :: AccountType
  ne_side :: Side
  ne_amount :: money
  ne_entryType :: EntryType
  ne_paymentID :: ID
  ne_attemptID :: ID
  ne_refundID :: ID
  ne_gatewayRef :: string
  ne_description :: string
  ne_occurredAt :: time

definition partitionMonthFor :: "ID \<Rightarrow> ID \<Rightarrow> time \<Rightarrow> time" where
  "partitionMonthFor paymentID entryID occurred =
     (case (if paymentID \<noteq> [] then PartitionMonth paymentID else None) of
        Some m \<Rightarrow> m
      | None \<Rightarrow>
     (case (if occurred = zero_time then PartitionMonth entryID else None) of
        Some m \<Rightarrow> m
      | None \<Rightarrow> time_Date (time_Year occurred) (time_Month occurred) 1))"

definition NewEntry :: "ID \<Rightarrow> NewEntryParams \<Rightarrow> time \<Rightarrow> Entry outcome" where
  "NewEntry eid q now =
     (case AccountKey_Validate \<lparr>k_tenantID = ne_tenantID q, k_merchantID = ne_merchantID q,
             k_type = ne_account q, k_currency = m_currency (ne_amount q)\<rparr> of
        Some e \<Rightarrow> Inl e
      | None \<Rightarrow>
          if \<not> Side_IsValid (ne_side q) then Inl CodeValidationFailed
          else if \<not> EntryType_IsValid (ne_entryType q) then Inl CodeValidationFailed
          else if \<not> Money_IsPositive (ne_amount q) then Inl CodeAmountInvalid
          else if ne_transactionID q = [] then Inl CodeValidationFailed
          else let occurred = (if ne_occurredAt q = zero_time then now else ne_occurredAt q)
               in Inr \<lparr>l_id = eid, l_tenantID = ne_tenantID q, l_merchantID = ne_merchantID q,
                       l_transactionID = ne_transactionID q, l_account = ne_account q, l_side = ne_side q,
                       l_amount = ne_amount q, l_entryType = ne_entryType q, l_paymentID = ne_paymentID q,
                       l_attemptID = ne_attemptID q, l_refundID = ne_refundID q,
                       l_gatewayRef = ne_gatewayRef q, l_description = ne_description q,
                       l_occurredAt = occurred, l_recordedAt = now,
                       l_partitionMonth = partitionMonthFor (ne_paymentID q) eid occurred\<rparr>)"

definition Entry_AccountKey :: "Entry \<Rightarrow> AccountKey" where
  "Entry_AccountKey e = \<lparr>k_tenantID = l_tenantID e, k_merchantID = l_merchantID e,
     k_type = l_account e, k_currency = m_currency (l_amount e)\<rparr>"

definition Entry_IsIncrease :: "Entry \<Rightarrow> bool" where
  "Entry_IsIncrease e \<longleftrightarrow> l_side e = AccountType_NormalSide (l_account e)"

text \<open>\<open>RehydrateEntry\<close>: the persisted row is the record.\<close>

definition RehydrateEntry :: "Entry \<Rightarrow> Entry outcome" where
  "RehydrateEntry row =
     (if \<not> AccountType_IsValid (l_account row) then Inl CodeInternalError
      else if \<not> Side_IsValid (l_side row) then Inl CodeInternalError
      else if \<not> EntryType_IsValid (l_entryType row) then Inl CodeInternalError
      else if \<not> Money_IsPositive (l_amount row) then Inl CodeInternalError
      else Inr (row\<lparr>l_partitionMonth :=
             (if l_partitionMonth row = zero_time
              then partitionMonthFor (l_paymentID row) (l_id row) (l_occurredAt row)
              else l_partitionMonth row)\<rparr>))"

section \<open>Accounts\<close>

record Account =
  ac_key :: AccountKey
  ac_normalSide :: Side
  ac_balance :: money
  ac_version :: version
  ac_entryCount :: int64
  ac_createdAt :: time
  ac_updatedAt :: time

definition NewAccount :: "AccountKey \<Rightarrow> time \<Rightarrow> Account outcome" where
  "NewAccount key now =
     (case AccountKey_Validate key of
        Some e \<Rightarrow> Inl e
      | None \<Rightarrow> Inr \<lparr>ac_key = key, ac_normalSide = AccountType_NormalSide (k_type key),
                     ac_balance = Money_Zero (k_currency key), ac_version = 1, ac_entryCount = 0,
                     ac_createdAt = now, ac_updatedAt = now\<rparr>)"

definition Account_Apply :: "Account \<Rightarrow> Entry \<Rightarrow> Account outcome" where
  "Account_Apply a e =
     (if Entry_AccountKey e \<noteq> ac_key a then Inl CodeInternalError
      else let delta = (if l_side e \<noteq> ac_normalSide a then Money_Neg (l_amount e) else l_amount e)
           in case Money_Add (ac_balance a) delta of
                Inl _ \<Rightarrow> Inl CodeInternalError
              | Inr next \<Rightarrow> Inr (a\<lparr>ac_balance := next, ac_version := Version_Next (ac_version a),
                                  ac_entryCount := ac_entryCount a + 1, ac_updatedAt := l_recordedAt e\<rparr>))"

definition RehydrateAccount :: "AccountKey \<Rightarrow> money \<Rightarrow> version \<Rightarrow> int64 \<Rightarrow> time \<Rightarrow> time \<Rightarrow> Account outcome" where
  "RehydrateAccount key balance ver entries created updated =
     (case AccountKey_Validate key of
        Some e \<Rightarrow> Inl e
      | None \<Rightarrow>
          if m_currency balance \<noteq> k_currency key then Inl CodeInternalError
          else Inr \<lparr>ac_key = key, ac_normalSide = AccountType_NormalSide (k_type key), ac_balance = balance,
                    ac_version = ver, ac_entryCount = entries, ac_createdAt = created, ac_updatedAt = updated\<rparr>)"

end
