(* ===== verification/Ledger_Transaction.thy ===== *)
theory Ledger_Transaction
  imports Ledger
begin

text \<open>
  Balanced groups of ledger lines, \<open>src/internal/domain/ledger/transaction.go\<close>. The currencies of a group
  are summed in an association list in place of the map; the order in which a Go map yields its keys does
  not show, because the result is sorted by currency. A builder returns the group or the code of the first
  error; the identifiers of its lines are \<open>lid 0\<close>, \<open>lid 1\<close>, \<dots> and the readings of the clock \<open>clk 0\<close>, \<open>clk 1\<close>, \<dots>
\<close>

record Transaction =
  t_id :: ID
  t_tenantID :: ID
  t_merchantID :: ID
  t_entryType :: EntryType
  t_description :: string
  t_paymentID :: ID
  t_occurredAt :: time
  t_entries :: "Entry list"

record NewTransactionParams =
  nt_tenantID :: ID
  nt_merchantID :: ID
  nt_entryType :: EntryType
  nt_paymentID :: ID
  nt_description :: string
  nt_occurredAt :: time

definition NewTransaction :: "ID \<Rightarrow> NewTransactionParams \<Rightarrow> time \<Rightarrow> Transaction outcome" where
  "NewTransaction tid q now =
     (if nt_tenantID q = [] then Inl CodeMissingTenantContext
      else if nt_merchantID q = [] then Inl CodeValidationFailed
      else if \<not> EntryType_IsValid (nt_entryType q) then Inl CodeValidationFailed
      else let occurred = (if nt_occurredAt q = zero_time then now else nt_occurredAt q)
           in Inr \<lparr>t_id = tid, t_tenantID = nt_tenantID q, t_merchantID = nt_merchantID q,
                   t_entryType = nt_entryType q, t_description = nt_description q,
                   t_paymentID = nt_paymentID q, t_occurredAt = occurred, t_entries = []\<rparr>)"

record Line =
  ln_account :: AccountType
  ln_side :: Side
  ln_amount :: money
  ln_entryType :: EntryType
  ln_paymentID :: ID
  ln_attemptID :: ID
  ln_refundID :: ID
  ln_gatewayRef :: string
  ln_description :: string

definition AddEntry :: "ID \<Rightarrow> time \<Rightarrow> Line \<Rightarrow> Transaction \<Rightarrow> Transaction outcome" where
  "AddEntry eid now l t =
     (let et = (if ln_entryType l = EntryUnset then t_entryType t else ln_entryType l);
          paymentID = (if ln_paymentID l = [] then t_paymentID t else ln_paymentID l);
          desc = (if ln_description l = [] then t_description t else ln_description l)
      in case NewEntry eid \<lparr>ne_tenantID = t_tenantID t, ne_merchantID = t_merchantID t,
                ne_transactionID = t_id t, ne_account = ln_account l, ne_side = ln_side l,
                ne_amount = ln_amount l, ne_entryType = et, ne_paymentID = paymentID,
                ne_attemptID = ln_attemptID l, ne_refundID = ln_refundID l,
                ne_gatewayRef = ln_gatewayRef l, ne_description = desc,
                ne_occurredAt = t_occurredAt t\<rparr> now of
           Inl e \<Rightarrow> Inl e
         | Inr e \<Rightarrow> Inr (t\<lparr>t_entries := t_entries t @ [e]\<rparr>))"

definition Transaction_Currencies :: "Transaction \<Rightarrow> currency list" where
  "Transaction_Currencies t = sort (remdups (map (\<lambda>e. m_currency (l_amount e)) (t_entries t)))"

section \<open>The balance check\<close>

record Imbalance =
  im_currency :: currency
  im_debits :: money
  im_credits :: money
  im_delta :: money

type_synonym sums = "(currency \<times> money \<times> money) list"

text \<open>One turn of the summing loop: an addition that fails leaves the sum as it was.\<close>

definition add_line :: "sums \<Rightarrow> Entry \<Rightarrow> sums" where
  "add_line acc e =
     (let c = m_currency (l_amount e);
          (dr, cr) = (case map_of acc c of None \<Rightarrow> (Money_Zero c, Money_Zero c) | Some s \<Rightarrow> s)
      in if l_side e = SideDebit
         then (case Money_Add dr (l_amount e) of Inl _ \<Rightarrow> AList.update c (dr, cr) acc
                                               | Inr v \<Rightarrow> AList.update c (v, cr) acc)
         else (case Money_Add cr (l_amount e) of Inl _ \<Rightarrow> AList.update c (dr, cr) acc
                                               | Inr v \<Rightarrow> AList.update c (dr, v) acc))"

definition imbalance_of :: "currency \<times> money \<times> money \<Rightarrow> Imbalance option" where
  "imbalance_of s = (case s of (c, dr, cr) \<Rightarrow>
     let delta = (case Money_Sub dr cr of Inl _ \<Rightarrow> Money_Zero c | Inr d \<Rightarrow> d)
     in if Money_IsZero delta then None
        else Some \<lparr>im_currency = c, im_debits = dr, im_credits = cr, im_delta = delta\<rparr>)"

definition Imbalances :: "Transaction \<Rightarrow> Imbalance list" where
  "Imbalances t = sort_key im_currency (List.map_filter imbalance_of (foldl add_line [] (t_entries t)))"

definition Balance :: "Transaction \<Rightarrow> Code option" where
  "Balance t =
     (if length (t_entries t) = 0 then Some CodeValidationFailed
      else if length (t_entries t) = 1 then Some CodeValidationFailed
      else if Imbalances t = [] then None
      else Some CodeValidationFailed)"

section \<open>Builders\<close>

definition addPair :: "(nat \<Rightarrow> ID) \<Rightarrow> (nat \<Rightarrow> time) \<Rightarrow> nat \<Rightarrow> Line \<Rightarrow> AccountType \<Rightarrow> AccountType \<Rightarrow> Transaction \<Rightarrow> Transaction outcome" where
  "addPair lid clk k l debit credit t =
     (case AddEntry (lid k) (clk k) (l\<lparr>ln_account := debit, ln_side := SideDebit\<rparr>) t of
        Inl e \<Rightarrow> Inl e
      | Inr t1 \<Rightarrow> AddEntry (lid (k + 1)) (clk (k + 1)) (l\<lparr>ln_account := credit, ln_side := SideCredit\<rparr>) t1)"

definition sealed :: "Transaction \<Rightarrow> Transaction outcome" where
  "sealed t = (case Balance t of Some e \<Rightarrow> Inl e | None \<Rightarrow> Inr t)"

text \<open>A line with every optional field empty.\<close>

definition blank_line :: Line where
  "blank_line = \<lparr>ln_account = AccountOther [], ln_side = SideOther [], ln_amount = \<lparr>m_amount = 0, m_currency = []\<rparr>,
     ln_entryType = EntryUnset, ln_paymentID = [], ln_attemptID = [], ln_refundID = [],
     ln_gatewayRef = [], ln_description = []\<rparr>"

record CaptureParams =
  cp_tenantID :: ID
  cp_merchantID :: ID
  cp_paymentID :: ID
  cp_attemptID :: ID
  cp_gross :: money
  cp_gatewayRef :: string
  cp_occurredAt :: time

definition CaptureTransaction :: "ID \<Rightarrow> (nat \<Rightarrow> ID) \<Rightarrow> (nat \<Rightarrow> time) \<Rightarrow> CaptureParams \<Rightarrow> Transaction outcome" where
  "CaptureTransaction tid lid clk q =
     (case NewTransaction tid \<lparr>nt_tenantID = cp_tenantID q, nt_merchantID = cp_merchantID q,
             nt_entryType = EntryCapture, nt_paymentID = cp_paymentID q, nt_description = ''capture'',
             nt_occurredAt = cp_occurredAt q\<rparr> (clk 0) of
        Inl e \<Rightarrow> Inl e
      | Inr t \<Rightarrow>
          let line = blank_line\<lparr>ln_amount := cp_gross q, ln_entryType := EntryCapture,
                ln_paymentID := cp_paymentID q, ln_attemptID := cp_attemptID q, ln_gatewayRef := cp_gatewayRef q\<rparr>
          in case addPair lid clk 1 line AccountGatewayClearing AccountMerchantReceivable t of
               Inl e \<Rightarrow> Inl e
             | Inr t1 \<Rightarrow> sealed t1)"

record FeeParams =
  fp_tenantID :: ID
  fp_merchantID :: ID
  fp_paymentID :: ID
  fp_attemptID :: ID
  fp_fee :: money
  fp_gatewayRef :: string
  fp_description :: string
  fp_occurredAt :: time

definition FeeTransaction :: "ID \<Rightarrow> (nat \<Rightarrow> ID) \<Rightarrow> (nat \<Rightarrow> time) \<Rightarrow> FeeParams \<Rightarrow> Transaction outcome" where
  "FeeTransaction tid lid clk q =
     (let desc = (if fp_description q = [] then ''processing fee'' else fp_description q)
      in case NewTransaction tid \<lparr>nt_tenantID = fp_tenantID q, nt_merchantID = fp_merchantID q,
             nt_entryType = EntryFee, nt_paymentID = fp_paymentID q, nt_description = desc,
             nt_occurredAt = fp_occurredAt q\<rparr> (clk 0) of
        Inl e \<Rightarrow> Inl e
      | Inr t \<Rightarrow>
          let line = blank_line\<lparr>ln_amount := fp_fee q, ln_entryType := EntryFee,
                ln_paymentID := fp_paymentID q, ln_attemptID := fp_attemptID q,
                ln_gatewayRef := fp_gatewayRef q, ln_description := desc\<rparr>
          in case addPair lid clk 1 line AccountMerchantReceivable AccountFeesPayable t of
               Inl e \<Rightarrow> Inl e
             | Inr t1 \<Rightarrow> sealed t1)"

record RefundParams =
  rp_tenantID :: ID
  rp_merchantID :: ID
  rp_paymentID :: ID
  rp_refundID :: ID
  rp_amount :: money
  rp_gatewayRef :: string
  rp_occurredAt :: time
  rp_awaiting :: bool

definition RefundTransaction :: "ID \<Rightarrow> (nat \<Rightarrow> ID) \<Rightarrow> (nat \<Rightarrow> time) \<Rightarrow> RefundParams \<Rightarrow> Transaction outcome" where
  "RefundTransaction tid lid clk q =
     (case NewTransaction tid \<lparr>nt_tenantID = rp_tenantID q, nt_merchantID = rp_merchantID q,
             nt_entryType = EntryRefund, nt_paymentID = rp_paymentID q, nt_description = ''refund'',
             nt_occurredAt = rp_occurredAt q\<rparr> (clk 0) of
        Inl e \<Rightarrow> Inl e
      | Inr t \<Rightarrow>
          let credit = (if rp_awaiting q then AccountRefundsPayable else AccountGatewayClearing);
              line = blank_line\<lparr>ln_amount := rp_amount q, ln_entryType := EntryRefund,
                ln_paymentID := rp_paymentID q, ln_refundID := rp_refundID q, ln_gatewayRef := rp_gatewayRef q\<rparr>
          in case addPair lid clk 1 line AccountMerchantReceivable credit t of
               Inl e \<Rightarrow> Inl e
             | Inr t1 \<Rightarrow> sealed t1)"

datatype DisputeStage = DisputeOpened | DisputeWon | DisputeLost | DisputeOther string

primrec DisputeStage_str :: "DisputeStage \<Rightarrow> string" where
  "DisputeStage_str DisputeOpened = ''OPENED''"
| "DisputeStage_str DisputeWon = ''WON''"
| "DisputeStage_str DisputeLost = ''LOST''"
| "DisputeStage_str (DisputeOther s) = s"

definition DisputeStage_IsValid :: "DisputeStage \<Rightarrow> bool" where
  "DisputeStage_IsValid s \<longleftrightarrow> s = DisputeOpened \<or> s = DisputeWon \<or> s = DisputeLost"

record ChargebackParams =
  cb_tenantID :: ID
  cb_merchantID :: ID
  cb_paymentID :: ID
  cb_stage :: DisputeStage
  cb_amount :: money
  cb_fee :: money
  cb_disputeRef :: string
  cb_occurredAt :: time

text \<open>The accounts of a stage; the zero account type for a stage the guard has refused.\<close>

primrec dispute_accounts :: "DisputeStage \<Rightarrow> AccountType \<times> AccountType" where
  "dispute_accounts DisputeOpened = (AccountDisputesHeld, AccountGatewayClearing)"
| "dispute_accounts DisputeWon = (AccountGatewayClearing, AccountDisputesHeld)"
| "dispute_accounts DisputeLost = (AccountMerchantReceivable, AccountDisputesHeld)"
| "dispute_accounts (DisputeOther s) = (AccountOther [], AccountOther [])"

definition ChargebackTransaction :: "ID \<Rightarrow> (nat \<Rightarrow> ID) \<Rightarrow> (nat \<Rightarrow> time) \<Rightarrow> ChargebackParams \<Rightarrow> Transaction outcome" where
  "ChargebackTransaction tid lid clk q =
     (if \<not> DisputeStage_IsValid (cb_stage q) then Inl CodeValidationFailed
      else let entryType = (if cb_stage q = DisputeWon then EntryChargebackReversal else EntryChargeback)
      in case NewTransaction tid \<lparr>nt_tenantID = cb_tenantID q, nt_merchantID = cb_merchantID q,
             nt_entryType = entryType, nt_paymentID = cb_paymentID q,
             nt_description = ''dispute '' @ to_lower (DisputeStage_str (cb_stage q)),
             nt_occurredAt = cb_occurredAt q\<rparr> (clk 0) of
        Inl e \<Rightarrow> Inl e
      | Inr t \<Rightarrow>
          let line = blank_line\<lparr>ln_amount := cb_amount q, ln_entryType := entryType,
                ln_paymentID := cb_paymentID q, ln_gatewayRef := cb_disputeRef q\<rparr>;
              (debit, credit) = dispute_accounts (cb_stage q)
          in case addPair lid clk 1 line debit credit t of
               Inl e \<Rightarrow> Inl e
             | Inr t1 \<Rightarrow>
                 if Money_IsPositive (cb_fee q)
                 then let feeLine = blank_line\<lparr>ln_amount := cb_fee q, ln_entryType := EntryFee,
                        ln_paymentID := cb_paymentID q, ln_gatewayRef := cb_disputeRef q,
                        ln_description := ''dispute fee''\<rparr>
                      in case addPair lid clk 3 feeLine AccountMerchantReceivable AccountFeesPayable t1 of
                           Inl e \<Rightarrow> Inl e
                         | Inr t2 \<Rightarrow> sealed t2
                 else sealed t1)"

record SettlementParams =
  sp_tenantID :: ID
  sp_merchantID :: ID
  sp_paymentID :: ID
  sp_gross :: money
  sp_fees :: money
  sp_net :: money
  sp_settlementRef :: string
  sp_occurredAt :: time

definition add_if :: "bool \<Rightarrow> ID \<Rightarrow> time \<Rightarrow> Line \<Rightarrow> Transaction \<Rightarrow> Transaction outcome" where
  "add_if b eid now l t = (if b then AddEntry eid now l t else Inr t)"

definition SettlementTransaction :: "ID \<Rightarrow> (nat \<Rightarrow> ID) \<Rightarrow> (nat \<Rightarrow> time) \<Rightarrow> SettlementParams \<Rightarrow> Transaction outcome" where
  "SettlementTransaction tid lid clk q =
     (if \<not> Money_IsValid (sp_gross q) \<or> \<not> Money_IsValid (sp_net q) then Inl CodeAmountInvalid
      else let fees = (if m_currency (sp_fees q) = [] then Money_Zero (m_currency (sp_gross q)) else sp_fees q)
      in if Money_IsNegative fees then Inl CodeAmountInvalid
      else case Money_Add (sp_net q) fees of
        Inl _ \<Rightarrow> Inl CodeGatewayContractViolation
      | Inr expected \<Rightarrow>
     (if \<not> Money_Equal expected (sp_gross q) then Inl CodeGatewayContractViolation
      else case NewTransaction tid \<lparr>nt_tenantID = sp_tenantID q, nt_merchantID = sp_merchantID q,
             nt_entryType = EntrySettlement, nt_paymentID = sp_paymentID q, nt_description = ''settlement'',
             nt_occurredAt = sp_occurredAt q\<rparr> (clk 0) of
        Inl e \<Rightarrow> Inl e
      | Inr t \<Rightarrow>
     (case add_if (Money_IsPositive (sp_net q)) (lid 1) (clk 1)
             (blank_line\<lparr>ln_account := AccountSettlementSuspense, ln_side := SideDebit, ln_amount := sp_net q,
                ln_entryType := EntrySettlement, ln_paymentID := sp_paymentID q,
                ln_gatewayRef := sp_settlementRef q\<rparr>) t of
        Inl e \<Rightarrow> Inl e
      | Inr t1 \<Rightarrow>
     (case add_if (Money_IsPositive fees) (lid 2) (clk 2)
             (blank_line\<lparr>ln_account := AccountFeesPayable, ln_side := SideDebit, ln_amount := fees,
                ln_entryType := EntryFee, ln_paymentID := sp_paymentID q,
                ln_gatewayRef := sp_settlementRef q, ln_description := ''fee retained at settlement''\<rparr>) t1 of
        Inl e \<Rightarrow> Inl e
      | Inr t2 \<Rightarrow>
     (case AddEntry (lid 3) (clk 3)
             (blank_line\<lparr>ln_account := AccountGatewayClearing, ln_side := SideCredit, ln_amount := sp_gross q,
                ln_entryType := EntrySettlement, ln_paymentID := sp_paymentID q,
                ln_gatewayRef := sp_settlementRef q\<rparr>) t2 of
        Inl e \<Rightarrow> Inl e
      | Inr t3 \<Rightarrow> sealed t3)))))"

end
