(* ===== verification/Ledger_Properties.thy ===== *)
theory Ledger_Properties
  imports Ledger_Transaction
begin

text \<open>
  The ledger against its specification. A line stands for an exact integer movement on one side of one
  account; the machine sums of \<open>Balance\<close> and the balances of \<open>Apply\<close> are shown to be these integers, the
  builders to produce balanced groups only, and the accounts of a merchant to satisfy the accounting
  equation.
\<close>

section \<open>Exact sums\<close>

abbreviation entry_amount :: "Entry \<Rightarrow> int" where "entry_amount e \<equiv> sint (m_amount (l_amount e))"

definition debit_of :: "currency \<Rightarrow> Entry \<Rightarrow> int" where
  "debit_of c e = (if m_currency (l_amount e) = c \<and> l_side e = SideDebit then entry_amount e else 0)"

definition credit_of :: "currency \<Rightarrow> Entry \<Rightarrow> int" where
  "credit_of c e = (if m_currency (l_amount e) = c \<and> l_side e \<noteq> SideDebit then entry_amount e else 0)"

definition debits :: "currency \<Rightarrow> Entry list \<Rightarrow> int" where
  "debits c es = sum_list (map (debit_of c) es)"

definition credits :: "currency \<Rightarrow> Entry list \<Rightarrow> int" where
  "credits c es = sum_list (map (credit_of c) es)"

definition positive_lines :: "Entry list \<Rightarrow> bool" where
  "positive_lines es \<longleftrightarrow> (\<forall>e \<in> set es. 0 < entry_amount e)"

lemma sums_simps [simp]:
  "debits c [] = 0" "credits c [] = 0"
  "debits c (es @ fs) = debits c es + debits c fs" "credits c (es @ fs) = credits c es + credits c fs"
  "debits c (e # es) = debit_of c e + debits c es" "credits c (e # es) = credit_of c e + credits c es"
  by (simp_all add: debits_def credits_def)

lemma positive_simps [simp]:
  "positive_lines []" "positive_lines (es @ fs) \<longleftrightarrow> positive_lines es \<and> positive_lines fs"
  "positive_lines (e # es) \<longleftrightarrow> 0 < entry_amount e \<and> positive_lines es"
  by (auto simp: positive_lines_def)

lemma sums_nonneg: "positive_lines es \<Longrightarrow> 0 \<le> debits c es \<and> 0 \<le> credits c es"
  by (induction es) (auto simp: debit_of_def credit_of_def)

lemma sums_absent: "c \<notin> (\<lambda>e. m_currency (l_amount e)) ` set es \<Longrightarrow> debits c es = 0 \<and> credits c es = 0"
  by (induction es) (auto simp: debit_of_def credit_of_def)

definition fits :: "Entry list \<Rightarrow> bool" where
  "fits es \<longleftrightarrow> (\<forall>c. debits c es < 2 ^ 63 \<and> credits c es < 2 ^ 63)"

definition truly_balanced :: "Entry list \<Rightarrow> bool" where
  "truly_balanced es \<longleftrightarrow> (\<forall>c. debits c es = credits c es)"

section \<open>The summing loop\<close>

definition sums_ok :: "sums \<Rightarrow> Entry list \<Rightarrow> bool" where
  "sums_ok acc es \<longleftrightarrow> distinct (map fst acc) \<and> fst ` set acc = (\<lambda>e. m_currency (l_amount e)) ` set es
     \<and> (\<forall>c dr cr. (c, dr, cr) \<in> set acc \<longrightarrow> m_currency dr = c \<and> m_currency cr = c
          \<and> sint (m_amount dr) = debits c es \<and> sint (m_amount cr) = credits c es)"

lemma fits_prefix: "positive_lines (es @ fs) \<Longrightarrow> fits (es @ fs) \<Longrightarrow> fits es"
proof -
  assume p: "positive_lines (es @ fs)" and f: "fits (es @ fs)"
  have "debits c es \<le> debits c (es @ fs) \<and> credits c es \<le> credits c (es @ fs)" for c
    using p sums_nonneg [of fs c] by simp
  then show ?thesis using f unfolding fits_def by (meson le_less_trans)
qed

lemma add_line_ok:
  assumes acc: "sums_ok acc es" and p: "positive_lines (es @ [e])" and f: "fits (es @ [e])"
  shows "sums_ok (add_line acc e) (es @ [e])"
proof -
  define c where "c = m_currency (l_amount e)"
  obtain dr cr where s: "(case map_of acc c of None \<Rightarrow> (Money_Zero c, Money_Zero c) | Some s \<Rightarrow> s) = (dr, cr)"
    by fastforce
  have sums: "m_currency dr = c" "m_currency cr = c" "sint (m_amount dr) = debits c es" "sint (m_amount cr) = credits c es"
  proof -
    have "m_currency dr = c \<and> m_currency cr = c \<and> sint (m_amount dr) = debits c es \<and> sint (m_amount cr) = credits c es"
    proof (cases "map_of acc c")
      case None
      then have "c \<notin> fst ` set acc" by (simp add: map_of_eq_None_iff)
      then have "debits c es = 0 \<and> credits c es = 0" using acc by (intro sums_absent) (simp add: sums_ok_def)
      then show ?thesis using None s by (auto simp: Money_Zero_def)
    next
      case (Some x)
      then have "(c, dr, cr) \<in> set acc" using s by (auto dest: map_of_SomeD)
      then show ?thesis using acc by (simp add: sums_ok_def)
    qed
    then show "m_currency dr = c" "m_currency cr = c" "sint (m_amount dr) = debits c es" "sint (m_amount cr) = credits c es"
      by simp_all
  qed
  have nn: "0 \<le> debits c es" "0 \<le> credits c es" "0 < entry_amount e" using p sums_nonneg by auto
  have fc: "debits c (es @ [e]) < 2 ^ 63" "credits c (es @ [e]) < 2 ^ 63" using f by (auto simp: fits_def)
  obtain dr' cr' where upd: "add_line acc e = AList.update c (dr', cr') acc"
    and new: "m_currency dr' = c" "m_currency cr' = c" "sint (m_amount dr') = debits c (es @ [e])"
      "sint (m_amount cr') = credits c (es @ [e])"
  proof (cases "l_side e = SideDebit")
    case True
    have "in64 (sint (m_amount dr) + entry_amount e)"
      using fc(1) nn sums True by (simp add: in64_def debit_of_def c_def)
    then obtain v where v: "Money_Add dr (l_amount e) = Inr v"
      using sums(1) by (simp add: Money_Add_exact c_def)
    have "add_line acc e = AList.update c (v, cr) acc"
      using True v s unfolding add_line_def c_def [symmetric] by (simp add: Let_def)
    moreover have "m_currency v = c" "sint (m_amount v) = debits c (es @ [e])" "sint (m_amount cr) = credits c (es @ [e])"
      using Money_Add_Inr_iff [THEN iffD1, OF v] sums True by (simp_all add: debit_of_def credit_of_def c_def)
    ultimately show ?thesis using that sums(2) by blast
  next
    case False
    have "in64 (sint (m_amount cr) + entry_amount e)"
      using fc(2) nn sums False by (simp add: in64_def credit_of_def c_def)
    then obtain v where v: "Money_Add cr (l_amount e) = Inr v"
      using sums(2) by (simp add: Money_Add_exact c_def)
    have "add_line acc e = AList.update c (dr, v) acc"
      using False v s unfolding add_line_def c_def [symmetric] by (simp add: Let_def)
    moreover have "m_currency v = c" "sint (m_amount dr) = debits c (es @ [e])" "sint (m_amount v) = credits c (es @ [e])"
      using Money_Add_Inr_iff [THEN iffD1, OF v] sums False by (simp_all add: debit_of_def credit_of_def c_def)
    ultimately show ?thesis using that sums(1) by blast
  qed
  have dist: "distinct (map fst (add_line acc e))"
    unfolding upd using acc by (intro distinct_update) (simp add: sums_ok_def)
  have keys: "fst ` set (add_line acc e) = (\<lambda>e. m_currency (l_amount e)) ` set (es @ [e])"
  proof -
    have "fst ` set (add_line acc e) = insert c (fst ` set acc)" unfolding upd by (simp add: dom_update)
    then show ?thesis using acc by (auto simp: sums_ok_def c_def)
  qed
  have other: "debits d (es @ [e]) = debits d es" "credits d (es @ [e]) = credits d es" if "d \<noteq> c" for d
    using that by (simp_all add: debit_of_def credit_of_def c_def)
  have "m_currency x = d \<and> m_currency y = d \<and> sint (m_amount x) = debits d (es @ [e])
      \<and> sint (m_amount y) = credits d (es @ [e])" if m: "(d, x, y) \<in> set (add_line acc e)" for d x y
  proof (cases "d = c")
    case True
    have "map_of (add_line acc e) c = Some (dr', cr')" unfolding upd by (simp add: update_conv)
    moreover have "map_of (add_line acc e) d = Some (x, y)" using m dist by simp
    ultimately have "x = dr'" "y = cr'" using True by simp_all
    then show ?thesis using new True by simp
  next
    case False
    have "map_of (add_line acc e) d = Some (x, y)" using m dist by simp
    then have "map_of acc d = Some (x, y)" using False unfolding upd by (simp add: update_conv)
    then show ?thesis using acc other [OF False] by (auto simp: sums_ok_def dest!: map_of_SomeD)
  qed
  then show ?thesis using dist keys unfolding sums_ok_def by blast
qed

lemma loop_sums: "positive_lines es \<Longrightarrow> fits es \<Longrightarrow> sums_ok (foldl add_line [] es) es"
proof (induction es rule: rev_induct)
  case Nil
  show ?case by (simp add: sums_ok_def)
next
  case (snoc e es)
  then show ?case using fits_prefix [of es "[e]"] add_line_ok [of "foldl add_line [] es" es e] by simp
qed

lemma imbalance_of_ok:
  assumes ok: "sums_ok acc es" and p: "positive_lines es" and m: "(c, dr, cr) \<in> set acc"
  shows "imbalance_of (c, dr, cr) = None \<longleftrightarrow> debits c es = credits c es"
proof -
  have s: "m_currency dr = c" "m_currency cr = c" "sint (m_amount dr) = debits c es" "sint (m_amount cr) = credits c es"
    using ok m by (auto simp: sums_ok_def)
  have "in64 (sint (m_amount dr) - sint (m_amount cr))"
    using sums_nonneg [OF p, of c] s sint_bounds [of "m_amount dr"] sint_bounds [of "m_amount cr"] by (simp add: in64_def)
  then obtain d where d: "Money_Sub dr cr = Inr d" using s by (simp add: Money_Sub_exact)
  then have "sint (m_amount d) = debits c es - credits c es" using s by (simp add: Money_Sub_Inr_iff)
  then show ?thesis using d by (simp add: imbalance_of_def Money_IsZero_def int64_eq_iff)
qed

lemma map_filter_Nil_iff: "List.map_filter f xs = [] \<longleftrightarrow> (\<forall>x \<in> set xs. f x = None)"
  by (induction xs) (auto simp: List.map_filter_simps split: option.splits)

lemma no_imbalance_iff:
  assumes ok: "sums_ok acc es" and p: "positive_lines es"
  shows "List.map_filter imbalance_of acc = [] \<longleftrightarrow> truly_balanced es"
proof -
  have "List.map_filter imbalance_of acc = [] \<longleftrightarrow> (\<forall>c \<in> fst ` set acc. debits c es = credits c es)"
    unfolding map_filter_Nil_iff using imbalance_of_ok [OF ok p] by (force simp: image_iff)
  also have "\<dots> \<longleftrightarrow> truly_balanced es"
    using ok sums_absent [of _ es] unfolding truly_balanced_def sums_ok_def by metis
  finally show ?thesis .
qed

lemma Balance_iff:
  assumes "positive_lines (t_entries t)" and "fits (t_entries t)"
  shows "Balance t = None \<longleftrightarrow> 2 \<le> length (t_entries t) \<and> truly_balanced (t_entries t)"
proof -
  have "Imbalances t = [] \<longleftrightarrow> truly_balanced (t_entries t)"
    unfolding Imbalances_def using no_imbalance_iff [OF loop_sums [OF assms] assms(1)]
    by (metis length_0_conv length_sort)
  moreover have "2 \<le> length (t_entries t) \<longleftrightarrow> length (t_entries t) \<noteq> 0 \<and> length (t_entries t) \<noteq> 1" by linarith
  ultimately show ?thesis by (simp add: Balance_def)
qed

section \<open>Builders\<close>

text \<open>A group as the builders hand it out: every line belongs to the movement, and the movement balances.\<close>

definition sound_line :: "Transaction \<Rightarrow> Entry \<Rightarrow> bool" where
  "sound_line t e \<longleftrightarrow> l_tenantID e = t_tenantID t \<and> l_merchantID e = t_merchantID t
     \<and> l_transactionID e = t_id t \<and> l_occurredAt e = t_occurredAt t
     \<and> AccountType_IsValid (l_account e) \<and> Side_IsValid (l_side e) \<and> EntryType_IsValid (l_entryType e)
     \<and> Currency_IsSupported (m_currency (l_amount e)) \<and> 0 < entry_amount e"

definition sound_group :: "Transaction \<Rightarrow> bool" where
  "sound_group t \<longleftrightarrow> (\<forall>e \<in> set (t_entries t). sound_line t e)"

definition same_group :: "Transaction \<Rightarrow> Transaction \<Rightarrow> bool" where
  "same_group t u \<longleftrightarrow> t_id u = t_id t \<and> t_tenantID u = t_tenantID t \<and> t_merchantID u = t_merchantID t
     \<and> t_occurredAt u = t_occurredAt t"

lemma AddEntry_Inr:
  assumes "AddEntry eid now l t = Inr u" and "t_occurredAt t \<noteq> zero_time"
  shows "\<exists>e. t_entries u = t_entries t @ [e] \<and> sound_line t e \<and> same_group t u
    \<and> l_account e = ln_account l \<and> l_side e = ln_side l \<and> l_amount e = ln_amount l"
  using assms
  by (auto simp: AddEntry_def NewEntry_def Let_def AccountKey_Validate_def sound_line_def same_group_def
      Money_IsPositive_def split: sum.splits if_splits option.splits)

lemma NewTransaction_Inr:
  assumes "NewTransaction tid q now = Inr t"
  shows "t_entries t = [] \<and> t_id t = tid \<and> t_tenantID t = nt_tenantID q \<and> t_merchantID t = nt_merchantID q
    \<and> t_occurredAt t = (if nt_occurredAt q = zero_time then now else nt_occurredAt q)"
  using assms by (auto simp: NewTransaction_def Let_def split: if_splits)

lemma sound_line_same: "same_group t u \<Longrightarrow> sound_line u e \<longleftrightarrow> sound_line t e"
  by (simp add: same_group_def sound_line_def)

lemma addPair_Inr:
  assumes "addPair lid clk k l d c t = Inr u" and "t_occurredAt t \<noteq> zero_time"
  shows "\<exists>e f. t_entries u = t_entries t @ [e, f] \<and> sound_line t e \<and> sound_line t f \<and> same_group t u
    \<and> l_account e = d \<and> l_side e = SideDebit \<and> l_amount e = ln_amount l
    \<and> l_account f = c \<and> l_side f = SideCredit \<and> l_amount f = ln_amount l"
proof -
  obtain t1 where 1: "AddEntry (lid k) (clk k) (l\<lparr>ln_account := d, ln_side := SideDebit\<rparr>) t = Inr t1"
    and 2: "AddEntry (lid (k + 1)) (clk (k + 1)) (l\<lparr>ln_account := c, ln_side := SideCredit\<rparr>) t1 = Inr u"
    using assms(1) by (auto simp: addPair_def split: sum.splits)
  obtain e where e: "t_entries t1 = t_entries t @ [e]" "sound_line t e" "same_group t t1"
    "l_account e = d" "l_side e = SideDebit" "l_amount e = ln_amount l"
    using AddEntry_Inr [OF 1 assms(2)] by auto
  have "t_occurredAt t1 \<noteq> zero_time" using e(3) assms(2) by (simp add: same_group_def)
  from AddEntry_Inr [OF 2 this] obtain f where f: "t_entries u = t_entries t1 @ [f]" "sound_line t1 f" "same_group t1 u"
    "l_account f = c" "l_side f = SideCredit" "l_amount f = ln_amount l"
    by auto
  have "same_group t u" using e(3) f(3) by (simp add: same_group_def)
  then show ?thesis using e f sound_line_same [OF e(3)] by auto
qed

lemma sealed_Inr: "sealed t = Inr u \<longleftrightarrow> u = t \<and> Balance t = None"
  by (auto simp: sealed_def split: option.splits)

lemma pair_balanced:
  "l_side e = SideDebit \<Longrightarrow> l_side f = SideCredit \<Longrightarrow> l_amount e = l_amount f \<Longrightarrow>
   truly_balanced (es @ [e, f]) \<longleftrightarrow> truly_balanced es"
  by (auto simp: truly_balanced_def debit_of_def credit_of_def)

text \<open>What every builder promises, for a movement of the given owner.\<close>

definition posting :: "ID \<Rightarrow> ID \<Rightarrow> ID \<Rightarrow> Transaction \<Rightarrow> bool" where
  "posting tid tenant merchant t \<longleftrightarrow> t_id t = tid \<and> t_tenantID t = tenant \<and> t_merchantID t = merchant
     \<and> sound_group t \<and> 2 \<le> length (t_entries t) \<and> truly_balanced (t_entries t)"

lemma one_pair_posting:
  assumes new: "NewTransaction tid q (clk 0) = Inr t" and pair: "addPair lid clk 1 l d c t = Inr u"
    and clk: "\<forall>k. clk k \<noteq> zero_time"
  shows "posting tid (nt_tenantID q) (nt_merchantID q) u
    \<and> (\<exists>e f. t_entries u = [e, f] \<and> l_account e = d \<and> l_side e = SideDebit \<and> l_amount e = ln_amount l
        \<and> l_account f = c \<and> l_side f = SideCredit \<and> l_amount f = ln_amount l)"
proof -
  note n = NewTransaction_Inr [OF new]
  have z: "t_occurredAt t \<noteq> zero_time" using n clk by auto
  from addPair_Inr [OF pair z] obtain e f where ef: "t_entries u = [e, f]" "sound_line t e" "sound_line t f"
    "same_group t u" "l_account e = d" "l_side e = SideDebit" "l_amount e = ln_amount l"
    "l_account f = c" "l_side f = SideCredit" "l_amount f = ln_amount l"
    using n by auto
  have "truly_balanced [e, f]" using pair_balanced [of e f "[]"] ef by (simp add: truly_balanced_def)
  then have "posting tid (nt_tenantID q) (nt_merchantID q) u"
    using ef n sound_line_same [OF ef(4)] by (simp add: posting_def sound_group_def same_group_def)
  then show ?thesis using ef by blast
qed

lemma Capture_posting:
  assumes "CaptureTransaction tid lid clk q = Inr u" and clk: "\<forall>k. clk k \<noteq> zero_time"
  shows "posting tid (cp_tenantID q) (cp_merchantID q) u"
  using assms(1)
  by (auto simp: CaptureTransaction_def Let_def sealed_Inr split: sum.splits dest!: one_pair_posting [OF _ _ clk])

lemma Fee_posting:
  assumes "FeeTransaction tid lid clk q = Inr u" and clk: "\<forall>k. clk k \<noteq> zero_time"
  shows "posting tid (fp_tenantID q) (fp_merchantID q) u"
  using assms(1)
  by (auto simp: FeeTransaction_def Let_def sealed_Inr split: sum.splits dest!: one_pair_posting [OF _ _ clk])

lemma Refund_posting:
  assumes "RefundTransaction tid lid clk q = Inr u" and clk: "\<forall>k. clk k \<noteq> zero_time"
  shows "posting tid (rp_tenantID q) (rp_merchantID q) u"
  using assms(1)
  by (auto simp: RefundTransaction_def Let_def sealed_Inr split: sum.splits dest!: one_pair_posting [OF _ _ clk])

lemma pair_more_posting:
  assumes p: "posting tid a b t" and z: "t_occurredAt t \<noteq> zero_time" and pair: "addPair lid clk k l d c t = Inr u"
  shows "posting tid a b u"
proof -
  from addPair_Inr [OF pair z] obtain e f where ef: "t_entries u = t_entries t @ [e, f]" "sound_line t e" "sound_line t f"
    "same_group t u" "l_side e = SideDebit" "l_side f = SideCredit" "l_amount e = l_amount f"
    by auto
  then show ?thesis using p pair_balanced [OF ef(5,6,7), of "t_entries t"] sound_line_same [OF ef(4)]
    by (simp add: posting_def sound_group_def same_group_def)
qed

lemma Chargeback_posting:
  assumes "ChargebackTransaction tid lid clk q = Inr u" and clk: "\<forall>k. clk k \<noteq> zero_time"
  shows "posting tid (cb_tenantID q) (cb_merchantID q) u"
proof -
  obtain d c where dc: "dispute_accounts (cb_stage q) = (d, c)" by fastforce
  define et where "et = (if cb_stage q = DisputeWon then EntryChargebackReversal else EntryChargeback)"
  define n where "n = \<lparr>nt_tenantID = cb_tenantID q, nt_merchantID = cb_merchantID q, nt_entryType = et,
    nt_paymentID = cb_paymentID q, nt_description = ''dispute '' @ to_lower (DisputeStage_str (cb_stage q)),
    nt_occurredAt = cb_occurredAt q\<rparr>"
  define l where "l = blank_line\<lparr>ln_amount := cb_amount q, ln_entryType := et,
    ln_paymentID := cb_paymentID q, ln_gatewayRef := cb_disputeRef q\<rparr>"
  define fl where "fl = blank_line\<lparr>ln_amount := cb_fee q, ln_entryType := EntryFee, ln_paymentID := cb_paymentID q,
    ln_gatewayRef := cb_disputeRef q, ln_description := ''dispute fee''\<rparr>"
  note defs = ChargebackTransaction_def Let_def et_def [symmetric] n_def [symmetric] l_def [symmetric] fl_def [symmetric]
  obtain t where t: "NewTransaction tid n (clk 0) = Inr t"
    using assms(1) unfolding defs by (auto split: sum.splits if_splits)
  obtain t1 where t1: "addPair lid clk 1 l d c t = Inr t1"
    using assms(1) t dc unfolding defs by (auto split: sum.splits if_splits)
  have u: "u = t1 \<or> addPair lid clk 3 fl AccountMerchantReceivable AccountFeesPayable t1 = Inr u"
    using assms(1) t t1 dc unfolding defs by (auto simp: sealed_Inr split: sum.splits if_splits)
  have p1: "posting tid (cb_tenantID q) (cb_merchantID q) t1" using one_pair_posting [OF t t1 clk] by (simp add: n_def)
  have z: "t_occurredAt t \<noteq> zero_time" using NewTransaction_Inr [OF t] clk by auto
  then have "t_occurredAt t1 \<noteq> zero_time" using addPair_Inr [OF t1 z] by (auto simp: same_group_def)
  then show ?thesis using u p1 pair_more_posting by blast
qed

lemma add_if_Inr:
  assumes "add_if b eid now l t = Inr u" and "t_occurredAt t \<noteq> zero_time"
  shows "same_group t u \<and> (if b then (\<exists>e. t_entries u = t_entries t @ [e] \<and> sound_line t e
      \<and> l_side e = ln_side l \<and> l_amount e = ln_amount l) else t_entries u = t_entries t)"
  using assms AddEntry_Inr [of eid now l t u] by (auto simp: add_if_def same_group_def split: if_splits)

text \<open>The lines of a settlement: at most two debits in the currency of the gross credit that closes them.\<close>

lemma settlement_balanced:
  assumes t: "Balance t = None" and es: "t_entries t = ns @ fs @ [g]" and snd: "sound_group t"
    and net: "ns = [] \<and> N \<le> 0 \<or> (\<exists>e. ns = [e] \<and> l_side e = SideDebit \<and> entry_amount e = N \<and> m_currency (l_amount e) = cur)"
    and fee: "fs = [] \<and> F = 0 \<or> (\<exists>e. fs = [e] \<and> l_side e = SideDebit \<and> entry_amount e = F \<and> m_currency (l_amount e) = cur)"
    and g: "l_side g = SideCredit" "entry_amount g = N + F" "m_currency (l_amount g) = cur"
  shows "truly_balanced (t_entries t) \<and> 2 \<le> length (t_entries t)"
proof -
  have p: "positive_lines (t_entries t)" using snd by (auto simp: sound_group_def sound_line_def positive_lines_def)
  have gb: "entry_amount g < 2 ^ 63" using sint_bounds(2) [of "m_amount (l_amount g)"] by simp
  have F: "F < 2 ^ 63"
    using fee sint_bounds(2) [of "m_amount (l_amount (hd fs))"] by auto
  have "debits c (t_entries t) < 2 ^ 63 \<and> credits c (t_entries t) < 2 ^ 63" for c
    using net fee g gb F p unfolding es by (auto simp: debit_of_def credit_of_def)
  then have "fits (t_entries t)" by (simp add: fits_def)
  then show ?thesis using Balance_iff [OF p] t by blast
qed

lemma Settlement_posting:
  assumes s: "SettlementTransaction tid lid clk q = Inr u" and clk: "\<forall>k. clk k \<noteq> zero_time"
  shows "posting tid (sp_tenantID q) (sp_merchantID q) u"
proof -
  define fees where "fees = (if m_currency (sp_fees q) = [] then Money_Zero (m_currency (sp_gross q)) else sp_fees q)"
  define n where "n = \<lparr>nt_tenantID = sp_tenantID q, nt_merchantID = sp_merchantID q, nt_entryType = EntrySettlement,
    nt_paymentID = sp_paymentID q, nt_description = ''settlement'', nt_occurredAt = sp_occurredAt q\<rparr>"
  define l1 where "l1 = blank_line\<lparr>ln_account := AccountSettlementSuspense, ln_side := SideDebit, ln_amount := sp_net q,
    ln_entryType := EntrySettlement, ln_paymentID := sp_paymentID q, ln_gatewayRef := sp_settlementRef q\<rparr>"
  define l2 where "l2 = blank_line\<lparr>ln_account := AccountFeesPayable, ln_side := SideDebit, ln_amount := fees,
    ln_entryType := EntryFee, ln_paymentID := sp_paymentID q,
    ln_gatewayRef := sp_settlementRef q, ln_description := ''fee retained at settlement''\<rparr>"
  define l3 where "l3 = blank_line\<lparr>ln_account := AccountGatewayClearing, ln_side := SideCredit, ln_amount := sp_gross q,
    ln_entryType := EntrySettlement, ln_paymentID := sp_paymentID q, ln_gatewayRef := sp_settlementRef q\<rparr>"
  note defs = SettlementTransaction_def Let_def fees_def [symmetric] n_def [symmetric] l1_def [symmetric]
    l2_def [symmetric] l3_def [symmetric]
  obtain x where neg: "\<not> Money_IsNegative fees" and x: "Money_Add (sp_net q) fees = Inr x" "Money_Equal x (sp_gross q)"
    using s unfolding defs by (auto split: sum.splits if_splits)
  obtain t where t: "NewTransaction tid n (clk 0) = Inr t"
    using s neg x unfolding defs by (auto split: sum.splits if_splits)
  obtain t1 where t1: "add_if (Money_IsPositive (sp_net q)) (lid 1) (clk 1) l1 t = Inr t1"
    using s neg x t unfolding defs by (auto split: sum.splits if_splits)
  obtain t2 where t2: "add_if (Money_IsPositive fees) (lid 2) (clk 2) l2 t1 = Inr t2"
    using s neg x t t1 unfolding defs by (auto split: sum.splits if_splits)
  have t3: "AddEntry (lid 3) (clk 3) l3 t2 = Inr u" and bal: "Balance u = None"
    using s neg x t t1 t2 unfolding defs by (auto simp: sealed_Inr split: sum.splits if_splits)
  note n' = NewTransaction_Inr [OF t]
  have z: "t_occurredAt t \<noteq> zero_time" using n' clk by auto
  note a1 = add_if_Inr [OF t1 z]
  have z1: "t_occurredAt t1 \<noteq> zero_time" using a1 z by (simp add: same_group_def)
  note a2 = add_if_Inr [OF t2 z1]
  have z2: "t_occurredAt t2 \<noteq> zero_time" using a2 z1 by (simp add: same_group_def)
  obtain g where g: "t_entries u = t_entries t2 @ [g]" "sound_line t2 g" "same_group t2 u"
    "l_side g = SideCredit" "l_amount g = sp_gross q"
    using AddEntry_Inr [OF t3 z2] by (auto simp: l3_def)
  have grp: "same_group t u" "same_group t t1" "same_group t t2" using a1 a2 g(3) by (simp_all add: same_group_def)
  obtain ns where ns: "t_entries t1 = ns" "\<forall>e \<in> set ns. sound_line t e"
    "ns = [] \<and> sint (m_amount (sp_net q)) \<le> 0 \<or> (\<exists>e. ns = [e] \<and> l_side e = SideDebit \<and> l_amount e = sp_net q)"
    using a1 n' by (auto simp: l1_def Money_IsPositive_def split: if_splits)
  obtain fs where fs: "t_entries t2 = ns @ fs" "\<forall>e \<in> set fs. sound_line t e"
    "fs = [] \<and> sint (m_amount fees) = 0 \<or> (\<exists>e. fs = [e] \<and> l_side e = SideDebit \<and> l_amount e = fees)"
    using a2 ns(1) neg sound_line_same [OF grp(2)]
    by (auto simp: l2_def Money_IsPositive_def Money_IsNegative_def split: if_splits)
  have es: "t_entries u = ns @ fs @ [g]" using g(1) fs(1) by simp
  have snd: "sound_group u"
    using ns(2) fs(2) g(2) sound_line_same [OF grp(1)] sound_line_same [OF grp(3)] by (auto simp: sound_group_def es)
  have sum: "sint (m_amount (sp_gross q)) = sint (m_amount (sp_net q)) + sint (m_amount fees)"
    and cur: "m_currency (sp_net q) = m_currency (sp_gross q)" "m_currency fees = m_currency (sp_gross q)"
    using x by (auto simp: Money_Add_Inr_iff Money_Equal_def)
  have "truly_balanced (t_entries u) \<and> 2 \<le> length (t_entries u)"
    using settlement_balanced [OF bal es snd, of "sint (m_amount (sp_net q))" "m_currency (sp_gross q)" "sint (m_amount fees)"]
      ns(3) fs(3) g(4,5) sum cur by auto
  then show ?thesis using snd n' grp(1) by (simp add: posting_def same_group_def n_def)
qed

section \<open>Balances as folds\<close>

text \<open>
  The balance of an account is a fold of \<open>Apply\<close> over the entries of its key. The specification is the sum
  of the amounts, signed by the normal side of the account.
\<close>

primrec project :: "Account \<Rightarrow> Entry list \<Rightarrow> Account outcome" where
  "project a [] = Inr a"
| "project a (e # es) =
     (if Entry_AccountKey e = ac_key a
      then (case Account_Apply a e of Inl x \<Rightarrow> Inl x | Inr b \<Rightarrow> project b es)
      else project a es)"

definition signed_of :: "AccountKey \<Rightarrow> Entry \<Rightarrow> int" where
  "signed_of k e = (if Entry_AccountKey e = k
     then (if Entry_IsIncrease e then entry_amount e else - entry_amount e) else 0)"

definition balance_of :: "AccountKey \<Rightarrow> Entry list \<Rightarrow> int" where
  "balance_of k es = sum_list (map (signed_of k) es)"

definition account_ok :: "Account \<Rightarrow> bool" where
  "account_ok a \<longleftrightarrow> ac_normalSide a = AccountType_NormalSide (k_type (ac_key a))
     \<and> m_currency (ac_balance a) = k_currency (ac_key a)"

lemma NewAccount_ok:
  "NewAccount k now = Inr a \<Longrightarrow> account_ok a \<and> ac_key a = k \<and> sint (m_amount (ac_balance a)) = 0 \<and> ac_entryCount a = 0"
  by (auto simp: NewAccount_def account_ok_def Money_Zero_def split: option.splits)

lemma sint_neg_positive: "0 < sint x \<Longrightarrow> sint (- x :: int64) = - sint x"
  using sint_bounds [of x] by (simp add: sint_neg64 in64_def)

lemma Apply_exact:
  assumes a: "account_ok a" and k: "Entry_AccountKey e = ac_key a" and pos: "0 < entry_amount e"
  shows "Account_Apply a e =
     (if in64 (sint (m_amount (ac_balance a)) + signed_of (ac_key a) e)
      then Inr (a\<lparr>ac_balance := \<lparr>m_amount = word_of_int (sint (m_amount (ac_balance a)) + signed_of (ac_key a) e),
                              m_currency = k_currency (ac_key a)\<rparr>,
               ac_version := ac_version a + 1, ac_entryCount := ac_entryCount a + 1, ac_updatedAt := l_recordedAt e\<rparr>)
      else Inl CodeInternalError)"
proof -
  define d where "d = (if l_side e \<noteq> ac_normalSide a then Money_Neg (l_amount e) else l_amount e)"
  have ac: "l_account e = k_type (ac_key a)" "m_currency (l_amount e) = k_currency (ac_key a)"
    using k [symmetric] by (simp_all add: Entry_AccountKey_def)
  have d: "sint (m_amount d) = signed_of (ac_key a) e" "m_currency d = k_currency (ac_key a)"
    using a k pos ac
    by (auto simp: d_def Money_Neg_def sint_neg_positive signed_of_def Entry_IsIncrease_def account_ok_def)
  have w: "m_amount (ac_balance a) + m_amount d = word_of_int (sint (m_amount (ac_balance a)) + signed_of (ac_key a) e)"
    by (rule int64_eqI) (simp add: sint_add64 sint_of_int64 d(1))
  show ?thesis
    using k a d(2) unfolding Account_Apply_def Let_def d_def [symmetric]
    by (simp add: Money_Add_exact d(1) w account_ok_def Version_Next_def)
qed

lemma project_balance:
  assumes "account_ok a" and "\<forall>e \<in> set es. 0 < entry_amount e" and "project a es = Inr b"
  shows "account_ok b \<and> ac_key b = ac_key a
    \<and> sint (m_amount (ac_balance b)) = sint (m_amount (ac_balance a)) + balance_of (ac_key a) es
    \<and> ac_entryCount b = ac_entryCount a + of_nat (length (filter (\<lambda>e. Entry_AccountKey e = ac_key a) es))"
  using assms
proof (induction es arbitrary: a)
  case Nil
  then show ?case by (simp add: balance_of_def)
next
  case (Cons e es)
  show ?case
  proof (cases "Entry_AccountKey e = ac_key a")
    case True
    then obtain c where c: "Account_Apply a e = Inr c" "project c es = Inr b"
      using Cons.prems(3) by (auto split: sum.splits)
    have in64: "in64 (sint (m_amount (ac_balance a)) + signed_of (ac_key a) e)"
      and ceq: "account_ok c" "ac_key c = ac_key a" "ac_entryCount c = ac_entryCount a + 1"
        "sint (m_amount (ac_balance c)) = sint (m_amount (ac_balance a)) + signed_of (ac_key a) e"
      using c(1) Apply_exact [OF Cons.prems(1) True] Cons.prems(1,2)
      by (auto simp: account_ok_def sint_add64 sint_of_int64 split: if_splits)
    then show ?thesis using Cons.IH [of c] c(2) Cons.prems(2) True by (simp add: balance_of_def algebra_simps)
  next
    case False
    then show ?thesis using Cons.IH [of a] Cons.prems by (simp add: balance_of_def signed_of_def)
  qed
qed

text \<open>Every line moves the debit-normal accounts against the credit-normal ones by its signed amount.\<close>

definition flow :: "ID \<Rightarrow> ID \<Rightarrow> currency \<Rightarrow> Entry \<Rightarrow> int" where
  "flow tenant merchant c e =
     (if l_tenantID e = tenant \<and> l_merchantID e = merchant then debit_of c e - credit_of c e else 0)"

abbreviation account_key :: "ID \<Rightarrow> ID \<Rightarrow> currency \<Rightarrow> AccountType \<Rightarrow> AccountKey" where
  "account_key tenant merchant c ty \<equiv> \<lparr>k_tenantID = tenant, k_merchantID = merchant, k_type = ty, k_currency = c\<rparr>"

lemma valid_accounts:
  "AccountType_IsValid t \<longleftrightarrow> t \<in> {AccountMerchantReceivable, AccountGatewayClearing, AccountFeesPayable,
     AccountRefundsPayable, AccountDisputesHeld, AccountSettlementSuspense}"
  by (cases t) (simp_all add: AccountType_IsValid_def normalSides_def)

lemma line_flow:
  assumes "sound_line t e"
  shows "signed_of (account_key tn m c AccountGatewayClearing) e + signed_of (account_key tn m c AccountDisputesHeld) e
       + signed_of (account_key tn m c AccountSettlementSuspense) e
       = signed_of (account_key tn m c AccountMerchantReceivable) e + signed_of (account_key tn m c AccountFeesPayable) e
       + signed_of (account_key tn m c AccountRefundsPayable) e + flow tn m c e"
proof -
  have "AccountType_IsValid (l_account e)" "Side_IsValid (l_side e)" using assms by (simp_all add: sound_line_def)
  then show ?thesis
    by (cases "l_account e"; cases "l_side e")
      (auto simp: valid_accounts Side_IsValid_def signed_of_def flow_def Entry_AccountKey_def Entry_IsIncrease_def
        AccountType_NormalSide_def normalSides_def debit_of_def credit_of_def)
qed

lemma group_flow:
  assumes "sound_group t" and "truly_balanced (t_entries t)"
  shows "sum_list (map (flow tn m c) (t_entries t)) = 0"
proof (cases "t_tenantID t = tn \<and> t_merchantID t = m")
  case True
  have eq: "map (flow tn m c) (t_entries t) = map (\<lambda>e. debit_of c e - credit_of c e) (t_entries t)"
    using assms(1) True by (auto simp: flow_def sound_group_def sound_line_def)
  have "sum_list (map (flow tn m c) (t_entries t)) = debits c (t_entries t) - credits c (t_entries t)"
    unfolding eq by (simp add: debits_def credits_def sum_list_subtractf)
  then show ?thesis using assms(2) by (simp add: truly_balanced_def)
next
  case False
  then have eq: "map (flow tn m c) (t_entries t) = map (\<lambda>e. 0) (t_entries t)"
    using assms(1) by (auto simp: flow_def sound_group_def sound_line_def)
  show ?thesis unfolding eq by simp
qed

lemma groups_flow:
  assumes "\<forall>t \<in> set ts. sound_group t \<and> truly_balanced (t_entries t)"
  shows "sum_list (map (flow tn m c) (concat (map t_entries ts))) = 0"
  using assms by (induction ts) (simp_all add: group_flow)

lemma lines_flow:
  assumes "\<forall>e \<in> set es. \<exists>t. sound_line t e"
  shows "balance_of (account_key tn m c AccountGatewayClearing) es + balance_of (account_key tn m c AccountDisputesHeld) es
       + balance_of (account_key tn m c AccountSettlementSuspense) es
       = balance_of (account_key tn m c AccountMerchantReceivable) es + balance_of (account_key tn m c AccountFeesPayable) es
       + balance_of (account_key tn m c AccountRefundsPayable) es + sum_list (map (flow tn m c) es)"
  using assms
proof (induction es)
  case (Cons e es)
  then obtain t where "sound_line t e" by auto
  from line_flow [OF this, of tn m c] Cons show ?case by (simp add: balance_of_def)
qed (simp add: balance_of_def)

lemma project_total:
  assumes "account_ok a" and "\<forall>e \<in> set es. 0 < entry_amount e"
    and "\<forall>n \<le> length es. in64 (sint (m_amount (ac_balance a)) + balance_of (ac_key a) (take n es))"
  shows "\<exists>b. project a es = Inr b"
  using assms
proof (induction es arbitrary: a)
  case (Cons e es)
  have later: "in64 (sint (m_amount (ac_balance a)) + signed_of (ac_key a) e + balance_of (ac_key a) (take n es))"
    if "n \<le> length es" for n
    using Cons.prems(3) [rule_format, of "Suc n"] that by (simp add: balance_of_def algebra_simps)
  show ?case
  proof (cases "Entry_AccountKey e = ac_key a")
    case True
    have in64: "in64 (sint (m_amount (ac_balance a)) + signed_of (ac_key a) e)" using later [of 0] by (simp add: balance_of_def)
    then obtain c where c: "Account_Apply a e = Inr c" using Apply_exact [OF Cons.prems(1) True] Cons.prems(2) by simp
    have "account_ok c" "ac_key c = ac_key a"
      "sint (m_amount (ac_balance c)) = sint (m_amount (ac_balance a)) + signed_of (ac_key a) e"
      using c in64 Apply_exact [OF Cons.prems(1) True] Cons.prems(1,2)
      by (auto simp: account_ok_def sint_add64 sint_of_int64)
    then show ?thesis using Cons.IH [of c] Cons.prems(2) later c True by simp
  next
    case False
    then have "signed_of (ac_key a) e = 0" by (simp add: signed_of_def)
    then show ?thesis using Cons.IH [of a] Cons.prems(1,2) later False by simp
  qed
qed simp

lemma balance_bound:
  "\<forall>e \<in> set es. 0 < entry_amount e \<Longrightarrow> \<bar>balance_of k es\<bar> \<le> sum_list (map entry_amount es)"
  by (induction es) (auto simp: balance_of_def signed_of_def)

lemma project_small:
  assumes "NewAccount k now = Inr a" and pos: "\<forall>e \<in> set es. 0 < entry_amount e" and small: "sum_list (map entry_amount es) < 2 ^ 63"
  shows "\<exists>b. project a es = Inr b \<and> sint (m_amount (ac_balance b)) = balance_of k es"
proof -
  note a = NewAccount_ok [OF assms(1)]
  have "in64 (balance_of k (take n es))" for n
  proof -
    have "sum_list (map entry_amount (take n es)) + sum_list (map entry_amount (drop n es)) = sum_list (map entry_amount es)"
      by (metis append_take_drop_id map_append sum_list_append)
    moreover have "0 \<le> sum_list (map entry_amount (drop n es))"
      using pos by (intro sum_list_nonneg) (auto dest!: in_set_dropD)
    moreover have "\<bar>balance_of k (take n es)\<bar> \<le> sum_list (map entry_amount (take n es))"
      using pos by (intro balance_bound) (auto dest!: in_set_takeD)
    ultimately show ?thesis using small unfolding in64_def by linarith
  qed
  then obtain b where b: "project a es = Inr b" using project_total [of a es] a pos by auto
  then show ?thesis using project_balance [OF _ pos b] a by auto
qed

section \<open>Properties\<close>

text \<open>
  The worked example of the chart of accounts: 84.50 USD captured, 2.75 USD of fees.
\<close>

definition example_capture :: "Transaction outcome" where
  "example_capture = CaptureTransaction ''led_1'' (\<lambda>k. ''led_c'') (\<lambda>k. 7)
     \<lparr>cp_tenantID = ''ten_1'', cp_merchantID = ''mrc_1'', cp_paymentID = ''pay_1'', cp_attemptID = ''att_1'',
      cp_gross = \<lparr>m_amount = 8450, m_currency = ''USD''\<rparr>, cp_gatewayRef = ''ch_1'', cp_occurredAt = 5\<rparr>"

definition example_fee :: "Transaction outcome" where
  "example_fee = FeeTransaction ''led_2'' (\<lambda>k. ''led_f'') (\<lambda>k. 8)
     \<lparr>fp_tenantID = ''ten_1'', fp_merchantID = ''mrc_1'', fp_paymentID = ''pay_1'', fp_attemptID = ''att_1'',
      fp_fee = \<lparr>m_amount = 275, m_currency = ''USD''\<rparr>, fp_gatewayRef = ''ch_1'', fp_description = [], fp_occurredAt = 5\<rparr>"

lemmas example_defs = example_capture_def example_fee_def CaptureTransaction_def FeeTransaction_def NewTransaction_def
  addPair_def AddEntry_def NewEntry_def sealed_def Balance_def Imbalances_def add_line_def imbalance_of_def Let_def
  EntryType_IsValid_def entryTypes_def AccountKey_Validate_def AccountType_IsValid_def normalSides_def
  Currency_IsSupported_def currencies_def Side_IsValid_def Money_IsPositive_def Money_Add_def Money_Sub_def Money_Zero_def
  Money_IsZero_def List.map_filter_simps zero_time_def blank_line_def

lemma example_capture_ok:
  "\<exists>t. example_capture = Inr t
     \<and> map (\<lambda>e. (l_tenantID e, l_merchantID e, l_account e, l_side e, l_amount e)) (t_entries t)
       = [(''ten_1'', ''mrc_1'', AccountGatewayClearing, SideDebit, \<lparr>m_amount = 8450, m_currency = ''USD''\<rparr>),
          (''ten_1'', ''mrc_1'', AccountMerchantReceivable, SideCredit, \<lparr>m_amount = 8450, m_currency = ''USD''\<rparr>)]"
  by (simp add: example_defs)

lemma example_fee_ok:
  "\<exists>t. example_fee = Inr t
     \<and> map (\<lambda>e. (l_tenantID e, l_merchantID e, l_account e, l_side e, l_amount e)) (t_entries t)
       = [(''ten_1'', ''mrc_1'', AccountMerchantReceivable, SideDebit, \<lparr>m_amount = 275, m_currency = ''USD''\<rparr>),
          (''ten_1'', ''mrc_1'', AccountFeesPayable, SideCredit, \<lparr>m_amount = 275, m_currency = ''USD''\<rparr>)]"
  by (simp add: example_defs)

text \<open>
  C14: the balance check computes what it should. For a group of positive lines whose sums per side and
  currency stay below 2^63, \<open>Balance\<close> accepts exactly the groups with at least two lines in which, in every
  currency, the debits equal the credits as integers.
\<close>

theorem Balance_is_double_entry:
  assumes "positive_lines (t_entries t)" and "fits (t_entries t)"
  shows "Balance t = None \<longleftrightarrow> 2 \<le> length (t_entries t) \<and> truly_balanced (t_entries t)"
  using assms by (rule Balance_iff)

definition lone_line :: "Side \<Rightarrow> int64 \<Rightarrow> Entry" where
  "lone_line s n = \<lparr>l_id = ''led_9'', l_tenantID = ''ten_1'', l_merchantID = ''mrc_1'', l_transactionID = ''led_0'',
     l_account = AccountGatewayClearing, l_side = s, l_amount = \<lparr>m_amount = n, m_currency = ''USD''\<rparr>,
     l_entryType = EntryAdjustment, l_paymentID = [], l_attemptID = [], l_refundID = [], l_gatewayRef = [],
     l_description = [], l_occurredAt = 5, l_recordedAt = 7, l_partitionMonth = 0\<rparr>"

definition open_group :: "Entry list \<Rightarrow> Transaction" where
  "open_group es = \<lparr>t_id = ''led_0'', t_tenantID = ''ten_1'', t_merchantID = ''mrc_1'', t_entryType = EntryAdjustment,
     t_description = [], t_paymentID = [], t_occurredAt = 5, t_entries = es\<rparr>"

lemma lone_sums:
  "debit_of c (lone_line s n) = (if c = ''USD'' \<and> s = SideDebit then sint n else 0)"
  "credit_of c (lone_line s n) = (if c = ''USD'' \<and> s \<noteq> SideDebit then sint n else 0)"
  "entry_amount (lone_line s n) = sint n"
  by (auto simp: lone_line_def debit_of_def credit_of_def)

theorem Balance_is_double_entry_witness:
  "Balance (open_group [lone_line SideDebit 5, lone_line SideCredit 5]) = None
   \<and> Balance (open_group [lone_line SideDebit 5, lone_line SideCredit 4]) \<noteq> None"
  using Balance_is_double_entry [of "open_group [lone_line SideDebit 5, lone_line SideCredit 5]"]
    Balance_is_double_entry [of "open_group [lone_line SideDebit 5, lone_line SideCredit 4]"]
  by (auto simp: open_group_def fits_def truly_balanced_def lone_sums)

text \<open>
  C13: whatever a builder returns is a sound posting. Each of the five builders, when it returns a group,
  returns at least two lines that all carry the tenant, the merchant, the identifier and the occurrence
  time of the movement, valid accounts, sides, entry types and currencies and positive amounts, and whose
  debits equal the credits in every currency as integers.
\<close>

theorem builders_post_balanced_groups:
  assumes clk: "\<forall>k. clk k \<noteq> zero_time"
  shows "(CaptureTransaction tid lid clk c = Inr t \<longrightarrow> posting tid (cp_tenantID c) (cp_merchantID c) t)
    \<and> (FeeTransaction tid lid clk f = Inr t \<longrightarrow> posting tid (fp_tenantID f) (fp_merchantID f) t)
    \<and> (RefundTransaction tid lid clk r = Inr t \<longrightarrow> posting tid (rp_tenantID r) (rp_merchantID r) t)
    \<and> (ChargebackTransaction tid lid clk d = Inr t \<longrightarrow> posting tid (cb_tenantID d) (cb_merchantID d) t)
    \<and> (SettlementTransaction tid lid clk s = Inr t \<longrightarrow> posting tid (sp_tenantID s) (sp_merchantID s) t)"
  using Capture_posting [OF _ clk] Fee_posting [OF _ clk] Refund_posting [OF _ clk] Chargeback_posting [OF _ clk]
    Settlement_posting [OF _ clk] by blast

theorem builders_post_balanced_groups_witness:
  "\<exists>t. example_capture = Inr t \<and> posting ''led_1'' ''ten_1'' ''mrc_1'' t"
  using example_capture_ok builders_post_balanced_groups [of "\<lambda>k. 7" "''led_1''" "\<lambda>k. ''led_c''"]
  unfolding example_capture_def by (fastforce simp: zero_time_def)

text \<open>
  C15: the balance of an account is its specification. Folding \<open>Apply\<close> over the entries of an account's key,
  starting from a new account, gives the exact sum of the amounts signed by the normal side and the number
  of the entries, and the fold succeeds whenever no running balance leaves the range of an \<open>int64\<close>.
\<close>

theorem account_balance_is_the_sum:
  assumes "NewAccount k now = Inr a" and "\<forall>e \<in> set es. 0 < entry_amount e"
  shows "(project a es = Inr b \<longrightarrow> sint (m_amount (ac_balance b)) = balance_of k es \<and> ac_key b = k
        \<and> ac_entryCount b = of_nat (length (filter (\<lambda>e. Entry_AccountKey e = k) es)))
    \<and> ((\<forall>n \<le> length es. in64 (balance_of k (take n es))) \<longrightarrow> (\<exists>b. project a es = Inr b))"
  using NewAccount_ok [OF assms(1)] project_balance [OF _ assms(2), of a b] project_total [OF _ assms(2), of a]
  by auto

lemma example_account:
  "\<exists>a. NewAccount (account_key ''ten_1'' ''mrc_1'' ''USD'' AccountGatewayClearing) 1 = Inr a"
  by (simp add: NewAccount_def AccountKey_Validate_def AccountType_IsValid_def normalSides_def Currency_IsSupported_def currencies_def)

theorem account_balance_is_the_sum_witness:
  "\<exists>a b. NewAccount (account_key ''ten_1'' ''mrc_1'' ''USD'' AccountGatewayClearing) 1 = Inr a
     \<and> project a [lone_line SideDebit 5, lone_line SideCredit 7] = Inr b \<and> sint (m_amount (ac_balance b)) = - 2"
proof -
  let ?k = "account_key ''ten_1'' ''mrc_1'' ''USD'' AccountGatewayClearing"
  let ?es = "[lone_line SideDebit 5, lone_line SideCredit 7]"
  obtain a where a: "NewAccount ?k 1 = Inr a" using example_account by blast
  have s: "signed_of ?k (lone_line SideDebit 5) = 5" "signed_of ?k (lone_line SideCredit 7) = -7"
    by (simp_all add: signed_of_def lone_line_def Entry_AccountKey_def Entry_IsIncrease_def AccountType_NormalSide_def normalSides_def)
  have pos: "\<forall>e \<in> set ?es. 0 < entry_amount e" by (simp add: lone_sums)
  have "\<forall>n \<le> length ?es. in64 (balance_of ?k (take n ?es))"
    by (auto simp: balance_of_def take_Cons s in64_def split: nat.splits)
  then obtain b where b: "project a ?es = Inr b" using account_balance_is_the_sum [OF a pos] by blast
  then have "sint (m_amount (ac_balance b)) = balance_of ?k ?es" using account_balance_is_the_sum [OF a pos] by blast
  then show ?thesis using a b by (auto simp: balance_of_def s)
qed

text \<open>
  C8: the accounting equation. Whatever balanced groups are posted, for any tenants and merchants, the
  debit-normal balances of a merchant in a currency (gateway clearing, disputes held, settlement suspense)
  add up to its credit-normal balances (merchant receivable, fees payable, refunds payable).
\<close>

theorem accounting_equation:
  fixes bal
  assumes groups: "\<forall>t \<in> set ts. sound_group t \<and> truly_balanced (t_entries t)"
    and accounts: "\<forall>ty \<in> set (map fst normalSides).
        \<exists>a b. NewAccount (account_key tn m c ty) now = Inr a \<and> project a (concat (map t_entries ts)) = Inr b
          \<and> bal ty = sint (m_amount (ac_balance b))"
  shows "bal AccountGatewayClearing + bal AccountDisputesHeld + bal AccountSettlementSuspense
       = bal AccountMerchantReceivable + bal AccountFeesPayable + bal AccountRefundsPayable"
proof -
  let ?es = "concat (map t_entries ts)"
  have sound: "\<forall>e \<in> set ?es. \<exists>t. sound_line t e" using groups by (auto simp: sound_group_def)
  then have pos: "\<forall>e \<in> set ?es. 0 < entry_amount e" by (auto simp: sound_line_def)
  have b: "bal ty = balance_of (account_key tn m c ty) ?es" if ty: "ty \<in> set (map fst normalSides)" for ty
  proof -
    obtain a x where ax: "NewAccount (account_key tn m c ty) now = Inr a" "project a ?es = Inr x"
      "bal ty = sint (m_amount (ac_balance x))"
      using accounts ty by blast
    show ?thesis using NewAccount_ok [OF ax(1)] project_balance [OF _ pos ax(2)] ax(3) by simp
  qed
  show ?thesis
    using lines_flow [OF sound, of tn m c] groups_flow [OF groups, of tn m c]
    by (simp add: b normalSides_def)
qed

theorem accounting_equation_witness:
  "\<exists>t bal. example_capture = Inr t \<and> bal AccountGatewayClearing = (8450 :: int) \<and> bal AccountFeesPayable = 0
     \<and> bal AccountGatewayClearing + bal AccountDisputesHeld + bal AccountSettlementSuspense
       = bal AccountMerchantReceivable + bal AccountFeesPayable + bal AccountRefundsPayable"
proof -
  obtain t where te: "example_capture = Inr t
     \<and> map (\<lambda>e. (l_tenantID e, l_merchantID e, l_account e, l_side e, l_amount e)) (t_entries t)
       = [(''ten_1'', ''mrc_1'', AccountGatewayClearing, SideDebit, \<lparr>m_amount = 8450, m_currency = ''USD''\<rparr>),
          (''ten_1'', ''mrc_1'', AccountMerchantReceivable, SideCredit, \<lparr>m_amount = 8450, m_currency = ''USD''\<rparr>)]"
    using example_capture_ok ..
  note t = conjunct1 [OF te] and es = conjunct2 [OF te]
  define bal where "bal ty = balance_of (account_key ''ten_1'' ''mrc_1'' ''USD'' ty) (t_entries t)" for ty
  have p: "posting ''led_1'' ''ten_1'' ''mrc_1'' t"
    using Capture_posting [OF t [unfolded example_capture_def]] by (simp add: zero_time_def)
  obtain e f where ef: "t_entries t = [e, f]" using es by (auto simp: Cons_eq_map_conv)
  have acc: "\<exists>a b. NewAccount (account_key ''ten_1'' ''mrc_1'' ''USD'' ty) 1 = Inr a
      \<and> project a (concat (map t_entries [t])) = Inr b \<and> bal ty = sint (m_amount (ac_balance b))"
    if ty: "ty \<in> set (map fst normalSides)" for ty
  proof -
    obtain a where a: "NewAccount (account_key ''ten_1'' ''mrc_1'' ''USD'' ty) 1 = Inr a"
      using ty by (auto simp: NewAccount_def AccountKey_Validate_def AccountType_IsValid_def normalSides_def
          Currency_IsSupported_def currencies_def)
    have "\<forall>e \<in> set (t_entries t). 0 < entry_amount e" "sum_list (map entry_amount (t_entries t)) < 2 ^ 63"
      using es ef by auto
    from project_small [OF a this] show ?thesis using a by (auto simp: bal_def)
  qed
  have "bal AccountGatewayClearing + bal AccountDisputesHeld + bal AccountSettlementSuspense
       = bal AccountMerchantReceivable + bal AccountFeesPayable + bal AccountRefundsPayable"
    by (rule accounting_equation [of "[t]" "''ten_1''" "''mrc_1''" "''USD''" 1]) (use p acc in \<open>auto simp: posting_def\<close>)
  moreover have "bal AccountGatewayClearing = 8450" "bal AccountFeesPayable = 0"
    using es ef by (auto simp: bal_def balance_of_def signed_of_def Entry_AccountKey_def Entry_IsIncrease_def
        AccountType_NormalSide_def normalSides_def)
  ultimately show ?thesis using t by blast
qed

text \<open>
  The balance check does not report an overflowing sum. A line that would take a sum past the range
  is left out of it, so a group with debits of 2^63 - 1 and 5 against a credit of 2^63 - 1 is accepted.
\<close>

theorem Balance_drops_overflowing_line:
  "Balance (open_group [lone_line SideDebit MaxInt64, lone_line SideDebit 5, lone_line SideCredit MaxInt64]) = None
   \<and> debits ''USD'' [lone_line SideDebit MaxInt64, lone_line SideDebit 5, lone_line SideCredit MaxInt64]
     = credits ''USD'' [lone_line SideDebit MaxInt64, lone_line SideDebit 5, lone_line SideCredit MaxInt64] + 5"
  by (simp add: lone_sums) (code_simp)

end
