(* ===== verification/Tenant_Context.thy ===== *)
theory Tenant_Context
  imports Shared_Kernel
begin

text \<open>
  The tenant a request runs under: \<open>src/internal/platform/tenantctx/tenantctx.go\<close> and
  \<open>propagation.go\<close>, and the guards the persistence layer builds on it,
  \<open>src/internal/infrastructure/postgres/tenant.go\<close>. Of a \<open>context.Context\<close> the code reads one value,
  the tenant context stored under the package's private key: a context is a \<open>TenantContext option\<close>.
  A Go map of headers is an association list, and a header that is absent reads as the empty string.
  The JSON document of a workflow activity is what \<open>json.Unmarshal\<close> reads from it: the bytes between
  encoder and decoder are not represented, but their one lossy step is, the replacement of bytes that are
  not UTF-8. A document that is empty or does not decode is a constructor of its own.
\<close>

definition PrincipalHuman :: string where "PrincipalHuman = ''HUMAN''"
definition PrincipalMachine :: string where "PrincipalMachine = ''MACHINE''"
definition PrincipalWorkload :: string where "PrincipalWorkload = ''WORKLOAD''"

record Principal =
  pr_Type :: string
  pr_ID :: string
  pr_Name :: string

definition SourceToken :: string where "SourceToken = ''TOKEN''"
definition SourceEventEnvelope :: string where "SourceEventEnvelope = ''EVENT_ENVELOPE''"
definition SourceWorkflowInstance :: string where "SourceWorkflowInstance = ''WORKFLOW_INSTANCE''"

definition Source_IsValid :: "string \<Rightarrow> bool" where
  "Source_IsValid s \<longleftrightarrow> s = SourceToken \<or> s = SourceEventEnvelope \<or> s = SourceWorkflowInstance"

record TenantContext =
  tc_TenantID :: ID
  tc_Tier :: string
  tc_Principal :: Principal
  tc_Scopes :: "string list"
  tc_MerchantScope :: "ID list"
  tc_Environment :: string
  tc_RequestID :: string
  tc_CorrelationID :: string
  tc_Source :: string

type_synonym ctx = "TenantContext option"

section \<open>The context\<close>

definition CoversMerchant :: "TenantContext \<Rightarrow> ID \<Rightarrow> bool" where
  "CoversMerchant tc m \<longleftrightarrow> tc_MerchantScope tc = [] \<or> m \<in> set (tc_MerchantScope tc)"

definition TenantContext_Validate :: "TenantContext \<Rightarrow> Code option" where
  "TenantContext_Validate tc =
     (if tc_TenantID tc = [] then Some CodeMissingTenantContext
      else if Validate (tc_TenantID tc) ''ten'' \<noteq> None then Some CodeMissingTenantContext
      else if \<not> TenantTier_IsValid (tc_Tier tc) then Some CodeMissingTenantContext
      else if \<not> Environment_IsValid (tc_Environment tc) then Some CodeMissingTenantContext
      else if \<not> Source_IsValid (tc_Source tc) then Some CodeMissingTenantContext
      else None)"

definition WithTenant :: "ctx \<Rightarrow> TenantContext \<Rightarrow> ctx outcome" where
  "WithTenant ctx tc = (case TenantContext_Validate tc of Some c \<Rightarrow> Inl c | None \<Rightarrow> Inr (Some tc))"

definition FromContext :: "ctx \<Rightarrow> TenantContext outcome" where
  "FromContext ctx = (case ctx of None \<Rightarrow> Inl CodeMissingTenantContext | Some tc \<Rightarrow> Inr tc)"

definition ctx_TenantID :: "ctx \<Rightarrow> ID outcome" where
  "ctx_TenantID ctx = (case FromContext ctx of Inl c \<Rightarrow> Inl c | Inr tc \<Rightarrow> Inr (tc_TenantID tc))"

definition MustTenantID :: "ctx \<Rightarrow> ID" where
  "MustTenantID ctx = (case FromContext ctx of Inl _ \<Rightarrow> [] | Inr tc \<Rightarrow> tc_TenantID tc)"

definition AssertTenant :: "ctx \<Rightarrow> ID \<Rightarrow> Code option" where
  "AssertTenant ctx resourceTenantID = (case FromContext ctx of
      Inl c \<Rightarrow> Some c
    | Inr tc \<Rightarrow>
        if resourceTenantID = [] then Some CodeTenantMismatch
        else if resourceTenantID \<noteq> tc_TenantID tc then Some CodeTenantMismatch
        else None)"

definition AssertBodyTenant :: "ctx \<Rightarrow> string \<Rightarrow> Code option" where
  "AssertBodyTenant ctx claimed = (if claimed = [] then None else AssertTenant ctx claimed)"

section \<open>Propagation to events\<close>

datatype header_name =
    HeaderTenantID | HeaderTenantTier | HeaderEnvironment | HeaderPrincipalType | HeaderPrincipalID
  | HeaderPrincipalName | HeaderRequestID | HeaderCorrelationID | HeaderMerchantScope

text \<open>The header on the wire.\<close>

fun header_text :: "header_name \<Rightarrow> string" where
  "header_text HeaderTenantID = ''pp-tenant-id''"
| "header_text HeaderTenantTier = ''pp-tenant-tier''"
| "header_text HeaderEnvironment = ''pp-environment''"
| "header_text HeaderPrincipalType = ''pp-principal-type''"
| "header_text HeaderPrincipalID = ''pp-principal-id''"
| "header_text HeaderPrincipalName = ''pp-principal-name''"
| "header_text HeaderRequestID = ''pp-request-id''"
| "header_text HeaderCorrelationID = ''pp-correlation-id''"
| "header_text HeaderMerchantScope = ''pp-merchant-scope''"

type_synonym headers = "(string \<times> string) list"

definition header :: "headers \<Rightarrow> header_name \<Rightarrow> string" where
  "header hs k = (case map_of hs (header_text k) of None \<Rightarrow> [] | Some v \<Rightarrow> v)"

definition EventHeaders :: "ctx \<Rightarrow> headers outcome" where
  "EventHeaders ctx = (case FromContext ctx of
      Inl c \<Rightarrow> Inl c
    | Inr tc \<Rightarrow> Inr (
        [(header_text HeaderTenantID, tc_TenantID tc), (header_text HeaderTenantTier, tc_Tier tc),
         (header_text HeaderEnvironment, tc_Environment tc), (header_text HeaderPrincipalType, pr_Type (tc_Principal tc)),
         (header_text HeaderPrincipalID, pr_ID (tc_Principal tc))]
        @ (if pr_Name (tc_Principal tc) \<noteq> [] then [(header_text HeaderPrincipalName, pr_Name (tc_Principal tc))] else [])
        @ (if tc_RequestID tc \<noteq> [] then [(header_text HeaderRequestID, tc_RequestID tc)] else [])
        @ (if tc_CorrelationID tc \<noteq> [] then [(header_text HeaderCorrelationID, tc_CorrelationID tc)] else [])
        @ (if tc_MerchantScope tc \<noteq> []
           then [(header_text HeaderMerchantScope, str_join (CHR '','') (tc_MerchantScope tc))] else [])))"

definition parseMerchantScope :: "string \<Rightarrow> ID list" where
  "parseMerchantScope s =
     (if s = [] then [] else filter (\<lambda>p. p \<noteq> []) (map trim_space (str_split (CHR '','') s)))"

definition FromEventHeaders :: "ctx \<Rightarrow> headers \<Rightarrow> ctx outcome" where
  "FromEventHeaders ctx hs =
     (if hs = [] then Inl CodeMissingTenantContext
      else WithTenant ctx
        \<lparr>tc_TenantID = header hs HeaderTenantID, tc_Tier = header hs HeaderTenantTier,
         tc_Principal = \<lparr>pr_Type = header hs HeaderPrincipalType, pr_ID = header hs HeaderPrincipalID,
                         pr_Name = header hs HeaderPrincipalName\<rparr>,
         tc_Scopes = [], tc_MerchantScope = parseMerchantScope (header hs HeaderMerchantScope),
         tc_Environment = header hs HeaderEnvironment, tc_RequestID = header hs HeaderRequestID,
         tc_CorrelationID = header hs HeaderCorrelationID, tc_Source = SourceEventEnvelope\<rparr>)"

definition AssertEnvelopeTenant :: "string \<Rightarrow> string \<Rightarrow> Code option" where
  "AssertEnvelopeTenant envelopeTenant payloadTenant =
     (if payloadTenant = [] \<or> payloadTenant = envelopeTenant then None else Some CodeTenantMismatch)"

section \<open>Propagation to workflow activities\<close>

record activityState =
  as_Version :: int
  as_TenantID :: string
  as_Tier :: string
  as_Environment :: string
  as_PrincipalType :: string
  as_PrincipalID :: string
  as_PrincipalName :: string
  as_MerchantScope :: "string list"
  as_RequestID :: string
  as_CorrelationID :: string

datatype activity_document = EmptyDocument | Undecodable | Document activityState

definition activityStateVersion :: int where "activityStateVersion = 1"

text \<open>
  How many bytes the rune at the head of a string has, by the table of \<open>unicode/utf8\<close>; zero where the
  head does not begin a valid encoding.
\<close>

definition byte_at :: "string \<Rightarrow> nat \<Rightarrow> nat \<Rightarrow> nat \<Rightarrow> bool" where
  "byte_at s k lo hi \<longleftrightarrow> k < length s \<and> lo \<le> of_char (s ! k) \<and> of_char (s ! k) \<le> hi"

definition utf8_width :: "string \<Rightarrow> nat" where
  "utf8_width s =
     (if byte_at s 0 0 0x7F then 1
      else if byte_at s 0 0xC2 0xDF \<and> byte_at s 1 0x80 0xBF then 2
      else if (byte_at s 0 0xE0 0xE0 \<and> byte_at s 1 0xA0 0xBF \<or> byte_at s 0 0xE1 0xEC \<and> byte_at s 1 0x80 0xBF
               \<or> byte_at s 0 0xED 0xED \<and> byte_at s 1 0x80 0x9F \<or> byte_at s 0 0xEE 0xEF \<and> byte_at s 1 0x80 0xBF)
              \<and> byte_at s 2 0x80 0xBF then 3
      else if (byte_at s 0 0xF0 0xF0 \<and> byte_at s 1 0x90 0xBF \<or> byte_at s 0 0xF1 0xF3 \<and> byte_at s 1 0x80 0xBF
               \<or> byte_at s 0 0xF4 0xF4 \<and> byte_at s 1 0x80 0x8F)
              \<and> byte_at s 2 0x80 0xBF \<and> byte_at s 3 0x80 0xBF then 4
      else 0)"

fun valid_utf8 :: "string \<Rightarrow> bool" where
  "valid_utf8 [] \<longleftrightarrow> True"
| "valid_utf8 (c # cs) \<longleftrightarrow> utf8_width (c # cs) \<noteq> 0 \<and> valid_utf8 (drop (utf8_width (c # cs) - 1) cs)"

text \<open>A string written by \<open>encoding/json\<close> and read back: a byte that begins no rune becomes U+FFFD.\<close>

fun json_string :: "string \<Rightarrow> string" where
  "json_string [] = []"
| "json_string (c # cs) =
     (let n = utf8_width (c # cs)
      in if n = 0 then [CHR 0xEF, CHR 0xBF, CHR 0xBD] @ json_string cs
         else c # take (n - 1) cs @ json_string (drop (n - 1) cs))"

definition MarshalActivity :: "ctx \<Rightarrow> activity_document outcome" where
  "MarshalActivity ctx = (case FromContext ctx of
      Inl c \<Rightarrow> Inl c
    | Inr tc \<Rightarrow> Inr (Document
        \<lparr>as_Version = activityStateVersion, as_TenantID = json_string (tc_TenantID tc),
         as_Tier = json_string (tc_Tier tc), as_Environment = json_string (tc_Environment tc),
         as_PrincipalType = json_string (pr_Type (tc_Principal tc)),
         as_PrincipalID = json_string (pr_ID (tc_Principal tc)),
         as_PrincipalName = json_string (pr_Name (tc_Principal tc)),
         as_MerchantScope = map json_string (tc_MerchantScope tc),
         as_RequestID = json_string (tc_RequestID tc),
         as_CorrelationID = json_string (tc_CorrelationID tc)\<rparr>))"

definition UnmarshalActivity :: "ctx \<Rightarrow> activity_document \<Rightarrow> ctx outcome" where
  "UnmarshalActivity ctx doc = (case doc of
      EmptyDocument \<Rightarrow> Inl CodeMissingTenantContext
    | Undecodable \<Rightarrow> Inl CodeMissingTenantContext
    | Document st \<Rightarrow>
        if as_Version st \<noteq> activityStateVersion then Inl CodeMissingTenantContext
        else WithTenant ctx
          \<lparr>tc_TenantID = as_TenantID st, tc_Tier = as_Tier st,
           tc_Principal = \<lparr>pr_Type = as_PrincipalType st, pr_ID = as_PrincipalID st,
                           pr_Name = as_PrincipalName st\<rparr>,
           tc_Scopes = [], tc_MerchantScope = as_MerchantScope st,
           tc_Environment = as_Environment st, tc_RequestID = as_RequestID st,
           tc_CorrelationID = as_CorrelationID st, tc_Source = SourceWorkflowInstance\<rparr>)"

section \<open>The guards of the persistence layer\<close>

text \<open>The resolver \<open>OpenPostgres\<close> installs, of \<open>src/internal/platform/runtime/wiring.go\<close>.\<close>

definition tenantFrom :: "ctx \<Rightarrow> string option" where
  "tenantFrom ctx = (case ctx_TenantID ctx of
      Inl _ \<Rightarrow> None
    | Inr t \<Rightarrow> if t = [] then None else Some t)"

definition tenantOf :: "ctx \<Rightarrow> ID outcome" where
  "tenantOf ctx = (case tenantFrom ctx of
      None \<Rightarrow> Inl CodeMissingTenantContext
    | Some i \<Rightarrow> if i = [] then Inl CodeMissingTenantContext else Inr i)"

definition requireTenantCtx :: "ctx \<Rightarrow> ID \<Rightarrow> Code option" where
  "requireTenantCtx ctx bound = (case tenantOf ctx of
      Inl c \<Rightarrow> Some c
    | Inr t \<Rightarrow> if t \<noteq> bound then Some CodeTenantMismatch else None)"

definition requireOwner :: "ctx \<Rightarrow> ID \<Rightarrow> ID \<Rightarrow> Code option" where
  "requireOwner ctx bound owner = (case requireTenantCtx ctx bound of
      Some c \<Rightarrow> Some c
    | None \<Rightarrow> if owner \<noteq> bound then Some CodeTenantMismatch else None)"

section \<open>Properties\<close>

lemma requireOwner_same: "tc_TenantID tc \<noteq> [] \<Longrightarrow> requireOwner (Some tc) (tc_TenantID tc) (tc_TenantID tc) = None"
  by (simp add: requireOwner_def requireTenantCtx_def tenantOf_def tenantFrom_def ctx_TenantID_def FromContext_def)

lemma json_string_id: "valid_utf8 s \<Longrightarrow> json_string s = s"
  by (induction s rule: json_string.induct) (auto simp: Let_def)

text \<open>Splitting a joined list splits its parts.\<close>

lemma split_nonempty: "str_split sep s \<noteq> []"
  by (induction s) (auto split: list.splits)

lemma split_append_sep: "str_split sep (p @ sep # s) = str_split sep p @ str_split sep s"
  by (induction p) (auto split: list.splits simp: split_nonempty)

lemma split_join: "ps \<noteq> [] \<Longrightarrow> str_split sep (str_join sep ps) = concat (map (str_split sep) ps)"
  by (induction sep ps rule: str_join.induct) (simp_all add: split_append_sep)

lemma split_no_sep: "sep \<notin> set p \<Longrightarrow> str_split sep p = [p]"
  by (induction p) auto

lemma split_parts: "p \<in> set (str_split sep s) \<Longrightarrow> sep \<notin> set p"
  by (induction s arbitrary: p) (auto split: list.splits if_splits)

text \<open>What the consumer reads of one element of a merchant scope, and the elements it reads unchanged.\<close>

definition scope_parts :: "ID \<Rightarrow> ID list" where
  "scope_parts m = filter (\<lambda>p. p \<noteq> []) (map trim_space (str_split (CHR '','') m))"

definition plain_id :: "ID \<Rightarrow> bool" where
  "plain_id m \<longleftrightarrow> m \<noteq> [] \<and> CHR '','' \<notin> set m \<and> trim_space m = m"

lemma parseMerchantScope_join:
  "parseMerchantScope (str_join (CHR '','') ms) = concat (map scope_parts ms)"
proof (cases "str_join (CHR '','') ms = []")
  case True
  then have "ms = [] \<or> ms = [[]]" by (cases "(CHR '','', ms)" rule: str_join.cases) auto
  then show ?thesis using True by (auto simp: parseMerchantScope_def scope_parts_def trim_space_def)
next
  case False
  then have "ms \<noteq> []" by auto
  then show ?thesis using False
    by (simp add: parseMerchantScope_def scope_parts_def [abs_def] split_join map_concat filter_concat comp_def)
qed

lemma scope_parts_plain: "p \<in> set (scope_parts m) \<Longrightarrow> plain_id p"
  by (auto simp: scope_parts_def plain_id_def trim_space_idem dest: split_parts dest!: trim_space_subset)

lemma scope_unchanged_iff: "concat (map scope_parts ms) = ms \<longleftrightarrow> list_all plain_id ms"
proof
  assume eq: "concat (map scope_parts ms) = ms"
  have "\<forall>p \<in> set (concat (map scope_parts ms)). plain_id p" by (auto dest: scope_parts_plain)
  then show "list_all plain_id ms" unfolding eq by (simp add: list_all_iff)
next
  assume "list_all plain_id ms"
  then show "concat (map scope_parts ms) = ms"
    by (induction ms) (auto simp: plain_id_def scope_parts_def split_no_sep)
qed

lemma header_of_EventHeaders:
  assumes "EventHeaders (Some tc) = Inr hs"
  shows "header hs HeaderTenantID = tc_TenantID tc" "header hs HeaderTenantTier = tc_Tier tc"
    "header hs HeaderEnvironment = tc_Environment tc"
    "header hs HeaderPrincipalType = pr_Type (tc_Principal tc)" "header hs HeaderPrincipalID = pr_ID (tc_Principal tc)"
    "header hs HeaderPrincipalName = pr_Name (tc_Principal tc)" "header hs HeaderRequestID = tc_RequestID tc"
    "header hs HeaderCorrelationID = tc_CorrelationID tc"
    "header hs HeaderMerchantScope = str_join (CHR '','') (tc_MerchantScope tc)" "hs \<noteq> []"
  using assms by (auto simp: EventHeaders_def FromContext_def header_def)

text \<open>The strings of a context that an activity document carries.\<close>

definition context_texts :: "TenantContext \<Rightarrow> string list" where
  "context_texts tc =
     [tc_TenantID tc, tc_Tier tc, tc_Environment tc, pr_Type (tc_Principal tc), pr_ID (tc_Principal tc),
      pr_Name (tc_Principal tc), tc_RequestID tc, tc_CorrelationID tc] @ tc_MerchantScope tc"

text \<open>
  C19: What becomes of a valid tenant context on its way to a consumer. Through the headers of an event
  everything arrives unchanged except the scopes, which are dropped, the origin, which is stamped, and the
  merchant scope: of each of its elements the consumer reads the parts between commas, without surrounding
  white space and without the blank ones. So the merchant scope is unchanged exactly when every element is
  a plain identifier, that is not empty, without a comma and without surrounding white space. Through the
  document of a workflow activity the context arrives unchanged, with the scopes dropped and the origin
  stamped, when its strings are valid UTF-8.
\<close>

theorem tenant_context_propagates:
  assumes valid: "TenantContext_Validate tc = None"
  shows "(\<exists>hs. EventHeaders (Some tc) = Inr hs
      \<and> FromEventHeaders ctx hs = Inr (Some (tc\<lparr>tc_Scopes := [],
          tc_MerchantScope := concat (map scope_parts (tc_MerchantScope tc)), tc_Source := SourceEventEnvelope\<rparr>)))
    \<and> (concat (map scope_parts (tc_MerchantScope tc)) = tc_MerchantScope tc
        \<longleftrightarrow> list_all plain_id (tc_MerchantScope tc))
    \<and> (list_all valid_utf8 (context_texts tc) \<longrightarrow>
        (\<exists>doc. MarshalActivity (Some tc) = Inr doc
          \<and> UnmarshalActivity ctx doc = Inr (Some (tc\<lparr>tc_Scopes := [], tc_Source := SourceWorkflowInstance\<rparr>))))"
proof -
  let ?ms = "concat (map scope_parts (tc_MerchantScope tc))"
  have rebuilt: "\<lparr>tc_TenantID = tc_TenantID tc, tc_Tier = tc_Tier tc,
      tc_Principal = \<lparr>pr_Type = pr_Type (tc_Principal tc), pr_ID = pr_ID (tc_Principal tc), pr_Name = pr_Name (tc_Principal tc)\<rparr>,
      tc_Scopes = [], tc_MerchantScope = ms, tc_Environment = tc_Environment tc,
      tc_RequestID = tc_RequestID tc, tc_CorrelationID = tc_CorrelationID tc, tc_Source = src\<rparr>
    = tc\<lparr>tc_Scopes := [], tc_MerchantScope := ms, tc_Source := src\<rparr>" for ms src by simp
  have v: "TenantContext_Validate (tc\<lparr>tc_Scopes := [], tc_MerchantScope := ms, tc_Source := src\<rparr>) = None"
    if "src \<in> {SourceEventEnvelope, SourceWorkflowInstance}" for ms src
    using valid that by (auto simp: TenantContext_Validate_def Source_IsValid_def split: if_splits)
  obtain hs where hs: "EventHeaders (Some tc) = Inr hs" by (simp add: EventHeaders_def FromContext_def)
  have "FromEventHeaders ctx hs = Inr (Some (tc\<lparr>tc_Scopes := [], tc_MerchantScope := ?ms, tc_Source := SourceEventEnvelope\<rparr>))"
    unfolding FromEventHeaders_def header_of_EventHeaders [OF hs] parseMerchantScope_join rebuilt
    using header_of_EventHeaders(10) [OF hs] by (simp add: WithTenant_def v)
  moreover have "\<exists>doc. MarshalActivity (Some tc) = Inr doc
      \<and> UnmarshalActivity ctx doc = Inr (Some (tc\<lparr>tc_Scopes := [], tc_Source := SourceWorkflowInstance\<rparr>))"
    if "list_all valid_utf8 (context_texts tc)"
  proof -
    have "map json_string (tc_MerchantScope tc) = tc_MerchantScope tc"
      using that by (intro map_idI) (simp add: context_texts_def list_all_iff json_string_id)
    then show ?thesis
      using that v [of SourceWorkflowInstance "tc_MerchantScope tc"] unfolding MarshalActivity_def FromContext_def
      by (simp add: UnmarshalActivity_def context_texts_def json_string_id rebuilt WithTenant_def)
  qed
  ultimately show ?thesis using hs scope_unchanged_iff by blast
qed

definition wit_scoped :: TenantContext where
  "wit_scoped = \<lparr>tc_TenantID = ''ten_01ARZ3NDEKTSV4RRFFQ69G5FAV'', tc_Tier = TierSiloed,
     tc_Principal = \<lparr>pr_Type = PrincipalHuman, pr_ID = ''u1'', pr_Name = ''Ada''\<rparr>, tc_Scopes = [''payments:write''],
     tc_MerchantScope = [''mrc_1'', ''mrc_2''], tc_Environment = EnvironmentProduction, tc_RequestID = ''req_1'',
     tc_CorrelationID = [], tc_Source = SourceToken\<rparr>"

theorem tenant_context_propagates_witness:
  "(\<exists>hs. EventHeaders (Some wit_scoped) = Inr hs
     \<and> FromEventHeaders None hs = Inr (Some (wit_scoped\<lparr>tc_Scopes := [], tc_MerchantScope := [''mrc_1'', ''mrc_2''],
         tc_Source := SourceEventEnvelope\<rparr>)))
   \<and> (\<exists>doc. MarshalActivity (Some wit_scoped) = Inr doc
     \<and> UnmarshalActivity None doc = Inr (Some (wit_scoped\<lparr>tc_Scopes := [], tc_Source := SourceWorkflowInstance\<rparr>)))"
proof -
  have valid: "TenantContext_Validate wit_scoped = None" by code_simp
  have parts: "concat (map scope_parts (tc_MerchantScope wit_scoped)) = [''mrc_1'', ''mrc_2'']" by code_simp
  have "list_all valid_utf8 (context_texts wit_scoped)" by code_simp
  then show ?thesis using tenant_context_propagates [OF valid, of None] unfolding parts by blast
qed

text \<open>A scope of blank identifiers is read back as no scope at all, which covers every merchant.\<close>

theorem blank_scope_widens_to_tenant:
  assumes "TenantContext_Validate tc = None" and "tc_MerchantScope tc = ['' '']"
  shows "\<not> CoversMerchant tc ''mrc_1'' \<and> (\<exists>hs tc'. EventHeaders (Some tc) = Inr hs
    \<and> FromEventHeaders None hs = Inr (Some tc') \<and> CoversMerchant tc' ''mrc_1'')"
proof -
  obtain hs where hs: "EventHeaders (Some tc) = Inr hs" by (simp add: EventHeaders_def FromContext_def)
  have "parseMerchantScope (str_join (CHR '','') (tc_MerchantScope tc)) = []"
    by (simp add: assms(2) parseMerchantScope_def trim_space_def is_space_def)
  then have "\<exists>tc'. FromEventHeaders None hs = Inr (Some tc') \<and> tc_MerchantScope tc' = []"
    unfolding FromEventHeaders_def header_of_EventHeaders [OF hs]
    using assms(1) header_of_EventHeaders(10) [OF hs]
    by (auto simp: WithTenant_def TenantContext_Validate_def Source_IsValid_def split: if_splits)
  then show ?thesis using hs assms(2) by (auto simp: CoversMerchant_def)
qed
end
