(* ===== verification/Postgres_Errors.thy ===== *)
theory Postgres_Errors
  imports Shared_Kernel
begin

text \<open>
  The classification of database errors, \<open>src/internal/infrastructure/postgres/errors.go\<close>: from what
  the driver reports (no rows, a cancelled or expired context, a server error with its SQLSTATE and
  constraint, a connection fault, anything else with its message) to the published code.
\<close>

section \<open>What the driver reports\<close>

record PgError =
  pge_Code :: string
  pge_ConstraintName :: string

datatype db_error =
    Classified Code
  | NoRows
  | ContextCanceled
  | DeadlineExceeded
  | ServerError PgError
  | ConnectError
  | NetError
  | DriverError string

datatype SQLState =
    SQLStateUniqueViolation | SQLStateForeignKeyViolation | SQLStateNotNullViolation
  | SQLStateCheckViolation | SQLStateExclusionViolation | SQLStateRestrictViolation
  | SQLStateSerializationFailure | SQLStateDeadlockDetected | SQLStateQueryCanceled
  | SQLStateAdminShutdown | SQLStateCrashShutdown | SQLStateCannotConnectNow
  | SQLStateTooManyConnections | SQLStateOutOfMemory | SQLStateDiskFull
  | SQLStateInsufficientPrivilege | SQLStateReadOnlySQLTransaction | SQLStateUndefinedTable

fun SQLState_code :: "SQLState \<Rightarrow> string" where
  "SQLState_code SQLStateUniqueViolation = ''23505''"
| "SQLState_code SQLStateForeignKeyViolation = ''23503''"
| "SQLState_code SQLStateNotNullViolation = ''23502''"
| "SQLState_code SQLStateCheckViolation = ''23514''"
| "SQLState_code SQLStateExclusionViolation = ''23P01''"
| "SQLState_code SQLStateRestrictViolation = ''23001''"
| "SQLState_code SQLStateSerializationFailure = ''40001''"
| "SQLState_code SQLStateDeadlockDetected = ''40P01''"
| "SQLState_code SQLStateQueryCanceled = ''57014''"
| "SQLState_code SQLStateAdminShutdown = ''57P01''"
| "SQLState_code SQLStateCrashShutdown = ''57P02''"
| "SQLState_code SQLStateCannotConnectNow = ''57P03''"
| "SQLState_code SQLStateTooManyConnections = ''53300''"
| "SQLState_code SQLStateOutOfMemory = ''53200''"
| "SQLState_code SQLStateDiskFull = ''53100''"
| "SQLState_code SQLStateInsufficientPrivilege = ''42501''"
| "SQLState_code SQLStateReadOnlySQLTransaction = ''25006''"
| "SQLState_code SQLStateUndefinedTable = ''42P01''"

section \<open>Constraints\<close>

definition mapUniqueViolation :: "PgError \<Rightarrow> Code" where
  "mapUniqueViolation pge =
     (let name = pge_ConstraintName pge
      in if has_prefix name ''uq_attempt_success'' then CodePaymentAlreadyProcessed
         else if name = ''uq_idem_claim'' then CodeIdempotentRequestInProgress
         else if name = ''uq_refund_idem'' then CodeIdempotencyKeyReused
         else if name = ''uq_attempt_number'' then CodeInvalidStateTransition
         else if name = ''uq_attempt_gw_idem'' then CodePaymentAlreadyProcessed
         else if name = ''uq_payment_event_version'' then CodePaymentAlreadyProcessed
         else if name = ''uq_webhook_gateway_event'' then CodeWebhookReplayDetected
         else if name = ''uq_merchant_external_ref'' then CodeValidationFailed
         else if name = ''uq_merchant_tenant'' then CodeValidationFailed
         else if name \<in> {''uq_config_version'', ''uq_config_active_version''} then CodeConfigurationVersionConflict
         else if name = ''uq_gw_connection'' then CodeValidationFailed
         else if name = ''uq_case_live'' then CodeOnboardingAlreadyInProgress
         else if name = ''uq_wf_business_key'' then CodeOnboardingAlreadyInProgress
         else if name = ''uq_ledger_source'' then CodePaymentAlreadyProcessed
         else if name \<in> {''uq_audit_sequence'', ''uq_audit_digest''} then CodeInternalError
         else if name = ''uq_bank_primary'' then CodeValidationFailed
         else if name = ''uq_policy_active'' then CodeConfigurationInvalid
         else if name = ''uq_recon_exception_identity'' then CodePaymentAlreadyProcessed
         else CodePaymentAlreadyProcessed)"

definition mapCheckViolation :: "PgError \<Rightarrow> Code" where
  "mapCheckViolation pge =
     (let name = pge_ConstraintName pge
      in if name = ''payments_i1_refund_within_capture'' then CodeRefundExceedsCaptured
         else if name = ''payments_i2_capture_within_auth'' then CodeCaptureExceedsAuthorized
         else if name = ''payments_i4_immutable_fields'' then CodeInvalidStateTransition
         else if name \<in> {''payments_illegal_state_transition'', ''merchants_illegal_state_transition''}
              then CodeInvalidStateTransition
         else if name = ''payments_version_monotonic'' then CodePaymentAlreadyProcessed
         else if name \<in> {''append_only'', ''configuration_version_immutable'', ''certification_report_sealed''}
              then CodeInternalError
         else if name = ''payments_token_is_not_a_pan'' then CodeSensitiveDataInRequest
         else if name = ''payments_partition_matches_created_at'' then CodeInternalError
         else CodeValidationFailed)"

section \<open>Errors\<close>

definition mapPgError :: "PgError \<Rightarrow> Code" where
  "mapPgError pge =
     (let c = pge_Code pge
      in if c = SQLState_code SQLStateUniqueViolation then mapUniqueViolation pge
         else if c = SQLState_code SQLStateCheckViolation then mapCheckViolation pge
         else if c = SQLState_code SQLStateForeignKeyViolation then CodeValidationFailed
         else if c = SQLState_code SQLStateNotNullViolation then CodeValidationFailed
         else if c = SQLState_code SQLStateExclusionViolation \<or> c = SQLState_code SQLStateRestrictViolation then CodeValidationFailed
         else if c = SQLState_code SQLStateSerializationFailure then CodeConcurrencyLimitExceeded
         else if c = SQLState_code SQLStateDeadlockDetected then CodeConcurrencyLimitExceeded
         else if c = SQLState_code SQLStateQueryCanceled then CodeInternalError
         else if c = SQLState_code SQLStateTooManyConnections then CodeServiceUnavailable
         else if c = SQLState_code SQLStateOutOfMemory \<or> c = SQLState_code SQLStateDiskFull then CodeServiceUnavailable
         else if c = SQLState_code SQLStateAdminShutdown \<or> c = SQLState_code SQLStateCrashShutdown \<or> c = SQLState_code SQLStateCannotConnectNow
              then CodeServiceUnavailable
         else if c = SQLState_code SQLStateReadOnlySQLTransaction then CodeServiceUnavailable
         else if c = SQLState_code SQLStateInsufficientPrivilege then CodeInternalError
         else if c = SQLState_code SQLStateUndefinedTable then CodeInternalError
         else if has_prefix c ''08'' \<or> has_prefix c ''57'' then CodeServiceUnavailable
         else if has_prefix c ''40'' then CodeConcurrencyLimitExceeded
         else CodeInternalError)"

fun isConnectionError :: "db_error \<Rightarrow> bool" where
  "isConnectionError ConnectError \<longleftrightarrow> True"
| "isConnectionError NetError \<longleftrightarrow> True"
| "isConnectionError (DriverError msg) \<longleftrightarrow>
     str_contains msg ''closed pool'' \<or> str_contains msg ''conn closed'' \<or>
     str_contains msg ''unexpected EOF'' \<or> str_contains msg ''broken pipe'' \<or>
     str_contains msg ''connection reset by peer''"
| "isConnectionError _ \<longleftrightarrow> False"

fun mapError :: "db_error \<Rightarrow> Code" where
  "mapError (Classified c) = c"
| "mapError NoRows = CodeInternalError"
| "mapError ContextCanceled = CodeServiceUnavailable"
| "mapError DeadlineExceeded = CodeServiceUnavailable"
| "mapError (ServerError pge) = mapPgError pge"
| "mapError e = (if isConnectionError e then CodeServiceUnavailable else CodeInternalError)"

section \<open>What the statements meet\<close>

text \<open>
  A \<open>TIMESTAMPTZ\<close> column keeps microseconds. A row that the row-level security policy refuses and a row
  that a CHECK constraint refuses, as the server reports them.
\<close>

definition timestamptz :: "time \<Rightarrow> time" where
  "timestamptz t = t div 1000 * 1000"

definition rls_violation :: db_error where
  "rls_violation = ServerError \<lparr>pge_Code = SQLState_code SQLStateInsufficientPrivilege, pge_ConstraintName = []\<rparr>"

definition check_violation :: "string \<Rightarrow> db_error" where
  "check_violation name = ServerError \<lparr>pge_Code = SQLState_code SQLStateCheckViolation, pge_ConstraintName = name\<rparr>"

end
