(* ===== verification/Framing.thy ===== *)
theory Framing
  imports Digest
begin

text \<open>
  Length-prefixed byte strings, the way the program frames several fields into one digest: eight bytes
  of big-endian length, then the bytes. The concatenation of framed fields determines the fields,
  whatever bytes they hold, so that no boundary can be shifted; hexadecimal text determines its bytes.
\<close>

definition be64 :: "nat \<Rightarrow> byte list" where
  "be64 n = map (\<lambda>i. word_of_nat (n div 256 ^ i)) [7, 6, 5, 4, 3, 2, 1, 0]"

definition framed :: "byte list \<Rightarrow> byte list" where
  "framed b = be64 (length b) @ b"

lemma digits_determine:
  "(\<And>i. i < j \<Longrightarrow> n div 256 ^ i mod 256 = m div 256 ^ i mod (256 :: nat)) \<Longrightarrow> n mod 256 ^ j = m mod 256 ^ j"
proof (induction j)
  case 0
  then show ?case by simp
next
  case (Suc j)
  have "x mod 256 ^ Suc j = 256 ^ j * (x div 256 ^ j mod 256) + x mod 256 ^ j" for x :: nat
    using mod_mult2_eq [of x "256 ^ j" 256] by (simp only: power_Suc mult.commute)
  moreover have "n mod 256 ^ j = m mod 256 ^ j" using Suc by simp
  ultimately show ?case using Suc.prems [of j] by (simp only: lessI)
qed

lemma word_nat_byte: "(word_of_nat x :: byte) = word_of_nat y \<longleftrightarrow> x mod 256 = y mod 256"
  by (simp add: word_of_nat_eq_iff take_bit_eq_mod)

lemma be64_inject:
  assumes "be64 n = be64 m" and "n < 256 ^ 8" and "m < 256 ^ 8"
  shows "n = m"
proof -
  have d: "n div 256 ^ i mod 256 = m div 256 ^ i mod 256" if "i < 8" for i
  proof -
    have "i \<in> set [7, 6, 5, 4, 3, 2, 1, 0]" using that by simp presburger
    then have "(word_of_nat (n div 256 ^ i) :: byte) = word_of_nat (m div 256 ^ i)"
      using assms(1) unfolding be64_def map_eq_conv by blast
    then show ?thesis by (simp only: word_nat_byte)
  qed
  have "n mod 256 ^ 8 = m mod 256 ^ 8" by (rule digits_determine) (rule d)
  then show ?thesis using assms(2,3) by (simp only: mod_less)
qed

lemma of_char_byte: "(of_char c :: byte) = word_of_nat (of_char c)"
  by (simp only: of_nat_of_char)

lemma bytes_of_inject [simp]: "bytes_of s = bytes_of t \<longleftrightarrow> s = t"
proof -
  have "inj (of_char :: char \<Rightarrow> byte)"
  proof (rule injI)
    fix c d :: char
    assume "(of_char c :: byte) = of_char d"
    then have "(of_char c :: nat) mod 256 = of_char d mod 256" by (simp only: of_char_byte word_nat_byte)
    then show "c = d" by simp
  qed
  then show ?thesis unfolding bytes_of_def by (rule inj_map_eq_map)
qed

lemma length_be64 [simp]: "length (be64 n) = 8"
  by (simp add: be64_def)

lemma framed_nonempty [simp]: "framed b \<noteq> []"
  by (simp add: framed_def be64_def)

lemma framed_inject:
  "(\<forall>f \<in> set fs \<union> set gs. length f < 256 ^ 8) \<Longrightarrow>
   concat (map framed fs) = concat (map framed gs) \<Longrightarrow> fs = gs"
proof (induction fs gs rule: list_induct2')
  case (4 f fs g gs)
  have eq: "be64 (length f) @ f @ concat (map framed fs) = be64 (length g) @ g @ concat (map framed gs)"
    using 4(3) by (simp add: framed_def [of f] framed_def [of g])
  then have "be64 (length f) = be64 (length g)" and rest: "f @ concat (map framed fs) = g @ concat (map framed gs)"
    by (simp_all add: append_eq_append_conv)
  then have "length f = length g" using be64_inject 4(2) by simp
  then show ?case using rest 4 by (simp add: append_eq_append_conv)
qed simp_all

lemma hex_digit_inject: "a < 16 \<Longrightarrow> b < 16 \<Longrightarrow> hex_digit a = hex_digit b \<longleftrightarrow> a = b"
proof -
  have d: "distinct ''0123456789abcdef''" and l: "length ''0123456789abcdef'' = 16" by simp_all
  assume "a < 16" "b < 16"
  then show ?thesis unfolding hex_digit_def using nth_eq_iff_index_eq [OF d] l by simp
qed

lemma hex_of_inject [simp]: "hex_of bs = hex_of cs \<longleftrightarrow> bs = cs"
proof (induction bs cs rule: list_induct2')
  case (4 b bs c cs)
  have lt: "unat x div 16 < 16" for x :: byte using unsigned_less [of x, where 'a = nat] by simp
  have "hex_of (b # bs) = hex_of (c # cs) \<longleftrightarrow>
      unat b div 16 = unat c div 16 \<and> unat b mod 16 = unat c mod 16 \<and> hex_of bs = hex_of cs"
    by (simp add: hex_of_def hex_digit_inject lt)
  moreover have "unat b div 16 = unat c div 16 \<and> unat b mod 16 = unat c mod 16 \<longleftrightarrow> unat b = unat c"
    by (metis div_mult_mod_eq)
  ultimately show ?case using 4 by (auto simp: word_unat_eq_iff)
qed (simp_all add: hex_of_def)

text \<open>The form of a digest column, \<open>^[0-9a-f]{64}$\<close>.\<close>

definition lower_hex_64 :: "string \<Rightarrow> bool" where
  "lower_hex_64 s \<longleftrightarrow> length s = 64 \<and> list_all (\<lambda>c. c \<in> set ''0123456789abcdef'') s"

lemma hex_of_64: "lower_hex_64 (hex_of (sha256 msg))"
proof -
  define H where "H = set ''0123456789abcdef''"
  have d: "hex_digit n \<in> H" if "n < 16" for n
    unfolding H_def hex_digit_def using that by (intro nth_mem) simp
  have "unat (b :: byte) div 16 < 16 \<and> unat b mod 16 < 16" for b
  proof -
    have "unat b < 256" using unsigned_less [of b] by simp
    then show ?thesis by auto
  qed
  then have "set (hex_of bs) \<subseteq> H" for bs by (auto simp: hex_of_def intro!: d)
  moreover have "length (hex_of (sha256 msg)) = 64" by simp
  ultimately show ?thesis unfolding lower_hex_64_def list_all_iff H_def [symmetric] by blast
qed

end
