(* ===== verification/Idempotency_Store.thy ===== *)
theory Idempotency_Store
  imports Tenant_Context Postgres_Errors Framing
begin

text \<open>
  The authoritative idempotency record: the types of \<open>src/internal/application/ports/ports.go\<close>, the
  table of \<open>src/migrations/0008_idempotency.up.sql\<close> and the store of
  \<open>src/internal/infrastructure/postgres/idempotency_store.go\<close>.

  The table is a map from the claim tuple, which \<open>uq_idem_claim\<close> makes unique, to the row. Every SQL
  statement of the store is one definition on the table, with the row-level security policy and the
  CHECK constraints of the migration, and is atomic; the minted surrogate key of a row is left out.
  A statement runs on a \<open>querier\<close>: what \<open>current_setting('app.tenant_id', true)\<close> returns on its
  connection, what \<open>now()\<close> returns, and the statements the database fails without running them. A
  timestamp column keeps microseconds. \<open>time.Until\<close> reads the system clock, the argument \<open>wall\<close>.
\<close>

section \<open>Types\<close>

record IdempotencyKey =
  ik_TenantID :: ID
  ik_MerchantID :: ID
  ik_Method :: string
  ik_PathTemplate :: string
  ik_Key :: string

record IdempotencyRecord =
  ir_Key :: IdempotencyKey
  ir_Fingerprint :: string
  ir_LeaseExpiresAt :: time
  ir_ExpiresAt :: time
  ir_RequestID :: string
  ir_TraceID :: string

datatype ClaimOutcome =
    ClaimNew | ClaimReplay | ClaimInProgress | ClaimFingerprintMismatch | ClaimReclaimed
  | ClaimOther string

record ResponseSnapshot =
  rs_StatusCode :: int
  rs_Body :: "byte list"
  rs_ResourceID :: string
  rs_CompletedAt :: time

record ClaimResult =
  cr_Outcome :: ClaimOutcome
  cr_Snapshot :: "ResponseSnapshot option"
  cr_RetryAfter :: duration
  cr_OriginalReqID :: string
  cr_OriginalTrace :: string

text \<open>The zero \<open>ClaimResult\<close> with an outcome, as the composite literals build it.\<close>

definition claim_result :: "ClaimOutcome \<Rightarrow> ClaimResult" where
  "claim_result co = \<lparr>cr_Outcome = co, cr_Snapshot = None, cr_RetryAfter = 0,
     cr_OriginalReqID = [], cr_OriginalTrace = []\<rparr>"

section \<open>The table and its statements\<close>

datatype idem_state = IN_FLIGHT | COMPLETED | FAILED_TERMINAL

record idem_row =
  row_request_fingerprint :: string
  row_state :: idem_state
  row_lease_owner :: string
  row_lease_expires_at :: time
  row_response_status :: "16 word option"
  row_response_body :: "byte list"
  row_resource_id :: string
  row_request_id :: string
  row_trace_id :: string
  row_created_at :: time
  row_completed_at :: "time option"
  row_expires_at :: time

type_synonym idem_table = "IdempotencyKey \<rightharpoonup> idem_row"

datatype idem_statement = InsertClaim | ReclaimLease | ReadRecord | SettleRecord | DeleteClaim | PurgeRecords

record querier =
  q_tenant :: "string option"
  q_now :: time
  q_fault :: "idem_statement \<Rightarrow> db_error option"

text \<open>The policy \<open>tenant_isolation\<close>, as USING and as WITH CHECK.\<close>

definition tenant_isolation :: "querier \<Rightarrow> IdempotencyKey \<Rightarrow> bool" where
  "tenant_isolation q k \<longleftrightarrow> q_tenant q = Some (ik_TenantID k)"

definition visible_row :: "querier \<Rightarrow> idem_table \<Rightarrow> IdempotencyKey \<Rightarrow> idem_row option" where
  "visible_row q tab k = (if tenant_isolation q k then tab k else None)"

text \<open>The CHECK constraints of the columns an insert fills; a violation of any classifies alike.\<close>

definition insert_checks :: "IdempotencyRecord \<Rightarrow> bool" where
  "insert_checks r \<longleftrightarrow> ik_Method (ir_Key r) \<noteq> [] \<and> ik_PathTemplate (ir_Key r) \<noteq> []
     \<and> 1 \<le> length (ik_Key (ir_Key r)) \<and> length (ik_Key (ir_Key r)) \<le> 255
     \<and> lower_hex_64 (ir_Fingerprint r)"

definition claimed_row :: "IdempotencyRecord \<Rightarrow> time \<Rightarrow> time \<Rightarrow> time \<Rightarrow> idem_row" where
  "claimed_row r now lease expires =
     \<lparr>row_request_fingerprint = ir_Fingerprint r, row_state = IN_FLIGHT,
      row_lease_owner = ir_RequestID r, row_lease_expires_at = timestamptz lease,
      row_response_status = None, row_response_body = [], row_resource_id = [],
      row_request_id = ir_RequestID r, row_trace_id = ir_TraceID r,
      row_created_at = timestamptz now, row_completed_at = None, row_expires_at = timestamptz expires\<rparr>"

definition sql_insert ::
  "querier \<Rightarrow> idem_table \<Rightarrow> IdempotencyRecord \<Rightarrow> time \<Rightarrow> time \<Rightarrow> time \<Rightarrow> idem_table \<times> db_error option" where
  "sql_insert q tab r now lease expires = (case q_fault q InsertClaim of
      Some e \<Rightarrow> (tab, Some e)
    | None \<Rightarrow>
        if \<not> tenant_isolation q (ir_Key r) then (tab, Some rls_violation)
        else if \<not> insert_checks r then (tab, Some (check_violation ''idempotency_records_check''))
        else if tab (ir_Key r) \<noteq> None then (tab, Some NoRows)
        else (tab(ir_Key r \<mapsto> claimed_row r now lease expires), None))"

definition reclaimable :: "querier \<Rightarrow> IdempotencyRecord \<Rightarrow> idem_row \<Rightarrow> bool" where
  "reclaimable q r row \<longleftrightarrow> row_state row = IN_FLIGHT \<and> row_lease_expires_at row < q_now q
     \<and> row_request_fingerprint row = ir_Fingerprint r"

definition sql_reclaim ::
  "querier \<Rightarrow> idem_table \<Rightarrow> IdempotencyRecord \<Rightarrow> time \<Rightarrow> idem_table \<times> db_error option" where
  "sql_reclaim q tab r lease = (case q_fault q ReclaimLease of
      Some e \<Rightarrow> (tab, Some e)
    | None \<Rightarrow> (case visible_row q tab (ir_Key r) of
          None \<Rightarrow> (tab, Some NoRows)
        | Some row \<Rightarrow>
            if reclaimable q r row
            then (tab(ir_Key r \<mapsto> row\<lparr>row_lease_owner := ir_RequestID r,
                        row_lease_expires_at := timestamptz lease,
                        row_request_id := ir_RequestID r, row_trace_id := ir_TraceID r\<rparr>), None)
            else (tab, Some NoRows)))"

definition sql_read :: "querier \<Rightarrow> idem_table \<Rightarrow> IdempotencyKey \<Rightarrow> db_error + idem_row" where
  "sql_read q tab k = (case q_fault q ReadRecord of
      Some e \<Rightarrow> Inl e
    | None \<Rightarrow> (case visible_row q tab k of None \<Rightarrow> Inl NoRows | Some row \<Rightarrow> Inr row))"

definition status_check :: "16 word \<Rightarrow> bool" where
  "status_check s \<longleftrightarrow> 100 \<le> sint s \<and> sint s \<le> 599"

text \<open>The statement of \<open>settle\<close>: the table and the number of rows affected.\<close>

definition sql_settle ::
  "querier \<Rightarrow> idem_table \<Rightarrow> IdempotencyKey \<Rightarrow> idem_state \<Rightarrow> ResponseSnapshot \<Rightarrow> time \<Rightarrow> idem_table \<times> (db_error + nat)" where
  "sql_settle q tab k state snap completed = (case q_fault q SettleRecord of
      Some e \<Rightarrow> (tab, Inl e)
    | None \<Rightarrow> (case visible_row q tab k of
          None \<Rightarrow> (tab, Inr 0)
        | Some row \<Rightarrow>
            if row_state row \<noteq> IN_FLIGHT then (tab, Inr 0)
            else if \<not> status_check (word_of_int (rs_StatusCode snap))
            then (tab, Inl (check_violation ''idempotency_records_response_status_check''))
            else (tab(k \<mapsto> row\<lparr>row_state := state,
                       row_response_status := Some (word_of_int (rs_StatusCode snap)),
                       row_response_body := rs_Body snap, row_resource_id := rs_ResourceID snap,
                       row_completed_at := Some (timestamptz completed)\<rparr>), Inr 1)))"

definition sql_delete :: "querier \<Rightarrow> idem_table \<Rightarrow> IdempotencyKey \<Rightarrow> idem_table \<times> db_error option" where
  "sql_delete q tab k = (case q_fault q DeleteClaim of
      Some e \<Rightarrow> (tab, Some e)
    | None \<Rightarrow> (case visible_row q tab k of
          None \<Rightarrow> (tab, None)
        | Some row \<Rightarrow> if row_state row = IN_FLIGHT then (tab(k := None), None) else (tab, None)))"

section \<open>The store inside a transaction\<close>

record IdempotencyStore =
  is_q :: querier
  is_tenant :: ID

definition second :: duration where "second = 1000000000"

definition idempotencyRetention :: duration where "idempotencyRetention = 7 * 24 * 3600 * second"

definition replay_of :: "idem_row \<Rightarrow> ClaimResult" where
  "replay_of row =
     \<lparr>cr_Outcome = ClaimReplay,
      cr_Snapshot = Some
        \<lparr>rs_StatusCode = (case row_response_status row of None \<Rightarrow> 0 | Some s \<Rightarrow> sint s),
         rs_Body = row_response_body row, rs_ResourceID = row_resource_id row,
         rs_CompletedAt = (case row_completed_at row of None \<Rightarrow> zero_time | Some t \<Rightarrow> t)\<rparr>,
      cr_RetryAfter = 0,
      cr_OriginalReqID = row_request_id row, cr_OriginalTrace = row_trace_id row\<rparr>"

definition resolve_row :: "IdempotencyRecord \<Rightarrow> time \<Rightarrow> idem_row \<Rightarrow> ClaimResult" where
  "resolve_row r wall row =
     (if row_request_fingerprint row \<noteq> ir_Fingerprint r
      then (claim_result ClaimFingerprintMismatch)
             \<lparr>cr_OriginalReqID := row_request_id row, cr_OriginalTrace := row_trace_id row\<rparr>
      else case row_state row of
          COMPLETED \<Rightarrow> replay_of row
        | FAILED_TERMINAL \<Rightarrow> replay_of row
        | IN_FLIGHT \<Rightarrow>
            (let retry = time_Sub (row_lease_expires_at row) wall
             in (claim_result ClaimInProgress)
                  \<lparr>cr_RetryAfter := (if retry < second then second else retry),
                   cr_OriginalReqID := row_request_id row, cr_OriginalTrace := row_trace_id row\<rparr>))"

definition resolveExisting ::
  "IdempotencyStore \<Rightarrow> time \<Rightarrow> idem_table \<Rightarrow> IdempotencyRecord \<Rightarrow> time \<Rightarrow> idem_table \<times> ClaimResult outcome" where
  "resolveExisting st wall tab r lease = (case sql_reclaim (is_q st) tab r lease of
      (tab', None) \<Rightarrow> (tab', Inr (claim_result ClaimReclaimed))
    | (tab', Some e) \<Rightarrow>
        if e \<noteq> NoRows then (tab', Inl (mapError e))
        else case sql_read (is_q st) tab' (ir_Key r) of
            Inl NoRows \<Rightarrow> (tab', Inl CodeServiceUnavailable)
          | Inl e \<Rightarrow> (tab', Inl (mapError e))
          | Inr row \<Rightarrow> (tab', Inr (resolve_row r wall row)))"

definition claim_lease :: "time \<Rightarrow> IdempotencyRecord \<Rightarrow> time" where
  "claim_lease now r = (if ir_LeaseExpiresAt r = zero_time then now + 30 * second else ir_LeaseExpiresAt r)"

definition claim_expires :: "time \<Rightarrow> IdempotencyRecord \<Rightarrow> time" where
  "claim_expires now r = (if ir_ExpiresAt r = zero_time then now + idempotencyRetention else ir_ExpiresAt r)"

definition IdempotencyStore_Claim ::
  "ctx \<Rightarrow> IdempotencyStore \<Rightarrow> time \<Rightarrow> time \<Rightarrow> idem_table \<Rightarrow> IdempotencyRecord \<Rightarrow> idem_table \<times> ClaimResult outcome" where
  "IdempotencyStore_Claim ctx st now wall tab r =
     (case requireOwner ctx (is_tenant st) (ik_TenantID (ir_Key r)) of
        Some c \<Rightarrow> (tab, Inl c)
      | None \<Rightarrow> (case sql_insert (is_q st) tab r now (claim_lease now r) (claim_expires now r) of
            (tab', None) \<Rightarrow> (tab', Inr (claim_result ClaimNew))
          | (tab', Some e) \<Rightarrow>
              if e \<noteq> NoRows then (tab', Inl (mapError e))
              else resolveExisting st wall tab' r (claim_lease now r)))"

definition IdempotencyStore_settle ::
  "ctx \<Rightarrow> IdempotencyStore \<Rightarrow> time \<Rightarrow> idem_table \<Rightarrow> IdempotencyKey \<Rightarrow> ResponseSnapshot \<Rightarrow> idem_state \<Rightarrow>
   idem_table \<times> Code option" where
  "IdempotencyStore_settle ctx st now tab k snap state =
     (case requireOwner ctx (is_tenant st) (ik_TenantID k) of
        Some c \<Rightarrow> (tab, Some c)
      | None \<Rightarrow>
          (let completed = (if rs_CompletedAt snap = zero_time then now else rs_CompletedAt snap)
           in case sql_settle (is_q st) tab k state snap completed of
                (tab', Inl e) \<Rightarrow> (tab', Some (mapError e))
              | (tab', Inr n) \<Rightarrow> (tab', if n = 0 then Some CodeIdempotentRequestInProgress else None)))"

definition IdempotencyStore_Complete ::
  "ctx \<Rightarrow> IdempotencyStore \<Rightarrow> time \<Rightarrow> idem_table \<Rightarrow> IdempotencyKey \<Rightarrow> ResponseSnapshot \<Rightarrow> idem_table \<times> Code option" where
  "IdempotencyStore_Complete ctx st now tab k snap = IdempotencyStore_settle ctx st now tab k snap COMPLETED"

definition IdempotencyStore_FailTerminal ::
  "ctx \<Rightarrow> IdempotencyStore \<Rightarrow> time \<Rightarrow> idem_table \<Rightarrow> IdempotencyKey \<Rightarrow> ResponseSnapshot \<Rightarrow> idem_table \<times> Code option" where
  "IdempotencyStore_FailTerminal ctx st now tab k snap = IdempotencyStore_settle ctx st now tab k snap FAILED_TERMINAL"

definition IdempotencyStore_Release ::
  "ctx \<Rightarrow> IdempotencyStore \<Rightarrow> idem_table \<Rightarrow> IdempotencyKey \<Rightarrow> idem_table \<times> Code option" where
  "IdempotencyStore_Release ctx st tab k = (case requireOwner ctx (is_tenant st) (ik_TenantID k) of
      Some c \<Rightarrow> (tab, Some c)
    | None \<Rightarrow> (case sql_delete (is_q st) tab k of (tab', e) \<Rightarrow> (tab', map_option mapError e)))"

text \<open>
  The retention sweep. The order in which the subquery visits rows is the database's: the argument
  \<open>scan\<close>, a list of the keys it visits.
\<close>

definition pageLimit :: "int \<Rightarrow> nat" where
  "pageLimit requested = (if requested \<le> 0 then 50 else if requested > 1000 then 1000 else nat requested)"

definition purgeable :: "querier \<Rightarrow> ID \<Rightarrow> time \<Rightarrow> idem_table \<Rightarrow> IdempotencyKey \<Rightarrow> bool" where
  "purgeable q tenant before tab k \<longleftrightarrow> ik_TenantID k = tenant \<and>
     (case visible_row q tab k of None \<Rightarrow> False | Some row \<Rightarrow> row_expires_at row < before)"

definition purge_victims ::
  "querier \<Rightarrow> ID \<Rightarrow> time \<Rightarrow> int \<Rightarrow> IdempotencyKey list \<Rightarrow> idem_table \<Rightarrow> IdempotencyKey list" where
  "purge_victims q tenant before limit scan tab =
     take (pageLimit limit) (filter (purgeable q tenant (timestamptz before) tab) (remdups scan))"

definition IdempotencyStore_PurgeExpired ::
  "ctx \<Rightarrow> IdempotencyStore \<Rightarrow> IdempotencyKey list \<Rightarrow> idem_table \<Rightarrow> time \<Rightarrow> int \<Rightarrow> idem_table \<times> nat outcome" where
  "IdempotencyStore_PurgeExpired ctx st scan tab before limit =
     (case requireTenantCtx ctx (is_tenant st) of
        Some c \<Rightarrow> (tab, Inl c)
      | None \<Rightarrow> (case q_fault (is_q st) PurgeRecords of
            Some e \<Rightarrow> (tab, Inl (mapError e))
          | None \<Rightarrow>
              (let victims = purge_victims (is_q st) (is_tenant st) before limit scan tab
               in (\<lambda>k. if k \<in> set victims then None else tab k, Inr (length victims)))))"

section \<open>The store on the bare pool\<close>

text \<open>
  A unit of work sets \<open>app.tenant_id\<close> with \<open>set_config(..., true)\<close> for its own transaction only
  (\<open>src/internal/infrastructure/postgres/uow.go\<close>). A statement on the pool runs outside every such
  transaction, so there the setting is unset.
\<close>

definition tx_querier :: "ID \<Rightarrow> time \<Rightarrow> (idem_statement \<Rightarrow> db_error option) \<Rightarrow> querier" where
  "tx_querier tenant now fault = \<lparr>q_tenant = Some tenant, q_now = now, q_fault = fault\<rparr>"

definition pool_querier :: "time \<Rightarrow> (idem_statement \<Rightarrow> db_error option) \<Rightarrow> querier" where
  "pool_querier now fault = \<lparr>q_tenant = None, q_now = now, q_fault = fault\<rparr>"

definition forTenant :: "ctx \<Rightarrow> querier \<Rightarrow> IdempotencyStore outcome" where
  "forTenant ctx pool = (case tenantOf ctx of
      Inl c \<Rightarrow> Inl c
    | Inr t \<Rightarrow> Inr \<lparr>is_q = pool, is_tenant = t\<rparr>)"

definition PoolIdempotencyStore_Claim ::
  "ctx \<Rightarrow> querier \<Rightarrow> time \<Rightarrow> time \<Rightarrow> idem_table \<Rightarrow> IdempotencyRecord \<Rightarrow> idem_table \<times> ClaimResult outcome" where
  "PoolIdempotencyStore_Claim ctx pool now wall tab r = (case forTenant ctx pool of
      Inl c \<Rightarrow> (tab, Inl c)
    | Inr inner \<Rightarrow> IdempotencyStore_Claim ctx inner now wall tab r)"

definition PoolIdempotencyStore_Complete ::
  "ctx \<Rightarrow> querier \<Rightarrow> time \<Rightarrow> idem_table \<Rightarrow> IdempotencyKey \<Rightarrow> ResponseSnapshot \<Rightarrow> idem_table \<times> Code option" where
  "PoolIdempotencyStore_Complete ctx pool now tab k snap = (case forTenant ctx pool of
      Inl c \<Rightarrow> (tab, Some c)
    | Inr inner \<Rightarrow> IdempotencyStore_Complete ctx inner now tab k snap)"

definition PoolIdempotencyStore_FailTerminal ::
  "ctx \<Rightarrow> querier \<Rightarrow> time \<Rightarrow> idem_table \<Rightarrow> IdempotencyKey \<Rightarrow> ResponseSnapshot \<Rightarrow> idem_table \<times> Code option" where
  "PoolIdempotencyStore_FailTerminal ctx pool now tab k snap = (case forTenant ctx pool of
      Inl c \<Rightarrow> (tab, Some c)
    | Inr inner \<Rightarrow> IdempotencyStore_FailTerminal ctx inner now tab k snap)"

definition PoolIdempotencyStore_Release ::
  "ctx \<Rightarrow> querier \<Rightarrow> idem_table \<Rightarrow> IdempotencyKey \<Rightarrow> idem_table \<times> Code option" where
  "PoolIdempotencyStore_Release ctx pool tab k = (case forTenant ctx pool of
      Inl c \<Rightarrow> (tab, Some c)
    | Inr inner \<Rightarrow> IdempotencyStore_Release ctx inner tab k)"

definition PoolIdempotencyStore_PurgeExpired ::
  "ctx \<Rightarrow> querier \<Rightarrow> IdempotencyKey list \<Rightarrow> idem_table \<Rightarrow> time \<Rightarrow> int \<Rightarrow> idem_table \<times> nat outcome" where
  "PoolIdempotencyStore_PurgeExpired ctx pool scan tab before limit = (case forTenant ctx pool of
      Inl c \<Rightarrow> (tab, Inl c)
    | Inr inner \<Rightarrow> IdempotencyStore_PurgeExpired ctx inner scan tab before limit)"

end
