(* ===== verification/Idempotency.thy ===== *)
theory Idempotency
  imports Idempotency_Store
begin

text \<open>
  Request idempotency above the store: the fingerprint and the manager of
  \<open>src/internal/platform/idempotency/fingerprint.go\<close> and \<open>manager.go\<close>, and the HTTP middleware that
  runs a handler at most once per key, \<open>src/internal/transport/httpapi/middleware/idempotency.go\<close> with
  the response recorder of \<open>capture.go\<close>.

  The store and the cache are interfaces in the code and records of functions here. The canonical form
  of a JSON body is an argument \<open>canonicalize\<close>, which returns no bytes where the code's returns an
  error. A cache entry is the value its JSON encodes, or corrupt. The world a request runs in is the
  store's, the cache's and the metric labels recorded; the clock is read from the store's world, so
  that time passes while a handler runs.
\<close>

section \<open>Fingerprints\<close>

definition fingerprintVersion :: string where
  "fingerprintVersion = ''pp.idem.fingerprint.v1''"

definition writeField :: "byte list \<Rightarrow> byte list" where
  "writeField b = be64 (length b) @ b"

definition fingerprint_fields ::
  "(byte list \<Rightarrow> byte list option) \<Rightarrow> byte list \<Rightarrow> IdempotencyKey \<Rightarrow> byte list list" where
  "fingerprint_fields canonicalize body key =
     [bytes_of fingerprintVersion, bytes_of (ik_TenantID key), bytes_of (ik_MerchantID key),
      bytes_of (ik_Method key), bytes_of (ik_PathTemplate key), bytes_of (ik_Key key)]
     @ (case canonicalize body of
          Some canonical \<Rightarrow> [bytes_of ''jcs'', canonical]
        | None \<Rightarrow> [bytes_of ''raw'', body])"

definition Fingerprint :: "(byte list \<Rightarrow> byte list option) \<Rightarrow> byte list \<Rightarrow> IdempotencyKey \<Rightarrow> string" where
  "Fingerprint canonicalize body key =
     hex_of (sha256 (concat (map writeField (fingerprint_fields canonicalize body key))))"

section \<open>The manager\<close>

datatype Outcome = OutcomeNew | OutcomeReclaimed | OutcomeReplay | OutcomeInProgress | OutcomeMismatch

definition Outcome_Owns :: "Outcome \<Rightarrow> bool" where
  "Outcome_Owns co \<longleftrightarrow> co = OutcomeNew \<or> co = OutcomeReclaimed"

fun Outcome_MetricLabel :: "Outcome \<Rightarrow> string" where
  "Outcome_MetricLabel OutcomeNew = ''new''"
| "Outcome_MetricLabel OutcomeReclaimed = ''new''"
| "Outcome_MetricLabel OutcomeReplay = ''replay''"
| "Outcome_MetricLabel OutcomeInProgress = ''in_progress''"
| "Outcome_MetricLabel OutcomeMismatch = ''conflict''"

record cachedSnapshot =
  cs_Fingerprint :: string
  cs_StatusCode :: int
  cs_Body :: "byte list"
  cs_ResourceID :: string
  cs_CompletedAt :: int

datatype cache_reply = CacheError | CacheMiss | CacheCorrupt | CacheHit cachedSnapshot

record 'c Cache =
  ca_Get :: "'c \<Rightarrow> string \<Rightarrow> cache_reply"
  ca_Set :: "'c \<Rightarrow> string \<Rightarrow> cachedSnapshot \<Rightarrow> duration \<Rightarrow> 'c"

record 'w Store =
  st_Claim :: "'w \<Rightarrow> IdempotencyRecord \<Rightarrow> 'w \<times> ClaimResult outcome"
  st_Complete :: "'w \<Rightarrow> IdempotencyKey \<Rightarrow> ResponseSnapshot \<Rightarrow> 'w \<times> Code option"
  st_FailTerminal :: "'w \<Rightarrow> IdempotencyKey \<Rightarrow> ResponseSnapshot \<Rightarrow> 'w \<times> Code option"
  st_Release :: "'w \<Rightarrow> IdempotencyKey \<Rightarrow> 'w \<times> Code option"

record ('w, 'c) Config =
  cfg_Lease :: duration
  cfg_Retention :: duration
  cfg_RetryAfter :: duration
  cfg_Clock :: "'w \<Rightarrow> time"
  cfg_Cache :: "'c Cache option"
  cfg_Metrics :: bool

record ('w, 'c) Manager =
  m_store :: "ctx \<Rightarrow> 'w Store"
  m_cfg :: "('w, 'c) Config"

record ('w, 'c) world =
  w_store :: 'w
  w_cache :: 'c
  w_metrics :: "string list"

definition DefaultLease :: duration where "DefaultLease = 60 * second"
definition DefaultRetention :: duration where "DefaultRetention = 7 * 24 * 3600 * second"
definition DefaultRetryAfter :: duration where "DefaultRetryAfter = 1 * second"
definition MaxKeyLength :: nat where "MaxKeyLength = 255"

definition NewManager ::
  "(ctx \<Rightarrow> 'w Store) option \<Rightarrow> ('w, 'c) Config \<Rightarrow> ('w, 'c) Manager outcome" where
  "NewManager store cfg = (case store of
      None \<Rightarrow> Inl CodeInternalError
    | Some s \<Rightarrow> Inr \<lparr>m_store = s,
        m_cfg = cfg\<lparr>cfg_Lease := (if cfg_Lease cfg \<le> 0 then DefaultLease else cfg_Lease cfg),
                    cfg_Retention := (if cfg_Retention cfg \<le> 0 then DefaultRetention else cfg_Retention cfg),
                    cfg_RetryAfter := (if cfg_RetryAfter cfg \<le> 0 then DefaultRetryAfter else cfg_RetryAfter cfg)\<rparr>\<rparr>)"

record Handle =
  h_key :: IdempotencyKey
  h_fingerprint :: string
  h_outcome :: Outcome
  h_snapshot :: "ResponseSnapshot option"
  h_retryAfter :: duration
  h_originalRequestID :: string
  h_originalTraceID :: string
  h_settled :: bool

text \<open>An error as \<open>Begin\<close> returns it: the code, and the seconds of \<open>WithRetryAfter\<close> or 0.\<close>

type_synonym problem = "Code \<times> int"

definition Handle_IsReplay :: "Handle \<Rightarrow> bool" where
  "Handle_IsReplay h \<longleftrightarrow> h_outcome h = OutcomeReplay"

definition validateKey :: "ctx \<Rightarrow> IdempotencyKey \<Rightarrow> Code option" where
  "validateKey ctx key =
     (if ik_Key key = [] then Some CodeIdempotencyKeyRequired
      else if length (ik_Key key) > MaxKeyLength then Some CodeValidationFailed
      else if ik_TenantID key = [] then Some CodeMissingTenantContext
      else if ik_Method key = [] \<or> ik_PathTemplate key = [] then Some CodeInternalError
      else case FromContext ctx of
          Inl _ \<Rightarrow> None
        | Inr _ \<Rightarrow> AssertTenant ctx (ik_TenantID key))"

definition requestIDFrom :: "ctx \<Rightarrow> string" where
  "requestIDFrom ctx = (case FromContext ctx of Inl _ \<Rightarrow> [] | Inr tc \<Rightarrow> tc_RequestID tc)"

definition correlationIDFrom :: "ctx \<Rightarrow> string" where
  "correlationIDFrom ctx = (case FromContext ctx of Inl _ \<Rightarrow> [] | Inr tc \<Rightarrow> tc_CorrelationID tc)"

definition cacheKey :: "IdempotencyKey \<Rightarrow> string" where
  "cacheKey k = ''pp:'' @ ik_TenantID k @ '':idem:'' @ ik_MerchantID k @ '':'' @ ik_Method k @ '':''
     @ ik_PathTemplate k @ '':'' @ ik_Key k"

definition roundUpSeconds :: "duration \<Rightarrow> int" where
  "roundUpSeconds d =
     (let s0 = d sdiv second;
          s = (if d smod second \<noteq> 0 then s0 + 1 else s0)
      in if s < 1 then 1 else s)"

definition record_metric :: "('w, 'c) Config \<Rightarrow> Outcome \<Rightarrow> ('w, 'c) world \<Rightarrow> ('w, 'c) world" where
  "record_metric cfg co w =
     (if cfg_Metrics cfg then w\<lparr>w_metrics := w_metrics w @ [Outcome_MetricLabel co]\<rparr> else w)"

definition mirrorToCache ::
  "('w, 'c) Config \<Rightarrow> IdempotencyKey \<Rightarrow> string \<Rightarrow> ResponseSnapshot \<Rightarrow> ('w, 'c) world \<Rightarrow> ('w, 'c) world" where
  "mirrorToCache cfg key fp snap w = (case cfg_Cache cfg of
      None \<Rightarrow> w
    | Some cache \<Rightarrow> w\<lparr>w_cache := ca_Set cache (w_cache w) (cacheKey key)
         \<lparr>cs_Fingerprint = fp, cs_StatusCode = rs_StatusCode snap, cs_Body = rs_Body snap,
          cs_ResourceID = rs_ResourceID snap, cs_CompletedAt = wrap64 (rs_CompletedAt snap)\<rparr>
         (cfg_Retention cfg)\<rparr>)"

definition resolveSnapshot ::
  "('w, 'c) Config \<Rightarrow> IdempotencyKey \<Rightarrow> string \<Rightarrow> ResponseSnapshot option \<Rightarrow> ('w, 'c) world \<Rightarrow>
   ('w, 'c) world \<times> ResponseSnapshot option" where
  "resolveSnapshot cfg key fp fromStore w = (case fromStore of
      Some snap \<Rightarrow> (mirrorToCache cfg key fp snap w, Some snap)
    | None \<Rightarrow> (case cfg_Cache cfg of
          None \<Rightarrow> (w, None)
        | Some cache \<Rightarrow> (w, case ca_Get cache (w_cache w) (cacheKey key) of
              CacheError \<Rightarrow> None
            | CacheMiss \<Rightarrow> None
            | CacheCorrupt \<Rightarrow> None
            | CacheHit cs \<Rightarrow>
                if cs_Fingerprint cs \<noteq> fp then None
                else Some \<lparr>rs_StatusCode = cs_StatusCode cs, rs_Body = cs_Body cs,
                           rs_ResourceID = cs_ResourceID cs, rs_CompletedAt = cs_CompletedAt cs\<rparr>)))"

definition claim_request ::
  "(byte list \<Rightarrow> byte list option) \<Rightarrow> ('w, 'c) Config \<Rightarrow> ctx \<Rightarrow> time \<Rightarrow> IdempotencyKey \<Rightarrow> byte list \<Rightarrow> IdempotencyRecord" where
  "claim_request canonicalize cfg ctx now key body =
     \<lparr>ir_Key = key, ir_Fingerprint = Fingerprint canonicalize body key,
      ir_LeaseExpiresAt = now + cfg_Lease cfg, ir_ExpiresAt = now + cfg_Retention cfg,
      ir_RequestID = requestIDFrom ctx, ir_TraceID = correlationIDFrom ctx\<rparr>"

definition new_handle :: "IdempotencyKey \<Rightarrow> string \<Rightarrow> ClaimResult \<Rightarrow> Outcome \<Rightarrow> Handle" where
  "new_handle key fp res co =
     \<lparr>h_key = key, h_fingerprint = fp, h_outcome = co, h_snapshot = None, h_retryAfter = 0,
      h_originalRequestID = cr_OriginalReqID res, h_originalTraceID = cr_OriginalTrace res, h_settled = False\<rparr>"

text \<open>The part of \<open>Begin\<close> after the store has answered.\<close>

definition decide ::
  "('w, 'c) Config \<Rightarrow> IdempotencyKey \<Rightarrow> string \<Rightarrow> ClaimResult \<Rightarrow> ('w, 'c) world \<Rightarrow>
   ('w, 'c) world \<times> Handle option \<times> problem option" where
  "decide cfg key fp res w = (case cr_Outcome res of
      ClaimNew \<Rightarrow> (record_metric cfg OutcomeNew w, Some (new_handle key fp res OutcomeNew), None)
    | ClaimReclaimed \<Rightarrow>
        (record_metric cfg OutcomeReclaimed w, Some (new_handle key fp res OutcomeReclaimed), None)
    | ClaimReplay \<Rightarrow>
        (case resolveSnapshot cfg key fp (cr_Snapshot res) w of
          (w', snap) \<Rightarrow>
            (record_metric cfg OutcomeReplay w',
             Some ((new_handle key fp res OutcomeReplay)\<lparr>h_snapshot := snap\<rparr>),
             if snap = None then Some (CodeDependencyFailure, 0) else None))
    | ClaimInProgress \<Rightarrow>
        (let retry = (if cr_RetryAfter res \<le> 0 then cfg_RetryAfter cfg else cr_RetryAfter res)
         in (record_metric cfg OutcomeInProgress w,
             Some ((new_handle key fp res OutcomeInProgress)\<lparr>h_retryAfter := retry\<rparr>),
             Some (CodeIdempotentRequestInProgress, roundUpSeconds retry)))
    | ClaimFingerprintMismatch \<Rightarrow>
        (record_metric cfg OutcomeMismatch w, Some (new_handle key fp res OutcomeMismatch),
         Some (CodeIdempotencyKeyReused, 0))
    | ClaimOther _ \<Rightarrow> (w, None, Some (CodeInternalError, 0)))"

definition Begin ::
  "(byte list \<Rightarrow> byte list option) \<Rightarrow> ('w, 'c) Manager \<Rightarrow> ctx \<Rightarrow> IdempotencyKey \<Rightarrow> byte list \<Rightarrow> ('w, 'c) world \<Rightarrow>
   ('w, 'c) world \<times> Handle option \<times> problem option" where
  "Begin canonicalize m ctx key body w = (case validateKey ctx key of
      Some c \<Rightarrow> (w, None, Some (c, 0))
    | None \<Rightarrow>
        (let now = cfg_Clock (m_cfg m) (w_store w);
             r = claim_request canonicalize (m_cfg m) ctx now key body
         in case st_Claim (m_store m ctx) (w_store w) r of
              (s', Inl _) \<Rightarrow> (w\<lparr>w_store := s'\<rparr>, None, Some (CodeDependencyFailure, 0))
            | (s', Inr res) \<Rightarrow> decide (m_cfg m) key (ir_Fingerprint r) res (w\<lparr>w_store := s'\<rparr>)))"

section \<open>Settling a handle\<close>

definition Handle_settle :: "Handle \<Rightarrow> Handle \<times> Code option" where
  "Handle_settle h =
     (if \<not> Outcome_Owns (h_outcome h) then (h, Some CodeInternalError)
      else if h_settled h then (h, Some CodeInternalError)
      else (h\<lparr>h_settled := True\<rparr>, None))"

definition handle_snapshot :: "time \<Rightarrow> int \<Rightarrow> byte list \<Rightarrow> string \<Rightarrow> ResponseSnapshot" where
  "handle_snapshot now status body resourceID =
     \<lparr>rs_StatusCode = status, rs_Body = body, rs_ResourceID = resourceID, rs_CompletedAt = now\<rparr>"

definition Handle_Complete ::
  "('w, 'c) Manager \<Rightarrow> ctx \<Rightarrow> Handle \<Rightarrow> int \<Rightarrow> byte list \<Rightarrow> string \<Rightarrow> ('w, 'c) world \<Rightarrow>
   ('w, 'c) world \<times> Handle \<times> Code option" where
  "Handle_Complete m ctx h status body resourceID w = (case Handle_settle h of
      (h', Some c) \<Rightarrow> (w, h', Some c)
    | (h', None) \<Rightarrow>
        (let snap = handle_snapshot (cfg_Clock (m_cfg m) (w_store w)) status body resourceID
         in case st_Complete (m_store m ctx) (w_store w) (h_key h) snap of
              (s', Some _) \<Rightarrow> (w\<lparr>w_store := s'\<rparr>, h', Some CodeDependencyFailure)
            | (s', None) \<Rightarrow>
                (mirrorToCache (m_cfg m) (h_key h) (h_fingerprint h) snap (w\<lparr>w_store := s'\<rparr>), h', None)))"

definition Handle_FailTerminal ::
  "('w, 'c) Manager \<Rightarrow> ctx \<Rightarrow> Handle \<Rightarrow> int \<Rightarrow> byte list \<Rightarrow> string \<Rightarrow> ('w, 'c) world \<Rightarrow>
   ('w, 'c) world \<times> Handle \<times> Code option" where
  "Handle_FailTerminal m ctx h status body resourceID w = (case Handle_settle h of
      (h', Some c) \<Rightarrow> (w, h', Some c)
    | (h', None) \<Rightarrow>
        (let snap = handle_snapshot (cfg_Clock (m_cfg m) (w_store w)) status body resourceID
         in case st_FailTerminal (m_store m ctx) (w_store w) (h_key h) snap of
              (s', Some _) \<Rightarrow> (w\<lparr>w_store := s'\<rparr>, h', Some CodeDependencyFailure)
            | (s', None) \<Rightarrow>
                (mirrorToCache (m_cfg m) (h_key h) (h_fingerprint h) snap (w\<lparr>w_store := s'\<rparr>), h', None)))"

definition Handle_Release ::
  "('w, 'c) Manager \<Rightarrow> ctx \<Rightarrow> Handle \<Rightarrow> ('w, 'c) world \<Rightarrow> ('w, 'c) world \<times> Handle \<times> Code option" where
  "Handle_Release m ctx h w =
     (if \<not> Outcome_Owns (h_outcome h) then (w, h, None)
      else if h_settled h then (w, h, None)
      else case st_Release (m_store m ctx) (w_store w) (h_key h) of
          (s', Some _) \<Rightarrow> (w\<lparr>w_store := s'\<rparr>, h\<lparr>h_settled := True\<rparr>, Some CodeDependencyFailure)
        | (s', None) \<Rightarrow> (w\<lparr>w_store := s'\<rparr>, h\<lparr>h_settled := True\<rparr>, None))"

end
