(* ===== verification/Idempotency_Middleware.thy ===== *)
theory Idempotency_Middleware
  imports Idempotency
begin

text \<open>
  The HTTP side of idempotency: which routes demand a key (\<open>policy.go\<close>), the scope of a request
  (\<open>merchantFromPath\<close> of \<open>security.go\<close>), the response recorder (\<open>capture.go\<close>) and the middleware
  itself (\<open>idempotency.go\<close>), all under \<open>src/internal/transport/httpapi/middleware/\<close>.

  A handler is a function on the world, so that it may change the application's state and let other
  requests run meanwhile; what it answers is the list of writes on the response writer, each with the
  number of bytes the writer under the recorder accepted, the \<open>Location\<close> header and whether it panicked.
\<close>

section \<open>Routes\<close>

datatype route =
    RouteCreateMerchant | RouteUpdateMerchant | RouteStartOnboarding | RouteOnboardingSignal
  | RoutePutConfiguration | RouteRollbackConfig | RouteRotateCredentials | RouteCreatePayment
  | RouteCapturePayment | RouteRefundPayment | RouteVoidPayment

fun route_template :: "route \<Rightarrow> string" where
  "route_template RouteCreateMerchant = ''/v1/merchants''"
| "route_template RouteUpdateMerchant = ''/v1/merchants/{merchantId}''"
| "route_template RouteStartOnboarding = ''/v1/merchants/{merchantId}/onboarding''"
| "route_template RouteOnboardingSignal = ''/v1/merchants/{merchantId}/onboarding/signals/{signal}''"
| "route_template RoutePutConfiguration = ''/v1/merchants/{merchantId}/configuration''"
| "route_template RouteRollbackConfig = ''/v1/merchants/{merchantId}/configuration/rollback''"
| "route_template RouteRotateCredentials = ''/v1/gateways/{gatewayId}/credentials:rotate''"
| "route_template RouteCreatePayment = ''/v1/payments''"
| "route_template RouteCapturePayment = ''/v1/payments/{paymentId}/capture''"
| "route_template RouteRefundPayment = ''/v1/payments/{paymentId}/refund''"
| "route_template RouteVoidPayment = ''/v1/payments/{paymentId}/void''"

definition idempotentRoutes :: "(string \<times> route) list" where
  "idempotentRoutes =
     [(''POST'', RouteCreateMerchant), (''PATCH'', RouteUpdateMerchant),
      (''POST'', RouteStartOnboarding), (''POST'', RouteOnboardingSignal),
      (''PUT'', RoutePutConfiguration), (''POST'', RouteRollbackConfig),
      (''POST'', RouteRotateCredentials), (''POST'', RouteCreatePayment),
      (''POST'', RouteCapturePayment), (''POST'', RouteRefundPayment), (''POST'', RouteVoidPayment)]"

definition RequiresIdempotencyKey :: "string \<Rightarrow> string \<Rightarrow> bool" where
  "RequiresIdempotencyKey httpMethod template \<longleftrightarrow> (httpMethod, template) \<in> set (map (map_prod id route_template) idempotentRoutes)"

fun segment_of :: "string list \<Rightarrow> string list \<Rightarrow> string" where
  "segment_of (t # ts) (p # ps) = (if t = ''{merchantId}'' then p else segment_of ts ps)"
| "segment_of _ _ = []"

definition merchantFromPath :: "string \<Rightarrow> string \<Rightarrow> string" where
  "merchantFromPath template path =
     (if \<not> str_contains template ''{merchantId}'' then []
      else let tp = str_split (CHR ''/'') (trim_char (CHR ''/'') template);
               pp = str_split (CHR ''/'') (trim_char (CHR ''/'') path)
           in if length tp \<noteq> length pp then [] else segment_of tp pp)"

section \<open>The response recorder\<close>

record capBuffer =
  cb_buf :: "byte list"
  cb_max :: nat
  cb_overflowed :: bool

definition capBuffer_Write :: "byte list \<Rightarrow> capBuffer \<Rightarrow> capBuffer" where
  "capBuffer_Write p b =
     (if cb_overflowed b then b
      else if length (cb_buf b) + length p > cb_max b then b\<lparr>cb_overflowed := True, cb_buf := []\<rparr>
      else b\<lparr>cb_buf := cb_buf b @ p\<rparr>)"

text \<open>\<open>rr_sent\<close> is what the writer under the recorder accepted.\<close>

record ResponseRecorder =
  rr_status :: int
  rr_bytes :: nat
  rr_wroteHeader :: bool
  rr_body :: "capBuffer option"
  rr_sent :: "byte list"

definition NewRecorder :: ResponseRecorder where
  "NewRecorder = \<lparr>rr_status = 200, rr_bytes = 0, rr_wroteHeader = False, rr_body = None, rr_sent = []\<rparr>"

definition ResponseRecorder_Buffer :: "nat \<Rightarrow> ResponseRecorder \<Rightarrow> ResponseRecorder" where
  "ResponseRecorder_Buffer maxBytes r =
     r\<lparr>rr_body := Some \<lparr>cb_buf = [], cb_max = maxBytes, cb_overflowed = False\<rparr>\<rparr>"

definition ResponseRecorder_WriteHeader :: "int \<Rightarrow> ResponseRecorder \<Rightarrow> ResponseRecorder" where
  "ResponseRecorder_WriteHeader code r =
     (if rr_wroteHeader r then r else r\<lparr>rr_wroteHeader := True, rr_status := code\<rparr>)"

definition ResponseRecorder_Write :: "byte list \<Rightarrow> nat \<Rightarrow> ResponseRecorder \<Rightarrow> ResponseRecorder" where
  "ResponseRecorder_Write p n r0 =
     (let r = (if rr_wroteHeader r0 then r0 else ResponseRecorder_WriteHeader 200 r0)
      in r\<lparr>rr_sent := rr_sent r @ take n p, rr_bytes := rr_bytes r + n,
           rr_body := map_option (capBuffer_Write (take n p)) (rr_body r)\<rparr>)"

definition ResponseRecorder_Body :: "ResponseRecorder \<Rightarrow> byte list \<times> bool" where
  "ResponseRecorder_Body r = (case rr_body r of
      None \<Rightarrow> ([], False)
    | Some b \<Rightarrow> (cb_buf b, \<not> cb_overflowed b))"

datatype response_write = WriteHeader int | Write "byte list" nat

fun recorder_step :: "response_write \<Rightarrow> ResponseRecorder \<Rightarrow> ResponseRecorder" where
  "recorder_step (WriteHeader code) r = ResponseRecorder_WriteHeader code r"
| "recorder_step (Write p n) r = ResponseRecorder_Write p n r"

section \<open>The middleware\<close>

definition DefaultMaxSnapshotBytes :: int where "DefaultMaxSnapshotBytes = 128 * 1024"

record request =
  rq_Method :: string
  rq_Template :: string
  rq_Path :: string
  rq_Key :: string
  rq_Body :: "byte list"

record answer =
  an_writes :: "response_write list"
  an_Location :: string
  an_panicked :: bool

datatype reply =
    Problem Code int
  | Replayed int "byte list"
  | Served ResponseRecorder
  | Panicked

definition resourceIDOf :: "string \<Rightarrow> string" where
  "resourceIDOf loc =
     (if CHR ''/'' \<in> set loc then rev (takeWhile (\<lambda>c. c \<noteq> CHR ''/'') (rev loc)) else loc)"

definition isRetryableStatus :: "int \<Rightarrow> bool" where
  "isRetryableStatus status \<longleftrightarrow> status = 502 \<or> status = 503 \<or> status = 504"

definition replay :: "ResponseSnapshot option \<Rightarrow> reply" where
  "replay snap = (case snap of
      None \<Rightarrow> Problem CodeDependencyFailure 0
    | Some s \<Rightarrow> Replayed (rs_StatusCode s) (rs_Body s))"

definition request_scope :: "TenantContext \<Rightarrow> request \<Rightarrow> IdempotencyKey" where
  "request_scope tc rq =
     \<lparr>ik_TenantID = tc_TenantID tc, ik_MerchantID = merchantFromPath (rq_Template rq) (rq_Path rq),
      ik_Method = rq_Method rq, ik_PathTemplate = rq_Template rq, ik_Key = rq_Key rq\<rparr>"

text \<open>The end of the middleware: what the recorded response makes of the claim.\<close>

definition settle_response ::
  "('w, 'c) Manager \<Rightarrow> ctx \<Rightarrow> Handle \<Rightarrow> ResponseRecorder \<Rightarrow> string \<Rightarrow> ('w, 'c) world \<Rightarrow> ('w, 'c) world" where
  "settle_response m ctx h r loc w =
     (let (body, complete) = ResponseRecorder_Body r; status = rr_status r
      in if 200 \<le> status \<and> status < 300
         then (if \<not> complete then fst (Handle_Release m ctx h w)
               else fst (Handle_Complete m ctx h status body (resourceIDOf loc) w))
         else if isRetryableStatus status then fst (Handle_Release m ctx h w)
         else if \<not> complete then fst (Handle_Release m ctx h w)
         else fst (Handle_FailTerminal m ctx h status body (resourceIDOf loc) w))"

definition snapshot_cap :: "int \<Rightarrow> nat" where
  "snapshot_cap maxSnapshotBytes =
     nat (if maxSnapshotBytes \<le> 0 then DefaultMaxSnapshotBytes else maxSnapshotBytes)"

definition Idempotency ::
  "(byte list \<Rightarrow> byte list option) \<Rightarrow> ('w, 'c) Manager option \<Rightarrow> int \<Rightarrow> ctx \<Rightarrow> request \<Rightarrow>
   (('w, 'c) world \<Rightarrow> ('w, 'c) world \<times> answer) \<Rightarrow> ('w, 'c) world \<Rightarrow> ('w, 'c) world \<times> reply" where
  "Idempotency canonicalize mgr maxSnapshotBytes ctx rq handler w =
     (if \<not> RequiresIdempotencyKey (rq_Method rq) (rq_Template rq)
      then (case handler w of (w', a) \<Rightarrow>
              (w', if an_panicked a then Panicked else Served (fold recorder_step (an_writes a) NewRecorder)))
      else if rq_Key rq = [] then (w, Problem CodeIdempotencyKeyRequired 0)
      else case mgr of
        None \<Rightarrow> (w, Problem CodeServiceUnavailable 5)
      | Some m \<Rightarrow> (case FromContext ctx of
          Inl c \<Rightarrow> (w, Problem c 0)
        | Inr tc \<Rightarrow> (case Begin canonicalize m ctx (request_scope tc rq) (rq_Body rq) w of
            (w1, _, Some (c, retry)) \<Rightarrow> (w1, Problem c retry)
          | (w1, None, None) \<Rightarrow> (w1, Panicked)
          | (w1, Some h, None) \<Rightarrow>
              if Handle_IsReplay h then (w1, replay (h_snapshot h))
              else case handler w1 of (w2, a) \<Rightarrow>
                if an_panicked a then (fst (Handle_Release m ctx h w2), Panicked)
                else let r = fold recorder_step (an_writes a)
                           (ResponseRecorder_Buffer (snapshot_cap maxSnapshotBytes) NewRecorder)
                     in (settle_response m ctx h r (an_Location a) w2, Served r))))"

section \<open>The manager as the platform wires it\<close>

text \<open>
  The store's world: the table, the application's clock, the database's clock, the system clock and
  the database's faults.
\<close>

record pg_world =
  pw_table :: idem_table
  pw_clock :: time
  pw_dbnow :: time
  pw_wall :: time
  pw_fault :: "idem_statement \<Rightarrow> db_error option"

definition on_table :: "pg_world \<Rightarrow> idem_table \<times> 'a \<Rightarrow> pg_world \<times> 'a" where
  "on_table w r = (w\<lparr>pw_table := fst r\<rparr>, snd r)"

definition tx_store :: "ID \<Rightarrow> pg_world \<Rightarrow> IdempotencyStore" where
  "tx_store tenant w = \<lparr>is_q = tx_querier tenant (pw_dbnow w) (pw_fault w), is_tenant = tenant\<rparr>"

text \<open>The transactional store of a tenant, and the pool-backed store \<open>payment-api\<close> wires.\<close>

definition postgres_store :: "ID \<Rightarrow> ctx \<Rightarrow> pg_world Store" where
  "postgres_store tenant ctx =
     \<lparr>st_Claim = \<lambda>w r. on_table w
        (IdempotencyStore_Claim ctx (tx_store tenant w) (pw_clock w) (pw_wall w) (pw_table w) r),
      st_Complete = \<lambda>w k snap. on_table w
        (IdempotencyStore_Complete ctx (tx_store tenant w) (pw_clock w) (pw_table w) k snap),
      st_FailTerminal = \<lambda>w k snap. on_table w
        (IdempotencyStore_FailTerminal ctx (tx_store tenant w) (pw_clock w) (pw_table w) k snap),
      st_Release = \<lambda>w k. on_table w (IdempotencyStore_Release ctx (tx_store tenant w) (pw_table w) k)\<rparr>"

definition pool_store :: "ctx \<Rightarrow> pg_world Store" where
  "pool_store ctx =
     \<lparr>st_Claim = \<lambda>w r. on_table w (PoolIdempotencyStore_Claim ctx
        (pool_querier (pw_dbnow w) (pw_fault w)) (pw_clock w) (pw_wall w) (pw_table w) r),
      st_Complete = \<lambda>w k snap. on_table w (PoolIdempotencyStore_Complete ctx
        (pool_querier (pw_dbnow w) (pw_fault w)) (pw_clock w) (pw_table w) k snap),
      st_FailTerminal = \<lambda>w k snap. on_table w (PoolIdempotencyStore_FailTerminal ctx
        (pool_querier (pw_dbnow w) (pw_fault w)) (pw_clock w) (pw_table w) k snap),
      st_Release = \<lambda>w k. on_table w (PoolIdempotencyStore_Release ctx
        (pool_querier (pw_dbnow w) (pw_fault w)) (pw_table w) k)\<rparr>"

definition idempotency_config :: "'c Cache option \<Rightarrow> (pg_world, 'c) Config" where
  "idempotency_config cache =
     \<lparr>cfg_Lease = 90 * second, cfg_Retention = DefaultRetention, cfg_RetryAfter = 0,
      cfg_Clock = pw_clock, cfg_Cache = cache, cfg_Metrics = False\<rparr>"

definition NewIdempotency ::
  "(ctx \<Rightarrow> pg_world Store) option \<Rightarrow> 'c Cache option \<Rightarrow> (pg_world, 'c) Manager outcome" where
  "NewIdempotency store cache = NewManager store (idempotency_config cache)"

end
