(* ===== verification/Idempotency_Contract.thy ===== *)
theory Idempotency_Contract
  imports Idempotency_Middleware
begin

text \<open>
  What the store promises the manager, as a locale, and the proof that the PostgreSQL store keeps the
  promise. The view a client has of a store is a map from keys to a fingerprint and, once the operation
  has settled, the response to replay. The lemmas of the locale are the manager's: they hold for every
  store that keeps the contract.
\<close>

section \<open>The contract\<close>

type_synonym idem_view = "IdempotencyKey \<rightharpoonup> string \<times> ResponseSnapshot option"

locale idempotency_store =
  fixes store :: "'w Store"
    and view :: "'w \<Rightarrow> idem_view"
    and persisted :: "'w \<Rightarrow> ResponseSnapshot \<Rightarrow> ResponseSnapshot"
  assumes claim_owns: "st_Claim store w r = (w', Inr res) \<Longrightarrow> cr_Outcome res \<in> {ClaimNew, ClaimReclaimed} \<Longrightarrow>
      view w' = (view w)(ir_Key r \<mapsto> (ir_Fingerprint r, None))"
    and claim_replays: "st_Claim store w r = (w', Inr res) \<Longrightarrow> cr_Outcome res = ClaimReplay \<Longrightarrow>
      \<exists>snap. cr_Snapshot res = Some snap \<and> view w (ir_Key r) = Some (ir_Fingerprint r, Some snap)"
    and claim_keeps: "st_Claim store w r = (w', Inr res) \<Longrightarrow> cr_Outcome res \<notin> {ClaimNew, ClaimReclaimed} \<Longrightarrow>
      view w' = view w"
    and claim_fails: "st_Claim store w r = (w', Inl c) \<Longrightarrow> view w' = view w"
    and claim_settled: "st_Claim store w r = (w', Inr res) \<Longrightarrow> view w (ir_Key r) = Some (fp, Some snap) \<Longrightarrow>
      cr_Outcome res = (if fp = ir_Fingerprint r then ClaimReplay else ClaimFingerprintMismatch)"
    and complete_stores: "st_Complete store w k snap = (w', None) \<Longrightarrow>
      \<exists>fp. view w k = Some (fp, None) \<and> view w' = (view w)(k \<mapsto> (fp, Some (persisted w snap)))"
    and complete_fails: "st_Complete store w k snap = (w', Some c) \<Longrightarrow> view w' = view w"
    and fail_stores: "st_FailTerminal store w k snap = (w', None) \<Longrightarrow>
      \<exists>fp. view w k = Some (fp, None) \<and> view w' = (view w)(k \<mapsto> (fp, Some (persisted w snap)))"
    and fail_fails: "st_FailTerminal store w k snap = (w', Some c) \<Longrightarrow> view w' = view w"
    and release_drops: "st_Release store w k = (w', e) \<Longrightarrow>
      view w' = view w \<or> (\<exists>fp. view w k = Some (fp, None) \<and> view w' = (view w)(k := None))"

section \<open>The PostgreSQL store keeps it\<close>

definition row_view :: "idem_row \<Rightarrow> string \<times> ResponseSnapshot option" where
  "row_view row = (row_request_fingerprint row,
     if row_state row = IN_FLIGHT then None else cr_Snapshot (replay_of row))"

definition pg_view :: "pg_world \<Rightarrow> idem_view" where
  "pg_view w k = map_option row_view (pw_table w k)"

definition pg_persisted :: "pg_world \<Rightarrow> ResponseSnapshot \<Rightarrow> ResponseSnapshot" where
  "pg_persisted w snap =
     \<lparr>rs_StatusCode = sint (word_of_int (rs_StatusCode snap) :: 16 word), rs_Body = rs_Body snap,
      rs_ResourceID = rs_ResourceID snap,
      rs_CompletedAt = timestamptz (if rs_CompletedAt snap = zero_time then pw_clock w else rs_CompletedAt snap)\<rparr>"

definition table_view :: "idem_table \<Rightarrow> idem_view" where
  "table_view tab k = map_option row_view (tab k)"

lemma pg_view_table: "pg_view w = table_view (pw_table w)"
  by (simp add: pg_view_def table_view_def fun_eq_iff)

lemma pg_view_upd [simp]: "pg_view (w\<lparr>pw_table := tab\<rparr>) = table_view tab"
  by (simp add: pg_view_table)

lemma table_view_upd: "table_view (tab(k \<mapsto> row)) = (table_view tab)(k \<mapsto> row_view row)"
  and table_view_del: "table_view (tab(k := None)) = (table_view tab)(k := None)"
  by (auto simp: table_view_def)

lemma row_view_claimed [simp]: "row_view (claimed_row r now lease expires) = (ir_Fingerprint r, None)"
  by (simp add: row_view_def claimed_row_def)

lemma row_view_Some: "row_view row = (fp, Some snap) \<longleftrightarrow>
    row_request_fingerprint row = fp \<and> row_state row \<noteq> IN_FLIGHT \<and> cr_Snapshot (replay_of row) = Some snap"
  by (auto simp: row_view_def)

lemma table_view_Some: "table_view tab k = Some v \<longleftrightarrow> (\<exists>row. tab k = Some row \<and> row_view row = v)"
  by (auto simp: table_view_def)

lemma resolve_row_outcome:
  "cr_Outcome (resolve_row r wall row) =
     (if row_request_fingerprint row \<noteq> ir_Fingerprint r then ClaimFingerprintMismatch
      else if row_state row = IN_FLIGHT then ClaimInProgress else ClaimReplay)"
  by (cases "row_state row") (simp_all add: resolve_row_def claim_result_def replay_of_def Let_def)

lemma resolve_row_replay:
  "row_request_fingerprint row = ir_Fingerprint r \<Longrightarrow> row_state row \<noteq> IN_FLIGHT \<Longrightarrow>
   resolve_row r wall row = replay_of row"
  by (cases "row_state row") (simp_all add: resolve_row_def)

lemma claim_result_outcome [simp]: "cr_Outcome (claim_result co) = co"
  by (simp add: claim_result_def)

lemma sql_insert_ok: "sql_insert q tab r now lease expires = (tab', None) \<Longrightarrow>
    tab (ir_Key r) = None \<and> tab' = tab(ir_Key r \<mapsto> claimed_row r now lease expires)"
  by (auto simp: sql_insert_def split: option.splits if_splits)

lemma sql_insert_error: "sql_insert q tab r now lease expires = (tab', Some e) \<Longrightarrow> tab' = tab"
  by (auto simp: sql_insert_def split: option.splits if_splits)

lemma sql_reclaim_ok: "sql_reclaim q tab r lease = (tab', None) \<Longrightarrow>
    \<exists>row. tab (ir_Key r) = Some row \<and> reclaimable q r row \<and>
      tab' = tab(ir_Key r \<mapsto> row\<lparr>row_lease_owner := ir_RequestID r,
        row_lease_expires_at := timestamptz lease, row_request_id := ir_RequestID r, row_trace_id := ir_TraceID r\<rparr>)"
  by (auto simp: sql_reclaim_def visible_row_def split: option.splits if_splits)

lemma sql_reclaim_error: "sql_reclaim q tab r lease = (tab', Some e) \<Longrightarrow> tab' = tab"
  by (auto simp: sql_reclaim_def visible_row_def split: option.splits if_splits)

lemma sql_read_ok: "sql_read q tab k = Inr row \<Longrightarrow> tab k = Some row"
  by (auto simp: sql_read_def visible_row_def split: option.splits if_splits)

lemma sql_settle_ok: "sql_settle q tab k state snap completed = (tab', Inr n) \<Longrightarrow> n \<noteq> 0 \<Longrightarrow>
    \<exists>row. tab k = Some row \<and> row_state row = IN_FLIGHT \<and>
      tab' = tab(k \<mapsto> row\<lparr>row_state := state, row_response_status := Some (word_of_int (rs_StatusCode snap)),
        row_response_body := rs_Body snap, row_resource_id := rs_ResourceID snap,
        row_completed_at := Some (timestamptz completed)\<rparr>)"
  by (auto simp: sql_settle_def visible_row_def split: option.splits if_splits)

lemma sql_settle_none:
  "sql_settle q tab k state snap completed = (tab', Inr 0) \<Longrightarrow> tab' = tab"
  "sql_settle q tab k state snap completed = (tab', Inl e) \<Longrightarrow> tab' = tab"
  by (auto simp: sql_settle_def visible_row_def split: option.splits if_splits)

lemma sql_delete_drops: "sql_delete q tab k = (tab', e) \<Longrightarrow>
    tab' = tab \<or> (\<exists>row. tab k = Some row \<and> row_state row = IN_FLIGHT \<and> tab' = tab(k := None))"
  by (auto simp: sql_delete_def visible_row_def split: option.splits if_splits)

text \<open>What a claim did, in the ways the store can answer it.\<close>

lemma resolveExisting_cases:
  assumes "resolveExisting st wall tab r lease = (tab', res)"
  obtains
    (reclaimed) row where "tab (ir_Key r) = Some row" and "reclaimable (is_q st) r row"
      and "res = Inr (claim_result ClaimReclaimed)"
      and "tab' = tab(ir_Key r \<mapsto> row\<lparr>row_lease_owner := ir_RequestID r,
              row_lease_expires_at := timestamptz lease,
              row_request_id := ir_RequestID r, row_trace_id := ir_TraceID r\<rparr>)"
  | (existing) row where "tab (ir_Key r) = Some row" and "res = Inr (resolve_row r wall row)" and "tab' = tab"
  | (failed) c where "res = Inl c" and "tab' = tab"
proof (cases "sql_reclaim (is_q st) tab r lease")
  case (Pair t e)
  show thesis
  proof (cases e)
    case None
    then show thesis
      using assms Pair reclaimed sql_reclaim_ok [of "is_q st" tab r lease t] by (auto simp: resolveExisting_def)
  next
    case (Some x)
    then have t: "t = tab" using Pair sql_reclaim_error by blast
    show thesis
    proof (cases "sql_read (is_q st) tab (ir_Key r)")
      case (Inl y)
      then show thesis using assms Pair Some t failed
        by (cases y) (auto simp: resolveExisting_def split: if_splits)
    next
      case (Inr row)
      then show thesis using assms Pair Some t failed existing sql_read_ok [OF Inr]
        by (auto simp: resolveExisting_def split: if_splits)
    qed
  qed
qed

lemma Claim_cases:
  assumes "IdempotencyStore_Claim ctx st now wall tab r = (tab', res)"
  obtains
    (inserted) "tab (ir_Key r) = None" and "res = Inr (claim_result ClaimNew)"
      and "tab' = tab(ir_Key r \<mapsto> claimed_row r now (claim_lease now r) (claim_expires now r))"
  | (reclaimed) row where "tab (ir_Key r) = Some row" and "reclaimable (is_q st) r row"
      and "res = Inr (claim_result ClaimReclaimed)"
      and "tab' = tab(ir_Key r \<mapsto> row\<lparr>row_lease_owner := ir_RequestID r,
              row_lease_expires_at := timestamptz (claim_lease now r),
              row_request_id := ir_RequestID r, row_trace_id := ir_TraceID r\<rparr>)"
  | (existing) row where "tab (ir_Key r) = Some row" and "res = Inr (resolve_row r wall row)" and "tab' = tab"
  | (failed) c where "res = Inl c" and "tab' = tab"
proof (cases "requireOwner ctx (is_tenant st) (ik_TenantID (ir_Key r))")
  case (Some c)
  then show thesis using assms failed by (auto simp: IdempotencyStore_Claim_def)
next
  case None
  obtain t e where ins: "sql_insert (is_q st) tab r now (claim_lease now r) (claim_expires now r) = (t, e)"
    by fastforce
  show thesis
  proof (cases e)
    case None
    then show thesis
      using assms ins \<open>requireOwner _ _ _ = None\<close> inserted sql_insert_ok [of "is_q st" tab r now]
      by (simp add: IdempotencyStore_Claim_def)
  next
    case (Some x)
    then have t: "t = tab" using ins sql_insert_error by blast
    show thesis
    proof (cases "x = NoRows")
      case True
      then have "resolveExisting st wall tab r (claim_lease now r) = (tab', res)"
        using assms ins Some t \<open>requireOwner _ _ _ = None\<close> by (simp add: IdempotencyStore_Claim_def)
      then show thesis by (rule resolveExisting_cases) (fact reclaimed existing failed)+
    next
      case False
      then show thesis
        using assms ins Some t \<open>requireOwner _ _ _ = None\<close> failed by (auto simp: IdempotencyStore_Claim_def)
    qed
  qed
qed

lemma settle_cases:
  assumes "IdempotencyStore_settle ctx st now tab k snap state = (tab', e)"
  obtains
    (stored) row where "e = None" and "tab k = Some row" and "row_state row = IN_FLIGHT"
      and "tab' = tab(k \<mapsto> row\<lparr>row_state := state,
           row_response_status := Some (word_of_int (rs_StatusCode snap)),
           row_response_body := rs_Body snap, row_resource_id := rs_ResourceID snap,
           row_completed_at := Some (timestamptz (if rs_CompletedAt snap = zero_time then now else rs_CompletedAt snap))\<rparr>)"
  | (failed) c where "e = Some c" and "tab' = tab"
proof (cases "requireOwner ctx (is_tenant st) (ik_TenantID k)")
  case (Some c)
  then have "e = Some c" and "tab' = tab" using assms by (simp_all add: IdempotencyStore_settle_def)
  then show thesis by (rule failed)
next
  case None
  define completed where "completed = (if rs_CompletedAt snap = zero_time then now else rs_CompletedAt snap)"
  obtain t x where st: "sql_settle (is_q st) tab k state snap completed = (t, x)" by fastforce
  have eq: "(tab', e) = (t, case x of Inl y \<Rightarrow> Some (mapError y)
      | Inr n \<Rightarrow> if n = 0 then Some CodeIdempotentRequestInProgress else None)"
    using assms None st by (auto simp: IdempotencyStore_settle_def completed_def [symmetric] split: sum.splits)
  show thesis
  proof (cases x)
    case (Inl y)
    then have "t = tab" using st sql_settle_none(2) by simp
    then show thesis using eq Inl failed by simp
  next
    case (Inr n)
    show thesis
    proof (cases "n = 0")
      case True
      then have "t = tab" using st Inr sql_settle_none(1) by simp
      then show thesis using eq Inr True failed by simp
    next
      case False
      then show thesis using st eq Inr sql_settle_ok [of "is_q st" tab k state snap completed t n] stored
        by (auto simp: completed_def)
    qed
  qed
qed

lemma Release_drops:
  "IdempotencyStore_Release ctx st tab k = (tab', e) \<Longrightarrow>
     tab' = tab \<or> (\<exists>row. tab k = Some row \<and> row_state row = IN_FLIGHT \<and> tab' = tab(k := None))"
  by (auto simp: IdempotencyStore_Release_def split: option.splits prod.splits dest: sql_delete_drops)

text \<open>The same for the store in its world.\<close>

lemma on_table_eq: "on_table w x = (w', y) \<longleftrightarrow> (\<exists>tab'. x = (tab', y) \<and> w' = w\<lparr>pw_table := tab'\<rparr>)"
  by (cases x) (auto simp: on_table_def)

lemma pg_settle_view:
  assumes "IdempotencyStore_settle ctx st (pw_clock w) (pw_table w) k snap state = (tab', e)" and "state \<noteq> IN_FLIGHT"
  shows "e = None \<Longrightarrow> \<exists>fp. pg_view w k = Some (fp, None) \<and>
      table_view tab' = (pg_view w)(k \<mapsto> (fp, Some (pg_persisted w snap)))"
    and "e = Some c \<Longrightarrow> table_view tab' = pg_view w"
  using assms by (auto elim!: settle_cases simp: pg_view_table table_view_upd table_view_Some row_view_def
      replay_of_def pg_persisted_def)

lemma Claim_view:
  assumes "IdempotencyStore_Claim ctx st now wall tab r = (tab', Inr res)"
  shows "cr_Outcome res \<in> {ClaimNew, ClaimReclaimed} \<Longrightarrow>
      table_view tab' = (table_view tab)(ir_Key r \<mapsto> (ir_Fingerprint r, None))"
    and "cr_Outcome res \<notin> {ClaimNew, ClaimReclaimed} \<Longrightarrow> tab' = tab"
    and "cr_Outcome res = ClaimReplay \<Longrightarrow>
      \<exists>snap. cr_Snapshot res = Some snap \<and> table_view tab (ir_Key r) = Some (ir_Fingerprint r, Some snap)"
    and "table_view tab (ir_Key r) = Some (fp, Some snap) \<Longrightarrow>
      cr_Outcome res = (if fp = ir_Fingerprint r then ClaimReplay else ClaimFingerprintMismatch)"
  using assms
  by (auto elim!: Claim_cases simp: table_view_upd table_view_Some row_view_def reclaimable_def
      resolve_row_outcome resolve_row_replay replay_of_def claimed_row_def split: if_splits)

lemma postgres_claim: "st_Claim (postgres_store tenant ctx) w r = (w', x) \<longleftrightarrow>
    (\<exists>tab'. IdempotencyStore_Claim ctx (tx_store tenant w) (pw_clock w) (pw_wall w) (pw_table w) r = (tab', x)
      \<and> w' = w\<lparr>pw_table := tab'\<rparr>)"
  and postgres_complete: "st_Complete (postgres_store tenant ctx) w k snap = (w', e) \<longleftrightarrow>
    (\<exists>tab'. IdempotencyStore_settle ctx (tx_store tenant w) (pw_clock w) (pw_table w) k snap COMPLETED = (tab', e)
      \<and> w' = w\<lparr>pw_table := tab'\<rparr>)"
  and postgres_fail: "st_FailTerminal (postgres_store tenant ctx) w k snap = (w', e) \<longleftrightarrow>
    (\<exists>tab'. IdempotencyStore_settle ctx (tx_store tenant w) (pw_clock w) (pw_table w) k snap FAILED_TERMINAL = (tab', e)
      \<and> w' = w\<lparr>pw_table := tab'\<rparr>)"
  and postgres_release: "st_Release (postgres_store tenant ctx) w k = (w', e) \<longleftrightarrow>
    (\<exists>tab'. IdempotencyStore_Release ctx (tx_store tenant w) (pw_table w) k = (tab', e) \<and> w' = w\<lparr>pw_table := tab'\<rparr>)"
  by (simp_all add: postgres_store_def on_table_eq IdempotencyStore_Complete_def IdempotencyStore_FailTerminal_def)

lemmas postgres_ops = postgres_claim postgres_complete postgres_fail postgres_release

interpretation pg: idempotency_store "postgres_store tenant ctx" pg_view pg_persisted for tenant ctx
proof (unfold_locales, goal_cases)
  case (1 w r w' res)
  then show ?case by (auto simp: postgres_ops pg_view_table dest!: Claim_view(1))
next
  case (2 w r w' res)
  then show ?case by (auto simp: postgres_ops pg_view_table dest!: Claim_view(3))
next
  case (3 w r w' res)
  then show ?case by (auto simp: postgres_ops pg_view_table dest!: Claim_view(2))
next
  case (4 w r w' c)
  then show ?case by (auto simp: postgres_ops pg_view_table elim!: Claim_cases)
next
  case (5 w r w' res fp snap)
  from 5(1) obtain tab' where "IdempotencyStore_Claim ctx (tx_store tenant w) (pw_clock w) (pw_wall w) (pw_table w) r
      = (tab', Inr res)" by (auto simp: postgres_ops)
  from Claim_view(4) [OF this] 5(2) show ?case by (simp add: pg_view_table)
next
  case (6 w k snap w')
  then show ?case by (auto simp: postgres_ops dest!: pg_settle_view(1))
next
  case (7 w k snap w' c)
  then show ?case by (auto simp: postgres_ops pg_view_table elim!: settle_cases)
next
  case (8 w k snap w')
  then show ?case by (auto simp: postgres_ops dest!: pg_settle_view(1))
next
  case (9 w k snap w' c)
  then show ?case by (auto simp: postgres_ops pg_view_table elim!: settle_cases)
next
  case (10 w k w' e)
  then show ?case
    by (auto simp: postgres_ops pg_view_table table_view_del table_view_Some row_view_def dest!: Release_drops)
qed

section \<open>The manager above any store that keeps the contract\<close>

text \<open>What a request can see of the world: everything but the cache; and a configuration but for its cache.\<close>

definition seen :: "('w, 'c) world \<Rightarrow> 'w \<times> string list" where
  "seen w = (w_store w, w_metrics w)"

definition cfg_core :: "('w, 'c) Config \<Rightarrow> duration \<times> duration \<times> duration \<times> ('w \<Rightarrow> time) \<times> bool" where
  "cfg_core cfg = (cfg_Lease cfg, cfg_Retention cfg, cfg_RetryAfter cfg, cfg_Clock cfg, cfg_Metrics cfg)"

lemma seen_simps [simp]:
  "seen (w\<lparr>w_cache := c\<rparr>) = seen w"
  "seen (w\<lparr>w_store := s\<rparr>) = (s, snd (seen w))"
  "fst (seen w) = w_store w"
  "seen (mirrorToCache cfg key fp snap w) = seen w"
  by (simp_all add: seen_def mirrorToCache_def split: option.splits)

lemma w_store_simps [simp]:
  "w_store (mirrorToCache cfg key fp snap w) = w_store w"
  "w_store (record_metric cfg co w) = w_store w"
  by (simp_all add: mirrorToCache_def record_metric_def split: option.splits)

lemma seen_record_metric:
  "seen (record_metric cfg co w) = (fst (seen w), snd (seen w) @ (if cfg_Metrics cfg then [Outcome_MetricLabel co] else []))"
  by (simp add: record_metric_def seen_def)

lemma decide_cache_irrelevant:
  assumes "cfg_core cfg = cfg_core cfg'" and "seen w = seen w'"
    and "cr_Outcome res = ClaimReplay \<Longrightarrow> cr_Snapshot res \<noteq> None"
  shows "seen (fst (decide cfg key fp res w)) = seen (fst (decide cfg' key fp res w'))"
    and "snd (decide cfg key fp res w) = snd (decide cfg' key fp res w')"
  using assms
  by (cases "cr_Outcome res"; auto simp: decide_def resolveSnapshot_def seen_record_metric cfg_core_def Let_def)+

context idempotency_store
begin

lemma Begin_cache_irrelevant:
  assumes "m_store m ctx = store" and "m_store m' ctx = store" and core: "cfg_core (m_cfg m) = cfg_core (m_cfg m')"
    and seen: "seen w = seen w'"
  shows "seen (fst (Begin canonicalize m ctx key body w)) = seen (fst (Begin canonicalize m' ctx key body w'))
    \<and> snd (Begin canonicalize m ctx key body w) = snd (Begin canonicalize m' ctx key body w')"
proof (cases "validateKey ctx key")
  case (Some c)
  then show ?thesis using seen by (simp add: Begin_def)
next
  case None
  define r where "r = claim_request canonicalize (m_cfg m) ctx (cfg_Clock (m_cfg m) (w_store w)) key body"
  have w: "w_store w' = w_store w" using seen by (simp add: seen_def)
  have r': "claim_request canonicalize (m_cfg m') ctx (cfg_Clock (m_cfg m') (w_store w')) key body = r"
    using core w by (simp add: r_def claim_request_def cfg_core_def)
  obtain s x where claim: "st_Claim store (w_store w) r = (s, x)" by fastforce
  show ?thesis
  proof (cases x)
    case (Inl c)
    then show ?thesis using None assms claim r' w by (simp add: Begin_def Let_def r_def [symmetric])
  next
    case (Inr res)
    have replay: "cr_Outcome res = ClaimReplay \<Longrightarrow> cr_Snapshot res \<noteq> None"
      using claim_replays claim Inr by blast
    have B: "Begin canonicalize m ctx key body w = decide (m_cfg m) key (ir_Fingerprint r) res (w\<lparr>w_store := s\<rparr>)"
      and B': "Begin canonicalize m' ctx key body w' = decide (m_cfg m') key (ir_Fingerprint r) res (w'\<lparr>w_store := s\<rparr>)"
      using None assms claim Inr r' w by (simp_all add: Begin_def Let_def r_def [symmetric])
    have "seen (w\<lparr>w_store := s\<rparr>) = seen (w'\<lparr>w_store := s\<rparr>)" using seen by simp
    from decide_cache_irrelevant [OF core this replay] B B' show ?thesis by simp
  qed
qed

text \<open>A request whose operation has settled is answered with the stored response.\<close>

lemma Begin_settled:
  assumes "m_store m ctx = store" and "validateKey ctx key = None"
    and settled: "view (w_store w) key = Some (Fingerprint canonicalize body key, Some snap)"
    and claim: "st_Claim store (w_store w)
      (claim_request canonicalize (m_cfg m) ctx (cfg_Clock (m_cfg m) (w_store w)) key body) = (s, Inr res)"
  shows "\<exists>w' h. Begin canonicalize m ctx key body w = (w', Some h, None) \<and> Handle_IsReplay h
    \<and> h_snapshot h = Some snap \<and> w_store w' = s \<and> view s = view (w_store w)"
proof -
  define r where "r = claim_request canonicalize (m_cfg m) ctx (cfg_Clock (m_cfg m) (w_store w)) key body"
  have r: "ir_Key r = key" "ir_Fingerprint r = Fingerprint canonicalize body key"
    by (simp_all add: r_def claim_request_def)
  note claim = claim [folded r_def]
  have replay: "cr_Outcome res = ClaimReplay" using claim_settled [OF claim] settled r by simp
  then have "cr_Snapshot res = Some snap" using claim_replays [OF claim] settled r by auto
  moreover have "view s = view (w_store w)" using claim_keeps [OF claim] replay by simp
  ultimately show ?thesis using assms(1,2) claim replay r
    by (simp add: Begin_def Let_def r_def [symmetric] decide_def resolveSnapshot_def Handle_IsReplay_def new_handle_def)
qed

text \<open>A handle that owns comes from a claim that recorded the request's fingerprint, still unsettled.\<close>

lemma Begin_owns:
  assumes "m_store m ctx = store" and started: "Begin canonicalize m ctx key body w = (w', Some h, None)"
    and "\<not> Handle_IsReplay h"
  shows "view (w_store w') = (view (w_store w))(key \<mapsto> (Fingerprint canonicalize body key, None))
    \<and> validateKey ctx key = None \<and> Outcome_Owns (h_outcome h) \<and> \<not> h_settled h \<and> h_key h = key"
proof -
  define r where "r = claim_request canonicalize (m_cfg m) ctx (cfg_Clock (m_cfg m) (w_store w)) key body"
  have r: "ir_Key r = key" "ir_Fingerprint r = Fingerprint canonicalize body key"
    by (simp_all add: r_def claim_request_def)
  have valid: "validateKey ctx key = None" using started by (auto simp: Begin_def split: option.splits)
  then obtain s res where claim: "st_Claim store (w_store w) r = (s, Inr res)"
    and d: "decide (m_cfg m) key (ir_Fingerprint r) res (w\<lparr>w_store := s\<rparr>) = (w', Some h, None)"
    using started assms(1) by (auto simp: Begin_def Let_def r_def [symmetric] split: prod.splits sum.splits)
  have owning: "cr_Outcome res \<in> {ClaimNew, ClaimReclaimed}"
    using d assms(3) by (auto simp: decide_def Handle_IsReplay_def Let_def resolveSnapshot_def new_handle_def
        split: ClaimOutcome.splits prod.splits if_splits option.splits)
  then have "w_store w' = s \<and> Outcome_Owns (h_outcome h) \<and> \<not> h_settled h \<and> h_key h = key"
    using d by (auto simp: decide_def Outcome_Owns_def new_handle_def)
  then show ?thesis using claim_owns [OF claim owning] r valid by simp
qed

end

end
