(* ===== verification/Idempotency_Concurrency.thy ===== *)
theory Idempotency_Concurrency
  imports Idempotency_Contract
begin

text \<open>
  Many callers on one table. \<open>Claim\<close> is up to three statements and its caller then works outside the
  database, so what other callers do falls between: a caller is a program counter, and a step of the
  system is one statement of one caller, the crash of a caller, the retention sweep or the passing of
  time on the database's clock. The section on traffic keeps of all this only what happens to the table.
\<close>

section \<open>Traffic on the table\<close>

text \<open>Any statement of any caller, and sweeps up to an instant.\<close>

inductive traffic :: "time \<Rightarrow> idem_table \<Rightarrow> idem_table \<Rightarrow> bool" for horizon where
  insert: "traffic horizon tab (fst (sql_insert q tab r now lease expires))"
| reclaim: "traffic horizon tab (fst (sql_reclaim q tab r lease))"
| settle: "traffic horizon tab (fst (sql_settle q tab k state snap completed))"
| delete: "traffic horizon tab (fst (sql_delete q tab k))"
| sweep: "before \<le> horizon \<Longrightarrow> traffic horizon tab (fst (IdempotencyStore_PurgeExpired ctx st scan tab before limit))"

lemma timestamptz_le: "timestamptz t \<le> t"
  by (simp add: timestamptz_def minus_mod_eq_div_mult [symmetric])

lemma purge_eq: "fst (IdempotencyStore_PurgeExpired ctx st scan tab before limit) k = tab k \<or>
    (\<exists>row. tab k = Some row \<and> row_expires_at row < timestamptz before
      \<and> fst (IdempotencyStore_PurgeExpired ctx st scan tab before limit) k = None)"
proof -
  have "purgeable q t before' tab k" if "k \<in> set (take n (filter (purgeable q t before' tab) ks))" for q t before' n ks
    using in_set_takeD [OF that] by simp
  then have "\<exists>row. tab k = Some row \<and> row_expires_at row < timestamptz before"
    if "k \<in> set (purge_victims (is_q st) (is_tenant st) before limit scan tab)"
    using that by (fastforce simp: purge_victims_def purgeable_def visible_row_def split: option.splits if_splits)
  then show ?thesis
    by (auto simp: IdempotencyStore_PurgeExpired_def Let_def split: option.splits)
qed

lemma settled_stable:
  assumes "traffic horizon tab tab'" and "tab k = Some row" and "row_state row \<noteq> IN_FLIGHT"
    and "horizon \<le> row_expires_at row"
  shows "tab' k = Some row"
  using assms
proof cases
  case (insert q r now lease expires)
  obtain t e where "sql_insert q tab r now lease expires = (t, e)" by fastforce
  then show ?thesis using insert assms
    by (cases e) (auto dest!: sql_insert_ok sql_insert_error)
next
  case (reclaim q r lease)
  obtain t e where "sql_reclaim q tab r lease = (t, e)" by fastforce
  then show ?thesis using reclaim assms
    by (cases e) (auto dest!: sql_reclaim_ok sql_reclaim_error simp: reclaimable_def)
next
  case (settle q k' state snap completed)
  obtain t x where x: "sql_settle q tab k' state snap completed = (t, x)" by fastforce
  show ?thesis
  proof (cases x)
    case (Inr n)
    then show ?thesis using settle assms x by (cases "n = 0") (auto dest!: sql_settle_ok sql_settle_none)
  qed (use settle assms x in \<open>auto dest: sql_settle_none\<close>)
next
  case (delete q k')
  obtain t e where "sql_delete q tab k' = (t, e)" by fastforce
  then show ?thesis using delete assms by (auto dest!: sql_delete_drops)
next
  case (sweep before ctx st scan limit)
  then show ?thesis
    using assms purge_eq [of ctx st scan tab before limit k] timestamptz_le [of before] by auto
qed

lemma settled_stable_run:
  assumes "(traffic horizon)\<^sup>*\<^sup>* tab tab'" and "tab k = Some row" and "row_state row \<noteq> IN_FLIGHT"
    and "horizon \<le> row_expires_at row"
  shows "tab' k = Some row"
  using assms by (induction rule: rtranclp_induct) (auto intro: settled_stable)

section \<open>Interleaved callers\<close>

datatype phase =
    Idle
  | Resolving IdempotencyRecord time
  | Reading IdempotencyRecord
  | Owning IdempotencyKey time

record idem_system =
  sy_table :: idem_table
  sy_now :: time
  sy_phase :: "nat \<Rightarrow> phase"

datatype action =
    Insert nat IdempotencyRecord time
  | Reclaim nat
  | Read nat
  | Settle nat idem_state ResponseSnapshot time
  | Release nat
  | Crash nat
  | Tick time
  | Sweep ID time int "IdempotencyKey list"

definition session_of :: "idem_system \<Rightarrow> ID \<Rightarrow> querier" where
  "session_of s tenant = tx_querier tenant (sy_now s) (\<lambda>_. None)"

definition goto :: "idem_system \<Rightarrow> nat \<Rightarrow> idem_table \<Rightarrow> phase \<Rightarrow> idem_system" where
  "goto s c tab p = s\<lparr>sy_table := tab, sy_phase := (sy_phase s)(c := p)\<rparr>"

inductive idem_step :: "idem_system \<Rightarrow> action \<Rightarrow> idem_system \<Rightarrow> bool" where
  insert_wins: "sy_phase s c = Idle \<Longrightarrow>
    sql_insert (session_of s (ik_TenantID (ir_Key r))) (sy_table s) r now (claim_lease now r) (claim_expires now r) = (tab', None) \<Longrightarrow>
    idem_step s (Insert c r now) (goto s c tab' (Owning (ir_Key r) (timestamptz (claim_lease now r))))"
| insert_conflicts: "sy_phase s c = Idle \<Longrightarrow>
    sql_insert (session_of s (ik_TenantID (ir_Key r))) (sy_table s) r now (claim_lease now r) (claim_expires now r) = (tab', Some NoRows) \<Longrightarrow>
    idem_step s (Insert c r now) (goto s c tab' (Resolving r (claim_lease now r)))"
| reclaim_wins: "sy_phase s c = Resolving r lease \<Longrightarrow>
    sql_reclaim (session_of s (ik_TenantID (ir_Key r))) (sy_table s) r lease = (tab', None) \<Longrightarrow>
    idem_step s (Reclaim c) (goto s c tab' (Owning (ir_Key r) (timestamptz lease)))"
| reclaim_loses: "sy_phase s c = Resolving r lease \<Longrightarrow>
    sql_reclaim (session_of s (ik_TenantID (ir_Key r))) (sy_table s) r lease = (tab', Some NoRows) \<Longrightarrow>
    idem_step s (Reclaim c) (goto s c tab' (Reading r))"
| read: "sy_phase s c = Reading r \<Longrightarrow> idem_step s (Read c) (goto s c (sy_table s) Idle)"
| settle: "sy_phase s c = Owning k lease \<Longrightarrow> state \<noteq> IN_FLIGHT \<Longrightarrow>
    sql_settle (session_of s (ik_TenantID k)) (sy_table s) k state snap completed = (tab', x) \<Longrightarrow>
    idem_step s (Settle c state snap completed) (goto s c tab' Idle)"
| release: "sy_phase s c = Owning k lease \<Longrightarrow>
    sql_delete (session_of s (ik_TenantID k)) (sy_table s) k = (tab', e) \<Longrightarrow>
    idem_step s (Release c) (goto s c tab' Idle)"
| crash: "idem_step s (Crash c) (goto s c (sy_table s) Idle)"
| tick: "sy_now s \<le> t \<Longrightarrow> idem_step s (Tick t) (s\<lparr>sy_now := t\<rparr>)"
| sweep: "idem_step s (Sweep tenant before limit scan)
    (s\<lparr>sy_table := fst (IdempotencyStore_PurgeExpired ctx
        \<lparr>is_q = session_of s tenant, is_tenant = tenant\<rparr> scan (sy_table s) before limit)\<rparr>)"

inductive_cases idem_stepE: "idem_step s a s'"

text \<open>A caller owns a key while its lease has not lapsed on the database's clock.\<close>

definition live_owner :: "idem_system \<Rightarrow> nat \<Rightarrow> IdempotencyKey \<Rightarrow> bool" where
  "live_owner s c k \<longleftrightarrow> (\<exists>lease. sy_phase s c = Owning k lease \<and> sy_now s \<le> lease)"

text \<open>
  The discipline the lease asks of callers and of the sweep: settle or release only while the own lease
  is live, and sweep no claim whose lease is.
\<close>

definition timely :: "idem_system \<Rightarrow> action \<Rightarrow> bool" where
  "timely s a = (case a of
      Settle c _ _ _ \<Rightarrow> (\<forall>k lease. sy_phase s c = Owning k lease \<longrightarrow> sy_now s \<le> lease)
    | Release c \<Rightarrow> (\<forall>k lease. sy_phase s c = Owning k lease \<longrightarrow> sy_now s \<le> lease)
    | Sweep _ before _ _ \<Rightarrow> (\<forall>k row. sy_table s k = Some row \<longrightarrow> row_state row = IN_FLIGHT \<longrightarrow>
        row_expires_at row < timestamptz before \<longrightarrow> row_lease_expires_at row < sy_now s)
    | _ \<Rightarrow> True)"

inductive idem_run :: "idem_system \<Rightarrow> idem_system \<Rightarrow> bool" for s where
  start: "idem_run s s"
| step: "idem_run s s' \<Longrightarrow> idem_step s' a s'' \<Longrightarrow> idem_run s s''"

inductive timely_run :: "idem_system \<Rightarrow> idem_system \<Rightarrow> bool" for s where
  start: "timely_run s s"
| step: "timely_run s s' \<Longrightarrow> idem_step s' a s'' \<Longrightarrow> timely s' a \<Longrightarrow> timely_run s s''"

section \<open>The invariant\<close>

text \<open>A live owner's lease is the one in the row, and the row is its claim; so there is one live owner.\<close>

definition leases_recorded :: "idem_system \<Rightarrow> bool" where
  "leases_recorded s \<longleftrightarrow>
     (\<forall>c k lease. sy_phase s c = Owning k lease \<longrightarrow> sy_now s \<le> lease \<longrightarrow>
        (\<exists>row. sy_table s k = Some row \<and> row_state row = IN_FLIGHT \<and> row_lease_expires_at row = lease))
     \<and> (\<forall>c d k. live_owner s c k \<longrightarrow> live_owner s d k \<longrightarrow> c = d)"

lemma goto_simps [simp]:
  "sy_table (goto s c tab p) = tab" "sy_now (goto s c tab p) = sy_now s"
  "sy_phase (goto s c tab p) = (sy_phase s)(c := p)"
  by (simp_all add: goto_def)

lemma live_owner_goto: "live_owner (goto s c tab p) d k \<longleftrightarrow>
    (if d = c then (\<exists>lease. p = Owning k lease \<and> sy_now s \<le> lease) else live_owner s d k)"
  by (simp add: live_owner_def)

lemma live_owner_row:
  assumes "leases_recorded s" and "live_owner s c k"
  obtains row where "sy_table s k = Some row" and "row_state row = IN_FLIGHT" and "sy_now s \<le> row_lease_expires_at row"
  using assms unfolding leases_recorded_def live_owner_def by blast

text \<open>A caller gives up its claim and leaves the rows of the other live owners alone.\<close>

lemma leases_recorded_leave:
  assumes inv: "leases_recorded s" and keep: "\<And>d k'. d \<noteq> c \<Longrightarrow> live_owner s d k' \<Longrightarrow> tab k' = sy_table s k'"
    and p: "\<And>k lease. p \<noteq> Owning k lease"
  shows "leases_recorded (goto s c tab p)"
  using inv keep p unfolding leases_recorded_def live_owner_def
  by (auto simp: live_owner_def)

text \<open>A caller takes a key no live owner has.\<close>

lemma leases_recorded_take:
  assumes inv: "leases_recorded s" and free: "\<And>d. \<not> live_owner s d k"
    and row: "row_state row = IN_FLIGHT" "row_lease_expires_at row = lease"
  shows "leases_recorded (goto s c ((sy_table s)(k \<mapsto> row)) (Owning k lease))"
  unfolding leases_recorded_def
proof (intro conjI allI impI)
  fix d k' lease'
  assume own: "sy_phase (goto s c ((sy_table s)(k \<mapsto> row)) (Owning k lease)) d = Owning k' lease'"
    and now: "sy_now (goto s c ((sy_table s)(k \<mapsto> row)) (Owning k lease)) \<le> lease'"
  show "\<exists>row'. sy_table (goto s c ((sy_table s)(k \<mapsto> row)) (Owning k lease)) k' = Some row'
      \<and> row_state row' = IN_FLIGHT \<and> row_lease_expires_at row' = lease'"
  proof (cases "d = c")
    case True
    then show ?thesis using own row by simp
  next
    case False
    then have o: "sy_phase s d = Owning k' lease'" "sy_now s \<le> lease'" using own now by simp_all
    then have "k' \<noteq> k" using free [of d] by (auto simp: live_owner_def)
    then show ?thesis using o inv unfolding leases_recorded_def by simp
  qed
next
  fix d e k'
  assume "live_owner (goto s c ((sy_table s)(k \<mapsto> row)) (Owning k lease)) d k'"
    and "live_owner (goto s c ((sy_table s)(k \<mapsto> row)) (Owning k lease)) e k'"
  then show "d = e" using free inv unfolding live_owner_goto leases_recorded_def by (auto split: if_splits)
qed

lemma leases_recorded_now:
  assumes "leases_recorded s" and "sy_now s \<le> t"
  shows "leases_recorded (s\<lparr>sy_now := t\<rparr>)"
  using assms unfolding leases_recorded_def live_owner_def by simp (meson order_trans)

lemma leases_recorded_table:
  assumes inv: "leases_recorded s" and keep: "\<And>d k. live_owner s d k \<Longrightarrow> tab k = sy_table s k"
  shows "leases_recorded (s\<lparr>sy_table := tab\<rparr>)"
proof -
  have same: "live_owner (s\<lparr>sy_table := tab\<rparr>) d k = live_owner s d k" for d k by (simp add: live_owner_def)
  have "\<exists>row. tab k = Some row \<and> row_state row = IN_FLIGHT \<and> row_lease_expires_at row = lease"
    if own: "sy_phase s c = Owning k lease" "sy_now s \<le> lease" for c k lease
  proof -
    have "tab k = sy_table s k" using keep own by (auto simp: live_owner_def)
    then show ?thesis using inv own unfolding leases_recorded_def by metis
  qed
  then show ?thesis using inv unfolding leases_recorded_def same by auto
qed

lemma leases_recorded_step:
  assumes step: "idem_step s a s'" and "timely s a" and inv: "leases_recorded s"
  shows "leases_recorded s'"
  using step
proof cases
  case (insert_wins c r now tab')
  then have row: "sy_table s (ir_Key r) = None"
    and t: "tab' = (sy_table s)(ir_Key r \<mapsto> claimed_row r now (claim_lease now r) (claim_expires now r))"
    using sql_insert_ok by blast+
  have "\<not> live_owner s d (ir_Key r)" for d using inv row by (auto elim: live_owner_row)
  then show ?thesis unfolding insert_wins(2) t
    by (intro leases_recorded_take [OF inv]) (simp_all add: claimed_row_def)
next
  case (insert_conflicts c r now tab')
  then have "tab' = sy_table s" by (auto dest: sql_insert_error)
  then show ?thesis using insert_conflicts inv by (auto intro!: leases_recorded_leave)
next
  case (reclaim_wins c r lease tab')
  then obtain row where row: "sy_table s (ir_Key r) = Some row" and rc: "reclaimable (session_of s (ik_TenantID (ir_Key r))) r row"
    and t: "tab' = (sy_table s)(ir_Key r \<mapsto> row\<lparr>row_lease_owner := ir_RequestID r,
        row_lease_expires_at := timestamptz lease, row_request_id := ir_RequestID r, row_trace_id := ir_TraceID r\<rparr>)"
    using sql_reclaim_ok by blast
  have "\<not> live_owner s d (ir_Key r)" for d
    using inv row rc by (auto elim!: live_owner_row simp: reclaimable_def session_of_def tx_querier_def)
  then show ?thesis unfolding reclaim_wins(2) t
    using rc by (intro leases_recorded_take [OF inv]) (simp_all add: reclaimable_def)
next
  case (reclaim_loses c r lease tab')
  then have "tab' = sy_table s" by (auto dest: sql_reclaim_error)
  then show ?thesis using reclaim_loses inv by (auto intro!: leases_recorded_leave)
next
  case (read c r)
  then show ?thesis using inv by (auto intro!: leases_recorded_leave)
next
  case (settle c k lease state snap completed tab' x)
  have "live_owner s c k" using settle \<open>timely s a\<close> by (auto simp: timely_def live_owner_def)
  moreover have "tab' k' = sy_table s k'" if "k' \<noteq> k" for k'
  proof (cases x)
    case (Inl e)
    then show ?thesis using settle by (auto dest: sql_settle_none)
  next
    case (Inr n)
    then show ?thesis using settle that by (cases "n = 0") (auto dest!: sql_settle_none sql_settle_ok)
  qed
  ultimately show ?thesis using settle inv
    by (auto intro!: leases_recorded_leave) (metis leases_recorded_def)
next
  case (release c k lease tab' e)
  have "live_owner s c k" using release \<open>timely s a\<close> by (auto simp: timely_def live_owner_def)
  moreover have "tab' k' = sy_table s k'" if "k' \<noteq> k" for k'
    using release that by (auto dest!: sql_delete_drops)
  ultimately show ?thesis using release inv
    by (auto intro!: leases_recorded_leave) (metis leases_recorded_def)
next
  case (crash c)
  then show ?thesis using inv by (auto intro!: leases_recorded_leave)
next
  case (tick t)
  then show ?thesis using leases_recorded_now [OF inv] by simp
next
  case (sweep tenant before limit scan ctx)
  show ?thesis unfolding sweep(2)
  proof (rule leases_recorded_table [OF inv])
    fix d k
    assume "live_owner s d k"
    then obtain row where row: "sy_table s k = Some row" "row_state row = IN_FLIGHT" "sy_now s \<le> row_lease_expires_at row"
      using inv by (auto elim: live_owner_row)
    then have "\<not> row_expires_at row < timestamptz before"
      using \<open>timely s a\<close> sweep(1) by (fastforce simp: timely_def)
    then show "fst (IdempotencyStore_PurgeExpired ctx \<lparr>is_q = session_of s tenant, is_tenant = tenant\<rparr> scan
        (sy_table s) before limit) k = sy_table s k"
      using row(1) purge_eq [of ctx "\<lparr>is_q = session_of s tenant, is_tenant = tenant\<rparr>" scan "sy_table s" before limit k]
      by auto
  qed
qed

lemma leases_recorded_run:
  assumes "timely_run s s'" and "leases_recorded s"
  shows "leases_recorded s'"
  using assms by (induction rule: timely_run.induct) (auto intro: leases_recorded_step)

lemma leases_recorded_idle: "(\<And>c. sy_phase s c = Idle) \<Longrightarrow> leases_recorded s"
  by (simp add: leases_recorded_def live_owner_def)

section \<open>One claim is one schedule\<close>

text \<open>The caller alone: its claim, run without interruption, is a path of the interleaved system.\<close>

lemma Claim_is_a_schedule:
  assumes claim: "IdempotencyStore_Claim ctx \<lparr>is_q = session_of s tenant, is_tenant = tenant\<rparr> now wall (sy_table s) r = (tab', Inr res)"
    and idle: "sy_phase s c = Idle"
  shows "idem_run s (goto s c tab'
    (if cr_Outcome res \<in> {ClaimNew, ClaimReclaimed}
     then Owning (ir_Key r) (timestamptz (claim_lease now r)) else Idle))"
proof -
  define q where "q = session_of s tenant"
  have owner: "requireOwner ctx tenant (ik_TenantID (ir_Key r)) = None"
    using claim by (auto simp: IdempotencyStore_Claim_def split: option.splits)
  then have tenant: "tenant = ik_TenantID (ir_Key r)"
    by (auto simp: requireOwner_def split: option.splits if_splits)
  obtain t e where ins: "sql_insert q (sy_table s) r now (claim_lease now r) (claim_expires now r) = (t, e)" by fastforce
  show ?thesis
  proof (cases e)
    case None
    then have "tab' = t" "res = claim_result ClaimNew"
      using claim owner ins by (simp_all add: IdempotencyStore_Claim_def q_def)
    then show ?thesis using idem_run.step [OF idem_run.start idem_step.insert_wins [OF idle]] ins None tenant
      by (simp add: q_def)
  next
    case (Some x)
    then have t: "t = sy_table s" using ins sql_insert_error by blast
    have x: "x = NoRows" and re: "resolveExisting \<lparr>is_q = q, is_tenant = tenant\<rparr> wall (sy_table s) r (claim_lease now r) = (tab', Inr res)"
      using claim owner ins Some t by (auto simp: IdempotencyStore_Claim_def q_def split: if_splits)
    define s1 where "s1 = goto s c (sy_table s) (Resolving r (claim_lease now r))"
    have run1: "idem_run s s1"
      using idem_run.step [OF idem_run.start idem_step.insert_conflicts [OF idle]] ins Some x t tenant
      by (simp add: q_def s1_def)
    have s1: "sy_phase s1 c = Resolving r (claim_lease now r)" "sy_table s1 = sy_table s" "session_of s1 u = session_of s u" for u
      by (simp_all add: s1_def session_of_def)
    obtain t2 e2 where rc: "sql_reclaim q (sy_table s) r (claim_lease now r) = (t2, e2)" by fastforce
    show ?thesis
    proof (cases e2)
      case None
      then have "tab' = t2" "res = claim_result ClaimReclaimed" using re rc by (simp_all add: resolveExisting_def)
      moreover have "idem_run s (goto s1 c t2 (Owning (ir_Key r) (timestamptz (claim_lease now r))))"
        using idem_run.step [OF run1 idem_step.reclaim_wins [OF s1(1)]] rc None tenant by (simp add: q_def s1)
      ultimately show ?thesis by (simp add: s1_def goto_def)
    next
      case (Some y)
      then have t2: "t2 = sy_table s" using rc sql_reclaim_error by blast
      have y: "y = NoRows" using re rc Some by (auto simp: resolveExisting_def split: if_splits)
      have "idem_run s (goto s1 c (sy_table s) (Reading r))"
        using idem_run.step [OF run1 idem_step.reclaim_loses [OF s1(1)]] rc Some y t2 tenant by (simp add: q_def s1)
      then have "idem_run s (goto (goto s1 c (sy_table s) (Reading r)) c (sy_table s) Idle)"
        using idem_step.read [of "goto s1 c (sy_table s) (Reading r)" c r] by (auto intro: idem_run.step)
      moreover have "tab' = sy_table s" "\<exists>row. res = resolve_row r wall row"
        using re rc Some y t2 by (auto simp: resolveExisting_def split: sum.splits db_error.splits)
      ultimately show ?thesis by (auto simp: s1_def goto_def resolve_row_outcome split: if_splits)
    qed
  qed
qed

end
