(* ===== verification/Idempotency_Properties.thy ===== *)
theory Idempotency_Properties
  imports Idempotency_Concurrency
begin

text \<open>
  The properties of request idempotency: a duplicate replays the recorded response byte for byte, a
  claim has one live owner, the cache decides nothing, a handle settles its record once, and what is
  hashed determines the operation. The last section holds behaviours of the code that go against its
  comments, each shown on the definitions.
\<close>

section \<open>The recorder\<close>

definition recorded :: "ResponseRecorder \<Rightarrow> bool" where
  "recorded r \<longleftrightarrow> (case rr_body r of None \<Rightarrow> False | Some b \<Rightarrow>
     cb_overflowed b = (cb_max b < length (rr_sent r)) \<and> (\<not> cb_overflowed b \<longrightarrow> cb_buf b = rr_sent r))"

lemma recorded_step:
  assumes "recorded r"
  shows "recorded (recorder_step x r) \<and> map_option cb_max (rr_body (recorder_step x r)) = map_option cb_max (rr_body r)"
  using assms
  by (cases x) (auto simp: recorded_def ResponseRecorder_WriteHeader_def ResponseRecorder_Write_def
      capBuffer_Write_def Let_def split: option.splits)

lemma recorded_fold:
  "recorded r \<Longrightarrow> recorded (fold recorder_step xs r)
     \<and> map_option cb_max (rr_body (fold recorder_step xs r)) = map_option cb_max (rr_body r)"
  by (induction xs arbitrary: r) (auto simp: recorded_step)

lemma recorder_body:
  defines "rec \<equiv> \<lambda>cap xs. fold recorder_step xs (ResponseRecorder_Buffer cap NewRecorder)"
  shows "length (rr_sent (rec cap xs)) \<le> cap \<Longrightarrow> ResponseRecorder_Body (rec cap xs) = (rr_sent (rec cap xs), True)"
proof -
  have "recorded (ResponseRecorder_Buffer cap NewRecorder)"
    by (simp add: recorded_def ResponseRecorder_Buffer_def NewRecorder_def)
  from recorded_fold [OF this, of xs]
  show "length (rr_sent (rec cap xs)) \<le> cap \<Longrightarrow> ResponseRecorder_Body (rec cap xs) = (rr_sent (rec cap xs), True)"
    by (auto simp: rec_def recorded_def ResponseRecorder_Body_def ResponseRecorder_Buffer_def split: option.splits)
qed

section \<open>Replays\<close>

lemma status_16: "100 \<le> x \<Longrightarrow> x \<le> 599 \<Longrightarrow> sint (word_of_int x :: 16 word) = x"
  by (simp add: sint_sbintrunc' signed_take_bit_int_eq_self)

lemma validateKey_checks:
  assumes "validateKey ctx key = None"
  shows "insert_checks (claim_request canonicalize cfg ctx now key body)" and "ik_TenantID key \<noteq> []"
  using assms hex_of_64
  by (auto simp: validateKey_def insert_checks_def claim_request_def Fingerprint_def MaxKeyLength_def Suc_le_eq
      split: if_splits)

lemma tx_store_simps [simp]:
  "is_tenant (tx_store t w) = t" "q_tenant (is_q (tx_store t w)) = Some t"
  "q_fault (is_q (tx_store t w)) = pw_fault w"
  by (simp_all add: tx_store_def tx_querier_def)

text \<open>A database that answers answers a claim of its own tenant.\<close>

lemma Claim_healthy:
  assumes "requireOwner ctx tenant (ik_TenantID (ir_Key r)) = None" and "pw_fault w = (\<lambda>_. None)"
    and "insert_checks r"
  shows "\<exists>tab res. IdempotencyStore_Claim ctx (tx_store tenant w) now wall (pw_table w) r = (tab, Inr res)"
proof -
  have iso: "tenant_isolation (is_q (tx_store tenant w)) (ir_Key r)"
    using assms(1) by (auto simp: requireOwner_def tenant_isolation_def split: option.splits if_splits)
  show ?thesis
  proof (cases "pw_table w (ir_Key r)")
    case None
    then show ?thesis using assms iso by (simp add: IdempotencyStore_Claim_def sql_insert_def)
  next
    case (Some row)
    then have "sql_insert (is_q (tx_store tenant w)) (pw_table w) r now l e = (pw_table w, Some NoRows)" for l e
      using assms iso by (simp add: sql_insert_def)
    moreover have "\<exists>tab res. resolveExisting (tx_store tenant w) wall (pw_table w) r l = (tab, Inr res)" for l
      using Some assms iso
      by (simp add: resolveExisting_def sql_reclaim_def sql_read_def visible_row_def)
    ultimately show ?thesis using assms(1) by (simp add: IdempotencyStore_Claim_def)
  qed
qed

text \<open>A database that answers settles a claim that is in flight.\<close>

lemma settle_healthy:
  assumes "requireOwner ctx tenant (ik_TenantID k) = None" and "pw_fault w = (\<lambda>_. None)"
    and "pw_table w k = Some row" and "row_state row = IN_FLIGHT" and "100 \<le> rs_StatusCode snap" "rs_StatusCode snap \<le> 599"
  shows "\<exists>tab. IdempotencyStore_settle ctx (tx_store tenant w) now (pw_table w) k snap state = (tab, None)"
proof -
  have "tenant_isolation (is_q (tx_store tenant w)) k"
    using assms(1) by (auto simp: requireOwner_def tenant_isolation_def split: option.splits if_splits)
  then show ?thesis
    using assms by (simp add: IdempotencyStore_settle_def sql_settle_def visible_row_def status_check_def status_16)
qed

text \<open>The parts of a request that a handler served.\<close>

lemma served_parts:
  assumes route: "RequiresIdempotencyKey (rq_Method rq) (rq_Template rq)"
    and served: "Idempotency canonicalize (Some m) cap (Some tc) rq handler w = (w1, Served r)"
  obtains wa h wb a where "Begin canonicalize m (Some tc) (request_scope tc rq) (rq_Body rq) w = (wa, Some h, None)"
    and "\<not> Handle_IsReplay h" and "handler wa = (wb, a)"
    and "r = fold recorder_step (an_writes a) (ResponseRecorder_Buffer (snapshot_cap cap) NewRecorder)"
    and "w1 = settle_response m (Some tc) h r (an_Location a) wb"
  using assms
  by (auto simp: Idempotency_def FromContext_def Let_def replay_def
      split: if_splits prod.splits option.splits)

text \<open>Settling a healthy claim with a response that is to be kept leaves the response in the row.\<close>

lemma settle_response_records:
  assumes m: "m = \<lparr>m_store = postgres_store tenant, m_cfg = cfg\<rparr>"
    and owner: "requireOwner ctx tenant (ik_TenantID k) = None"
    and h: "Outcome_Owns (h_outcome h)" "\<not> h_settled h" "h_key h = k"
    and healthy: "pw_fault (w_store w) = (\<lambda>_. None)"
    and row: "pg_view (w_store w) k = Some (fp, None)"
    and body: "ResponseRecorder_Body r = (rr_sent r, True)"
    and status: "100 \<le> rr_status r" "rr_status r \<le> 599" "\<not> isRetryableStatus (rr_status r)"
  shows "\<exists>snap. pg_view (w_store (settle_response m ctx h r loc w)) k = Some (fp, Some snap)
    \<and> rs_StatusCode snap = rr_status r \<and> rs_Body snap = rr_sent r"
proof -
  define snap where "snap = handle_snapshot (cfg_Clock cfg (w_store w)) (rr_status r) (rr_sent r) (resourceIDOf loc)"
  obtain rw where rw: "pw_table (w_store w) k = Some rw" "row_state rw = IN_FLIGHT"
    using row by (auto simp: pg_view_table table_view_Some row_view_def replay_of_def split: if_splits)
  have st: "\<exists>tab. IdempotencyStore_settle ctx (tx_store tenant (w_store w)) now (pw_table (w_store w)) k snap state = (tab, None)"
    for now state
    by (rule settle_healthy [OF owner healthy rw]) (use status in \<open>simp_all add: snap_def handle_snapshot_def\<close>)
  have p: "rs_StatusCode (pg_persisted u snap) = rr_status r \<and> rs_Body (pg_persisted u snap) = rr_sent r" for u
    using status by (simp add: pg_persisted_def snap_def handle_snapshot_def status_16)
  let ?tab = "\<lambda>state. fst (IdempotencyStore_settle ctx (tx_store tenant (w_store w)) (pw_clock (w_store w)) (pw_table (w_store w)) k snap state)"
  have view: "table_view (?tab state) k = Some (fp, Some (pg_persisted (w_store w) snap))" if "state \<noteq> IN_FLIGHT" for state
  proof -
    obtain tab where "IdempotencyStore_settle ctx (tx_store tenant (w_store w)) (pw_clock (w_store w)) (pw_table (w_store w)) k snap state = (tab, None)"
      using st by blast
    with pg_settle_view(1) [OF this that] row show ?thesis by auto
  qed
  have "w_store (settle_response m ctx h r loc w) = (w_store w)\<lparr>pw_table :=
      ?tab (if 200 \<le> rr_status r \<and> rr_status r < 300 then COMPLETED else FAILED_TERMINAL)\<rparr>"
    using st [of "pw_clock (w_store w)" COMPLETED] st [of "pw_clock (w_store w)" FAILED_TERMINAL] h body status(3)
    by (auto simp: settle_response_def Handle_Complete_def Handle_FailTerminal_def Handle_settle_def m Let_def
        snap_def [symmetric] postgres_store_def IdempotencyStore_Complete_def IdempotencyStore_FailTerminal_def on_table_def)
  then show ?thesis using view p by (simp add: pg_view_table)
qed

text \<open>
  A handler that neither settles its own claim nor loses it, as one that ends within its lease, with
  the database reachable when it ends. It may change everything else, other requests included.
\<close>

definition keeps_claim :: "((pg_world, 'c) world \<Rightarrow> (pg_world, 'c) world \<times> answer) \<Rightarrow> IdempotencyKey \<Rightarrow> bool" where
  "keeps_claim handler k \<longleftrightarrow> (\<forall>w. pw_table (w_store (fst (handler w))) k = pw_table (w_store w) k
     \<and> pw_fault (w_store (fst (handler w))) = (\<lambda>_. None))"

lemma served_records:
  assumes route: "RequiresIdempotencyKey (rq_Method rq) (rq_Template rq)"
    and m: "m = \<lparr>m_store = postgres_store (tc_TenantID tc), m_cfg = cfg\<rparr>"
    and served: "Idempotency canonicalize (Some m) cap (Some tc) rq handler w = (w1, Served r)"
    and keeps: "keeps_claim handler (request_scope tc rq)"
    and fits: "length (rr_sent r) \<le> snapshot_cap cap"
    and status: "100 \<le> rr_status r" "rr_status r \<le> 599" "\<not> isRetryableStatus (rr_status r)"
  shows "(\<exists>snap. pg_view (w_store w1) (request_scope tc rq)
        = Some (Fingerprint canonicalize (rq_Body rq) (request_scope tc rq), Some snap)
      \<and> rs_StatusCode snap = rr_status r \<and> rs_Body snap = rr_sent r)
    \<and> validateKey (Some tc) (request_scope tc rq) = None"
proof -
  let ?k = "request_scope tc rq"
  obtain wa h wb a where b: "Begin canonicalize m (Some tc) ?k (rq_Body rq) w = (wa, Some h, None)"
    and h: "\<not> Handle_IsReplay h" and hd: "handler wa = (wb, a)"
    and r: "r = fold recorder_step (an_writes a) (ResponseRecorder_Buffer (snapshot_cap cap) NewRecorder)"
    and w1: "w1 = settle_response m (Some tc) h r (an_Location a) wb"
    using served_parts [OF route served] by blast
  have "m_store m (Some tc) = postgres_store (tc_TenantID tc) (Some tc)" by (simp add: m)
  note own = pg.Begin_owns [OF this b h]
  then have valid: "validateKey (Some tc) ?k = None" by blast
  have tenant: "ik_TenantID ?k = tc_TenantID tc" by (simp add: request_scope_def)
  have owner: "requireOwner (Some tc) (tc_TenantID tc) (ik_TenantID ?k) = None"
    using validateKey_checks(2) [OF valid] requireOwner_same tenant by simp
  have "pg_view (w_store wb) ?k = pg_view (w_store wa) ?k" and healthy: "pw_fault (w_store wb) = (\<lambda>_. None)"
    using keeps hd unfolding keeps_claim_def pg_view_def by (metis fst_conv)+
  then have row: "pg_view (w_store wb) ?k = Some (Fingerprint canonicalize (rq_Body rq) ?k, None)" using own by simp
  have body: "ResponseRecorder_Body r = (rr_sent r, True)" using recorder_body fits r by blast
  show ?thesis
    using settle_response_records [OF m owner _ _ _ healthy row body status] own w1 valid by blast
qed

lemma settled_replays:
  assumes route: "RequiresIdempotencyKey (rq_Method rq) (rq_Template rq)"
    and m: "m = \<lparr>m_store = postgres_store (tc_TenantID tc), m_cfg = cfg\<rparr>"
    and valid: "validateKey (Some tc) (request_scope tc rq) = None"
    and healthy: "pw_fault (w_store w) = (\<lambda>_. None)"
    and settled: "pg_view (w_store w) (request_scope tc rq)
      = Some (Fingerprint canonicalize (rq_Body rq) (request_scope tc rq), Some snap)"
  shows "\<exists>w'. Idempotency canonicalize (Some m) cap (Some tc) rq handler w
      = (w', Replayed (rs_StatusCode snap) (rs_Body snap)) \<and> pg_view (w_store w') = pg_view (w_store w)"
proof -
  let ?k = "request_scope tc rq"
  let ?r = "claim_request canonicalize (m_cfg m) (Some tc) (cfg_Clock (m_cfg m) (w_store w)) ?k (rq_Body rq)"
  have k: "ir_Key ?r = ?k" "ik_TenantID ?k = tc_TenantID tc" by (simp_all add: claim_request_def request_scope_def)
  have "requireOwner (Some tc) (tc_TenantID tc) (ik_TenantID (ir_Key ?r)) = None"
    using validateKey_checks(2) [OF valid] requireOwner_same k by simp
  from Claim_healthy [OF this healthy validateKey_checks(1) [OF valid], of "pw_clock (w_store w)" "pw_wall (w_store w)"]
  obtain s res where claim: "st_Claim (postgres_store (tc_TenantID tc) (Some tc)) (w_store w) ?r = (s, Inr res)"
    by (auto simp: postgres_claim)
  have "m_store m (Some tc) = postgres_store (tc_TenantID tc) (Some tc)" by (simp add: m)
  from pg.Begin_settled [OF this valid settled claim]
  obtain w' h where "Begin canonicalize m (Some tc) ?k (rq_Body rq) w = (w', Some h, None)" "Handle_IsReplay h"
    "h_snapshot h = Some snap" "pg_view (w_store w') = pg_view (w_store w)" by auto
  moreover have "rq_Key rq \<noteq> []" using valid by (auto simp: validateKey_def request_scope_def split: if_splits)
  ultimately show ?thesis using route by (simp add: Idempotency_def FromContext_def replay_def)
qed

lemma validateKey_tenant:
  "validateKey (Some tc) k = None \<Longrightarrow> tc_TenantID tc' = tc_TenantID tc \<Longrightarrow> validateKey (Some tc') k = None"
  by (auto simp: validateKey_def FromContext_def AssertTenant_def split: if_splits)

text \<open>
  C5: A duplicate is answered with the first response, byte for byte, and never executed again. Once a
  request on a keyed route was served with a status to be kept and a body within the cap, any later
  request with the same scope and the same fingerprint gets the status and the bytes the first client
  was sent, whatever its handler would do, and no record changes. In between any callers may run any
  statements of the store, and the retention sweep may run up to the record's expiry.
\<close>

theorem duplicate_request_replays_verbatim:
  fixes handler :: "(pg_world, 'c) world \<Rightarrow> (pg_world, 'c) world \<times> answer"
    and handler2 :: "(pg_world, 'd) world \<Rightarrow> (pg_world, 'd) world \<times> answer"
  assumes "RequiresIdempotencyKey (rq_Method rq) (rq_Template rq)"
    and "Idempotency canonicalize (Some \<lparr>m_store = postgres_store (tc_TenantID tc), m_cfg = cfg\<rparr>) cap (Some tc) rq handler w
      = (w1, Served r)"
    and "keeps_claim handler (request_scope tc rq)"
    and "length (rr_sent r) \<le> snapshot_cap cap"
    and "100 \<le> rr_status r" "rr_status r \<le> 599" "\<not> isRetryableStatus (rr_status r)"
    and "(traffic horizon)\<^sup>*\<^sup>* (pw_table (w_store w1)) (pw_table (w_store w2))"
    and "horizon \<le> row_expires_at (the (pw_table (w_store w1) (request_scope tc rq)))"
    and "pw_fault (w_store w2) = (\<lambda>_. None)"
    and "request_scope tc2 rq2 = request_scope tc rq"
    and "Fingerprint canonicalize (rq_Body rq2) (request_scope tc rq) = Fingerprint canonicalize (rq_Body rq) (request_scope tc rq)"
  shows "\<exists>w3. Idempotency canonicalize (Some \<lparr>m_store = postgres_store (tc_TenantID tc2), m_cfg = cfg2\<rparr>) cap2 (Some tc2) rq2 handler2 w2
      = (w3, Replayed (rr_status r) (rr_sent r)) \<and> pg_view (w_store w3) = pg_view (w_store w2)"
proof -
  let ?k = "request_scope tc rq"
  obtain snap where snap: "pg_view (w_store w1) ?k = Some (Fingerprint canonicalize (rq_Body rq) ?k, Some snap)"
      "rs_StatusCode snap = rr_status r" "rs_Body snap = rr_sent r"
    and valid: "validateKey (Some tc) ?k = None"
    using served_records [OF assms(1) refl assms(2-7)] by blast
  then obtain row where row: "pw_table (w_store w1) ?k = Some row" "row_state row \<noteq> IN_FLIGHT"
    by (auto simp: pg_view_table table_view_Some row_view_Some)
  have "pw_table (w_store w2) ?k = Some row" by (rule settled_stable_run [OF assms(8) row]) (use assms(9) row in simp)
  then have "pg_view (w_store w2) ?k = pg_view (w_store w1) ?k" using row by (simp add: pg_view_def)
  then have settled: "pg_view (w_store w2) (request_scope tc2 rq2)
      = Some (Fingerprint canonicalize (rq_Body rq2) (request_scope tc2 rq2), Some snap)"
    using snap assms(11,12) by simp
  have same: "tc_TenantID tc2 = tc_TenantID tc" "rq_Method rq2 = rq_Method rq" "rq_Template rq2 = rq_Template rq"
    using assms(11) by (simp_all add: request_scope_def)
  have "RequiresIdempotencyKey (rq_Method rq2) (rq_Template rq2)" using assms(1) same by simp
  moreover have "validateKey (Some tc2) (request_scope tc2 rq2) = None"
    using validateKey_tenant [OF valid same(1)] assms(11) by simp
  ultimately show ?thesis using settled_replays [OF _ refl _ assms(10) settled] snap by simp
qed

section \<open>Owners\<close>

text \<open>
  C6: A key has at most one live owner. From a system in which no caller holds a claim, along every
  interleaving of inserts, reclaims, reads, settlements, releases, crashes, sweeps and the passing of
  time in which callers settle and release within their lease and the sweep spares live claims, no
  two callers own the same key with leases that have not lapsed.
\<close>

theorem at_most_one_live_owner:
  assumes "\<And>c. sy_phase s c = Idle" and "timely_run s s'" and "live_owner s' c k" and "live_owner s' d k"
  shows "c = d"
  using leases_recorded_run [OF assms(2) leases_recorded_idle [OF assms(1)]] assms(3,4)
  unfolding leases_recorded_def by blast

text \<open>
  C16: \<open>Claim\<close> refines the interleaved system: run alone, its statements are a schedule that ends in
  ownership of the key with the lease the record asks for, where it answers NEW or RECLAIMED, and with
  the caller idle where it answers anything else; the table is the one \<open>Claim\<close> leaves.
\<close>

theorem claim_refines_interleaving:
  assumes "IdempotencyStore_Claim ctx \<lparr>is_q = session_of s tenant, is_tenant = tenant\<rparr> now wall (sy_table s) r = (tab', Inr res)"
    and "sy_phase s c = Idle"
  shows "\<exists>s'. idem_run s s' \<and> sy_table s' = tab' \<and> sy_now s' = sy_now s \<and>
    sy_phase s' = (sy_phase s)(c :=
      if cr_Outcome res \<in> {ClaimNew, ClaimReclaimed}
      then Owning (ir_Key r) (timestamptz (claim_lease now r)) else Idle)"
  using Claim_is_a_schedule [OF assms] by (intro exI conjI) (assumption | simp)+

section \<open>The cache\<close>

lemma settle_cache_irrelevant:
  assumes "m_store m ctx = m_store m' ctx" and "cfg_core (m_cfg m) = cfg_core (m_cfg m')" and "seen w = seen w'"
  shows "seen (fst (Handle_Release m ctx h w)) = seen (fst (Handle_Release m' ctx h w'))"
    and "seen (fst (Handle_Complete m ctx h status body rid w)) = seen (fst (Handle_Complete m' ctx h status body rid w'))"
    and "seen (fst (Handle_FailTerminal m ctx h status body rid w)) = seen (fst (Handle_FailTerminal m' ctx h status body rid w'))"
proof -
  have w: "w_store w' = w_store w" "cfg_Clock (m_cfg m') = cfg_Clock (m_cfg m)" "snd (seen w') = snd (seen w)"
    using assms by (simp_all add: seen_def cfg_core_def)
  show "seen (fst (Handle_Release m ctx h w)) = seen (fst (Handle_Release m' ctx h w'))"
    using assms w by (auto simp: Handle_Release_def split: prod.splits option.splits)
  show "seen (fst (Handle_Complete m ctx h status body rid w)) = seen (fst (Handle_Complete m' ctx h status body rid w'))"
    using assms w by (auto simp: Handle_Complete_def Handle_settle_def Let_def split: prod.splits option.splits)
  show "seen (fst (Handle_FailTerminal m ctx h status body rid w)) = seen (fst (Handle_FailTerminal m' ctx h status body rid w'))"
    using assms w by (auto simp: Handle_FailTerminal_def Handle_settle_def Let_def split: prod.splits option.splits)
qed

lemma settle_response_cache_irrelevant:
  assumes "m_store m ctx = m_store m' ctx" and "cfg_core (m_cfg m) = cfg_core (m_cfg m')" and "seen w = seen w'"
  shows "seen (settle_response m ctx h r loc w) = seen (settle_response m' ctx h r loc w')"
  using settle_cache_irrelevant [OF assms] by (simp add: settle_response_def Let_def split: prod.splits)

text \<open>Two handlers that do the same to what they can see, and answer the same.\<close>

definition same_handler ::
  "(('w, 'c) world \<Rightarrow> ('w, 'c) world \<times> answer) \<Rightarrow> (('w, 'd) world \<Rightarrow> ('w, 'd) world \<times> answer) \<Rightarrow> bool" where
  "same_handler f g \<longleftrightarrow> (\<forall>w w'. seen w = seen w' \<longrightarrow> seen (fst (f w)) = seen (fst (g w')) \<and> snd (f w) = snd (g w'))"

text \<open>
  C7: The cache cannot change any outcome. Whatever the two caches are and hold (none, empty, stale,
  corrupt, another key's entries, failing), the middleware over the PostgreSQL store gives the same
  reply, runs the handler in the same cases, and leaves the same table and the same metrics.
\<close>

theorem cache_cannot_change_any_outcome:
  fixes w :: "(pg_world, 'c) world" and w' :: "(pg_world, 'd) world"
  assumes core: "cfg_core cfg = cfg_core cfg'" and seen: "seen w = seen w'" and handlers: "same_handler handler handler'"
  shows "seen (fst (Idempotency canonicalize (Some \<lparr>m_store = postgres_store tenant, m_cfg = cfg\<rparr>) cap ctx rq handler w))
      = seen (fst (Idempotency canonicalize (Some \<lparr>m_store = postgres_store tenant, m_cfg = cfg'\<rparr>) cap ctx rq handler' w'))
    \<and> snd (Idempotency canonicalize (Some \<lparr>m_store = postgres_store tenant, m_cfg = cfg\<rparr>) cap ctx rq handler w)
      = snd (Idempotency canonicalize (Some \<lparr>m_store = postgres_store tenant, m_cfg = cfg'\<rparr>) cap ctx rq handler' w')"
    (is "seen (fst (?f w)) = seen (fst (?g w')) \<and> snd (?f w) = snd (?g w')")
proof -
  let ?m = "\<lparr>m_store = postgres_store tenant, m_cfg = cfg\<rparr>" and ?m' = "\<lparr>m_store = postgres_store tenant, m_cfg = cfg'\<rparr>"
  have hd: "seen (fst (handler u)) = seen (fst (handler' u')) \<and> snd (handler u) = snd (handler' u')"
    if "seen u = seen u'" for u u' using handlers that unfolding same_handler_def by blast
  have store: "m_store ?m ctx = m_store ?m' ctx" and core': "cfg_core (m_cfg ?m) = cfg_core (m_cfg ?m')"
    and s1: "m_store ?m ctx = postgres_store tenant ctx" and s2: "m_store ?m' ctx = postgres_store tenant ctx"
    using core by simp_all
  show ?thesis
  proof (cases "\<not> RequiresIdempotencyKey (rq_Method rq) (rq_Template rq) \<or> rq_Key rq = [] \<or> ctx = None")
    case True
    then show ?thesis using hd [OF seen] seen
      by (auto simp: Idempotency_def FromContext_def split: prod.splits)
  next
    case False
    then obtain tc where ctx: "ctx = Some tc" by blast
    let ?k = "request_scope tc rq"
    obtain v hp p where B: "Begin canonicalize ?m ctx ?k (rq_Body rq) w = (v, hp, p)" by (cases "Begin canonicalize ?m ctx ?k (rq_Body rq) w") auto
    obtain v' where B': "Begin canonicalize ?m' ctx ?k (rq_Body rq) w' = (v', hp, p)" and v: "seen v = seen v'"
      using pg.Begin_cache_irrelevant [OF s1 s2 core' seen, where canonicalize = canonicalize and key = ?k and body = "rq_Body rq"] B
      by (cases "Begin canonicalize ?m' ctx ?k (rq_Body rq) w'") auto
    obtain u a where H: "handler v = (u, a)" by fastforce
    obtain u' where H': "handler' v' = (u', a)" and u: "seen u = seen u'"
      using hd [OF v] H by (cases "handler' v'") auto
    show ?thesis
      using False ctx B B' H H' v u settle_response_cache_irrelevant [OF store core' u] settle_cache_irrelevant(1) [OF store core' u]
      by (auto simp: Idempotency_def FromContext_def Let_def split: option.splits)
  qed
qed

section \<open>Handles\<close>

datatype settlement = Completes int "byte list" string | Fails int "byte list" string | Releases

fun settle_with :: "('w, 'c) Manager \<Rightarrow> ctx \<Rightarrow> settlement \<Rightarrow> ('w, 'c) world \<times> Handle \<Rightarrow> ('w, 'c) world \<times> Handle" where
  "settle_with m ctx (Completes st b rid) (w, h) = (case Handle_Complete m ctx h st b rid w of (w', h', _) \<Rightarrow> (w', h'))"
| "settle_with m ctx (Fails st b rid) (w, h) = (case Handle_FailTerminal m ctx h st b rid w of (w', h', _) \<Rightarrow> (w', h'))"
| "settle_with m ctx Releases (w, h) = (case Handle_Release m ctx h w of (w', h', _) \<Rightarrow> (w', h'))"

lemma settle_with_closed:
  "h_settled h \<or> \<not> Outcome_Owns (h_outcome h) \<Longrightarrow> settle_with m ctx x (w, h) = (w, h)"
  by (cases x) (auto simp: Handle_Complete_def Handle_FailTerminal_def Handle_Release_def Handle_settle_def)

lemma settle_with_settles:
  assumes "settle_with m ctx x (w, h) = (w', h')"
  shows "h_settled h' \<or> \<not> Outcome_Owns (h_outcome h')"
  using assms
  by (cases x) (auto simp: Handle_Complete_def Handle_FailTerminal_def Handle_Release_def Handle_settle_def Let_def
      split: if_splits prod.splits option.splits)

lemma settle_all_closed:
  "h_settled h \<or> \<not> Outcome_Owns (h_outcome h) \<Longrightarrow> fold (settle_with m ctx) xs (w, h) = (w, h)"
  by (induction xs) (simp_all add: settle_with_closed)

text \<open>
  C17: A handle writes the store at most once, and one that does not own never writes. Over any sequence
  of \<open>Complete\<close>, \<open>FailTerminal\<close> and \<open>Release\<close>, with any store, everything after the first call changes
  nothing, so a deferred \<open>Release\<close> cannot undo a completion; on a handle of a replay, a conflict or a
  claim in progress nothing changes at all.
\<close>

theorem handle_settles_at_most_once:
  "fold (settle_with m ctx) (x # xs) (w, h) = settle_with m ctx x (w, h)
   \<and> (\<not> Outcome_Owns (h_outcome h) \<longrightarrow> fold (settle_with m ctx) (x # xs) (w, h) = (w, h))"
proof -
  obtain w' h' where s: "settle_with m ctx x (w, h) = (w', h')" by fastforce
  then show ?thesis
    using settle_all_closed [OF settle_with_settles [OF s], of m ctx xs w'] settle_with_closed [of h m ctx x w] by auto
qed

section \<open>Fingerprints\<close>

lemma fields_inject:
  "(\<forall>f \<in> set fs \<union> set gs. length f < 256 ^ 8) \<Longrightarrow>
   concat (map writeField fs) = concat (map writeField gs) \<Longrightarrow> fs = gs"
  using framed_inject [of fs gs] by (simp add: writeField_def [abs_def] framed_def [abs_def])

text \<open>
  C18: What is hashed determines the operation. Two requests whose fields, each at most as long as its
  length prefix can say, give the same byte stream to SHA-256 have the same tenant, merchant, method,
  path template and key, and either the same canonical body or, where neither body is JSON, the same
  bytes: no boundary between fields can be shifted and a raw body never passes for a canonical one.
\<close>

theorem fingerprint_input_determines_operation:
  assumes "concat (map writeField (fingerprint_fields canonicalize body key))
      = concat (map writeField (fingerprint_fields canonicalize body' key'))"
    and "\<forall>f \<in> set (fingerprint_fields canonicalize body key) \<union> set (fingerprint_fields canonicalize body' key').
      length f < 256 ^ 8"
  shows "key = key' \<and> canonicalize body = canonicalize body' \<and> (canonicalize body = None \<longrightarrow> body = body')"
proof -
  from fields_inject [OF assms(2,1)]
  have "fingerprint_fields canonicalize body key = fingerprint_fields canonicalize body' key'" .
  then show ?thesis by (auto simp: fingerprint_fields_def split: option.splits)
qed

section \<open>Where the code goes against its comments\<close>

lemma pool_claim_fails: "\<exists>c. st_Claim (pool_store ctx) w r = (w, Inl c)"
proof -
  have refused: "\<exists>c. IdempotencyStore_Claim ctx \<lparr>is_q = pool_querier now fault, is_tenant = t\<rparr> clock wall tab r = (tab, Inl c)"
    for t now fault clock wall tab
    by (auto simp: IdempotencyStore_Claim_def resolveExisting_def sql_insert_def sql_reclaim_def sql_read_def
        visible_row_def tenant_isolation_def pool_querier_def rls_violation_def split: option.splits db_error.splits)
  have "\<exists>c. PoolIdempotencyStore_Claim ctx (pool_querier now fault) clock wall tab r = (tab, Inl c)" for now fault clock wall tab
    using refused by (simp add: PoolIdempotencyStore_Claim_def forTenant_def split: sum.splits)
  then obtain c where "PoolIdempotencyStore_Claim ctx (pool_querier (pw_dbnow w) (pw_fault w)) (pw_clock w) (pw_wall w) (pw_table w) r
      = (pw_table w, Inl c)" by blast
  then show ?thesis by (simp add: pool_store_def on_table_def)
qed

text \<open>
  C39: The pool-backed store \<open>payment-api\<close> wires runs its statements with no tenant set, so the policy of
  the table refuses every claim: no request on a keyed route is ever executed.
\<close>

theorem pool_backed_store_serves_nothing:
  assumes "RequiresIdempotencyKey (rq_Method rq) (rq_Template rq)"
  shows "\<exists>c n. Idempotency canonicalize (Some \<lparr>m_store = pool_store, m_cfg = cfg\<rparr>) cap ctx rq handler w = (w, Problem c n)"
proof (cases "rq_Key rq = [] \<or> ctx = None")
  case True
  then show ?thesis using assms by (auto simp: Idempotency_def FromContext_def)
next
  case False
  then obtain tc where ctx: "ctx = Some tc" by blast
  have "\<exists>p. Begin canonicalize \<lparr>m_store = pool_store, m_cfg = cfg\<rparr> ctx k b w = (w, None, Some p)" for k b
    using pool_claim_fails [of ctx "w_store w" "claim_request canonicalize cfg ctx (cfg_Clock cfg (w_store w)) k b"]
    by (auto simp: Begin_def Let_def split: option.splits)
  then obtain c n where "Begin canonicalize \<lparr>m_store = pool_store, m_cfg = cfg\<rparr> ctx (request_scope tc rq) (rq_Body rq) w
      = (w, None, Some (c, n))" by (metis surj_pair)
  then show ?thesis using assms False ctx by (simp add: Idempotency_def FromContext_def)
qed

lemma scope_ignores_path:
  "\<not> str_contains (rq_Template rq) ''{merchantId}'' \<Longrightarrow> request_scope tc (rq\<lparr>rq_Path := p\<rparr>) = request_scope tc rq"
  by (simp add: request_scope_def merchantFromPath_def)

text \<open>
  C40: The scope of a request holds the path template and, of the path, only the merchant: a capture, refund
  or void of another payment with the same key and body is answered with the first payment's response.
\<close>

theorem capture_of_another_payment_is_replayed:
  assumes "rq_Method rq = ''POST''" and "rq_Template rq = route_template RouteCapturePayment"
    and "validateKey (Some tc) (request_scope tc rq) = None" and "pw_fault (w_store w) = (\<lambda>_. None)"
    and "pg_view (w_store w) (request_scope tc rq)
      = Some (Fingerprint canonicalize (rq_Body rq) (request_scope tc rq), Some snap)"
  shows "\<exists>w'. Idempotency canonicalize (Some \<lparr>m_store = postgres_store (tc_TenantID tc), m_cfg = cfg\<rparr>) cap (Some tc)
      (rq\<lparr>rq_Path := p\<rparr>) handler w = (w', Replayed (rs_StatusCode snap) (rs_Body snap))"
proof -
  have "\<not> str_contains (rq_Template rq) ''{merchantId}''"
    by (simp add: assms(2) has_prefix_def)
  note scope = scope_ignores_path [OF this]
  have "RequiresIdempotencyKey (rq_Method (rq\<lparr>rq_Path := p\<rparr>)) (rq_Template (rq\<lparr>rq_Path := p\<rparr>))"
    using assms(1,2) by (simp add: RequiresIdempotencyKey_def idempotentRoutes_def)
  from settled_replays [OF this refl, of tc w canonicalize snap cfg cap handler] assms scope show ?thesis by auto
qed

text \<open>
  A release after the own lease has lapsed deletes the claim of whoever reclaimed the key, and a third
  caller then owns it next to the reclaimer: the row's owner is in no predicate of the store.
\<close>

theorem stale_release_admits_second_owner:
  assumes checks: "insert_checks r1" and r2: "ir_Key r2 = ir_Key r1" "ir_Fingerprint r2 = ir_Fingerprint r1"
    and lapsed: "timestamptz (claim_lease now r1) < t" and live: "t \<le> timestamptz (claim_lease now r2)"
    and s: "sy_table s (ir_Key r1) = None" "\<And>c. sy_phase s c = Idle" "sy_now s \<le> t"
  shows "\<exists>s'. idem_run s s' \<and> live_owner s' 2 (ir_Key r1) \<and> live_owner s' 3 (ir_Key r1)"
proof -
  let ?k = "ir_Key r1" and ?L1 = "timestamptz (claim_lease now r1)" and ?L2 = "timestamptz (claim_lease now r2)"
  let ?t1 = "(sy_table s)(?k \<mapsto> claimed_row r1 now (claim_lease now r1) (claim_expires now r1))"
  let ?t2 = "?t1(?k \<mapsto> (claimed_row r1 now (claim_lease now r1) (claim_expires now r1))\<lparr>row_lease_owner := ir_RequestID r2,
      row_lease_expires_at := ?L2, row_request_id := ir_RequestID r2, row_trace_id := ir_TraceID r2\<rparr>)"
  let ?t3 = "?t2(?k := None)"
  let ?t4 = "?t3(?k \<mapsto> claimed_row r2 now (claim_lease now r2) (claim_expires now r2))"
  have checks2: "insert_checks r2" using checks r2 by (simp add: insert_checks_def)
  define s1 where "s1 = goto s 1 ?t1 (Owning ?k ?L1)"
  define s2 where "s2 = s1\<lparr>sy_now := t\<rparr>"
  define s3 where "s3 = goto s2 2 ?t1 (Resolving r2 (claim_lease now r2))"
  define s4 where "s4 = goto s3 2 ?t2 (Owning ?k ?L2)"
  define s5 where "s5 = goto s4 1 ?t3 Idle"
  define s6 where "s6 = goto s5 3 ?t4 (Owning ?k ?L2)"
  note defs = s1_def s2_def s3_def s4_def s5_def s6_def
  have q: "tenant_isolation (session_of x (ik_TenantID k)) k" "q_fault (session_of x u) = (\<lambda>_. None)"
    "q_now (session_of x u) = sy_now x" for x k u
    by (simp_all add: tenant_isolation_def session_of_def tx_querier_def)
  have "idem_step s (Insert 1 r1 now) s1"
    unfolding s1_def by (rule idem_step.insert_wins) (simp_all add: s sql_insert_def q checks)
  moreover have "idem_step s1 (Tick t) s2" unfolding s2_def by (rule idem_step.tick) (simp add: s1_def s)
  moreover have "idem_step s2 (Insert 2 r2 now) s3"
    unfolding s3_def by (rule idem_step.insert_conflicts) (simp_all add: s2_def s1_def s sql_insert_def q checks2 r2)
  moreover have "idem_step s3 (Reclaim 2) s4"
    unfolding s4_def r2(1) [symmetric]
    by (rule idem_step.reclaim_wins [of _ _ r2 "claim_lease now r2"])
      (simp_all add: s3_def s2_def s1_def sql_reclaim_def q visible_row_def reclaimable_def r2 claimed_row_def lapsed)
  moreover have "idem_step s4 (Release 1) s5"
    unfolding s5_def
    by (rule idem_step.release [of _ _ ?k ?L1]) (simp_all add: defs sql_delete_def q visible_row_def claimed_row_def)
  moreover have "idem_step s5 (Insert 3 r2 now) s6"
    unfolding s6_def r2(1) [symmetric]
    by (rule idem_step.insert_wins) (simp_all add: defs s sql_insert_def q checks2 r2)
  ultimately have "idem_run s s6" by (meson idem_run.intros)
  moreover have "live_owner s6 2 ?k" "live_owner s6 3 ?k" using live by (simp_all add: live_owner_def defs)
  ultimately show ?thesis by blast
qed

text \<open>
  A serialization failure, which the error classification calls retryable, reaches the client as 429;
  the middleware does not count 429 as retryable and stores the error as the final answer of the key.
\<close>

theorem retryable_conflict_is_stored_as_final:
  "mapError (ServerError \<lparr>pge_Code = SQLState_code SQLStateSerializationFailure, pge_ConstraintName = n\<rparr>) = CodeConcurrencyLimitExceeded
   \<and> e_retryable (New CodeConcurrencyLimitExceeded msg)
   \<and> \<not> isRetryableStatus (Error_HTTPStatus (New CodeConcurrencyLimitExceeded msg))"
proof -
  have "cs_retryable (lookup_spec CodeConcurrencyLimitExceeded) = True"
    "cs_category (lookup_spec CodeConcurrencyLimitExceeded) = CategoryRateLimit"
    "map_of codeHTTPOverride CodeConcurrencyLimitExceeded = None" by code_simp+
  then show ?thesis
    by (simp add: mapPgError_def Error_HTTPStatus_def isRetryableStatus_def)
qed

text \<open>
  A write the client's connection cut short is recorded as a complete body: what was sent is what the
  record keeps, not what the handler wrote.
\<close>

theorem short_write_is_recorded_as_complete:
  assumes "length p \<le> cap" and "n < length p"
  shows "ResponseRecorder_Body (fold recorder_step [WriteHeader st, Write p n] (ResponseRecorder_Buffer cap NewRecorder))
    = (take n p, True) \<and> take n p \<noteq> p"
  using assms
  by (auto simp: ResponseRecorder_Body_def ResponseRecorder_Write_def ResponseRecorder_WriteHeader_def
      ResponseRecorder_Buffer_def NewRecorder_def capBuffer_Write_def dest: arg_cong [where f = length])

section \<open>A scenario\<close>

lemma fresh_request_is_served:
  assumes route: "RequiresIdempotencyKey (rq_Method rq) (rq_Template rq)"
    and valid: "validateKey (Some tc) (request_scope tc rq) = None"
    and healthy: "pw_fault (w_store w) = (\<lambda>_. None)" and fresh: "pw_table (w_store w) (request_scope tc rq) = None"
    and handler: "\<And>v. handler v = (f v, a)" and "\<not> an_panicked a"
  shows "\<exists>w1. Idempotency canonicalize (Some \<lparr>m_store = postgres_store (tc_TenantID tc), m_cfg = cfg\<rparr>) cap (Some tc) rq handler w
    = (w1, Served (fold recorder_step (an_writes a) (ResponseRecorder_Buffer (snapshot_cap cap) NewRecorder)))"
proof -
  let ?k = "request_scope tc rq" and ?m = "\<lparr>m_store = postgres_store (tc_TenantID tc), m_cfg = cfg\<rparr>"
  let ?r = "claim_request canonicalize cfg (Some tc) (cfg_Clock cfg (w_store w)) ?k (rq_Body rq)"
  have k: "ir_Key ?r = ?k" "ik_TenantID ?k = tc_TenantID tc" by (simp_all add: claim_request_def request_scope_def)
  have owner: "requireOwner (Some tc) (tc_TenantID tc) (ik_TenantID (ir_Key ?r)) = None"
    using validateKey_checks(2) [OF valid] requireOwner_same k by simp
  obtain tab res where claim: "IdempotencyStore_Claim (Some tc) (tx_store (tc_TenantID tc) (w_store w)) (pw_clock (w_store w))
      (pw_wall (w_store w)) (pw_table (w_store w)) ?r = (tab, Inr res)"
    using Claim_healthy [OF owner healthy validateKey_checks(1) [OF valid]] by blast
  then have "res = claim_result ClaimNew" using fresh k(1) by (auto elim!: Claim_cases)
  then have "\<exists>wa h. Begin canonicalize ?m (Some tc) ?k (rq_Body rq) w = (wa, Some h, None) \<and> \<not> Handle_IsReplay h"
    using valid claim by (simp add: Begin_def Let_def postgres_store_def on_table_def decide_def Handle_IsReplay_def new_handle_def)
  moreover have "rq_Key rq \<noteq> []" using valid by (auto simp: validateKey_def request_scope_def split: if_splits)
  ultimately show ?thesis using route handler assms(6) by (auto simp: Idempotency_def FromContext_def Let_def)
qed

definition wit_tenant :: TenantContext where
  "wit_tenant = \<lparr>tc_TenantID = ''ten_A'', tc_Tier = TierPooled,
     tc_Principal = \<lparr>pr_Type = PrincipalMachine, pr_ID = ''svc'', pr_Name = []\<rparr>, tc_Scopes = [],
     tc_MerchantScope = [], tc_Environment = EnvironmentSandbox, tc_RequestID = ''req_1'',
     tc_CorrelationID = [], tc_Source = SourceToken\<rparr>"

definition wit_capture :: request where
  "wit_capture = \<lparr>rq_Method = ''POST'', rq_Template = route_template RouteCapturePayment,
     rq_Path = ''/v1/payments/pay_1/capture'', rq_Key = ''k1'', rq_Body = [7]\<rparr>"

definition wit_answer :: answer where
  "wit_answer = \<lparr>an_writes = [WriteHeader 201, Write [1, 2, 3] 3], an_Location = [], an_panicked = False\<rparr>"

definition wit_handler :: "(pg_world, unit) world \<Rightarrow> (pg_world, unit) world \<times> answer" where
  "wit_handler w = (w\<lparr>w_store := (w_store w)\<lparr>pw_fault := \<lambda>_. None\<rparr>\<rparr>, wit_answer)"

definition wit_world :: "(pg_world, unit) world" where
  "wit_world = \<lparr>w_store = \<lparr>pw_table = Map.empty, pw_clock = 0, pw_dbnow = 0, pw_wall = 0, pw_fault = \<lambda>_. None\<rparr>,
     w_cache = (), w_metrics = []\<rparr>"

definition wit_manager :: "(pg_world, unit) Manager" where
  "wit_manager = \<lparr>m_store = postgres_store (tc_TenantID wit_tenant), m_cfg = idempotency_config None\<rparr>"

lemma wit_facts:
  "tc_TenantID wit_tenant = ''ten_A''"
  "RequiresIdempotencyKey (rq_Method wit_capture) (rq_Template wit_capture)"
  "request_scope wit_tenant wit_capture =
    \<lparr>ik_TenantID = ''ten_A'', ik_MerchantID = [], ik_Method = ''POST'', ik_PathTemplate = route_template RouteCapturePayment, ik_Key = ''k1''\<rparr>"
  by (simp_all add: wit_tenant_def wit_capture_def RequiresIdempotencyKey_def idempotentRoutes_def request_scope_def
      merchantFromPath_def has_prefix_def)

lemma wit_valid: "validateKey (Some wit_tenant) (request_scope wit_tenant wit_capture) = None"
  by (simp add: validateKey_def wit_facts MaxKeyLength_def FromContext_def AssertTenant_def)

lemma wit_recorder:
  "rr_status (fold recorder_step (an_writes wit_answer) (ResponseRecorder_Buffer cap NewRecorder)) = 201"
  "rr_sent (fold recorder_step (an_writes wit_answer) (ResponseRecorder_Buffer cap NewRecorder)) = [1, 2, 3]"
  by (simp_all add: wit_answer_def ResponseRecorder_Write_def ResponseRecorder_WriteHeader_def
      ResponseRecorder_Buffer_def NewRecorder_def)

theorem duplicate_request_replays_verbatim_witness:
  "\<exists>w1 w3. Idempotency (\<lambda>_. None) (Some wit_manager) 0 (Some wit_tenant) wit_capture wit_handler wit_world
      = (w1, Served (fold recorder_step (an_writes wit_answer) (ResponseRecorder_Buffer (snapshot_cap 0) NewRecorder)))
    \<and> Idempotency (\<lambda>_. None) (Some wit_manager) 0 (Some wit_tenant) wit_capture (\<lambda>w. (w, wit_answer))
        (w1\<lparr>w_store := (w_store w1)\<lparr>pw_fault := \<lambda>_. None\<rparr>\<rparr>) = (w3, Replayed 201 [1, 2, 3])"
proof -
  let ?r = "fold recorder_step (an_writes wit_answer) (ResponseRecorder_Buffer (snapshot_cap 0) NewRecorder)"
  have "wit_handler v = (fst (wit_handler v), wit_answer)" for v by (simp add: wit_handler_def)
  then obtain w1 where w1: "Idempotency (\<lambda>_. None) (Some wit_manager) 0 (Some wit_tenant) wit_capture wit_handler wit_world
      = (w1, Served ?r)"
    using fresh_request_is_served [OF wit_facts(2) wit_valid, of wit_world wit_handler "\<lambda>v. fst (wit_handler v)" wit_answer
        "\<lambda>_. None" "idempotency_config None" 0]
    by (auto simp: wit_manager_def wit_world_def wit_answer_def)
  have keeps: "keeps_claim wit_handler k" for k by (simp add: keeps_claim_def wit_handler_def)
  have quiet: "(traffic horizon)\<^sup>*\<^sup>* (pw_table (w_store w1)) (pw_table (w_store (w1\<lparr>w_store := (w_store w1)\<lparr>pw_fault := \<lambda>_. None\<rparr>\<rparr>)))"
    for horizon by simp
  have "\<exists>w3. Idempotency (\<lambda>_. None) (Some \<lparr>m_store = postgres_store (tc_TenantID wit_tenant), m_cfg = idempotency_config None\<rparr>) 0
      (Some wit_tenant) wit_capture (\<lambda>w. (w, wit_answer)) (w1\<lparr>w_store := (w_store w1)\<lparr>pw_fault := \<lambda>_. None\<rparr>\<rparr>)
      = (w3, Replayed (rr_status ?r) (rr_sent ?r)) \<and>
      pg_view (w_store w3) = pg_view (w_store (w1\<lparr>w_store := (w_store w1)\<lparr>pw_fault := \<lambda>_. None\<rparr>\<rparr>))"
    by (rule duplicate_request_replays_verbatim [OF wit_facts(2) w1 [unfolded wit_manager_def] keeps _ _ _ _
          quiet order_refl])
      (simp_all add: wit_recorder isRetryableStatus_def snapshot_cap_def DefaultMaxSnapshotBytes_def)
  then show ?thesis using w1 by (auto simp: wit_recorder wit_manager_def)
qed

definition wit_record :: IdempotencyRecord where
  "wit_record = claim_request (\<lambda>_. None) (idempotency_config (None :: unit Cache option)) (Some wit_tenant) 0
     (request_scope wit_tenant wit_capture) [7]"

definition wit_system :: idem_system where
  "wit_system = \<lparr>sy_table = Map.empty, sy_now = 0, sy_phase = \<lambda>_. Idle\<rparr>"

definition wit_owned :: idem_system where
  "wit_owned = goto wit_system 1
     [request_scope wit_tenant wit_capture \<mapsto>
        claimed_row wit_record 0 (claim_lease 0 wit_record) (claim_expires 0 wit_record)]
     (Owning (request_scope wit_tenant wit_capture) (timestamptz (claim_lease 0 wit_record)))"

lemma wit_record_facts:
  "ir_Key wit_record = request_scope wit_tenant wit_capture" "insert_checks wit_record"
  "timestamptz (claim_lease 0 wit_record) = 90 * second"
proof -
  show "insert_checks wit_record" unfolding wit_record_def by (rule validateKey_checks(1) [OF wit_valid])
qed (simp_all add: wit_record_def claim_request_def claim_lease_def idempotency_config_def zero_time_def
      second_def timestamptz_def)

lemma wit_step: "idem_step wit_system (Insert 1 wit_record 0) wit_owned"
proof -
  have "sql_insert (session_of wit_system (ik_TenantID (ir_Key wit_record))) (sy_table wit_system) wit_record 0
      (claim_lease 0 wit_record) (claim_expires 0 wit_record) = (sy_table wit_owned, None)"
    using wit_record_facts
    by (simp add: sql_insert_def session_of_def tx_querier_def tenant_isolation_def wit_system_def wit_owned_def)
  from idem_step.insert_wins [OF _ this, of 1] show ?thesis
    by (simp add: wit_system_def wit_owned_def wit_record_facts)
qed

theorem at_most_one_live_owner_witness:
  "timely_run wit_system wit_owned \<and> {c. live_owner wit_owned c (request_scope wit_tenant wit_capture)} = {1}"
proof -
  have run: "timely_run wit_system wit_owned"
    using timely_run.step [OF timely_run.start wit_step] by (simp add: timely_def)
  have own: "live_owner wit_owned 1 (request_scope wit_tenant wit_capture)"
    by (simp add: wit_owned_def live_owner_goto wit_record_facts) (simp add: wit_system_def second_def)
  have idle: "\<And>c. sy_phase wit_system c = Idle" by (simp add: wit_system_def)
  show ?thesis using run own at_most_one_live_owner [OF idle run _ own] by blast
qed

theorem claim_refines_interleaving_witness:
  "\<exists>s'. idem_run wit_system s' \<and> sy_phase s' 1 = Owning (request_scope wit_tenant wit_capture) (90 * second)"
proof -
  have owner: "requireOwner (Some wit_tenant) ''ten_A'' (ik_TenantID (ir_Key wit_record)) = None"
    using requireOwner_same [of wit_tenant] by (simp add: wit_record_facts wit_facts)
  have claim: "IdempotencyStore_Claim (Some wit_tenant) \<lparr>is_q = session_of wit_system ''ten_A'', is_tenant = ''ten_A''\<rparr> 0 0
      (sy_table wit_system) wit_record = (sy_table wit_owned, Inr (claim_result ClaimNew))"
    using owner wit_record_facts
    by (simp add: IdempotencyStore_Claim_def sql_insert_def session_of_def tx_querier_def tenant_isolation_def
        wit_system_def wit_owned_def wit_facts)
  have "sy_phase wit_system 1 = Idle" by (simp add: wit_system_def)
  from claim_refines_interleaving [OF claim this] show ?thesis by (auto simp: wit_record_facts)
qed

text \<open>A cache that answers every lookup with a response of its own, against no cache.\<close>

definition wit_liar :: "nat Cache" where
  "wit_liar = \<lparr>ca_Get = \<lambda>_ _. CacheHit \<lparr>cs_Fingerprint = [], cs_StatusCode = 500, cs_Body = [0], cs_ResourceID = [],
      cs_CompletedAt = 0\<rparr>, ca_Set = \<lambda>n _ _ _. n + 1\<rparr>"

theorem cache_cannot_change_any_outcome_witness:
  "snd (Idempotency (\<lambda>_. None) (Some wit_manager) 0 (Some wit_tenant) wit_capture wit_handler wit_world)
   = snd (Idempotency (\<lambda>_. None) (Some \<lparr>m_store = postgres_store (tc_TenantID wit_tenant), m_cfg = idempotency_config (Some wit_liar)\<rparr>) 0
       (Some wit_tenant) wit_capture (\<lambda>w. (w\<lparr>w_store := (w_store w)\<lparr>pw_fault := \<lambda>_. None\<rparr>\<rparr>, wit_answer))
       \<lparr>w_store = w_store wit_world, w_cache = 5, w_metrics = []\<rparr>)"
proof -
  have "cfg_core (idempotency_config None :: (pg_world, unit) Config) = cfg_core (idempotency_config (Some wit_liar))"
    by (simp add: cfg_core_def idempotency_config_def)
  moreover have "seen wit_world = seen \<lparr>w_store = w_store wit_world, w_cache = 5 :: nat, w_metrics = []\<rparr>"
    by (simp add: seen_def wit_world_def)
  moreover have "same_handler wit_handler (\<lambda>w :: (pg_world, nat) world. (w\<lparr>w_store := (w_store w)\<lparr>pw_fault := \<lambda>_. None\<rparr>\<rparr>, wit_answer))"
    by (simp add: same_handler_def wit_handler_def) (simp add: seen_def)
  ultimately show ?thesis unfolding wit_manager_def
    by (rule cache_cannot_change_any_outcome [THEN conjunct2])
qed

definition wit_handle :: "Outcome \<Rightarrow> Handle" where
  "wit_handle co = new_handle (request_scope wit_tenant wit_capture) [] (claim_result ClaimInProgress) co"

theorem handle_settles_at_most_once_witness:
  "fold (settle_with wit_manager (Some wit_tenant)) [Completes 201 [1] [], Releases] (wit_world, wit_handle OutcomeInProgress)
    = (wit_world, wit_handle OutcomeInProgress)"
  using handle_settles_at_most_once [of wit_manager "Some wit_tenant" "Completes 201 [1] []" "[Releases]" wit_world
      "wit_handle OutcomeInProgress"]
  unfolding wit_handle_def new_handle_def Outcome_Owns_def Handle.simps by blast

theorem fingerprint_input_determines_operation_witness:
  "let canonicalize = (\<lambda>b :: byte list. if length b = 1 then Some [9] else None); k = request_scope wit_tenant wit_capture
   in concat (map writeField (fingerprint_fields canonicalize [1] k))
      = concat (map writeField (fingerprint_fields canonicalize [2] k)) \<and> canonicalize [1] = canonicalize [2]"
proof -
  define canonicalize where "canonicalize = (\<lambda>b :: byte list. if length b = 1 then Some [9 :: byte] else None)"
  let ?k = "request_scope wit_tenant wit_capture"
  have same: "concat (map writeField (fingerprint_fields canonicalize [1] ?k))
      = concat (map writeField (fingerprint_fields canonicalize [2] ?k))"
    by (simp add: fingerprint_fields_def canonicalize_def)
  have len: "\<forall>f \<in> set (fingerprint_fields canonicalize [1] ?k) \<union> set (fingerprint_fields canonicalize [2] ?k). length f < 256 ^ 8"
    by (simp add: fingerprint_fields_def canonicalize_def bytes_of_def fingerprintVersion_def wit_facts)
  show ?thesis using same fingerprint_input_determines_operation [OF same len]
    unfolding Let_def canonicalize_def [symmetric] by blast
qed

theorem pool_backed_store_serves_nothing_witness:
  "\<exists>c n. Idempotency (\<lambda>_. None) (Some \<lparr>m_store = pool_store, m_cfg = idempotency_config None\<rparr>) 0 (Some wit_tenant)
     wit_capture wit_handler wit_world = (wit_world, Problem c n)"
  by (rule pool_backed_store_serves_nothing) (rule wit_facts)

definition wit_settled :: "(pg_world, unit) world" where
  "wit_settled = wit_world\<lparr>w_store := (w_store wit_world)\<lparr>pw_table :=
     [request_scope wit_tenant wit_capture \<mapsto> (claimed_row wit_record 0 0 0)\<lparr>row_state := COMPLETED,
        row_response_status := Some 200, row_response_body := [4], row_completed_at := Some 0\<rparr>]\<rparr>\<rparr>"

theorem capture_of_another_payment_is_replayed_witness:
  "\<exists>w'. Idempotency (\<lambda>_. None) (Some wit_manager) 0 (Some wit_tenant)
     (wit_capture\<lparr>rq_Path := ''/v1/payments/pay_2/capture''\<rparr>) wit_handler wit_settled = (w', Replayed 200 [4])"
proof -
  define snap where "snap = \<lparr>rs_StatusCode = 200, rs_Body = [4 :: byte], rs_ResourceID = [], rs_CompletedAt = 0\<rparr>"
  have "pg_view (w_store wit_settled) (request_scope wit_tenant wit_capture)
      = Some (Fingerprint (\<lambda>_. None) (rq_Body wit_capture) (request_scope wit_tenant wit_capture), Some snap)"
    by (simp add: wit_settled_def pg_view_def table_view_def row_view_def claimed_row_def replay_of_def snap_def wit_record_def
        claim_request_def wit_capture_def)
  from capture_of_another_payment_is_replayed [OF _ _ wit_valid _ this]
  show ?thesis unfolding wit_manager_def
    by (simp add: snap_def wit_capture_def wit_settled_def wit_world_def)
qed

end
