(* ===== verification/Float64.thy ===== *)
theory Float64
  imports Prelude Complex_Main "HOL-Library.Log_Nat"
begin

text \<open>
  Go's \<open>float64\<close> where the code computes with it: rates, multipliers and numbers that come out of a
  JSON document. A finite \<open>float64\<close> is the rational number it stands for, and \<open>fl64\<close> is the rounding
  that ends every operation: to 53 significant bits, ties to even. The exponent is unbounded, so
  overflow to infinity, subnormal numbers, the sign of zero and NaN are not represented; the values the
  program computes with stay far from both ends of the range.

  The rounding is monotone and exact on every number with at most 53 significant bits, in particular on
  the integers up to \<open>2 ^ 53\<close>.
\<close>

section \<open>Rounding\<close>

text \<open>The binary exponent of a positive number, from the lengths of numerator and denominator.\<close>

definition fl_exp :: "rat \<Rightarrow> int" where
  "fl_exp x = (let (n, d) = quotient_of x; e = bitlen n - bitlen d
     in if 2 powi e \<le> x then e else e - 1)"

definition round_half_even :: "rat \<Rightarrow> int" where
  "round_half_even x = (let f = \<lfloor>x\<rfloor>; r = x - of_int f
     in if r < 1 / 2 then f else if 1 / 2 < r then f + 1 else if even f then f else f + 1)"

definition fl64 :: "rat \<Rightarrow> rat" where
  "fl64 x = (if x = 0 then 0
     else let e = fl_exp \<bar>x\<bar> - 52 in sgn x * of_int (round_half_even (\<bar>x\<bar> / 2 powi e)) * 2 powi e)"

text \<open>The conversion of a \<open>float64\<close> to an integer type drops the fraction; in range only.\<close>

definition float_trunc :: "rat \<Rightarrow> int" where
  "float_trunc x = (if 0 \<le> x then \<lfloor>x\<rfloor> else \<lceil>x\<rceil>)"

section \<open>Decimal text\<close>

text \<open>
  \<open>strconv.FormatFloat(x, 'g', -1, 64)\<close>: the shortest decimal that reads back as \<open>x\<close>, the nearest one
  of that length, in exponent form when the decimal exponent is below -4 or at least 6.
\<close>

definition dec_exp :: "rat \<Rightarrow> int" where
  "dec_exp x = (let (n, d) = quotient_of x;
      e = int (length (dec_of_nat (nat n))) - int (length (dec_of_nat (nat d)))
     in if 10 powi e \<le> x then e else e - 1)"

definition digits_at :: "rat \<Rightarrow> int \<Rightarrow> nat \<Rightarrow> int" where
  "digits_at x e k = round_half_even (x / 10 powi (e - int k + 1))"

definition shortest_len :: "rat \<Rightarrow> int \<Rightarrow> nat" where
  "shortest_len x e =
     (case filter (\<lambda>k. fl64 (of_int (digits_at x e k) * 10 powi (e - int k + 1)) = x) [1..<18] of
        [] \<Rightarrow> 17
      | k # ks \<Rightarrow> k)"

definition strip_zeros :: "string \<Rightarrow> string" where
  "strip_zeros s = rev (dropWhile (\<lambda>c. c = CHR ''0'') (rev s))"

definition exp_form :: "string \<Rightarrow> int \<Rightarrow> string" where
  "exp_form digs ex =
     take 1 digs @ (if length digs \<le> 1 then [] else CHR ''.'' # drop 1 digs) @ CHR ''e'' #
     (if ex < 0 then CHR ''-'' else CHR ''+'') #
     (let d = dec_of_nat (nat \<bar>ex\<bar>) in if length d < 2 then CHR ''0'' # d else d)"

definition plain_form :: "string \<Rightarrow> int \<Rightarrow> string" where
  "plain_form digs dp =
     (if 0 < dp then take (nat dp) digs @ replicate (nat dp - length digs) CHR ''0'' else ''0'') @
     (if int (length digs) \<le> dp then []
      else CHR ''.'' # replicate (nat (- dp)) CHR ''0'' @ drop (nat dp) digs)"

definition format_pos :: "rat \<Rightarrow> string" where
  "format_pos x =
     (let e = dec_exp x;
          k = shortest_len x e;
          ds = dec_of_nat (nat (digits_at x e k));
          dp = int (length ds) + e - int k + 1
      in if dp - 1 < -4 \<or> 6 \<le> dp - 1 then exp_form (strip_zeros ds) (dp - 1)
         else plain_form (strip_zeros ds) dp)"

definition FormatFloat_g :: "rat \<Rightarrow> string" where
  "FormatFloat_g x = (if x = 0 then ''0'' else (if x < 0 then ''-'' else []) @ format_pos \<bar>x\<bar>)"

section \<open>Properties\<close>

lemma bitlen_int_bounds:
  assumes "0 < (n :: int)"
  shows "2 powi (bitlen n - 1) \<le> (of_int n :: rat)" and "(of_int n :: rat) < 2 powi bitlen n"
proof -
  have b: "2 ^ nat (bitlen n - 1) \<le> n" "n < 2 ^ nat (bitlen n)" and p: "1 \<le> bitlen n"
    using bitlen_bounds [OF assms] assms bitlen_le_iff_power [of n 0] by (auto simp: not_le [symmetric])
  have "(2 :: rat) powi (bitlen n - 1) = of_int (2 ^ nat (bitlen n - 1))" "(2 :: rat) powi bitlen n = of_int (2 ^ nat (bitlen n))"
    using p by (simp_all add: power_int_def)
  then show "2 powi (bitlen n - 1) \<le> (of_int n :: rat)" "(of_int n :: rat) < 2 powi bitlen n"
    using b by (simp_all only: of_int_le_iff of_int_less_iff)
qed

lemma fl_exp_bounds:
  assumes x: "0 < x"
  shows "2 powi fl_exp x \<le> x" and "x < 2 powi (fl_exp x + 1)"
proof -
  obtain n d where q: "quotient_of x = (n, d)" by (cases "quotient_of x")
  have d: "0 < d" using quotient_of_denom_pos [OF q] .
  have xe: "x = of_int n / of_int d" using quotient_of_div [OF q] .
  have n: "0 < n" using x xe d by (simp add: zero_less_divide_iff)
  define e where "e = bitlen n - bitlen d"
  note bn = bitlen_int_bounds [OF n] and bd = bitlen_int_bounds [OF d]
  have lo: "2 powi (e - 1) \<le> x"
  proof -
    have "(2 :: rat) powi (e - 1) = 2 powi (bitlen n - 1) / 2 powi bitlen d"
      by (simp add: e_def power_int_diff power_int_add field_simps)
    also have "\<dots> \<le> of_int n / of_int d"
      using bn bd n d by (intro frac_le) (auto intro: less_imp_le)
    finally show ?thesis using xe by simp
  qed
  have hi: "x < 2 powi (e + 1)"
  proof -
    have "of_int n / of_int d < 2 powi bitlen n / (2 powi (bitlen d - 1) :: rat)"
      using bn bd n d by (intro frac_less) auto
    also have "\<dots> = 2 powi (e + 1)"
      by (simp add: e_def power_int_diff power_int_add field_simps)
    finally show ?thesis using xe by simp
  qed
  have "fl_exp x = (if 2 powi e \<le> x then e else e - 1)" by (simp add: fl_exp_def q e_def)
  then show "2 powi fl_exp x \<le> x" "x < 2 powi (fl_exp x + 1)" using lo hi by (auto split: if_splits)
qed

lemma round_half_even_of_int [simp]: "round_half_even (of_int n) = n"
  by (simp add: round_half_even_def)

lemma round_half_even_mono: "x \<le> y \<Longrightarrow> round_half_even x \<le> round_half_even y"
proof -
  assume xy: "x \<le> y"
  then have f: "\<lfloor>x\<rfloor> \<le> \<lfloor>y\<rfloor>" by (rule floor_mono)
  show ?thesis
  proof (cases "\<lfloor>x\<rfloor> = \<lfloor>y\<rfloor>")
    case True
    then show ?thesis using xy by (auto simp: round_half_even_def Let_def)
  next
    case False
    then have "\<lfloor>x\<rfloor> + 1 \<le> \<lfloor>y\<rfloor>" using f by simp
    then show ?thesis by (auto simp: round_half_even_def Let_def)
  qed
qed

lemma round_half_even_le: "x \<le> of_int n \<Longrightarrow> round_half_even x \<le> n"
  using round_half_even_mono [of x "of_int n"] by simp

lemma le_round_half_even: "of_int n \<le> x \<Longrightarrow> n \<le> round_half_even x"
  using round_half_even_mono [of "of_int n" x] by simp

lemma fl64_0 [simp]: "fl64 0 = 0"
  by (simp add: fl64_def)

lemma fl64_neg: "fl64 (- x) = - fl64 x"
  by (simp add: fl64_def Let_def)

lemma fl64_pos_bounds:
  assumes x: "0 < x"
  shows "2 powi fl_exp x \<le> fl64 x" and "fl64 x \<le> 2 powi (fl_exp x + 1)"
proof -
  define e where "e = fl_exp x - 52"
  have fe: "fl64 x = of_int (round_half_even (x / 2 powi e)) * 2 powi e"
    using x by (simp add: fl64_def e_def Let_def)
  have lo: "of_int (2 ^ 52) \<le> x / 2 powi e"
    using fl_exp_bounds(1) [OF x] by (simp add: e_def power_int_diff field_simps)
  have hi: "x / 2 powi e \<le> of_int (2 ^ 53)"
    using fl_exp_bounds(2) [OF x] by (simp add: e_def power_int_diff power_int_add field_simps)
  have "of_int (2 ^ 52) * 2 powi e \<le> fl64 x"
    unfolding fe using le_round_half_even [OF lo] by (intro mult_right_mono) (simp_all only: of_int_le_iff, simp)
  then show "2 powi fl_exp x \<le> fl64 x" by (simp add: e_def power_int_diff)
  have "fl64 x \<le> of_int (2 ^ 53) * 2 powi e"
    unfolding fe using round_half_even_le [OF hi] by (intro mult_right_mono) (simp_all only: of_int_le_iff, simp)
  then show "fl64 x \<le> 2 powi (fl_exp x + 1)" by (simp add: e_def power_int_diff power_int_add)
qed

lemma fl64_pos: "0 < x \<Longrightarrow> 0 < fl64 x"
  using fl64_pos_bounds(1) [of x] by (auto intro: less_le_trans [rotated])

lemma fl_exp_mono:
  assumes x: "0 < x" and xy: "x \<le> y"
  shows "fl_exp x \<le> fl_exp y"
proof (rule ccontr)
  assume "\<not> fl_exp x \<le> fl_exp y"
  then have "fl_exp y + 1 \<le> fl_exp x" by simp
  then have "(2 :: rat) powi (fl_exp y + 1) \<le> 2 powi fl_exp x" by (intro power_int_increasing) auto
  then show False using fl_exp_bounds [of x] fl_exp_bounds [of y] x xy by auto
qed

lemma fl64_mono_pos:
  assumes x: "0 < x" and xy: "x \<le> y"
  shows "fl64 x \<le> fl64 y"
proof (cases "fl_exp x = fl_exp y")
  case True
  have "x / 2 powi (fl_exp y - 52) \<le> y / 2 powi (fl_exp y - 52)" using xy by (intro divide_right_mono) auto
  then show ?thesis using x xy True
    by (simp add: fl64_def Let_def round_half_even_mono)
next
  case False
  then have "fl_exp x + 1 \<le> fl_exp y" using fl_exp_mono [OF assms] by simp
  then have "(2 :: rat) powi (fl_exp x + 1) \<le> 2 powi fl_exp y" by (intro power_int_increasing) auto
  then show ?thesis using fl64_pos_bounds(2) [OF x] fl64_pos_bounds(1) [of y] x xy by linarith
qed

lemma fl64_mono: "x \<le> y \<Longrightarrow> fl64 x \<le> fl64 y"
proof -
  assume xy: "x \<le> y"
  consider "0 < x" | "x \<le> 0" "0 \<le> y" | "y < 0" by linarith
  then show ?thesis
  proof cases
    case 1
    then show ?thesis using xy by (rule fl64_mono_pos)
  next
    case 2
    have "fl64 x \<le> 0" using 2 fl64_pos [of "- x"] by (cases "x = 0") (auto simp: fl64_neg)
    moreover have "0 \<le> fl64 y" using 2 fl64_pos [of y] by (cases "y = 0") auto
    ultimately show ?thesis by simp
  next
    case 3
    then show ?thesis using fl64_mono_pos [of "- y" "- x"] xy by (simp add: fl64_neg)
  qed
qed

lemma fl64_exact_pos:
  assumes m: "0 < m" "m \<le> 2 ^ 53" and x: "x = of_int m * 2 powi k"
  shows "fl64 x = x"
proof -
  have pos: "0 < x" using m x by simp
  define e where "e = fl_exp x - 52"
  have "\<exists>n. x / 2 powi e = of_int n"
  proof (cases "e \<le> k")
    case True
    have "(2 :: rat) powi k = 2 powi (k - e) * 2 powi e" by (simp add: power_int_diff)
    then have "x / 2 powi e = of_int m * 2 powi (k - e)" using x by simp
    also have "\<dots> = of_int (m * 2 ^ nat (k - e))" using True by (simp add: power_int_def)
    finally have "x / 2 powi e = of_int (m * 2 ^ nat (k - e))" .
    then show ?thesis by blast
  next
    case False
    have le: "(2 :: rat) powi (e + 52) \<le> of_int m * 2 powi k"
      using fl_exp_bounds(1) [OF pos] x by (simp add: e_def)
    have "(2 :: rat) powi (53 + k) \<le> 2 powi (e + 52)" using False by (intro power_int_increasing) auto
    also have "\<dots> \<le> of_int m * 2 powi k" by (rule le)
    finally have "(2 ^ 53 :: rat) * 2 powi k \<le> of_int m * 2 powi k"
      by (simp add: power_int_add)
    then have "(2 ^ 53 :: rat) \<le> of_int m" by (simp add: mult_le_cancel_right)
    moreover have "of_int m \<le> (2 ^ 53 :: rat)" using m(2) by (metis of_int_le_iff of_int_numeral of_int_power)
    ultimately have mm: "(of_int m :: rat) = 2 ^ 53" by simp
    have "\<not> k + 54 \<le> e + 52"
    proof
      assume "k + 54 \<le> e + 52"
      then have "(2 :: rat) powi (k + 54) \<le> 2 powi (e + 52)" by (intro power_int_increasing) auto
      then have "(2 :: rat) powi (k + 54) \<le> 2 ^ 53 * 2 powi k" using le mm by simp
      then show False by (simp add: power_int_add)
    qed
    then have "e = k + 1" using False by simp
    then have "x / 2 powi e = of_int (2 ^ 52)" using x mm by (simp add: power_int_add)
    then show ?thesis by blast
  qed
  then obtain n where n: "x / 2 powi e = of_int n" by blast
  have "fl64 x = of_int (round_half_even (x / 2 powi e)) * 2 powi e"
    using pos by (simp add: fl64_def e_def Let_def)
  also have "\<dots> = of_int n * 2 powi e" by (simp only: n round_half_even_of_int)
  also have "\<dots> = x" using n by (simp add: field_simps)
  finally show ?thesis .
qed

lemma fl64_exact:
  assumes m: "\<bar>m\<bar> \<le> 2 ^ 53" and x: "x = of_int m * 2 powi k"
  shows "fl64 x = x"
proof -
  consider "m = 0" | "0 < m" | "m < 0" by linarith
  then show ?thesis
  proof cases
    case 3
    then have "fl64 (- x) = - x" using m x by (intro fl64_exact_pos [of "- m" _ k]) auto
    then show ?thesis by (simp add: fl64_neg)
  qed (use m x fl64_exact_pos [of m x k] in auto)
qed

lemma fl64_of_int [simp]: "\<bar>n\<bar> \<le> 2 ^ 53 \<Longrightarrow> fl64 (of_int n) = of_int n"
  by (rule fl64_exact [of n _ 0]) auto

lemma round_half_even_error: "of_int (round_half_even y) \<le> y + 1 / 2"
proof -
  have f: "of_int \<lfloor>y\<rfloor> \<le> y" by simp
  have "of_int \<lfloor>y\<rfloor> \<le> y + 1 / 2" using f by linarith
  moreover have "of_int (\<lfloor>y\<rfloor> + 1) \<le> y + 1 / 2" if "\<not> y - of_int \<lfloor>y\<rfloor> < 1 / 2" using that by simp
  ultimately show ?thesis unfolding round_half_even_def Let_def by (simp only: split: if_splits) auto
qed

text \<open>Half a unit in the last of 53 places.\<close>

lemma fl64_relative_error:
  assumes "0 \<le> x"
  shows "fl64 x \<le> x * (1 + 1 / 2 ^ 53)"
proof (cases "x = 0")
  case False
  then have x: "0 < x" using assms by simp
  define e where "e = fl_exp x - 52"
  define y where "y = x / 2 powi e"
  have lo: "2 ^ 52 \<le> y"
    using fl_exp_bounds(1) [OF x] by (simp add: y_def e_def power_int_diff field_simps)
  have "of_int (round_half_even y) \<le> y + 1 / 2" by (rule round_half_even_error)
  also have "\<dots> \<le> y * (1 + 1 / 2 ^ 53)" using lo by (simp add: field_simps)
  finally have "of_int (round_half_even y) * 2 powi e \<le> y * (1 + 1 / 2 ^ 53) * 2 powi e"
    by (intro mult_right_mono) auto
  also have "\<dots> = x * (1 + 1 / 2 ^ 53)" by (simp add: y_def)
  finally show ?thesis using x by (simp add: fl64_def e_def y_def Let_def)
qed simp

lemma fl64_nonneg: "0 \<le> x \<Longrightarrow> 0 \<le> fl64 x"
  using fl64_mono [of 0 x] by simp

text \<open>The number of decimal digits.\<close>

lemma length_dec_bounds: "0 < n \<Longrightarrow> 10 ^ (length (dec_of_nat n) - 1) \<le> n" "n < 10 ^ length (dec_of_nat n)"
proof (induction n rule: dec_of_nat.induct)
  case (1 n)
  {
    case 1
    show ?case
    proof (cases "n < 10")
      case False
      have "10 ^ (length (dec_of_nat (n div 10)) - 1) \<le> n div 10" using "1.IH"(1) [OF False] False by simp
      then have "10 * 10 ^ (length (dec_of_nat (n div 10)) - 1) \<le> n" by simp
      moreover have "length (dec_of_nat (n div 10)) \<noteq> 0" by simp
      ultimately show ?thesis using False
        by (subst dec_of_nat.simps) (simp add: power_eq_if split: if_splits)
    qed (use 1 in \<open>simp add: dec_of_nat.simps [of n]\<close>)
  next
    case 2
    show ?case
    proof (cases "n < 10")
      case False
      have "n div 10 < 10 ^ length (dec_of_nat (n div 10))" using "1.IH"(2) [OF False] .
      then have "n < 10 * 10 ^ length (dec_of_nat (n div 10))" by linarith
      then show ?thesis using False by (subst dec_of_nat.simps) simp
    qed (simp add: dec_of_nat.simps [of n])
  }
qed

lemma dec_len_int_bounds:
  assumes "0 < (n :: int)"
  shows "10 powi (int (length (dec_of_nat (nat n))) - 1) \<le> (of_int n :: rat)"
    and "(of_int n :: rat) < 10 powi int (length (dec_of_nat (nat n)))"
proof -
  let ?l = "length (dec_of_nat (nat n))"
  have "(10 :: nat) ^ (?l - 1) \<le> nat n" "nat n < 10 ^ ?l"
    using length_dec_bounds [of "nat n"] assms by auto
  then have b: "(10 :: int) ^ (?l - 1) \<le> n" "n < 10 ^ ?l"
    using assms by (metis int_nat_eq less_le of_nat_le_iff of_nat_numeral of_nat_power,
        metis int_nat_eq less_le of_nat_less_iff of_nat_numeral of_nat_power)
  have l: "?l \<noteq> 0" by simp
  have "(10 :: rat) powi (int ?l - 1) = of_int (10 ^ (?l - 1))" "(10 :: rat) powi int ?l = of_int (10 ^ ?l)"
    using l by (simp_all add: power_int_def nat_diff_distrib)
  then show "10 powi (int ?l - 1) \<le> (of_int n :: rat)" "(of_int n :: rat) < 10 powi int ?l"
    using b by (simp_all only: of_int_le_iff of_int_less_iff)
qed

lemma dec_exp_lower:
  assumes x: "0 < x"
  shows "x < 10 powi (dec_exp x + 1)" and "10 powi dec_exp x \<le> x"
proof -
  obtain n d where q: "quotient_of x = (n, d)" by (cases "quotient_of x")
  have d: "0 < d" using quotient_of_denom_pos [OF q] .
  have xe: "x = of_int n / of_int d" using quotient_of_div [OF q] .
  have n: "0 < n" using x xe d by (simp add: zero_less_divide_iff)
  let ?n = "int (length (dec_of_nat (nat n)))" and ?d = "int (length (dec_of_nat (nat d)))"
  define e where "e = ?n - ?d"
  note bn = dec_len_int_bounds [OF n] and bd = dec_len_int_bounds [OF d]
  have lo: "10 powi (e - 1) \<le> x"
  proof -
    have "(10 :: rat) powi (e - 1) = 10 powi (?n - 1) / 10 powi ?d"
      by (simp add: e_def power_int_diff power_int_add field_simps)
    also have "\<dots> \<le> of_int n / of_int d"
      using bn bd n d by (intro frac_le) (auto intro: less_imp_le)
    finally show ?thesis using xe by simp
  qed
  have hi: "x < 10 powi (e + 1)"
  proof -
    have "of_int n / of_int d < 10 powi ?n / (10 powi (?d - 1) :: rat)"
      using bn bd n d by (intro frac_less) auto
    also have "\<dots> = 10 powi (e + 1)"
      by (simp add: e_def power_int_diff power_int_add field_simps)
    finally show ?thesis using xe by simp
  qed
  have "dec_exp x = (if 10 powi e \<le> x then e else e - 1)" by (simp add: dec_exp_def q e_def)
  then show "x < 10 powi (dec_exp x + 1)" "10 powi dec_exp x \<le> x" using lo hi by (auto split: if_splits)
qed

text \<open>From a million on, \<open>FormatFloat\<close> uses the exponent form, which no integer does.\<close>

lemma shortest_len_pos: "1 \<le> shortest_len x e"
proof (cases "filter (\<lambda>k. fl64 (of_int (digits_at x e k) * 10 powi (e - int k + 1)) = x) [1..<18]")
  case (Cons k ks)
  have "k \<in> set (filter (\<lambda>k. fl64 (of_int (digits_at x e k) * 10 powi (e - int k + 1)) = x) [1..<18])"
    unfolding Cons by simp
  then have "k \<in> {1..<18}" by (simp only: set_filter set_upt mem_Collect_eq)
  then show ?thesis unfolding shortest_len_def Cons by simp
qed (simp add: shortest_len_def)

lemma FormatFloat_g_large:
  assumes x: "1000000 \<le> x"
  shows "CHR ''e'' \<in> set (FormatFloat_g x)"
proof -
  define e where "e = dec_exp x"
  define k where "k = shortest_len x e"
  define m where "m = digits_at x e k"
  have k: "1 \<le> k" unfolding k_def by (rule shortest_len_pos)
  have "(10 :: rat) powi 6 < 10 powi (e + 1)"
    using dec_exp_lower(1) [of x] x by (simp add: e_def)
  then have "\<not> e + 1 \<le> 6" using power_int_increasing [of "e + 1" 6 "10 :: rat"] by linarith
  then have e: "6 \<le> e" by simp
  have "of_int (10 ^ (k - 1)) \<le> x / 10 powi (e - int k + 1)"
  proof -
    have "(10 :: rat) powi e = 10 powi int (k - 1) * 10 powi (e - int k + 1)"
      using k by (subst power_int_add [symmetric]) (auto simp: of_nat_diff)
    then show ?thesis using dec_exp_lower(2) [of x] x by (simp add: e_def [symmetric] field_simps)
  qed
  then have "10 ^ (k - 1) \<le> m" unfolding m_def digits_at_def by (rule le_round_half_even)
  then have "10 ^ (k - 1) \<le> nat m" by (simp add: le_nat_iff)
  then have "10 ^ (k - 1) < (10 :: nat) ^ length (dec_of_nat (nat m))"
    using length_dec_bounds(2) [of "nat m"] by (rule le_less_trans)
  then have "k \<le> length (dec_of_nat (nat m))" using k by (simp add: power_strict_increasing_iff)
  then have "6 \<le> int (length (dec_of_nat (nat m))) + e - int k + 1 - 1" using e by simp
  then have "format_pos x = exp_form (strip_zeros (dec_of_nat (nat m))) (int (length (dec_of_nat (nat m))) + e - int k + 1 - 1)"
    by (simp only: format_pos_def Let_def e_def [symmetric] k_def [symmetric] m_def [symmetric] if_True simp_thms)
  then show ?thesis using x by (simp add: FormatFloat_g_def exp_form_def)
qed

end
