(* ===== verification/Audit_Record.thy ===== *)
theory Audit_Record
  imports Shared_Kernel Calendar Float64 Framing
begin

text \<open>
  The hash-chained audit record of \<open>src/internal/domain/audit/record.go\<close>: actors, outcomes and the
  closed set of actions, the record with its canonical snapshots and its digest, and the chain with
  \<open>Append\<close> and \<open>Verify\<close>. The digest is SHA-256 of the framed fields as the code computes it.

  A snapshot is a \<open>map[string]any\<close>, here an association list with distinct keys, or \<open>None\<close> for the nil
  map. A value of a type outside the switch of \<open>writeCanonical\<close> carries the two texts the program can
  take of it, that of \<open>stringify\<close> and the value its JSON encoding decodes to. Strings are valid UTF-8,
  so that the range over runes writes back the bytes it reads. Copies of snapshots are the snapshots:
  nothing in the model shares storage.
\<close>

section \<open>Actors, outcomes, actions\<close>

record Actor =
  ac_Type :: string
  ac_ID :: string
  ac_Name :: string
  ac_IP :: string
  ac_UserAgent :: string
  ac_OnBehalfOf :: string

definition actorTypes :: "string list" where
  "actorTypes = [''USER'', ''SERVICE'', ''SYSTEM'']"

definition ActorType_IsValid :: "string \<Rightarrow> bool" where
  "ActorType_IsValid t \<longleftrightarrow> t \<in> set actorTypes"

definition Actor_Validate :: "Actor \<Rightarrow> Code option" where
  "Actor_Validate a =
     (if \<not> ActorType_IsValid (ac_Type a) then Some CodeValidationFailed
      else if trim_space (ac_ID a) = [] then Some CodeValidationFailed
      else None)"

definition outcomes :: "string list" where
  "outcomes = [''SUCCESS'', ''FAILURE'', ''DENIED'']"

definition AuditOutcome_IsValid :: "string \<Rightarrow> bool" where
  "AuditOutcome_IsValid oc \<longleftrightarrow> oc \<in> set outcomes"

text \<open>Each action with whether it requires a reason.\<close>

definition actions :: "(string \<times> bool) list" where
  "actions =
     [(''merchant.created'', False), (''merchant.approved'', True), (''merchant.suspended'', True),
      (''merchant.terminated'', True), (''configuration.changed'', True), (''routing.changed'', True),
      (''credential.rotated'', True), (''payment.created'', False), (''payment.captured'', False),
      (''payment.refunded'', False), (''payment.voided'', False), (''workflow.signal'', False),
      (''gate.approved'', True), (''admin.action'', True), (''auth.login'', False),
      (''authz.permission_denied'', False)]"

definition Action_IsValid :: "string \<Rightarrow> bool" where
  "Action_IsValid a \<longleftrightarrow> map_of actions a \<noteq> None"

definition RequiresReason :: "string \<Rightarrow> bool" where
  "RequiresReason a \<longleftrightarrow> map_of actions a = Some True"

definition ParseAction :: "string \<Rightarrow> string outcome" where
  "ParseAction s = (let v = trim_space s in if Action_IsValid v then Inr v else Inl CodeValidationFailed)"

definition AllActions :: "string list" where
  "AllActions = sort (map fst actions)"

section \<open>Canonical snapshots\<close>

datatype json_value =
    JNull
  | JObject "(string \<times> json_value) list"
  | JList "json_value list"
  | JString string
  | JBool bool
  | JInt int64
  | JUint "64 word"
  | JFloat rat
  | JTime time
  | JOther string json_value

type_synonym snapshot = "(string \<times> json_value) list option"

definition quote_char :: "char \<Rightarrow> string" where
  "quote_char c =
     (if c = CHR 0x22 then [CHR 0x5C, CHR 0x22]
      else if c = CHR 0x5C then [CHR 0x5C, CHR 0x5C]
      else if c = CHR 0x0A then [CHR 0x5C, CHR ''n'']
      else if c = CHR 0x0D then [CHR 0x5C, CHR ''r'']
      else if c = CHR 0x09 then [CHR 0x5C, CHR ''t'']
      else if c = CHR 0x08 then [CHR 0x5C, CHR ''b'']
      else if c = CHR 0x0C then [CHR 0x5C, CHR ''f'']
      else if (of_char c :: nat) < 32
      then CHR 0x5C # ''u00'' @ [hex_digit (of_char c div 16), hex_digit (of_char c mod 16)]
      else [c])"

definition quoteJSON :: "string \<Rightarrow> string" where
  "quoteJSON s = CHR 0x22 # concat (map quote_char s) @ [CHR 0x22]"

fun writeCanonical :: "json_value \<Rightarrow> string" where
  "writeCanonical JNull = ''null''"
| "writeCanonical (JObject kvs) =
     CHR 0x7B # str_join CHR '','' (map (\<lambda>(k, s). quoteJSON k @ CHR '':'' # s)
       (sort_key fst (map (\<lambda>(k, v). (k, writeCanonical v)) kvs))) @ [CHR 0x7D]"
| "writeCanonical (JList vs) = CHR 0x5B # str_join CHR '','' (map writeCanonical vs) @ [CHR 0x5D]"
| "writeCanonical (JString s) = quoteJSON s"
| "writeCanonical (JBool b) = (if b then ''true'' else ''false'')"
| "writeCanonical (JInt i) = format_int64 i"
| "writeCanonical (JUint n) = dec_of_nat (unat n)"
| "writeCanonical (JFloat x) = FormatFloat_g x"
| "writeCanonical (JTime t) = quoteJSON (rfc3339nano t)"
| "writeCanonical (JOther s v) = quoteJSON s"

text \<open>A nil map still has the map's type, so it is written as an empty object.\<close>

definition canonicalJSON :: "snapshot \<Rightarrow> string" where
  "canonicalJSON s = writeCanonical (JObject (case s of None \<Rightarrow> [] | Some kvs \<Rightarrow> kvs))"

section \<open>The record\<close>

record Record =
  r_id :: ID
  r_tenantID :: ID
  r_sequence :: "64 word"
  r_actor :: Actor
  r_action :: string
  r_resourceType :: string
  r_resourceID :: string
  r_outcome :: string
  r_before :: snapshot
  r_after :: snapshot
  r_reason :: string
  r_correlationID :: string
  r_traceID :: string
  r_occurredAt :: time
  r_recordedAt :: time
  r_prevDigest :: string
  r_digest :: string

record NewRecordParams =
  np_TenantID :: ID
  np_Actor :: Actor
  np_Action :: string
  np_ResourceType :: string
  np_ResourceID :: string
  np_Outcome :: string
  np_Before :: snapshot
  np_After :: snapshot
  np_Reason :: string
  np_CorrelationID :: string
  np_TraceID :: string
  np_OccurredAt :: time

definition NewRecord :: "NewRecordParams \<Rightarrow> ID \<Rightarrow> time \<Rightarrow> Record outcome" where
  "NewRecord p i now =
     (if np_TenantID p = [] then Inl CodeMissingTenantContext
      else case Actor_Validate (np_Actor p) of
        Some c \<Rightarrow> Inl c
      | None \<Rightarrow>
          if \<not> Action_IsValid (np_Action p) then Inl CodeValidationFailed
          else if \<not> AuditOutcome_IsValid (np_Outcome p) then Inl CodeValidationFailed
          else if trim_space (np_ResourceType p) = [] \<or> trim_space (np_ResourceID p) = []
               then Inl CodeValidationFailed
          else if RequiresReason (np_Action p) \<and> trim_space (np_Reason p) = [] then Inl CodeValidationFailed
          else Inr
            \<lparr>r_id = i, r_tenantID = np_TenantID p, r_sequence = 0, r_actor = np_Actor p,
             r_action = np_Action p, r_resourceType = trim_space (np_ResourceType p),
             r_resourceID = trim_space (np_ResourceID p), r_outcome = np_Outcome p,
             r_before = np_Before p, r_after = np_After p, r_reason = np_Reason p,
             r_correlationID = np_CorrelationID p, r_traceID = np_TraceID p,
             r_occurredAt = (if np_OccurredAt p = zero_time then now else np_OccurredAt p),
             r_recordedAt = now, r_prevDigest = [], r_digest = []\<rparr>)"

section \<open>Digests\<close>

definition DigestDomain :: string where "DigestDomain = ''pp.audit.v1''"

definition writeFramed :: "string \<Rightarrow> byte list" where
  "writeFramed s = framed (bytes_of s)"

definition digest_fields :: "Record \<Rightarrow> string list" where
  "digest_fields r =
     [DigestDomain, r_prevDigest r, r_id r, r_tenantID r, dec_of_nat (unat (r_sequence r)),
      ac_Type (r_actor r), ac_ID (r_actor r), ac_Name (r_actor r), ac_IP (r_actor r),
      ac_UserAgent (r_actor r), ac_OnBehalfOf (r_actor r), r_action r, r_resourceType r,
      r_resourceID r, r_outcome r, canonicalJSON (r_before r), canonicalJSON (r_after r),
      r_reason r, r_correlationID r, r_traceID r, rfc3339nano (r_occurredAt r),
      rfc3339nano (r_recordedAt r)]"

definition digest_input :: "string list \<Rightarrow> byte list" where
  "digest_input fs = concat (map writeFramed fs)"

definition ComputeDigest :: "Record \<Rightarrow> string" where
  "ComputeDigest r = hex_of (sha256 (digest_input (digest_fields r)))"

definition genesis_fields :: "ID \<Rightarrow> string \<Rightarrow> string list" where
  "genesis_fields tenantID nonce = [DigestDomain, tenantID, nonce]"

definition GenesisDigest :: "ID \<Rightarrow> string \<Rightarrow> string" where
  "GenesisDigest tenantID nonce = hex_of (sha256 (digest_input (genesis_fields tenantID nonce)))"

section \<open>The chain\<close>

record Chain =
  ch_tenantID :: ID
  ch_genesisNonce :: string
  ch_genesis :: string
  ch_head :: string
  ch_sequence :: "64 word"
  ch_records :: "Record list"

definition NewChain :: "ID \<Rightarrow> string \<Rightarrow> Chain outcome" where
  "NewChain tenantID genesisNonce =
     (if tenantID = [] then Inl CodeMissingTenantContext
      else if trim_space genesisNonce = [] then Inl CodeValidationFailed
      else let g = GenesisDigest tenantID genesisNonce
        in Inr \<lparr>ch_tenantID = tenantID, ch_genesisNonce = genesisNonce, ch_genesis = g, ch_head = g,
                ch_sequence = 0, ch_records = []\<rparr>)"

definition Chain_Append :: "Chain \<Rightarrow> Record \<Rightarrow> Chain outcome" where
  "Chain_Append c r0 =
     (if r_tenantID r0 \<noteq> ch_tenantID c then Inl CodeTenantMismatch
      else if r_id r0 = [] then Inl CodeValidationFailed
      else let r1 = r0\<lparr>r_sequence := ch_sequence c + 1, r_prevDigest := ch_head c\<rparr>;
               r = r1\<lparr>r_digest := ComputeDigest r1\<rparr>
        in Inr (c\<lparr>ch_records := ch_records c @ [r], ch_sequence := r_sequence r, ch_head := r_digest r\<rparr>))"

definition Chain_Last :: "Chain \<Rightarrow> Record option" where
  "Chain_Last c = (if ch_records c = [] then None else Some (last (ch_records c)))"

text \<open>The four ways \<open>Verify\<close> reports, named by the code of the error's detail.\<close>

datatype chain_fault =
    AUDIT_SEQUENCE_GAP | AUDIT_CHAIN_BROKEN | AUDIT_RECORD_TAMPERED | AUDIT_HEAD_MISMATCH

fun verify_records :: "string \<Rightarrow> 64 word \<Rightarrow> nat \<Rightarrow> Record list \<Rightarrow> (nat \<times> chain_fault) + string" where
  "verify_records head seq i [] = Inr head"
| "verify_records head seq i (r # rs) =
     (if r_sequence r \<noteq> seq + 1 then Inl (i, AUDIT_SEQUENCE_GAP)
      else if r_prevDigest r \<noteq> head then Inl (i, AUDIT_CHAIN_BROKEN)
      else if ComputeDigest r \<noteq> r_digest r then Inl (i, AUDIT_RECORD_TAMPERED)
      else verify_records (r_digest r) (seq + 1) (i + 1) rs)"

definition Chain_Verify :: "Chain \<Rightarrow> bool \<times> int \<times> chain_fault option" where
  "Chain_Verify c =
     (case verify_records (ch_genesis c) 0 0 (ch_records c) of
        Inl (i, f) \<Rightarrow> (False, int i, Some f)
      | Inr head \<Rightarrow>
          if head \<noteq> ch_head c then (False, int (length (ch_records c)), Some AUDIT_HEAD_MISMATCH)
          else (True, -1, None))"

definition RehydrateChain :: "ID \<Rightarrow> string \<Rightarrow> Record list \<Rightarrow> Chain outcome" where
  "RehydrateChain tenantID genesisNonce records =
     (case NewChain tenantID genesisNonce of
        Inl c \<Rightarrow> Inl c
      | Inr c \<Rightarrow> Inr (if records = [] then c
          else c\<lparr>ch_records := records, ch_head := r_digest (last records),
                 ch_sequence := r_sequence (last records)\<rparr>))"

end
