(* ===== verification/Audit_Store.thy ===== *)
theory Audit_Store
  imports Audit_Record Tenant_Context Postgres_Errors
begin

text \<open>
  Where audit records are kept and who writes them: the table of \<open>src/migrations/0011_audit.up.sql\<close>
  with the repository of \<open>src/internal/infrastructure/postgres/audit_repo.go\<close>, the auditor of
  \<open>src/internal/platform/runtime/auditor.go\<close>, the transaction of
  \<open>src/internal/infrastructure/postgres/uow.go\<close> they run in, and the commit of
  \<open>src/internal/application/payment/orchestrator.go\<close> that calls them.

  The table is the list of its rows in the order of insertion. A statement runs on an
  \<open>audit_querier\<close>: what \<open>current_setting('app.tenant_id', true)\<close> returns, which months have a partition,
  the name of the index of a partition that the server reports for an index of the parent, and the
  statements the database fails without running them. What comes back from a row is what the columns
  can hold: timestamps in microseconds and snapshots as \<open>encoding/json\<close> decodes them from JSONB, where
  every number is a \<open>float64\<close>. Among rows of equal sequence, whose order SQL leaves open, the later
  inserted counts as the later.
\<close>

section \<open>The table\<close>

fun jsonb :: "json_value \<Rightarrow> json_value" where
  "jsonb JNull = JNull"
| "jsonb (JObject kvs) = JObject (map (\<lambda>(k, v). (k, jsonb v)) kvs)"
| "jsonb (JList vs) = JList (map jsonb vs)"
| "jsonb (JString s) = JString s"
| "jsonb (JBool b) = JBool b"
| "jsonb (JInt i) = JFloat (fl64 (of_int (sint i)))"
| "jsonb (JUint n) = JFloat (fl64 (of_int (uint n)))"
| "jsonb (JFloat x) = JFloat x"
| "jsonb (JTime t) = JString (rfc3339nano t)"
| "jsonb (JOther s v) = v"

definition stored_snapshot :: "snapshot \<Rightarrow> snapshot" where
  "stored_snapshot s = map_option (map (\<lambda>(k, v). (k, jsonb v))) s"

record audit_row =
  aw_record :: Record
  aw_month :: time

datatype audit_statement = LockChain | InsertRecord | ReadHead | SelectRange

record audit_querier =
  aq_tenant :: "string option"
  aq_partition :: "time \<Rightarrow> bool"
  aq_index :: "string \<Rightarrow> time \<Rightarrow> string"
  aq_fault :: "audit_statement \<Rightarrow> db_error option"

text \<open>\<open>scanAudit\<close> of the row that \<open>Append\<close> writes.\<close>

definition stored_record :: "Record \<Rightarrow> Record" where
  "stored_record r = r\<lparr>r_before := stored_snapshot (r_before r), r_after := stored_snapshot (r_after r),
     r_occurredAt := timestamptz (r_occurredAt r), r_recordedAt := timestamptz (r_recordedAt r)\<rparr>"

definition partition_of :: "Record \<Rightarrow> time" where
  "partition_of r = (case PartitionMonth (r_id r) of None \<Rightarrow> zero_time | Some m \<Rightarrow> m)"

definition audit_id_check :: "string \<Rightarrow> bool" where
  "audit_id_check s \<longleftrightarrow> take 4 s = ''aud_'' \<and> length s = 30 \<and> list_all (\<lambda>c. c \<in> set crockford) (drop 4 s)"

definition audit_checks :: "Record \<Rightarrow> bool" where
  "audit_checks r \<longleftrightarrow> audit_id_check (r_id r) \<and> 1 \<le> sint (r_sequence r)
     \<and> ac_Type (r_actor r) \<in> set actorTypes \<and> r_action r \<noteq> [] \<and> r_outcome r \<in> set outcomes
     \<and> lower_hex_64 (r_prevDigest r) \<and> lower_hex_64 (r_digest r)"

definition unique_violation :: "string \<Rightarrow> db_error" where
  "unique_violation name = ServerError \<lparr>pge_Code = SQLState_code SQLStateUniqueViolation, pge_ConstraintName = name\<rparr>"

text \<open>The unique indexes, each within one partition: the first one a new row collides with.\<close>

definition collides :: "audit_row list \<Rightarrow> Record \<Rightarrow> string option" where
  "collides tab r =
     (let same = filter (\<lambda>w. aw_month w = partition_of r) tab;
          own = filter (\<lambda>w. r_tenantID (aw_record w) = r_tenantID r) same
      in if list_ex (\<lambda>w. r_id (aw_record w) = r_id r) same then Some ''audit_records_pkey''
         else if list_ex (\<lambda>w. r_sequence (aw_record w) = r_sequence r) own then Some ''uq_audit_sequence''
         else if list_ex (\<lambda>w. r_digest (aw_record w) = r_digest r) own then Some ''uq_audit_digest''
         else None)"

definition audit_insert :: "audit_querier \<Rightarrow> audit_row list \<Rightarrow> Record \<Rightarrow> audit_row list \<times> db_error option" where
  "audit_insert q tab r = (case aq_fault q InsertRecord of
      Some e \<Rightarrow> (tab, Some e)
    | None \<Rightarrow>
        if \<not> aq_partition q (partition_of r) then (tab, Some (check_violation []))
        else if aq_tenant q \<noteq> Some (r_tenantID r) then (tab, Some rls_violation)
        else if \<not> audit_checks r then (tab, Some (check_violation ''audit_records_check''))
        else case collides tab r of
          Some index \<Rightarrow> (tab, Some (unique_violation (aq_index q index (partition_of r))))
        | None \<Rightarrow> (tab @ [\<lparr>aw_record = stored_record r, aw_month = partition_of r\<rparr>], None))"

section \<open>The repository\<close>

record AuditRepository =
  ar_q :: audit_querier
  ar_tenant :: ID

definition AuditRepository_Append ::
  "ctx \<Rightarrow> AuditRepository \<Rightarrow> audit_row list \<Rightarrow> Record \<Rightarrow> audit_row list \<times> Code option" where
  "AuditRepository_Append ctx repo tab rec =
     (case requireOwner ctx (ar_tenant repo) (r_tenantID rec) of
        Some c \<Rightarrow> (tab, Some c)
      | None \<Rightarrow> (case aq_fault (ar_q repo) LockChain of
            Some e \<Rightarrow> (tab, Some (mapError e))
          | None \<Rightarrow> (case audit_insert (ar_q repo) tab rec of
                (tab', Some e) \<Rightarrow> (tab', Some (mapError e))
              | (tab', None) \<Rightarrow> (tab', None))))"

text \<open>The rows a policy shows of a tenant, in ascending sequence.\<close>

definition chain_rows :: "audit_querier \<Rightarrow> audit_row list \<Rightarrow> ID \<Rightarrow> Record list" where
  "chain_rows q tab t = sort_key (\<lambda>r. sint (r_sequence r))
     (filter (\<lambda>r. r_tenantID r = t \<and> aq_tenant q = Some (r_tenantID r)) (map aw_record tab))"

definition LastDigest :: "ctx \<Rightarrow> AuditRepository \<Rightarrow> audit_row list \<Rightarrow> ID \<Rightarrow> (string \<times> int) outcome" where
  "LastDigest ctx repo tab t =
     (case requireOwner ctx (ar_tenant repo) t of
        Some c \<Rightarrow> Inl c
      | None \<Rightarrow> (case aq_fault (ar_q repo) ReadHead of
            Some e \<Rightarrow> Inl (mapError e)
          | None \<Rightarrow> (let rows = chain_rows (ar_q repo) tab t
              in if rows = [] then Inr ([], 0)
                 else Inr (r_digest (last rows), sint (r_sequence (last rows))))))"

fun verify_rows :: "int \<Rightarrow> string option \<Rightarrow> Record list \<Rightarrow> bool \<times> int" where
  "verify_rows expectedSeq prev [] = (True, 0)"
| "verify_rows expectedSeq prev (r # rs) =
     (if sint (r_sequence r) \<noteq> expectedSeq then (False, expectedSeq)
      else if prev \<noteq> None \<and> prev \<noteq> Some (r_prevDigest r) then (False, sint (r_sequence r))
      else if ComputeDigest r \<noteq> r_digest r then (False, sint (r_sequence r))
      else verify_rows (wrap64 (expectedSeq + 1)) (Some (r_digest r)) rs)"

definition VerifyRange ::
  "ctx \<Rightarrow> AuditRepository \<Rightarrow> audit_row list \<Rightarrow> ID \<Rightarrow> int \<Rightarrow> int \<Rightarrow> (bool \<times> int) outcome" where
  "VerifyRange ctx repo tab t lo hi =
     (case requireOwner ctx (ar_tenant repo) t of
        Some c \<Rightarrow> Inl c
      | None \<Rightarrow> (case aq_fault (ar_q repo) SelectRange of
            Some e \<Rightarrow> Inl (mapError e)
          | None \<Rightarrow> Inr (verify_rows lo None
              (filter (\<lambda>r. lo \<le> sint (r_sequence r) \<and> sint (r_sequence r) \<le> hi)
                (chain_rows (ar_q repo) tab t)))))"

section \<open>The auditor\<close>

record Auditor =
  au_genesisNonce :: string
  au_actions :: "string \<rightharpoonup> string"

definition DefaultGenesisNonce :: string where
  "DefaultGenesisNonce = ''pp-development-genesis-nonce-not-for-production''"

definition defaultAuditActions :: "(string \<times> string) list" where
  "defaultAuditActions =
     [(''merchant.created'', ''merchant.created''), (''merchant.updated'', ''admin.action''),
      (''merchant.approved'', ''merchant.approved''), (''merchant.suspended'', ''merchant.suspended''),
      (''merchant.reinstated'', ''admin.action''), (''merchant.terminated'', ''merchant.terminated''),
      (''configuration.changed'', ''configuration.changed''),
      (''configuration.rollback'', ''configuration.changed''), (''routing.changed'', ''routing.changed''),
      (''credential.rotated'', ''credential.rotated''), (''payment.created'', ''payment.created''),
      (''payment.captured'', ''payment.captured''), (''payment.refunded'', ''payment.refunded''),
      (''payment.voided'', ''payment.voided''), (''workflow.signal'', ''workflow.signal''),
      (''workflow.started'', ''admin.action''), (''workflow.cancelled'', ''admin.action''),
      (''workflow.retried'', ''admin.action''), (''gate.approved'', ''gate.approved''),
      (''admin.action'', ''admin.action'')]"

definition NewAuditorWithNonce :: "string \<Rightarrow> Auditor" where
  "NewAuditorWithNonce nonce =
     \<lparr>au_genesisNonce = (if trim_space nonce = [] then DefaultGenesisNonce else nonce),
      au_actions = map_of defaultAuditActions\<rparr>"

definition NewAuditor :: Auditor where
  "NewAuditor = NewAuditorWithNonce DefaultGenesisNonce"

definition correlationOf :: "ctx \<Rightarrow> string" where
  "correlationOf ctx = (case FromContext ctx of Inl _ \<Rightarrow> [] | Inr tc \<Rightarrow> tc_RequestID tc)"

definition actorOf :: "ctx \<Rightarrow> Actor" where
  "actorOf ctx = (case FromContext ctx of
      Inl _ \<Rightarrow> \<lparr>ac_Type = ''SYSTEM'', ac_ID = ''system'', ac_Name = ''system'', ac_IP = [],
               ac_UserAgent = [], ac_OnBehalfOf = []\<rparr>
    | Inr tc \<Rightarrow>
        let i = (if pr_ID (tc_Principal tc) = [] then ''unknown'' else pr_ID (tc_Principal tc))
        in \<lparr>ac_Type = (if pr_Type (tc_Principal tc) = PrincipalHuman then ''USER'' else ''SERVICE''),
            ac_ID = i, ac_Name = (if pr_Name (tc_Principal tc) = [] then i else pr_Name (tc_Principal tc)),
            ac_IP = [], ac_UserAgent = [], ac_OnBehalfOf = []\<rparr>)"

definition outcomeOf :: "string \<Rightarrow> string" where
  "outcomeOf s = (if s = ''FAILURE'' then ''FAILURE'' else if s = ''DENIED'' then ''DENIED'' else ''SUCCESS'')"

text \<open>\<open>storageResolutionClock.Now\<close> of an instant of the wrapped clock.\<close>

definition storageResolution :: "time \<Rightarrow> time" where
  "storageResolution t = t - (t - zero_time) mod 1000"

definition anchorID :: ID where "anchorID = ''aud_00000000000000000000000000''"

definition anchor_record :: "ID \<Rightarrow> 64 word \<Rightarrow> string \<Rightarrow> Record" where
  "anchor_record tenantID seq head =
     \<lparr>r_id = anchorID, r_tenantID = tenantID, r_sequence = seq,
      r_actor = \<lparr>ac_Type = [], ac_ID = [], ac_Name = [], ac_IP = [], ac_UserAgent = [], ac_OnBehalfOf = []\<rparr>,
      r_action = [], r_resourceType = [], r_resourceID = [], r_outcome = [], r_before = None,
      r_after = None, r_reason = [], r_correlationID = [], r_traceID = [], r_occurredAt = zero_time,
      r_recordedAt = zero_time, r_prevDigest = [], r_digest = head\<rparr>"

definition chainOnto :: "ID \<Rightarrow> string \<Rightarrow> string \<Rightarrow> 64 word \<Rightarrow> Record \<Rightarrow> Record outcome" where
  "chainOnto tenantID nonce head seq rec =
     (let seed = (if 0 < seq \<or> head \<noteq> GenesisDigest tenantID nonce
                  then [anchor_record tenantID seq head] else [])
      in case RehydrateChain tenantID nonce seed of
           Inl c \<Rightarrow> Inl c
         | Inr chain \<Rightarrow> (case Chain_Append chain rec of
               Inl c \<Rightarrow> Inl c
             | Inr chain' \<Rightarrow> Inr (last (ch_records chain'))))"

definition audit_params :: "Auditor \<Rightarrow> ctx \<Rightarrow> ID \<Rightarrow> time \<Rightarrow> string \<Rightarrow> string \<Rightarrow> string \<Rightarrow> string \<Rightarrow> snapshot \<Rightarrow> NewRecordParams" where
  "audit_params a ctx tenantID occurred action resourceType resourceID oc detail =
     \<lparr>np_TenantID = tenantID, np_Actor = actorOf ctx,
      np_Action = (case au_actions a action of Some act \<Rightarrow> act | None \<Rightarrow> ''admin.action''),
      np_ResourceType = resourceType, np_ResourceID = resourceID, np_Outcome = outcomeOf oc,
      np_Before = None, np_After = detail, np_Reason = [], np_CorrelationID = correlationOf ctx,
      np_TraceID = [], np_OccurredAt = storageResolution occurred\<rparr>"

text \<open>
  \<open>occurred\<close> and \<open>now\<close> are the two readings of the clock and \<open>i\<close> the identifier \<open>NewRecord\<close> mints. The
  chained record, then the whole operation.
\<close>

definition chained_record ::
  "Auditor \<Rightarrow> ID \<Rightarrow> (string \<times> int) \<Rightarrow> Record \<Rightarrow> Record outcome" where
  "chained_record a tenantID tail rec =
     (let prev = (if fst tail = [] then GenesisDigest tenantID (au_genesisNonce a) else fst tail);
          seq = (if snd tail < 0 then 0 else snd tail)
      in chainOnto tenantID (au_genesisNonce a) prev (word_of_int seq) rec)"

definition Auditor_Record ::
  "Auditor \<Rightarrow> ctx \<Rightarrow> AuditRepository option \<Rightarrow> ID \<Rightarrow> time \<Rightarrow> time \<Rightarrow> audit_row list \<Rightarrow>
   string \<Rightarrow> string \<Rightarrow> string \<Rightarrow> string \<Rightarrow> snapshot \<Rightarrow> audit_row list \<times> Code option" where
  "Auditor_Record a ctx repo i occurred now tab action resourceType resourceID oc detail =
     (case ctx_TenantID ctx of
        Inl c \<Rightarrow> (tab, Some c)
      | Inr tenantID \<Rightarrow>
          (case NewRecord (audit_params a ctx tenantID occurred action resourceType resourceID oc detail) i (storageResolution now) of
             Inl c \<Rightarrow> (tab, Some c)
           | Inr rec \<Rightarrow> (case repo of
                 None \<Rightarrow> (tab, Some CodeInternalError)
               | Some r \<Rightarrow> (case LastDigest ctx r tab tenantID of
                     Inl c \<Rightarrow> (tab, Some c)
                   | Inr tail \<Rightarrow> (case chained_record a tenantID tail rec of
                         Inl c \<Rightarrow> (tab, Some c)
                       | Inr chained \<Rightarrow> AuditRepository_Append ctx r tab chained)))))"

section \<open>The transaction\<close>

datatype commit_fault = TxClosed | CommitError db_error

record tx_env =
  tx_nested :: bool
  tx_begin :: "db_error option"
  tx_assertCleanGUC :: bool
  tx_residual :: "db_error + string"
  tx_set_config :: "db_error option"
  tx_commit :: "commit_fault option"

text \<open>
  \<open>UnitOfWork.run\<close>: the body gets the tenant its connection is scoped to. Whatever it wrote is kept
  only when the commit succeeds.
\<close>

definition UnitOfWork_run :: "tx_env \<Rightarrow> ctx \<Rightarrow> (ID \<Rightarrow> 'w \<Rightarrow> 'w \<times> Code option) \<Rightarrow> 'w \<Rightarrow> 'w \<times> Code option" where
  "UnitOfWork_run env ctx body w =
     (if tx_nested env then (w, Some CodeInternalError)
      else case tenantOf ctx of
        Inl c \<Rightarrow> (w, Some c)
      | Inr tenant \<Rightarrow> (case tx_begin env of
            Some e \<Rightarrow> (w, Some (mapError e))
          | None \<Rightarrow> (case (if tx_assertCleanGUC env then tx_residual env else Inr []) of
                Inl e \<Rightarrow> (w, Some (mapError e))
              | Inr residual \<Rightarrow>
                  if residual \<noteq> [] then (w, Some CodeInternalError)
                  else case tx_set_config env of
                    Some e \<Rightarrow> (w, Some (mapError e))
                  | None \<Rightarrow> (case body tenant w of
                        (w', Some c) \<Rightarrow> (w, Some c)
                      | (w', None) \<Rightarrow> (case tx_commit env of
                            None \<Rightarrow> (w', None)
                          | Some TxClosed \<Rightarrow> (w, Some CodeInternalError)
                          | Some (CommitError e) \<Rightarrow> (w, Some (mapError e)))))))"

text \<open>
  \<open>Orchestrator.commit\<close>: the writes of the attempt and of the payment on any state, then the audit
  record, in one transaction.
\<close>

definition commit_detail :: "string \<Rightarrow> string \<Rightarrow> string \<Rightarrow> string \<Rightarrow> snapshot" where
  "commit_detail attemptID gatewayID oc state =
     Some [(''attemptId'', JString attemptID), (''gatewayId'', JString gatewayID),
           (''outcome'', JString oc), (''state'', JString state)]"

text \<open>The detail \<open>Service.Create\<close> of \<open>src/internal/application/payment/service.go\<close> records.\<close>

definition created_detail :: "int64 \<Rightarrow> string \<Rightarrow> string \<Rightarrow> string \<Rightarrow> snapshot" where
  "created_detail amount cur plan risk =
     Some [(''amount'', JInt amount), (''currency'', JString cur), (''routingPlan'', JString plan),
           (''riskOutcome'', JString risk)]"

definition Orchestrator_commit ::
  "Auditor \<Rightarrow> tx_env \<Rightarrow> (ID \<Rightarrow> audit_querier) \<Rightarrow> ctx \<Rightarrow> ('s \<Rightarrow> 's \<times> Code option) \<Rightarrow> ('s \<Rightarrow> 's \<times> Code option) \<Rightarrow>
   ID \<Rightarrow> time \<Rightarrow> time \<Rightarrow> ID \<Rightarrow> snapshot \<Rightarrow> string \<Rightarrow> 's \<times> audit_row list \<Rightarrow> ('s \<times> audit_row list) \<times> Code option" where
  "Orchestrator_commit a env connect ctx saveAttempt save i occurred now payID detail action =
     UnitOfWork_run env ctx (\<lambda>tenant (s, tab).
       case saveAttempt s of
         (s1, Some c) \<Rightarrow> ((s1, tab), Some c)
       | (s1, None) \<Rightarrow> (case save s1 of
             (s2, Some c) \<Rightarrow> ((s2, tab), Some c)
           | (s2, None) \<Rightarrow>
               (case Auditor_Record a ctx (Some \<lparr>ar_q = connect tenant, ar_tenant = tenant\<rparr>) i occurred now tab
                       action ''payment'' payID ''SUCCESS'' detail of
                  (tab', e) \<Rightarrow> ((s2, tab'), e))))"

end
