(* ===== verification/Audit_Properties.thy ===== *)
theory Audit_Properties
  imports Audit_Store
begin

text \<open>
  What the audit chain shows. A verified chain with a known head determines every field of every record
  as far as the digest renders it, unless SHA-256 collides on the very inputs hashed; a chain only ever
  extended by \<open>Append\<close> verifies; and what the auditor writes through the repository verifies when it is
  read back, for snapshots that survive the JSONB column. Then the three places where the written
  program falls short of that: actions that need a reason the auditor never supplies, amounts that do
  not survive the column, and a head that is read before the lock is taken.
\<close>

section \<open>Digests\<close>

lemma digest_fields_digest [simp]: "digest_fields (r\<lparr>r_digest := d\<rparr>) = digest_fields r"
  by (simp add: digest_fields_def)

lemma ComputeDigest_digest [simp]: "ComputeDigest (r\<lparr>r_digest := d\<rparr>) = ComputeDigest r"
  by (simp add: ComputeDigest_def)

lemma ComputeDigest_64: "lower_hex_64 (ComputeDigest r)" "lower_hex_64 (GenesisDigest t n)"
  unfolding ComputeDigest_def GenesisDigest_def by (rule hex_of_64)+

lemma ComputeDigest_nonempty [simp]: "ComputeDigest r \<noteq> []"
  using ComputeDigest_64(1) [of r] by (auto simp: lower_hex_64_def)

definition short_fields :: "string list \<Rightarrow> bool" where
  "short_fields fs \<longleftrightarrow> (\<forall>f \<in> set fs. length f < 256 ^ 8)"

lemma digest_input_inject:
  assumes "digest_input fs = digest_input gs" and "short_fields fs" and "short_fields gs"
  shows "fs = gs"
proof -
  have "map bytes_of fs = map bytes_of gs"
    using assms by (intro framed_inject)
      (auto simp: short_fields_def digest_input_def writeFramed_def [abs_def] comp_def bytes_of_def)
  then show ?thesis by (rule map_injective) (simp add: inj_def)
qed

text \<open>The part of a record that its digest fixes.\<close>

definition evidence :: "Record \<Rightarrow> Record \<times> string list" where
  "evidence r = (r\<lparr>r_before := None, r_after := None, r_occurredAt := 0, r_recordedAt := 0\<rparr>,
     [canonicalJSON (r_before r), canonicalJSON (r_after r), rfc3339nano (r_occurredAt r),
      rfc3339nano (r_recordedAt r)])"

lemma dec_of_nat_inject [simp]: "dec_of_nat m = dec_of_nat n \<longleftrightarrow> m = n"
  by (metis dec_value_of_nat)

lemma evidence_eqI: "digest_fields r = digest_fields r' \<Longrightarrow> r_digest r = r_digest r' \<Longrightarrow> evidence r = evidence r'"
  by (simp add: digest_fields_def evidence_def word_unat_eq_iff)

section \<open>Verified chains\<close>

lemma verify_records_append:
  "verify_records g s i (rs @ [r]) = (case verify_records g s i rs of
     Inl e \<Rightarrow> Inl e
   | Inr h \<Rightarrow> verify_records h (s + of_nat (length rs)) (i + length rs) [r])"
  by (induction rs arbitrary: g s i) (auto split: sum.splits simp: ac_simps)

lemma verify_records_snoc:
  "verify_records g s i (rs @ [r]) = Inr h \<longleftrightarrow>
   (\<exists>h0. verify_records g s i rs = Inr h0 \<and> r_sequence r = s + of_nat (length rs) + 1
      \<and> r_prevDigest r = h0 \<and> ComputeDigest r = r_digest r \<and> h = r_digest r)"
  unfolding verify_records_append by (auto split: sum.splits)

lemma verified_head:
  "verify_records g s i rs = Inr h \<Longrightarrow> h = (if rs = [] then g else r_digest (last rs))"
  by (cases rs rule: rev_cases) (auto simp: verify_records_snoc)

definition hashed :: "Record list \<Rightarrow> byte list set" where
  "hashed rs = digest_input ` digest_fields ` set rs"

lemma same_digest_same_fields:
  assumes "inj_on sha256 (hashed rs)" and "\<forall>r \<in> set rs. short_fields (digest_fields r)"
    and "x \<in> set rs" and "y \<in> set rs" and "ComputeDigest x = ComputeDigest y"
  shows "digest_fields x = digest_fields y"
proof (rule digest_input_inject)
  have "sha256 (digest_input (digest_fields x)) = sha256 (digest_input (digest_fields y))"
    using assms(5) by (simp add: ComputeDigest_def)
  then show "digest_input (digest_fields x) = digest_input (digest_fields y)"
    using assms(1,3,4) by (auto simp: hashed_def dest: inj_onD)
qed (use assms in auto)

lemma verified_records_agree:
  assumes "length rs = length rs'"
    and "verify_records g 0 0 rs = Inr h" and "verify_records g 0 0 rs' = Inr h"
    and "inj_on sha256 (hashed (rs @ rs'))"
    and "\<forall>r \<in> set (rs @ rs'). short_fields (digest_fields r)"
  shows "map evidence rs = map evidence rs'"
  using assms
proof (induction rs arbitrary: rs' h rule: rev_induct)
  case (snoc x xs)
  then obtain ys y where ys: "rs' = ys @ [y]" by (cases rs' rule: rev_cases) auto
  from snoc.prems(2) [unfolded verify_records_snoc]
  obtain h0 where x: "verify_records g 0 0 xs = Inr h0" "r_prevDigest x = h0"
    "ComputeDigest x = r_digest x" "r_digest x = h" by blast
  from snoc.prems(3) [unfolded ys verify_records_snoc]
  obtain h1 where y: "verify_records g 0 0 ys = Inr h1" "r_prevDigest y = h1"
    "ComputeDigest y = r_digest y" "r_digest y = h" by blast
  have f: "digest_fields x = digest_fields y"
    using x y by (intro same_digest_same_fields [OF snoc.prems(4,5)]) (simp_all add: ys)
  then have "h0 = h1" using x y by (simp add: digest_fields_def)
  moreover have "inj_on sha256 (hashed (xs @ ys))"
    by (rule inj_on_subset [OF snoc.prems(4)]) (auto simp: ys hashed_def)
  ultimately have "map evidence xs = map evidence ys"
    using snoc.IH [of ys h0] x y snoc.prems by (simp add: ys)
  moreover have "evidence x = evidence y" using evidence_eqI [OF f] x y by simp
  ultimately show ?case by (simp add: ys)
qed simp

lemma verified_lengths_agree:
  assumes "verify_records g 0 0 (xs @ [x]) = Inr h" and "verify_records g 0 0 (ys @ [y]) = Inr h"
    and "digest_fields x = digest_fields y" and "length xs < 2 ^ 64" and "length ys < 2 ^ 64"
  shows "length xs = length ys"
proof -
  have "r_sequence x = of_nat (length xs) + 1" "r_sequence y = of_nat (length ys) + 1"
    using assms(1,2) unfolding verify_records_snoc by auto
  moreover have "r_sequence x = r_sequence y" using assms(3) by (simp add: digest_fields_def word_unat_eq_iff)
  ultimately have "(of_nat (length xs) :: 64 word) = of_nat (length ys)" by simp
  then show ?thesis using assms(4,5) by (simp add: word_of_nat_eq_iff take_bit_nat_eq_self)
qed

text \<open>
  C9: A verified chain is evidence. Two chains that both pass \<open>Verify\<close> from the same opening digest, have
  the same head and are not empty hold the same records: identifier, sequence, actor, action, resource,
  outcome, reason, correlation, links and digests are equal, and so are the canonical snapshots and the
  rendered instants. So no field can be edited and no record removed, inserted or reordered under a head
  that has been anchored, as long as SHA-256 has no collision among the inputs of the two chains.
\<close>

theorem audit_chain_is_tamper_evident:
  assumes "Chain_Verify c = (True, -1, None)" and "Chain_Verify c' = (True, -1, None)"
    and "ch_genesis c = ch_genesis c'" and "ch_head c = ch_head c'"
    and "ch_records c \<noteq> []" and "ch_records c' \<noteq> []"
    and "inj_on sha256 (hashed (ch_records c @ ch_records c'))"
    and "\<forall>r \<in> set (ch_records c @ ch_records c'). short_fields (digest_fields r)"
    and "length (ch_records c) < 2 ^ 64" and "length (ch_records c') < 2 ^ 64"
  shows "map evidence (ch_records c) = map evidence (ch_records c')"
proof -
  have v: "verify_records (ch_genesis c) 0 0 (ch_records c) = Inr (ch_head c)"
    and v': "verify_records (ch_genesis c) 0 0 (ch_records c') = Inr (ch_head c)"
    using assms(1-4) by (auto simp: Chain_Verify_def split: sum.splits if_splits)
  from assms(5,6) obtain xs x ys y where c: "ch_records c = xs @ [x]" and c': "ch_records c' = ys @ [y]"
    by (metis rev_exhaust)
  have "ComputeDigest x = ComputeDigest y" using v v' unfolding c c' verify_records_snoc by metis
  then have "digest_fields x = digest_fields y"
    by (intro same_digest_same_fields [OF assms(7,8)]) (simp_all add: c c')
  then have "length (ch_records c) = length (ch_records c')"
    using verified_lengths_agree [OF v [unfolded c] v' [unfolded c']] assms(9,10) by (simp add: c c')
  from verified_records_agree [OF this v v' assms(7,8)] show ?thesis .
qed

section \<open>Chains that only grow\<close>

definition chain_ok :: "Chain \<Rightarrow> bool" where
  "chain_ok c \<longleftrightarrow> Chain_Verify c = (True, -1, None) \<and> ch_sequence c = of_nat (length (ch_records c))
     \<and> ch_genesis c = GenesisDigest (ch_tenantID c) (ch_genesisNonce c)
     \<and> list_all (\<lambda>r. r_tenantID r = ch_tenantID c) (ch_records c)"

lemma Chain_Verify_iff: "Chain_Verify c = (True, -1, None) \<longleftrightarrow> verify_records (ch_genesis c) 0 0 (ch_records c) = Inr (ch_head c)"
  by (auto simp: Chain_Verify_def split: sum.splits if_splits)

lemma NewChain_ok: "NewChain t n = Inr c \<Longrightarrow> chain_ok c"
  by (auto simp: NewChain_def chain_ok_def Chain_Verify_iff Let_def split: if_splits)

lemma Append_ok: "chain_ok c \<Longrightarrow> Chain_Append c r = Inr c' \<Longrightarrow> chain_ok c' \<and> ch_tenantID c' = ch_tenantID c"
  by (auto simp: chain_ok_def Chain_Verify_iff Chain_Append_def Let_def verify_records_snoc split: if_splits)

interpretation audit_chain: guarded_system
  "\<lambda>c. \<exists>t n. NewChain t n = Inr c"
  "\<lambda>r c. case Chain_Append c r of Inl _ \<Rightarrow> c | Inr c' \<Rightarrow> c'"
  chain_ok
  by unfold_locales (auto split: sum.splits dest: NewChain_ok Append_ok)

lemma grown_chain_verifies:
  assumes "NewChain t n = Inr c"
  shows "Chain_Verify (fold (\<lambda>r c. case Chain_Append c r of Inl _ \<Rightarrow> c | Inr c' \<Rightarrow> c') rs c) = (True, -1, None)"
  using audit_chain.reach_from_initial [of c rs] assms by (auto simp: chain_ok_def)

section \<open>What comes back from the table\<close>

lemma storageResolution_eq: "storageResolution t = timestamptz t"
proof -
  have "t - zero_time = t + 62135596800000000 * 1000" by (simp add: zero_time_def)
  then have "(t - zero_time) mod 1000 = t mod 1000" by (simp only: mod_mult_self1)
  then show ?thesis by (simp add: storageResolution_def timestamptz_def minus_mod_eq_div_mult)
qed

lemma timestamptz_idem [simp]: "timestamptz (timestamptz t) = timestamptz t"
  by (simp add: timestamptz_def)

definition storage_stable :: "snapshot \<Rightarrow> bool" where
  "storage_stable s \<longleftrightarrow> canonicalJSON (stored_snapshot s) = canonicalJSON s"

lemma stored_digest:
  assumes "storage_stable (r_before r)" and "storage_stable (r_after r)"
    and "timestamptz (r_occurredAt r) = r_occurredAt r" and "timestamptz (r_recordedAt r) = r_recordedAt r"
  shows "ComputeDigest (stored_record r) = ComputeDigest r"
  using assms by (simp add: ComputeDigest_def digest_fields_def stored_record_def storage_stable_def)

lemma stored_record_fields [simp]:
  "r_sequence (stored_record r) = r_sequence r" "r_tenantID (stored_record r) = r_tenantID r"
  "r_prevDigest (stored_record r) = r_prevDigest r" "r_digest (stored_record r) = r_digest r"
  by (simp_all add: stored_record_def)

definition tenant_rows :: "ID \<Rightarrow> audit_row list \<Rightarrow> Record list" where
  "tenant_rows t tab = filter (\<lambda>r. r_tenantID r = t) (map aw_record tab)"

lemma verified_sequences:
  "verify_records g s i rs = Inr h \<Longrightarrow> map r_sequence rs = map (\<lambda>j. s + of_nat j + 1) [0..<length rs]"
proof (induction rs arbitrary: h rule: rev_induct)
  case (snoc r rs)
  then show ?case by (auto simp: verify_records_snoc)
qed simp

lemma sint_of_position: "j < 2 ^ 63 - 1 \<Longrightarrow> sint (of_nat j + 1 :: 64 word) = int j + 1"
proof -
  assume j: "j < 2 ^ 63 - 1"
  have "(of_nat j + 1 :: 64 word) = word_of_int (int j + 1)" by simp
  moreover have "in64 (int j + 1)" using j by (simp add: in64_def)
  ultimately show ?thesis by (simp only: sint_of_int64 wrap64_id)
qed

lemma verified_positions:
  assumes "verify_records g 0 0 rs = Inr h" and "length rs < 2 ^ 63"
  shows "map (\<lambda>r. sint (r_sequence r)) rs = map (\<lambda>j. int j + 1) [0..<length rs]"
proof -
  have "map (\<lambda>r. sint (r_sequence r)) rs = map sint (map r_sequence rs)" by simp
  also have "\<dots> = map (\<lambda>j. sint (of_nat j + 1 :: 64 word)) [0..<length rs]"
    unfolding verified_sequences [OF assms(1)] by (simp add: comp_def)
  also have "\<dots> = map (\<lambda>j. int j + 1) [0..<length rs]"
    using assms(2) sint_of_position by (intro map_cong refl) simp
  finally show ?thesis .
qed

lemma chain_rows_verified:
  assumes "verify_records g 0 0 (tenant_rows t tab) = Inr h" and "length (tenant_rows t tab) < 2 ^ 63"
    and "aq_tenant q = Some t"
  shows "chain_rows q tab t = tenant_rows t tab"
proof -
  have "filter (\<lambda>r. r_tenantID r = t \<and> aq_tenant q = Some (r_tenantID r)) (map aw_record tab) = tenant_rows t tab"
    unfolding tenant_rows_def using assms(3) by (intro filter_cong) auto
  moreover have "sorted (map (\<lambda>r. sint (r_sequence r)) (tenant_rows t tab))"
    unfolding verified_positions [OF assms(1,2)] by (simp add: sorted_map sorted_wrt_upt sorted_wrt_mono_rel [of _ "(<)"])
  ultimately show ?thesis by (simp add: chain_rows_def sort_key_id_if_sorted)
qed

lemma verify_rows_verified:
  assumes "verify_records g s i rs = Inr h" and "0 \<le> sint s" and "sint s + int (length rs) < 2 ^ 63 - 1"
    and "p = None \<or> p = Some g"
  shows "verify_rows (sint s + 1) p rs = (True, 0)"
  using assms
proof (induction rs arbitrary: g s i p)
  case (Cons r rs)
  have sq: "sint (s + 1) = sint s + 1"
    using Cons.prems(2,3) by (simp add: sint_add64 in64_def)
  have r: "r_sequence r = s + 1" "r_prevDigest r = g" "ComputeDigest r = r_digest r"
      "verify_records (r_digest r) (s + 1) (i + 1) rs = Inr h"
    using Cons.prems(1) by (auto split: if_splits)
  have "verify_rows (sint (s + 1) + 1) (Some (r_digest r)) rs = (True, 0)"
    using Cons.prems(2,3) sq by (intro Cons.IH [OF r(4)]) auto
  moreover have "wrap64 (sint s + 1 + 1) = sint s + 1 + 1"
    using Cons.prems(2,3) by (intro wrap64_id) (simp add: in64_def)
  ultimately show ?case using Cons.prems(4) r sq by (auto simp: add.commute)
qed simp

section \<open>What the auditor writes\<close>

lemma chainOnto_result:
  assumes "chainOnto t n head seq rec = Inr r"
  shows "r_tenantID r = t" and "r_sequence r = seq + 1" and "r_prevDigest r = head"
    and "r_digest r = ComputeDigest r" and "r_before r = r_before rec" and "r_after r = r_after rec"
    and "r_occurredAt r = r_occurredAt rec" and "r_recordedAt r = r_recordedAt rec"
proof -
  let ?seed = "if 0 < seq \<or> head \<noteq> GenesisDigest t n then [anchor_record t seq head] else []"
  obtain c c' where c: "RehydrateChain t n ?seed = Inr c" and c': "Chain_Append c rec = Inr c'"
    and r: "r = last (ch_records c')"
    using assms unfolding chainOnto_def Let_def by (auto split: sum.splits)
  have ct: "ch_tenantID c = t" "ch_sequence c = seq" "ch_head c = head"
    using c by (auto simp: RehydrateChain_def NewChain_def Let_def anchor_record_def word_gt_0 split: if_splits)
  have "r_tenantID rec = ch_tenantID c" and "r = (rec\<lparr>r_sequence := seq + 1, r_prevDigest := head,
      r_digest := ComputeDigest (rec\<lparr>r_sequence := seq + 1, r_prevDigest := head\<rparr>)\<rparr>)"
    using c' r ct by (auto simp: Chain_Append_def Let_def split: if_splits)
  then show "r_tenantID r = t" "r_sequence r = seq + 1" "r_prevDigest r = head" "r_digest r = ComputeDigest r"
    "r_before r = r_before rec" "r_after r = r_after rec" "r_occurredAt r = r_occurredAt rec" "r_recordedAt r = r_recordedAt rec"
    using ct by simp_all
qed

text \<open>One call of the auditor, with everything it is given.\<close>

record audit_call =
  kc_ctx :: ctx
  kc_repo :: "AuditRepository option"
  kc_id :: ID
  kc_occurred :: time
  kc_now :: time
  kc_action :: string
  kc_resourceType :: string
  kc_resourceID :: string
  kc_outcome :: string
  kc_detail :: snapshot

definition perform :: "Auditor \<Rightarrow> audit_call \<Rightarrow> audit_row list \<Rightarrow> audit_row list \<times> Code option" where
  "perform a k tab = Auditor_Record a (kc_ctx k) (kc_repo k) (kc_id k) (kc_occurred k) (kc_now k) tab
     (kc_action k) (kc_resourceType k) (kc_resourceID k) (kc_outcome k) (kc_detail k)"

fun audit_run :: "Auditor \<Rightarrow> audit_call list \<Rightarrow> audit_row list \<Rightarrow> (audit_call \<times> Code option) list \<times> audit_row list" where
  "audit_run a [] tab = ([], tab)"
| "audit_run a (k # ks) tab =
     (let (tab', e) = perform a k tab; (es, tab'') = audit_run a ks tab' in ((k, e) # es, tab''))"

lemma audit_insert_error: "audit_insert q tab r = (tab', Some e) \<Longrightarrow> tab' = tab"
  by (auto simp: audit_insert_def split: option.splits if_splits)

lemma audit_insert_ok:
  "audit_insert q tab r = (tab', None) \<Longrightarrow> aq_tenant q = Some (r_tenantID r)
     \<and> tab' = tab @ [\<lparr>aw_record = stored_record r, aw_month = partition_of r\<rparr>]"
  by (auto simp: audit_insert_def split: option.splits if_splits)

lemma Append_error: "AuditRepository_Append ctx repo tab r = (tab', Some e) \<Longrightarrow> tab' = tab"
  by (auto simp: AuditRepository_Append_def split: option.splits prod.splits dest: audit_insert_error)

lemma Append_recorded:
  "AuditRepository_Append ctx repo tab r = (tab', None) \<Longrightarrow> aq_tenant (ar_q repo) = Some (r_tenantID r)
     \<and> tab' = tab @ [\<lparr>aw_record = stored_record r, aw_month = partition_of r\<rparr>]"
  by (auto simp: AuditRepository_Append_def split: option.splits prod.splits dest: audit_insert_ok)

lemma NewRecord_fields:
  "NewRecord (audit_params a ctx t occ act rt rid oc d) i now = Inr rec \<Longrightarrow>
     r_before rec = None \<and> r_after rec = d \<and> r_recordedAt rec = now
     \<and> r_occurredAt rec \<in> {storageResolution occ, now}"
  by (auto simp: NewRecord_def audit_params_def split: if_splits option.splits)

lemma LastDigest_result:
  "LastDigest ctx repo tab t = Inr tail \<Longrightarrow>
     tail = (let rows = chain_rows (ar_q repo) tab t
        in if rows = [] then ([], 0) else (r_digest (last rows), sint (r_sequence (last rows))))"
  by (auto simp: LastDigest_def Let_def split: option.splits if_splits)

lemma perform_cases:
  assumes "perform a k tab = (tab', e)"
  shows "(e \<noteq> None \<and> tab' = tab) \<or>
    (e = None \<and> (\<exists>(repo :: AuditRepository) t rec r. ctx_TenantID (kc_ctx k) = Inr t \<and> aq_tenant (ar_q repo) = Some t
       \<and> chained_record a t (let rows = chain_rows (ar_q repo) tab t
            in if rows = [] then ([], 0) else (r_digest (last rows), sint (r_sequence (last rows)))) rec = Inr r
       \<and> r_tenantID r = t \<and> r_before rec = None \<and> r_after rec = kc_detail k
       \<and> timestamptz (r_occurredAt rec) = r_occurredAt rec \<and> timestamptz (r_recordedAt rec) = r_recordedAt rec
       \<and> tab' = tab @ [\<lparr>aw_record = stored_record r, aw_month = partition_of r\<rparr>]))"
proof (cases e)
  case (Some c)
  have "tab' = tab"
    using assms Some unfolding perform_def Auditor_Record_def
    by (auto split: sum.splits option.splits dest: Append_error)
  then show ?thesis using Some by simp
next
  case None
  obtain t rec repo tail r where t: "ctx_TenantID (kc_ctx k) = Inr t"
    and rec: "NewRecord (audit_params a (kc_ctx k) t (kc_occurred k) (kc_action k) (kc_resourceType k)
        (kc_resourceID k) (kc_outcome k) (kc_detail k)) (kc_id k) (storageResolution (kc_now k)) = Inr rec"
    and tail: "LastDigest (kc_ctx k) repo tab t = Inr tail"
    and r: "chained_record a t tail rec = Inr r"
    and ap: "AuditRepository_Append (kc_ctx k) repo tab r = (tab', None)"
    using assms None unfolding perform_def Auditor_Record_def by (auto split: sum.splits option.splits)
  have rt: "r_tenantID r = t" using r chainOnto_result(1) by (auto simp: chained_record_def Let_def)
  then have w: "aq_tenant (ar_q repo) = Some t" "tab' = tab @ [\<lparr>aw_record = stored_record r, aw_month = partition_of r\<rparr>]"
    using Append_recorded [OF ap] by auto
  have ts: "timestamptz (r_occurredAt rec) = r_occurredAt rec" "timestamptz (r_recordedAt rec) = r_recordedAt rec"
    using NewRecord_fields [OF rec] by (auto simp: storageResolution_eq)
  have ch: "chained_record a t (let rows = chain_rows (ar_q repo) tab t
      in if rows = [] then ([], 0) else (r_digest (last rows), sint (r_sequence (last rows)))) rec = Inr r"
    using r LastDigest_result [OF tail] by simp
  show ?thesis
    by (rule disjI2, rule conjI, rule None, rule exI [of _ repo], rule exI [of _ t], rule exI [of _ rec], rule exI [of _ r])
      (use t rt w ts ch NewRecord_fields [OF rec] in simp)
qed

text \<open>Every tenant's rows verify from its own genesis.\<close>

definition table_ok :: "Auditor \<Rightarrow> audit_row list \<Rightarrow> bool" where
  "table_ok a tab \<longleftrightarrow> (\<forall>t. \<exists>h. verify_records (GenesisDigest t (au_genesisNonce a)) 0 0 (tenant_rows t tab) = Inr h)"

lemma tenant_rows_append [simp]:
  "tenant_rows t (tab @ [w]) = tenant_rows t tab @ (if r_tenantID (aw_record w) = t then [aw_record w] else [])"
  by (simp add: tenant_rows_def)

lemma tenant_rows_length: "length (tenant_rows t tab) \<le> length tab"
  unfolding tenant_rows_def by (metis length_filter_le length_map)

lemma perform_keeps_table_ok:
  assumes ok: "table_ok a tab" and p: "perform a k tab = (tab', e)"
    and st: "storage_stable (kc_detail k)" and len: "length tab < 2 ^ 63 - 1"
  shows "table_ok a tab'"
    and "length (tenant_rows t tab') =
      length (tenant_rows t tab) + (if e = None \<and> ctx_TenantID (kc_ctx k) = Inr t then 1 else 0)"
proof -
  have "table_ok a tab' \<and> length (tenant_rows t tab') =
      length (tenant_rows t tab) + (if e = None \<and> ctx_TenantID (kc_ctx k) = Inr t then 1 else 0)"
    using perform_cases [OF p]
  proof (elim disjE conjE exE)
    assume "e \<noteq> None" "tab' = tab"
    then show ?thesis using ok by simp
  next
    fix repo :: AuditRepository and u rec r
    let ?rows = "tenant_rows u tab" and ?g = "GenesisDigest u (au_genesisNonce a)"
    assume e: "e = None" and u: "ctx_TenantID (kc_ctx k) = Inr u" and q: "aq_tenant (ar_q repo) = Some u"
      and r: "chained_record a u (let rows = chain_rows (ar_q repo) tab u
            in if rows = [] then ([], 0) else (r_digest (last rows), sint (r_sequence (last rows)))) rec = Inr r"
      and ru: "r_tenantID r = u" and rec: "r_before rec = None" "r_after rec = kc_detail k"
        "timestamptz (r_occurredAt rec) = r_occurredAt rec" "timestamptz (r_recordedAt rec) = r_recordedAt rec"
      and tab': "tab' = tab @ [\<lparr>aw_record = stored_record r, aw_month = partition_of r\<rparr>]"
    obtain h where h: "verify_records ?g 0 0 ?rows = Inr h" using ok by (auto simp: table_ok_def)
    have small: "length ?rows < 2 ^ 63 - 1" using tenant_rows_length [of u tab] len by simp
    have rows: "chain_rows (ar_q repo) tab u = ?rows" using chain_rows_verified [OF h _ q] small by simp
    have r': "chainOnto u (au_genesisNonce a) h (of_nat (length ?rows)) rec = Inr r"
    proof (cases "?rows = []")
      case True
      then show ?thesis using r h unfolding rows by (simp add: chained_record_def)
    next
      case False
      then obtain xs x where xs: "?rows = xs @ [x]" by (metis rev_exhaust)
      have "sint (r_sequence x) = int (length xs) + 1" "h = r_digest x" "r_digest x \<noteq> []"
        using h small sint_of_position [of "length xs"] ComputeDigest_nonempty [of x] unfolding xs verify_records_snoc by auto
      then show ?thesis using r unfolding rows xs by (simp add: chained_record_def Let_def add.commute)
    qed
    note res = chainOnto_result [OF r']
    have "ComputeDigest (stored_record r) = r_digest r"
      using stored_digest [of r] res rec st by (simp add: storage_stable_def stored_snapshot_def)
    then have "verify_records ?g 0 0 (?rows @ [stored_record r]) = Inr (r_digest r)"
      using h res by (simp add: verify_records_snoc)
    then have "table_ok a tab'" using ok ru by (simp add: table_ok_def tab')
    then show ?thesis using e u ru by (simp add: tab')
  qed
  then show "table_ok a tab'" "length (tenant_rows t tab') =
      length (tenant_rows t tab) + (if e = None \<and> ctx_TenantID (kc_ctx k) = Inr t then 1 else 0)"
    by blast+
qed

lemma perform_length: "perform a k tab = (tab', e) \<Longrightarrow> length tab' \<le> length tab + 1"
  using perform_cases [of a k tab tab' e] by auto

definition recorded_for :: "ID \<Rightarrow> (audit_call \<times> Code option) list \<Rightarrow> nat" where
  "recorded_for t es = length (filter (\<lambda>(k, e). e = None \<and> ctx_TenantID (kc_ctx k) = Inr t) es)"

lemma audit_run_ok:
  assumes "audit_run a ks tab = (es, tab')" and "table_ok a tab"
    and "\<forall>k \<in> set ks. storage_stable (kc_detail k)" and "length tab + length ks < 2 ^ 63 - 1"
  shows "table_ok a tab' \<and> length tab' \<le> length tab + length ks
    \<and> length (tenant_rows t tab') = length (tenant_rows t tab) + recorded_for t es"
  using assms
proof (induction ks arbitrary: tab es)
  case (Cons k ks)
  obtain tab1 e where p: "perform a k tab = (tab1, e)" by (cases "perform a k tab")
  obtain es' where r: "audit_run a ks tab1 = (es', tab')" and es: "es = (k, e) # es'"
    using Cons.prems(1) p by (auto split: prod.splits)
  have l: "length tab < 2 ^ 63 - 1" and st: "storage_stable (kc_detail k)" using Cons.prems(3,4) by auto
  note keep = perform_keeps_table_ok [OF Cons.prems(2) p st l]
  have "table_ok a tab' \<and> length tab' \<le> length tab1 + length ks
      \<and> length (tenant_rows t tab') = length (tenant_rows t tab1) + recorded_for t es'"
    using Cons.prems(3,4) perform_length [OF p] by (intro Cons.IH [OF r keep(1)]) auto
  then show ?case using keep(2) [of t] perform_length [OF p] by (auto simp: es recorded_for_def)
qed (simp add: recorded_for_def)

text \<open>
  C10: What the auditor writes verifies when it is read back. After any sequence of calls by any tenants,
  on connections of any scope, with any of them failing, the range check over the records of a tenant
  finds the chain intact from the first record to the last, and it covers exactly the calls of that
  tenant that reported success. The snapshots must be ones whose canonical text survives the JSONB
  column.
\<close>

theorem recorded_chain_verifies:
  assumes "audit_run a ks [] = (es, tab)" and "\<forall>k \<in> set ks. storage_stable (kc_detail k)"
    and "length ks < 2 ^ 63 - 1" and "requireOwner ctx (ar_tenant repo) t = None"
    and "aq_tenant (ar_q repo) = Some t" and "aq_fault (ar_q repo) SelectRange = None"
  shows "VerifyRange ctx repo tab t 1 (int (recorded_for t es)) = Inr (True, 0)
    \<and> length (chain_rows (ar_q repo) tab t) = recorded_for t es"
proof -
  have "table_ok a []" by (simp add: table_ok_def tenant_rows_def)
  from audit_run_ok [OF assms(1) this assms(2), of t] assms(3)
  have ok: "table_ok a tab" and "length tab \<le> length ks" and n: "length (tenant_rows t tab) = recorded_for t es"
    by (simp_all add: tenant_rows_def)
  then have small: "length (tenant_rows t tab) < 2 ^ 63 - 1" using tenant_rows_length [of t tab] assms(3) by simp
  obtain h where h: "verify_records (GenesisDigest t (au_genesisNonce a)) 0 0 (tenant_rows t tab) = Inr h"
    using ok by (auto simp: table_ok_def)
  have rows: "chain_rows (ar_q repo) tab t = tenant_rows t tab"
    using chain_rows_verified [OF h _ assms(5)] small by simp
  have lt: "length (tenant_rows t tab) < 2 ^ 63" using small by simp
  have "set (map (\<lambda>r. sint (r_sequence r)) (tenant_rows t tab)) \<subseteq> {1..int (recorded_for t es)}"
    unfolding verified_positions [OF h lt] n [symmetric] by auto
  then have "filter (\<lambda>r. 1 \<le> sint (r_sequence r) \<and> sint (r_sequence r) \<le> int (recorded_for t es)) (tenant_rows t tab)
      = tenant_rows t tab"
    by (intro filter_True) auto
  then show ?thesis
    using verify_rows_verified [OF h, of None] small assms(4,6) n by (simp add: VerifyRange_def rows)
qed

section \<open>Where the code goes against its comments\<close>

definition recordable :: "string list" where
  "recordable = [''merchant.created'', ''payment.created'', ''payment.captured'', ''payment.refunded'',
     ''payment.voided'', ''workflow.signal'']"

lemma other_actions_require_reason:
  "list_all (\<lambda>(action, act). action \<in> set recordable \<or> RequiresReason act) defaultAuditActions"
  "RequiresReason ''admin.action''"
  by code_simp+

lemma unrecordable_requires_reason:
  assumes "action \<notin> set recordable"
  shows "RequiresReason (case map_of defaultAuditActions action of Some act \<Rightarrow> act | None \<Rightarrow> ''admin.action'')"
proof (cases "map_of defaultAuditActions action")
  case None
  then show ?thesis using other_actions_require_reason(2) by simp
next
  case (Some act)
  then have "(action, act) \<in> set defaultAuditActions" by (rule map_of_SomeD)
  then show ?thesis using other_actions_require_reason(1) assms Some by (auto simp: list_all_iff)
qed

lemma unrecordable_fails:
  assumes "action \<notin> set recordable"
  shows "\<exists>c. Auditor_Record (NewAuditorWithNonce nonce) ctx repo i occurred now tab action rt rid oc detail = (tab, Some c)"
proof -
  let ?p = "\<lambda>t. audit_params (NewAuditorWithNonce nonce) ctx t occurred action rt rid oc detail"
  have "RequiresReason (np_Action (?p t)) \<and> trim_space (np_Reason (?p t)) = []" for t
    using unrecordable_requires_reason [OF assms]
    by (simp add: audit_params_def NewAuditorWithNonce_def trim_space_def)
  then have "\<exists>c. NewRecord (?p t) i m = Inl c" for t m
    unfolding NewRecord_def by (auto split: option.splits)
  then obtain f where f: "NewRecord (?p t) i m = Inl (f t m)" for t m by metis
  then show ?thesis unfolding Auditor_Record_def f by (simp split: sum.splits)
qed

lemma UnitOfWork_run_rolls_back:
  assumes "\<And>tenant. \<exists>w' c. body tenant w = (w', Some c)"
  shows "\<exists>c. UnitOfWork_run env ctx body w = (w, Some c)"
proof -
  have "(case body tenant w of (w', Some c) \<Rightarrow> (w, Some c) | (w', None) \<Rightarrow> f w') = (w, Some (the (snd (body tenant w))))" for tenant f
    using assms [of tenant] by auto
  then show ?thesis unfolding UnitOfWork_run_def by (simp split: sum.splits option.splits)
qed

text \<open>
  C37: Only six actions can be recorded at all: \<open>Auditor.Record\<close> passes no reason, and every action it does
  not map goes in as \<open>admin.action\<close>, which requires one. The orchestrator therefore cannot commit the
  outcome of a gateway call under \<open>payment.authorized\<close>, \<open>payment.declined\<close>, \<open>payment.pending\<close>,
  \<open>payment.requires_action\<close>, \<open>payment.attempt_failed\<close> or \<open>payment.attempt_unknown\<close>: the transaction fails
  and neither the attempt nor the payment is saved, whatever the gateway did.
\<close>

theorem unmapped_outcomes_are_never_committed:
  assumes "action \<notin> set recordable"
  shows "\<exists>c. Orchestrator_commit (NewAuditorWithNonce nonce) env connect ctx saveAttempt save i occurred now
    payID detail action w = (w, Some c)"
  unfolding Orchestrator_commit_def
proof (rule UnitOfWork_run_rolls_back)
  fix tenant
  obtain s tab where w: "w = (s, tab)" by (cases w)
  show "\<exists>w' c. (case w of (s, tab) \<Rightarrow> case saveAttempt s of (s1, None) \<Rightarrow> (case save s1 of
      (s2, None) \<Rightarrow> (case Auditor_Record (NewAuditorWithNonce nonce) ctx (Some \<lparr>ar_q = connect tenant, ar_tenant = tenant\<rparr>)
          i occurred now tab action ''payment'' payID ''SUCCESS'' detail of (tab', e) \<Rightarrow> ((s2, tab'), e))
      | (s2, Some c) \<Rightarrow> ((s2, tab), Some c)) | (s1, Some c) \<Rightarrow> ((s1, tab), Some c)) = (w', Some c)"
    using unrecordable_fails [OF assms, of nonce ctx "Some \<lparr>ar_q = connect tenant, ar_tenant = tenant\<rparr>" i occurred now tab
        "''payment''" payID "''SUCCESS''" detail]
    by (auto simp: w split: prod.splits option.splits)
qed

lemma created_sorted:
  "sort_key fst [(''amount'', a), (''currency'', b), (''routingPlan'', c), (''riskOutcome'', d)]
   = [(''amount'', a), (''currency'', b), (''riskOutcome'', d), (''routingPlan'', c :: string)]"
  by code_simp

lemma int_text_has_no_exponent: "CHR ''e'' \<notin> set (format_int64 n)"
proof -
  have "CHR ''e'' \<notin> set (dec_of_nat m)" for m
    using dec_of_nat_digits [of m] by (auto simp: list_all_iff is_digit_char_def)
  then show ?thesis by (simp add: format_int64_def)
qed

lemma large_amount_unstable:
  assumes "1000000 \<le> sint n"
  shows "\<not> storage_stable (created_detail n cur plan risk)"
proof -
  let ?rest = "str_join CHR '','' [quoteJSON ''currency'' @ CHR '':'' # quoteJSON cur,
    quoteJSON ''riskOutcome'' @ CHR '':'' # quoteJSON risk, quoteJSON ''routingPlan'' @ CHR '':'' # quoteJSON plan] @ [CHR 0x7D]"
  have c: "canonicalJSON (created_detail n cur plan risk)
      = (CHR 0x7B # quoteJSON ''amount'' @ [CHR '':'']) @ format_int64 n @ CHR '','' # ?rest"
    by (simp add: canonicalJSON_def created_detail_def created_sorted)
  have d: "canonicalJSON (stored_snapshot (created_detail n cur plan risk))
      = (CHR 0x7B # quoteJSON ''amount'' @ [CHR '':'']) @ FormatFloat_g (fl64 (of_int (sint n))) @ CHR '','' # ?rest"
    by (simp add: canonicalJSON_def created_detail_def stored_snapshot_def created_sorted)
  have "fl64 (of_int 1000000) \<le> fl64 (of_int (sint n))"
    using assms by (intro fl64_mono) (simp only: of_int_le_iff)
  then have "1000000 \<le> fl64 (of_int (sint n))" using fl64_of_int [of 1000000] by simp
  then have "CHR ''e'' \<in> set (FormatFloat_g (fl64 (of_int (sint n))))" by (rule FormatFloat_g_large)
  then have "FormatFloat_g (fl64 (of_int (sint n))) \<noteq> format_int64 n" using int_text_has_no_exponent [of n] by metis
  then show ?thesis unfolding storage_stable_def c d by simp
qed

text \<open>
  C38: An amount of a million minor units or more does not survive the snapshot column. The digest is taken
  over the decimal integer, and the verifier recomputes it over the \<open>float64\<close> that comes back, which the
  canonical encoder writes in exponent form. So the record of a payment created for such an amount, as
  the first of its tenant, is reported as tampered with at its own sequence number, unless SHA-256
  collides on the two texts.
\<close>

theorem large_amount_reads_as_tampering:
  assumes "Auditor_Record a ctx (Some repo) i occurred now [] ''payment.created'' ''payment'' payID ''SUCCESS''
      (created_detail n cur plan risk) = (tab, None)"
    and "1000000 \<le> sint n" and "ctx_TenantID ctx = Inr t" and "aq_fault (ar_q repo) SelectRange = None"
  shows "\<exists>r. tab = [\<lparr>aw_record = stored_record r, aw_month = partition_of r\<rparr>]
    \<and> digest_fields (stored_record r) \<noteq> digest_fields r
    \<and> (VerifyRange ctx repo tab t 1 1 = Inr (False, 1)
         \<longleftrightarrow> sha256 (digest_input (digest_fields (stored_record r))) \<noteq> sha256 (digest_input (digest_fields r)))"
proof -
  obtain rec tail r where rec: "NewRecord (audit_params a ctx t occurred ''payment.created'' ''payment'' payID ''SUCCESS''
        (created_detail n cur plan risk)) i (storageResolution now) = Inr rec"
    and tail: "LastDigest ctx repo [] t = Inr tail" and r: "chained_record a t tail rec = Inr r"
    and ap: "AuditRepository_Append ctx repo [] r = (tab, None)"
    using assms(1,3) unfolding Auditor_Record_def by (auto split: sum.splits)
  have tl: "tail = ([], 0)" using LastDigest_result [OF tail] by (simp add: chain_rows_def)
  note res = chainOnto_result [OF r [unfolded chained_record_def tl Let_def, simplified]]
  have tab: "tab = [\<lparr>aw_record = stored_record r, aw_month = partition_of r\<rparr>]" and q: "aq_tenant (ar_q repo) = Some t"
    using Append_recorded [OF ap] res by auto
  have own: "requireOwner ctx (ar_tenant repo) t = None"
    using tail by (simp add: LastDigest_def split: option.splits)
  have after: "r_after r = created_detail n cur plan risk" using res NewRecord_fields [OF rec] by simp
  have df: "digest_fields (stored_record r) \<noteq> digest_fields r"
    using large_amount_unstable [OF assms(2)] by (simp add: digest_fields_def stored_record_def after storage_stable_def)
  have rows: "chain_rows (ar_q repo) tab t = [stored_record r]"
    using res q by (simp add: chain_rows_def tab)
  have one: "sint (1 :: 64 word) = 1" by simp
  have "VerifyRange ctx repo tab t 1 1 = Inr (False, 1) \<longleftrightarrow> ComputeDigest (stored_record r) \<noteq> ComputeDigest r"
    using own assms(4) res one by (simp add: VerifyRange_def rows)
  then show ?thesis using tab df by (auto simp: ComputeDigest_def)
qed

text \<open>
  The head is read before \<open>Append\<close> takes the lock. Of two calls that read the same head, the second to
  insert carries the sequence and the link of the first: it fails on the unique index, or, where the two
  fall in partitions of different months, it forks the chain.
\<close>

lemma stale_head_conflicts:
  assumes "chained_record a t tail rec1 = Inr r1" and "chained_record a t tail rec2 = Inr r2"
    and "AuditRepository_Append ctx repo tab r1 = (tab', None)"
  shows "r_sequence r2 = r_sequence r1" and "r_prevDigest r2 = r_prevDigest r1"
    and "partition_of r2 = partition_of r1 \<Longrightarrow> \<exists>c. AuditRepository_Append ctx' repo' tab' r2 = (tab', Some c)"
proof -
  note res1 = chainOnto_result [OF assms(1) [unfolded chained_record_def Let_def]]
    and res2 = chainOnto_result [OF assms(2) [unfolded chained_record_def Let_def]]
  show sq: "r_sequence r2 = r_sequence r1" and "r_prevDigest r2 = r_prevDigest r1" using res1 res2 by simp_all
  assume m: "partition_of r2 = partition_of r1"
  have "collides tab' r2 \<noteq> None"
    using Append_recorded [OF assms(3)] res1 res2 m by (simp add: collides_def Let_def)
  then have "snd (audit_insert (ar_q repo') tab' r2) \<noteq> None"
    by (auto simp: audit_insert_def split: option.splits)
  then show "\<exists>c. AuditRepository_Append ctx' repo' tab' r2 = (tab', Some c)"
    by (auto simp: AuditRepository_Append_def split: option.splits prod.splits dest: audit_insert_error)
qed

section \<open>Instances\<close>

definition wit_tc :: TenantContext where
  "wit_tc = \<lparr>tc_TenantID = ''ten_1'', tc_Tier = ''STANDARD'',
     tc_Principal = \<lparr>pr_Type = PrincipalMachine, pr_ID = ''cli_1'', pr_Name = []\<rparr>, tc_Scopes = [],
     tc_MerchantScope = [], tc_Environment = ''TEST'', tc_RequestID = ''req_1'', tc_CorrelationID = [],
     tc_Source = SourceToken\<rparr>"

definition wit_repo :: AuditRepository where
  "wit_repo = \<lparr>ar_q = \<lparr>aq_tenant = Some ''ten_1'', aq_partition = (\<lambda>_. True), aq_index = (\<lambda>n _. n),
     aq_fault = (\<lambda>_. None)\<rparr>, ar_tenant = ''ten_1''\<rparr>"

definition wit_call :: "snapshot \<Rightarrow> audit_call" where
  "wit_call d = \<lparr>kc_ctx = Some wit_tc, kc_repo = Some wit_repo, kc_id = ''aud_01J00000000000000000000000'',
     kc_occurred = 1234, kc_now = 5678, kc_action = ''payment.created'', kc_resourceType = ''payment'',
     kc_resourceID = ''pay_1'', kc_outcome = ''SUCCESS'', kc_detail = d\<rparr>"

lemma wit_owner: "requireOwner (Some wit_tc) ''ten_1'' ''ten_1'' = None" "ctx_TenantID (Some wit_tc) = Inr ''ten_1''"
  by (simp_all add: requireOwner_def requireTenantCtx_def tenantOf_def tenantFrom_def ctx_TenantID_def FromContext_def wit_tc_def)

lemma wit_checks:
  "audit_id_check ''aud_01J00000000000000000000000''" "Actor_Validate (actorOf (Some wit_tc)) = None"
  "Action_IsValid ''payment.created''" "\<not> RequiresReason ''payment.created''" "AuditOutcome_IsValid ''SUCCESS''"
  "trim_space ''payment'' = ''payment''" "trim_space ''pay_1'' = ''pay_1''" "ac_Type (actorOf (Some wit_tc)) = ''SERVICE''"
  "map_of defaultAuditActions ''payment.created'' = Some ''payment.created''" "outcomeOf ''SUCCESS'' = ''SUCCESS''"
  "trim_space ''nonce'' = ''nonce''" "''SERVICE'' \<in> set actorTypes" "''SUCCESS'' \<in> set outcomes"
  by code_simp+

lemma wit_call_recorded: "snd (perform (NewAuditorWithNonce ''nonce'') (wit_call d) []) = None"
proof -
  have q: "aq_tenant (ar_q wit_repo) = Some ''ten_1''" "aq_partition (ar_q wit_repo) m" "aq_fault (ar_q wit_repo) x = None"
    "ar_tenant wit_repo = ''ten_1''" for m x by (simp_all add: wit_repo_def)
  have tail: "LastDigest (Some wit_tc) wit_repo [] ''ten_1'' = Inr ([], 0)"
    by (simp add: LastDigest_def q wit_owner chain_rows_def)
  have ins: "audit_insert (ar_q wit_repo) [] r = ([\<lparr>aw_record = stored_record r, aw_month = partition_of r\<rparr>], None)"
    if "r_tenantID r = ''ten_1''" "r_id r = ''aud_01J00000000000000000000000''" "r_sequence r = 1"
      "ac_Type (r_actor r) = ''SERVICE''" "r_action r = ''payment.created''" "r_outcome r = ''SUCCESS''"
      "lower_hex_64 (r_prevDigest r)" "lower_hex_64 (r_digest r)" for r
    using that by (simp add: audit_insert_def q audit_checks_def wit_checks collides_def)
  show ?thesis
    by (simp add: perform_def wit_call_def Auditor_Record_def wit_owner NewRecord_def audit_params_def wit_checks
        NewAuditorWithNonce_def tail chained_record_def chainOnto_def RehydrateChain_def NewChain_def Chain_Append_def Let_def
        AuditRepository_Append_def q ins ComputeDigest_64)
qed

lemma wit_call_result:
  obtains tab where "perform (NewAuditorWithNonce ''nonce'') (wit_call d) [] = (tab, None)"
    and "audit_run (NewAuditorWithNonce ''nonce'') [wit_call d] [] = ([(wit_call d, None)], tab)"
  using wit_call_recorded [of d] by (cases "perform (NewAuditorWithNonce ''nonce'') (wit_call d) []") auto

lemma wit_recorded_for: "recorded_for ''ten_1'' [(wit_call d, None)] = 1"
  by (simp add: recorded_for_def wit_call_def wit_owner)

lemma wit_stable: "storage_stable (created_detail 1999 ''EUR'' ''rpl_1'' ''ALLOW'')"
  by code_simp

theorem recorded_chain_verifies_witness:
  "\<exists>tab. audit_run (NewAuditorWithNonce ''nonce'') [wit_call (created_detail 1999 ''EUR'' ''rpl_1'' ''ALLOW'')] []
       = ([(wit_call (created_detail 1999 ''EUR'' ''rpl_1'' ''ALLOW''), None)], tab)
     \<and> VerifyRange (Some wit_tc) wit_repo tab ''ten_1'' 1 1 = Inr (True, 0)
     \<and> length (chain_rows (ar_q wit_repo) tab ''ten_1'') = 1"
proof -
  obtain tab where run: "audit_run (NewAuditorWithNonce ''nonce'') [wit_call (created_detail 1999 ''EUR'' ''rpl_1'' ''ALLOW'')] []
      = ([(wit_call (created_detail 1999 ''EUR'' ''rpl_1'' ''ALLOW''), None)], tab)"
    by (rule wit_call_result)
  have "VerifyRange (Some wit_tc) wit_repo tab ''ten_1'' 1 (int 1) = Inr (True, 0)
      \<and> length (chain_rows (ar_q wit_repo) tab ''ten_1'') = 1"
    using recorded_chain_verifies [OF run, of "Some wit_tc" wit_repo "''ten_1''"] wit_stable wit_owner(1)
    unfolding wit_recorded_for by (simp add: wit_call_def wit_repo_def)
  then show ?thesis using run by auto
qed

theorem large_amount_reads_as_tampering_witness:
  "\<exists>tab r. perform (NewAuditorWithNonce ''nonce'') (wit_call (created_detail 1000000 ''EUR'' ''rpl_1'' ''ALLOW'')) [] = (tab, None)
     \<and> tab = [\<lparr>aw_record = stored_record r, aw_month = partition_of r\<rparr>]
     \<and> digest_fields (stored_record r) \<noteq> digest_fields r
     \<and> (VerifyRange (Some wit_tc) wit_repo tab ''ten_1'' 1 1 = Inr (False, 1)
          \<longleftrightarrow> sha256 (digest_input (digest_fields (stored_record r))) \<noteq> sha256 (digest_input (digest_fields r)))"
proof -
  obtain tab where p: "perform (NewAuditorWithNonce ''nonce'') (wit_call (created_detail 1000000 ''EUR'' ''rpl_1'' ''ALLOW'')) [] = (tab, None)"
    by (rule wit_call_result)
  have "1000000 \<le> sint (1000000 :: int64)" by simp
  then show ?thesis
    using large_amount_reads_as_tampering [of "NewAuditorWithNonce ''nonce''" "Some wit_tc" wit_repo
        "''aud_01J00000000000000000000000''" 1234 5678 "''pay_1''" 1000000 "''EUR''" "''rpl_1''" "''ALLOW''" tab "''ten_1''"]
      p wit_owner(2) by (auto simp: perform_def wit_call_def wit_repo_def)
qed

definition wit_env :: tx_env where
  "wit_env = \<lparr>tx_nested = False, tx_begin = None, tx_assertCleanGUC = False, tx_residual = Inr [],
     tx_set_config = None, tx_commit = None\<rparr>"

theorem unmapped_outcomes_are_never_committed_witness:
  "\<exists>c. Orchestrator_commit (NewAuditorWithNonce ''nonce'') wit_env (\<lambda>_. ar_q wit_repo) (Some wit_tc)
     (\<lambda>s :: nat. (s + 1, None)) (\<lambda>s. (s + 1, None)) ''aud_01J00000000000000000000000'' 0 0 ''pay_1''
     (commit_detail ''att_1'' ''gw'' ''SUCCESS'' ''AUTHORIZED'') ''payment.authorized'' (0, []) = ((0, []), Some c)"
  by (rule unmapped_outcomes_are_never_committed) (simp add: recordable_def)

text \<open>A record whose before-state is absent and one where it is empty have the same digest.\<close>

definition wit_entry :: "snapshot \<Rightarrow> Record" where
  "wit_entry b =
     \<lparr>r_id = ''aud_1'', r_tenantID = ''ten_1'', r_sequence = 1, r_actor = actorOf (Some wit_tc),
      r_action = ''payment.created'', r_resourceType = ''payment'', r_resourceID = ''pay_1'',
      r_outcome = ''SUCCESS'', r_before = b, r_after = None, r_reason = [], r_correlationID = [],
      r_traceID = [], r_occurredAt = 0, r_recordedAt = 0, r_prevDigest = GenesisDigest ''ten_1'' ''nonce'',
      r_digest = []\<rparr>"

definition wit_chain :: "snapshot \<Rightarrow> Chain" where
  "wit_chain b = (case NewChain ''ten_1'' ''nonce'' of Inr c \<Rightarrow>
     (case Chain_Append c (wit_entry b) of Inr c' \<Rightarrow> c'))"

lemma wit_chain_eqs:
  "ch_genesis (wit_chain b) = GenesisDigest ''ten_1'' ''nonce''"
  "ch_records (wit_chain b) = [(wit_entry b)\<lparr>r_digest := ComputeDigest (wit_entry b)\<rparr>]"
  "ch_head (wit_chain b) = ComputeDigest (wit_entry b)"
  by (simp_all add: wit_chain_def NewChain_def wit_checks Chain_Append_def Let_def wit_entry_def)

lemma wit_chain_verifies: "Chain_Verify (wit_chain b) = (True, -1, None)"
  by (simp add: Chain_Verify_iff wit_chain_eqs) (simp add: wit_entry_def)

lemma wit_entry_fields: "digest_fields (wit_entry (Some [])) = digest_fields (wit_entry None)"
  by (simp add: digest_fields_def wit_entry_def canonicalJSON_def)

lemma wit_entry_short: "short_fields (digest_fields (wit_entry None))"
proof -
  have "length (rfc3339nano 0) = 20" "actorOf (Some wit_tc) = \<lparr>ac_Type = ''SERVICE'', ac_ID = ''cli_1'', ac_Name = ''cli_1'',
      ac_IP = [], ac_UserAgent = [], ac_OnBehalfOf = []\<rparr>" "length (canonicalJSON None) = 2" "length (dec_of_nat (unat (1 :: 64 word))) = 1"
    by code_simp+
  moreover have "length (GenesisDigest ''ten_1'' ''nonce'') = 64" by (simp add: GenesisDigest_def)
  ultimately show ?thesis by (simp add: short_fields_def digest_fields_def wit_entry_def DigestDomain_def)
qed

theorem audit_chain_is_tamper_evident_witness:
  "map evidence (ch_records (wit_chain None)) = map evidence (ch_records (wit_chain (Some [])))
   \<and> ch_records (wit_chain None) \<noteq> ch_records (wit_chain (Some []))"
proof
  have "hashed (ch_records (wit_chain None) @ ch_records (wit_chain (Some []))) = {digest_input (digest_fields (wit_entry None))}"
    by (simp add: hashed_def wit_chain_eqs wit_entry_fields)
  then show "map evidence (ch_records (wit_chain None)) = map evidence (ch_records (wit_chain (Some [])))"
    by (intro audit_chain_is_tamper_evident)
      (simp_all add: wit_chain_verifies wit_chain_eqs ComputeDigest_def wit_entry_fields wit_entry_short)
  show "ch_records (wit_chain None) \<noteq> ch_records (wit_chain (Some []))"
    by (simp add: wit_chain_eqs wit_entry_def)
qed

end
