(* ===== verification/Retry.thy ===== *)
theory Retry
  imports Shared_Kernel Float64
begin

text \<open>
  Retrying under a deadline and a shared budget: \<open>src/internal/infrastructure/resilience/backoff.go\<close>,
  \<open>retry.go\<close> and \<open>timeout.go\<close>.

  The world a retried call runs in is a type \<open>'w\<close>; the context, the clock, the random source behind the
  backoff and the call itself are the functions of a \<open>retry_env\<close> on it, so that time passes and the
  context may end while a call or a wait is going on. Arithmetic on rates is \<open>float64\<close>, rounded as
  \<open>fl64\<close> does; balances are micro-tokens in \<open>int64\<close>. The counters behind the metrics are numbers.
\<close>

section \<open>Backoff\<close>

record ExponentialBackoff =
  bo_base :: duration
  bo_ceiling :: duration
  bo_multiplier :: rat

definition DefaultBackoffBase :: duration where "DefaultBackoffBase = 100000000"
definition InRequestBackoffCap :: duration where "InRequestBackoffCap = 2000000000"

definition NewExponentialBackoff :: "duration \<Rightarrow> duration \<Rightarrow> rat \<Rightarrow> ExponentialBackoff" where
  "NewExponentialBackoff base0 ceiling0 multiplier =
     (let base = (if base0 \<le> 0 then DefaultBackoffBase else base0);
          cap = (if ceiling0 < base then base else ceiling0)
      in \<lparr>bo_base = base, bo_ceiling = cap, bo_multiplier = (if multiplier < 1 then 1 else multiplier)\<rparr>)"

definition DefaultBackoff :: ExponentialBackoff where
  "DefaultBackoff = NewExponentialBackoff DefaultBackoffBase InRequestBackoffCap 2"

text \<open>The loop: \<open>None\<close> where it returns the ceiling.\<close>

fun ceiling_loop :: "nat \<Rightarrow> rat \<Rightarrow> rat \<Rightarrow> rat \<Rightarrow> rat option" where
  "ceiling_loop 0 limit m d = Some d"
| "ceiling_loop (Suc n) limit m d =
     (let d' = fl64 (d * m) in if limit \<le> d' then None else ceiling_loop n limit m d')"

definition Backoff_Ceiling :: "ExponentialBackoff \<Rightarrow> int \<Rightarrow> duration" where
  "Backoff_Ceiling b attempt0 =
     (let attempt = min 63 (max 0 attempt0);
          limit = fl64 (of_int (bo_ceiling b))
      in case ceiling_loop (nat attempt) limit (bo_multiplier b) (fl64 (of_int (bo_base b))) of
           None \<Rightarrow> bo_ceiling b
         | Some d \<Rightarrow> if limit \<le> d then bo_ceiling b else float_trunc d)"

text \<open>\<open>int64n\<close> is the random source: a number below its positive argument.\<close>

definition Backoff_Delay :: "(int \<Rightarrow> int) \<Rightarrow> ExponentialBackoff \<Rightarrow> int \<Rightarrow> duration" where
  "Backoff_Delay int64n b attempt =
     (let upper = Backoff_Ceiling b attempt in if upper \<le> 0 then 0 else int64n (wrap64 (upper + 1)))"

definition FullJitter :: "(int \<Rightarrow> int) \<Rightarrow> int \<Rightarrow> duration \<Rightarrow> duration \<Rightarrow> duration" where
  "FullJitter int64n attempt base cap = Backoff_Delay int64n (NewExponentialBackoff base cap 2) attempt"

section \<open>The retry budget\<close>

definition microToken :: int where "microToken = 1000000"

record Budget =
  bg_ratio :: int
  bg_floor :: rat
  bg_capacity :: int
  bg_tokens :: int
  bg_last :: time
  bg_deposits :: nat
  bg_withdrawn :: nat
  bg_exhausted :: nat

text \<open>\<open>Duration.Seconds\<close> of a duration that is not negative.\<close>

definition dur_Seconds :: "duration \<Rightarrow> rat" where
  "dur_Seconds d = fl64 (of_int (d div 1000000000) + fl64 (of_int (d mod 1000000000) / 1000000000))"

definition floor_tokens :: "rat \<Rightarrow> duration \<Rightarrow> int" where
  "floor_tokens perSecond d = float_trunc (fl64 (fl64 (perSecond * dur_Seconds d) * of_int microToken))"

definition DefaultRetryBudgetWindow :: duration where "DefaultRetryBudgetWindow = 10000000000"

definition NewBudget :: "rat \<Rightarrow> rat \<Rightarrow> duration \<Rightarrow> time \<Rightarrow> Budget" where
  "NewBudget ratio0 floor0 window0 now =
     (let ratio = (if ratio0 < 0 then 0 else ratio0);
          perSecond = (if floor0 < 0 then 0 else floor0);
          window = (if window0 \<le> 0 then DefaultRetryBudgetWindow else window0);
          capacity0 = floor_tokens perSecond window;
          capacity = (if capacity0 < microToken then microToken else capacity0)
      in \<lparr>bg_ratio = float_trunc (fl64 (ratio * of_int microToken)), bg_floor = perSecond,
          bg_capacity = capacity, bg_tokens = capacity, bg_last = now,
          bg_deposits = 0, bg_withdrawn = 0, bg_exhausted = 0\<rparr>)"

definition DefaultRetryBudget :: "time \<Rightarrow> Budget" where
  "DefaultRetryBudget now = NewBudget (fl64 (1 / 10)) 3 DefaultRetryBudgetWindow now"

definition refillLocked :: "time \<Rightarrow> Budget \<Rightarrow> Budget" where
  "refillLocked now b =
     (let elapsed = time_Sub now (bg_last b)
      in if elapsed \<le> 0 then b
         else let accrued = floor_tokens (bg_floor b) elapsed
           in if accrued \<le> 0 then b
              else b\<lparr>bg_last := now, bg_tokens := min (bg_capacity b) (wrap64 (bg_tokens b + accrued))\<rparr>)"

definition DepositN :: "time \<Rightarrow> int \<Rightarrow> Budget \<Rightarrow> Budget" where
  "DepositN now n b =
     (if n \<le> 0 then b
      else let b' = refillLocked now (b\<lparr>bg_deposits := bg_deposits b + nat n\<rparr>)
        in b'\<lparr>bg_tokens := min (bg_capacity b') (wrap64 (bg_tokens b' + wrap64 (bg_ratio b' * n)))\<rparr>)"

definition Deposit :: "time \<Rightarrow> Budget \<Rightarrow> Budget" where
  "Deposit now b = DepositN now 1 b"

definition Budget_Allow :: "time \<Rightarrow> Budget \<Rightarrow> Budget \<times> bool" where
  "Budget_Allow now b =
     (let b' = refillLocked now b
      in if bg_tokens b' < microToken then (b'\<lparr>bg_exhausted := bg_exhausted b' + 1\<rparr>, False)
         else (b'\<lparr>bg_tokens := bg_tokens b' - microToken, bg_withdrawn := bg_withdrawn b' + 1\<rparr>, True))"

definition Budget_Tokens :: "time \<Rightarrow> Budget \<Rightarrow> Budget \<times> rat" where
  "Budget_Tokens now b = (let b' = refillLocked now b in (b', fl64 (fl64 (of_int (bg_tokens b')) / of_int microToken)))"

section \<open>Retrying\<close>

datatype ctx_cause = CtxCanceled | CtxDeadlineExceeded

record 'w retry_env =
  en_Err :: "'w \<Rightarrow> ctx_cause option"
  en_Deadline :: "time option"
  en_Now :: "'w \<Rightarrow> time"
  en_Sleep :: "duration \<Rightarrow> 'w \<Rightarrow> ctx_cause option \<times> 'w"
  en_Call :: "duration option \<Rightarrow> 'w \<Rightarrow> go_error option \<times> 'w"
  en_Delay :: "int \<Rightarrow> 'w \<Rightarrow> duration \<times> 'w"

record Policy =
  po_MaxAttempts :: int
  po_RetryableFunc :: "(go_error \<Rightarrow> bool) option"
  po_Timeout :: duration

definition DefaultMaxAttempts :: int where "DefaultMaxAttempts = 3"
definition TimeoutGatewayAttempt :: duration where "TimeoutGatewayAttempt = 8000000000"

definition DefaultPolicy :: Policy where
  "DefaultPolicy = \<lparr>po_MaxAttempts = DefaultMaxAttempts, po_RetryableFunc = Some IsRetryable, po_Timeout = 0\<rparr>"

definition GatewayPolicy :: Policy where
  "GatewayPolicy = DefaultPolicy\<lparr>po_Timeout := TimeoutGatewayAttempt\<rparr>"

definition Policy_normalized :: "Policy \<Rightarrow> Policy" where
  "Policy_normalized p = p\<lparr>po_MaxAttempts := (if po_MaxAttempts p < 1 then 1 else po_MaxAttempts p),
     po_RetryableFunc := (case po_RetryableFunc p of None \<Rightarrow> Some IsRetryable | Some f \<Rightarrow> Some f)\<rparr>"

definition retryable :: "Policy \<Rightarrow> go_error \<Rightarrow> bool" where
  "retryable p e = (case po_RetryableFunc p of Some f \<Rightarrow> f e | None \<Rightarrow> IsRetryable e)"

definition attempt_timeout :: "Policy \<Rightarrow> duration option" where
  "attempt_timeout p = (if po_Timeout p \<le> 0 then None else Some (po_Timeout p))"

definition fitsBeforeDeadline :: "'w retry_env \<Rightarrow> 'w \<Rightarrow> duration \<Rightarrow> bool" where
  "fitsBeforeDeadline env w delay = (case en_Deadline env of
      None \<Rightarrow> True
    | Some deadline \<Rightarrow> delay < time_Sub deadline (en_Now env w))"

datatype retry_reason = reasonNonRetryable | reasonBudget | reasonDeadline | reasonContext | reasonExhausted

fun reason_text :: "retry_reason \<Rightarrow> string" where
  "reason_text reasonNonRetryable = ''error is not retryable''"
| "reason_text reasonBudget = ''retry budget exhausted''"
| "reason_text reasonDeadline = ''backoff would not fit in the remaining deadline''"
| "reason_text reasonContext = ''context cancelled''"
| "reason_text reasonExhausted = ''max attempts reached''"

definition gave_up_detail :: "int \<Rightarrow> retry_reason \<Rightarrow> err_detail" where
  "gave_up_detail attempts reason =
     \<lparr>d_field = [], d_code = ''RETRY_GAVE_UP'',
      d_message = ''gave up after '' @ dec_of_nat (nat attempts) @ '' attempt(s): '' @ reason_text reason,
      d_rule_id = ''RETRY.GAVE_UP''\<rparr>"

definition gaveUp :: "go_error option \<Rightarrow> int \<Rightarrow> retry_reason \<Rightarrow> go_error option" where
  "gaveUp err attempts reason = (case From err of
      Some (Platform e c) \<Rightarrow> Some (Platform (WithDetail e (gave_up_detail attempts reason)) c)
    | x \<Rightarrow> x)"

fun cause_error :: "ctx_cause \<Rightarrow> go_error" where
  "cause_error CtxCanceled = OtherError ''context canceled'' []"
| "cause_error CtxDeadlineExceeded = OtherError ''context deadline exceeded'' []"

fun contextError :: "ctx_cause \<Rightarrow> go_error" where
  "contextError CtxDeadlineExceeded =
     Wrap (Some (cause_error CtxDeadlineExceeded)) CodeGatewayTimeout ''the deadline elapsed before any attempt was started''"
| "contextError CtxCanceled =
     Wrap (Some (cause_error CtxCanceled)) CodeServiceUnavailable ''the request was cancelled before any attempt was started''"

text \<open>The budget, where there is one, and the world.\<close>

type_synonym 'w retry_state = "Budget option \<times> 'w"

definition budget_allows :: "'w retry_env \<Rightarrow> 'w retry_state \<Rightarrow> 'w retry_state \<times> bool" where
  "budget_allows env st = (case st of
      (None, w) \<Rightarrow> ((None, w), True)
    | (Some b, w) \<Rightarrow> (case Budget_Allow (en_Now env w) b of (b', ok) \<Rightarrow> ((Some b', w), ok)))"

text \<open>What follows a retryable error that was not the last attempt's: the next state, or why it stops.\<close>

definition before_retry :: "'w retry_env \<Rightarrow> int \<Rightarrow> 'w retry_state \<Rightarrow> 'w retry_state \<times> retry_reason option" where
  "before_retry env attempt st =
     (case budget_allows env st of (st1, ok) \<Rightarrow>
        if \<not> ok then (st1, Some reasonBudget)
        else case en_Delay env attempt (snd st1) of (delay, w2) \<Rightarrow>
          if \<not> fitsBeforeDeadline env w2 delay then ((fst st1, w2), Some reasonDeadline)
          else case en_Sleep env delay w2 of
            (Some _, w3) \<Rightarrow> ((fst st1, w3), Some reasonContext)
          | (None, w3) \<Rightarrow> ((fst st1, w3), None))"

function retry_loop ::
  "'w retry_env \<Rightarrow> Policy \<Rightarrow> int \<Rightarrow> go_error option \<Rightarrow> 'w retry_state \<Rightarrow> int \<times> go_error option \<times> 'w retry_state" where
  "retry_loop env p attempt lastErr (bud, w) =
     (if po_MaxAttempts p \<le> attempt
      then (po_MaxAttempts p, gaveUp lastErr (po_MaxAttempts p) reasonExhausted, (bud, w))
      else case en_Err env w of
        Some cause \<Rightarrow> (attempt, (if lastErr = None then Some (contextError cause) else gaveUp lastErr attempt reasonContext), (bud, w))
      | None \<Rightarrow> (case en_Call env (attempt_timeout p) w of
            (None, w1) \<Rightarrow> (attempt + 1, None, (bud, w1))
          | (Some e, w1) \<Rightarrow>
              if \<not> retryable p e then (attempt + 1, gaveUp (Some e) (attempt + 1) reasonNonRetryable, (bud, w1))
              else if attempt = po_MaxAttempts p - 1
              then (po_MaxAttempts p, gaveUp (Some e) (po_MaxAttempts p) reasonExhausted, (bud, w1))
              else case before_retry env attempt (bud, w1) of
                (st, Some reason) \<Rightarrow> (attempt + 1, gaveUp (Some e) (attempt + 1) reason, st)
              | (st, None) \<Rightarrow> retry_loop env p (attempt + 1) (Some e) st))"
  by pat_completeness auto
termination
  by (relation "measure (\<lambda>(env, p, attempt, lastErr, st). nat (po_MaxAttempts p - attempt))") auto

declare retry_loop.simps [simp del]

definition DoAttempts :: "'w retry_env \<Rightarrow> Policy \<Rightarrow> 'w retry_state \<Rightarrow> int \<times> go_error option \<times> 'w retry_state" where
  "DoAttempts env p0 st =
     (let p = Policy_normalized p0;
          bud = map_option (Deposit (en_Now env (snd st))) (fst st)
      in retry_loop env p 0 None (bud, snd st))"

definition Retry_Do :: "'w retry_env \<Rightarrow> Policy \<Rightarrow> 'w retry_state \<Rightarrow> go_error option \<times> 'w retry_state" where
  "Retry_Do env p st = snd (DoAttempts env p st)"

section \<open>Deadlines\<close>

record Cascade =
  ca_headroom :: duration
  ca_minUseful :: duration

definition NewCascade :: "duration \<Rightarrow> duration \<Rightarrow> Cascade" where
  "NewCascade headroom minUseful =
     \<lparr>ca_headroom = (if headroom < 0 then 0 else headroom), ca_minUseful = (if minUseful < 0 then 0 else minUseful)\<rparr>"

definition DefaultCascade :: Cascade where
  "DefaultCascade = NewCascade 2000000000 500000000"

definition GatewayCascade :: Cascade where
  "GatewayCascade = NewCascade 2000000000 500000000"

text \<open>A context at one instant: why it ended, if it did, and its deadline. \<open>Budget\<close> reads the clock twice.\<close>

record deadline_ctx =
  dc_Err :: "ctx_cause option"
  dc_Deadline :: "time option"

definition Cascade_Remaining :: "deadline_ctx \<Rightarrow> time \<Rightarrow> duration option" where
  "Cascade_Remaining ctx now = map_option (\<lambda>deadline. time_Sub deadline now) (dc_Deadline ctx)"

definition Cascade_Check :: "Cascade \<Rightarrow> deadline_ctx \<Rightarrow> time \<Rightarrow> Code option" where
  "Cascade_Check c ctx now = (case dc_Err ctx of
      Some cause \<Rightarrow> Some (CodeOf (contextError cause))
    | None \<Rightarrow> (case Cascade_Remaining ctx now of
          None \<Rightarrow> None
        | Some remaining \<Rightarrow>
            if wrap64 (remaining - ca_headroom c) < ca_minUseful c then Some CodeGatewayTimeout else None))"

definition Cascade_Budget :: "Cascade \<Rightarrow> deadline_ctx \<Rightarrow> time \<Rightarrow> time \<Rightarrow> duration \<Rightarrow> duration outcome" where
  "Cascade_Budget c ctx now now' want0 = (case Cascade_Check c ctx now of
      Some e \<Rightarrow> Inl e
    | None \<Rightarrow>
        (let want = (if want0 \<le> 0 then ca_minUseful c else want0)
         in case Cascade_Remaining ctx now' of
              None \<Rightarrow> Inr want
            | Some remaining \<Rightarrow>
                let budget = min want (wrap64 (remaining - ca_headroom c))
                in if budget < ca_minUseful c then Inl CodeGatewayTimeout else Inr budget))"

end
