(* ===== verification/Retry_Properties.thy ===== *)
theory Retry_Properties
  imports Retry
begin

text \<open>
  What retrying promises. The wait before a retry follows the documented exponential formula exactly for
  the doubling backoffs of the program. Over any use of a shared budget the retries granted are bounded
  by the traffic and the time that passed, not by the failures. The retry loop ends after at most the
  configured number of calls, calls again only after an error it may retry, and pays for every retry. A
  deadline handed to a child leaves the parent its headroom.
\<close>

section \<open>Backoff\<close>

lemma fl64_double: "0 < base \<Longrightarrow> base \<le> 2 ^ 53 \<Longrightarrow> fl64 (of_int base * 2 ^ i) = of_int base * 2 ^ i"
  by (rule fl64_exact [of base _ "int i"]) (simp_all add: power_int_def)

lemma ceiling_loop_double:
  assumes "0 < base" and "base \<le> 2 ^ 53"
  shows "ceiling_loop n (of_int cap) 2 (of_int base * 2 ^ i) =
    (if 0 < n \<and> cap \<le> base * 2 ^ (i + n) then None else Some (of_int base * 2 ^ (i + n)))"
proof (induction n arbitrary: i)
  case (Suc n)
  have d: "fl64 (of_int base * 2 ^ i * 2) = of_int (base * 2 ^ Suc i)"
    using fl64_double [OF assms, of "Suc i"] by (simp add: ac_simps)
  show ?case
  proof (cases "cap \<le> base * 2 ^ Suc i")
    case True
    have "base * 2 ^ Suc i \<le> base * 2 ^ (i + Suc n)"
      using assms(1) by (intro mult_left_mono power_increasing) auto
    then have "cap \<le> base * 2 ^ (i + Suc n)" using True by linarith
    moreover have "(of_int cap :: rat) \<le> of_int (base * 2 ^ Suc i)" using True by (simp only: of_int_le_iff)
    ultimately show ?thesis by (simp only: ceiling_loop.simps d Let_def if_True) simp
  next
    case False
    then have "\<not> (of_int cap :: rat) \<le> of_int (base * 2 ^ Suc i)" by (metis of_int_le_iff)
    then have "ceiling_loop (Suc n) (of_int cap) 2 (of_int base * 2 ^ i) = ceiling_loop n (of_int cap) 2 (of_int base * 2 ^ Suc i)"
      by (simp only: ceiling_loop.simps d Let_def if_False) simp
    also have "\<dots> = (if 0 < n \<and> cap \<le> base * 2 ^ (Suc i + n) then None else Some (of_int base * 2 ^ (Suc i + n)))"
      by (rule Suc.IH)
    finally show ?thesis using False by (cases n) auto
  qed
qed simp

lemma doubled_past_cap: "0 < base \<Longrightarrow> cap \<le> 2 ^ 53 \<Longrightarrow> 63 \<le> n \<Longrightarrow> cap \<le> base * 2 ^ n" for base cap :: int
proof -
  assume "0 < base" "cap \<le> 2 ^ 53" "63 \<le> n"
  then have "(2 :: int) ^ 53 \<le> 2 ^ n" by (intro power_increasing) auto
  also have "\<dots> \<le> base * 2 ^ n" using \<open>0 < base\<close> by simp
  finally show ?thesis using \<open>cap \<le> 2 ^ 53\<close> by linarith
qed

text \<open>
  C23: The backoff follows its formula. For every doubling backoff whose cap is below \<open>2 ^ 53\<close> nanoseconds the
  ceiling before attempt \<open>n + 1\<close> is exactly \<open>min cap (base * 2 ^ n)\<close>, although it is computed in
  floating point and by a loop cut off at 63 rounds, and the jittered delay lies between zero and that
  ceiling.
\<close>

theorem backoff_follows_formula:
  assumes "0 < base" and "base \<le> cap" and "cap < 2 ^ 53" and "0 \<le> n"
    and "\<And>k. 0 < k \<Longrightarrow> 0 \<le> int64n k \<and> int64n k < k"
  shows "Backoff_Ceiling (NewExponentialBackoff base cap 2) n = min cap (base * 2 ^ nat n)
    \<and> 0 \<le> FullJitter int64n n base cap \<and> FullJitter int64n n base cap \<le> min cap (base * 2 ^ nat n)"
proof -
  let ?b = "NewExponentialBackoff base cap 2"
  define k where "k = nat (min 63 (max 0 n))"
  have b: "bo_base ?b = base" "bo_ceiling ?b = cap" "bo_multiplier ?b = 2"
    using assms(1,2) by (simp_all add: NewExponentialBackoff_def Let_def)
  have le: "base \<le> 2 ^ 53" using assms(2,3) by linarith
  have fl: "fl64 (of_int cap) = of_int cap" "fl64 (of_int base) = of_int base"
    using assms(1-3) le by (simp_all add: fl64_of_int)
  have tr: "float_trunc (of_int base * 2 ^ j) = base * 2 ^ j" for j
  proof -
    have "(of_int base * 2 ^ j :: rat) = of_int (base * 2 ^ j)" by simp
    moreover have "0 \<le> (of_int (base * 2 ^ j) :: rat)" using assms(1) by (simp only: of_int_0_le_iff) simp
    ultimately show ?thesis unfolding float_trunc_def by (simp only: if_True floor_of_int)
  qed
  have cmp: "of_int cap \<le> (of_int base * 2 ^ j :: rat) \<longleftrightarrow> cap \<le> base * 2 ^ j" for j
  proof -
    have "(of_int base * 2 ^ j :: rat) = of_int (base * 2 ^ j)" by simp
    then show ?thesis by (simp only: of_int_le_iff)
  qed
  have "Backoff_Ceiling ?b n = (case ceiling_loop k (of_int cap) 2 (of_int base * 2 ^ 0) of None \<Rightarrow> cap
      | Some d \<Rightarrow> if of_int cap \<le> d then cap else float_trunc d)"
    unfolding Backoff_Ceiling_def Let_def k_def b fl by simp
  also have "\<dots> = min cap (base * 2 ^ k)"
    unfolding ceiling_loop_double [OF assms(1) le] by (simp add: tr cmp min_def)
  also have "\<dots> = min cap (base * 2 ^ nat n)"
  proof (cases "n \<le> 63")
    case False
    then have "63 \<le> k" "63 \<le> nat n" using assms(4) by (simp_all add: k_def)
    then have "cap \<le> base * 2 ^ k" "cap \<le> base * 2 ^ nat n"
      using assms(3) by (auto intro!: doubled_past_cap [OF assms(1)])
    then show ?thesis by (simp only: min_absorb1)
  qed (use assms(4) in \<open>simp add: k_def\<close>)
  finally have c: "Backoff_Ceiling ?b n = min cap (base * 2 ^ nat n)" .
  define u where "u = min cap (base * 2 ^ nat n)"
  have u: "0 < u" "u < 2 ^ 53" using assms(1-3) by (auto simp: u_def)
  have "Backoff_Ceiling ?b n = u" using c by (simp only: u_def)
  then have "FullJitter int64n n base cap = int64n (u + 1)"
    using u by (simp add: FullJitter_def Backoff_Delay_def Let_def in64_def)
  then show ?thesis using assms(5) [of "u + 1"] u c unfolding u_def [symmetric] by simp
qed

theorem backoff_follows_formula_witness:
  "Backoff_Ceiling (NewExponentialBackoff 100000000 2000000000 2) 4 = 1600000000
   \<and> Backoff_Ceiling (NewExponentialBackoff 100000000 2000000000 2) 70 = 2000000000
   \<and> FullJitter (\<lambda>k. k div 2) 4 100000000 2000000000 \<le> 1600000000"
proof -
  have r: "0 < k \<Longrightarrow> 0 \<le> k div 2 \<and> k div 2 < k" for k :: int by auto
  show ?thesis
    using backoff_follows_formula [of 100000000 2000000000 4 "\<lambda>k. k div 2", OF _ _ _ _ r]
      backoff_follows_formula [of 100000000 2000000000 70 "\<lambda>k. k div 2", OF _ _ _ _ r]
    by (simp add: min_def)
qed

section \<open>The budget\<close>

datatype budget_op = OpDeposit time int | OpAllow time

fun op_time :: "budget_op \<Rightarrow> time" where
  "op_time (OpDeposit t n) = t"
| "op_time (OpAllow t) = t"

fun budget_step :: "budget_op \<Rightarrow> Budget \<Rightarrow> Budget" where
  "budget_step (OpDeposit t n) b = DepositN t n b"
| "budget_step (OpAllow t) b = fst (Budget_Allow t b)"

lemma float_trunc_le: "0 \<le> x \<Longrightarrow> of_int (float_trunc x) \<le> x" "0 \<le> x \<Longrightarrow> 0 \<le> float_trunc x"
  by (simp_all add: float_trunc_def)

lemma dur_Seconds_bounds:
  assumes "0 \<le> d"
  shows "0 \<le> dur_Seconds d" and "dur_Seconds d \<le> of_int d / 1000000000 * (1 + 1 / 2 ^ 53) ^ 2"
proof -
  let ?s = "of_int (d div 1000000000) :: rat" and ?f = "of_int (d mod 1000000000) / 1000000000 :: rat"
  have nn: "0 \<le> ?s" "0 \<le> ?f" using assms by (auto simp: pos_imp_zdiv_nonneg_iff)
  have split: "of_int d / 1000000000 = ?s + ?f"
  proof -
    have "(of_int d :: rat) = of_int (d div 1000000000 * 1000000000 + d mod 1000000000)" by simp
    then show ?thesis by (simp only: of_int_add of_int_mult of_int_numeral add_divide_distrib)
  qed
  have f0: "0 \<le> fl64 ?f" using fl64_nonneg [OF nn(2)] .
  show "0 \<le> dur_Seconds d" unfolding dur_Seconds_def by (intro fl64_nonneg add_nonneg_nonneg nn f0)
  have "dur_Seconds d \<le> (?s + fl64 ?f) * (1 + 1 / 2 ^ 53)"
    unfolding dur_Seconds_def by (intro fl64_relative_error add_nonneg_nonneg nn f0)
  also have "\<dots> \<le> (?s * (1 + 1 / 2 ^ 53) + ?f * (1 + 1 / 2 ^ 53)) * (1 + 1 / 2 ^ 53)"
  proof (intro mult_right_mono add_mono fl64_relative_error nn)
    have "?s * 1 \<le> ?s * (1 + 1 / 2 ^ 53)" using nn(1) by (intro mult_left_mono) auto
    then show "?s \<le> ?s * (1 + 1 / 2 ^ 53)" by simp
  qed simp
  also have "\<dots> = (?s + ?f) * (1 + 1 / 2 ^ 53) ^ 2" by (simp only: power2_eq_square ring_distribs mult.assoc)
  finally show "dur_Seconds d \<le> of_int d / 1000000000 * (1 + 1 / 2 ^ 53) ^ 2" unfolding split .
qed

text \<open>What the floor accrues over a duration, with the four roundings.\<close>

lemma floor_tokens_bound:
  assumes "0 \<le> perSecond" and "0 \<le> d"
  shows "of_int (floor_tokens perSecond d) \<le> perSecond * of_int d / 1000 * (1 + 1 / 2 ^ 50)"
proof -
  let ?u = "1 + 1 / 2 ^ 53 :: rat"
  note s = dur_Seconds_bounds [OF assms(2)]
  have a: "0 \<le> perSecond * dur_Seconds d" using assms(1) s(1) by simp
  have b: "0 \<le> fl64 (perSecond * dur_Seconds d) * of_int microToken"
    using fl64_nonneg [OF a] by (simp add: microToken_def)
  have "of_int (floor_tokens perSecond d) \<le> fl64 (fl64 (perSecond * dur_Seconds d) * of_int microToken)"
    unfolding floor_tokens_def by (intro float_trunc_le fl64_nonneg b)
  also have "\<dots> \<le> fl64 (perSecond * dur_Seconds d) * of_int microToken * ?u"
    by (rule fl64_relative_error [OF b])
  also have "\<dots> \<le> perSecond * (of_int d / 1000000000 * ?u ^ 2) * ?u * of_int microToken * ?u"
  proof (intro mult_right_mono)
    have "fl64 (perSecond * dur_Seconds d) \<le> perSecond * dur_Seconds d * ?u" by (rule fl64_relative_error [OF a])
    also have "\<dots> \<le> perSecond * (of_int d / 1000000000 * ?u ^ 2) * ?u"
      using s(2) assms(1) by (intro mult_right_mono mult_left_mono) auto
    finally show "fl64 (perSecond * dur_Seconds d) \<le> perSecond * (of_int d / 1000000000 * ?u ^ 2) * ?u" .
  qed (simp_all add: microToken_def)
  also have "\<dots> = perSecond * of_int d / 1000 * ?u ^ 4" by (simp add: microToken_def power_def eval_nat_numeral field_simps)
  also have "\<dots> \<le> perSecond * of_int d / 1000 * (1 + 1 / 2 ^ 50)"
    using assms by (intro mult_left_mono) (auto simp: field_simps)
  finally show ?thesis .
qed

definition spent :: "Budget \<Rightarrow> int" where
  "spent b = microToken * int (bg_withdrawn b) + max 0 (bg_tokens b)"

text \<open>What the budget may have given out by now: the opening balance, the deposits, the floor since \<open>t0\<close>.\<close>

definition allowance :: "int \<Rightarrow> time \<Rightarrow> Budget \<Rightarrow> rat" where
  "allowance c t0 b = of_int c + of_int (bg_ratio b) * of_nat (bg_deposits b)
     + bg_floor b * of_int (bg_last b - t0) / 1000 * (1 + 1 / 2 ^ 50)"

definition budget_ok :: "int \<Rightarrow> time \<Rightarrow> time \<Rightarrow> Budget \<Rightarrow> bool" where
  "budget_ok c t0 T b \<longleftrightarrow> of_int (spent b) \<le> allowance c t0 b \<and> 0 \<le> bg_ratio b \<and> 0 \<le> bg_floor b
     \<and> bg_last b \<le> T \<and> - (2 ^ 63) \<le> bg_tokens b \<and> 0 \<le> bg_capacity b"

lemma refill_ok:
  assumes ok: "budget_ok c t0 T b" and t: "now \<le> T"
  shows "budget_ok c t0 T (refillLocked now b)"
proof -
  define el where "el = time_Sub now (bg_last b)"
  define acc where "acc = floor_tokens (bg_floor b) el"
  show ?thesis
  proof (cases "el \<le> 0 \<or> acc \<le> 0")
    case True
    then have "refillLocked now b = b" by (auto simp: refillLocked_def el_def acc_def Let_def)
    then show ?thesis using ok by simp
  next
    case False
    let ?b = "b\<lparr>bg_last := now, bg_tokens := min (bg_capacity b) (wrap64 (bg_tokens b + acc))\<rparr>"
    have r: "refillLocked now b = ?b" using False by (simp add: refillLocked_def el_def acc_def Let_def)
    have el: "0 \<le> el" "el \<le> now - bg_last b" using False by (auto simp: el_def time_Sub_def)
    have f: "0 \<le> bg_floor b" and tk: "- (2 ^ 63) \<le> bg_tokens b" "0 \<le> bg_capacity b" using ok by (simp_all add: budget_ok_def)
    have "of_int acc \<le> bg_floor b * of_int el / 1000 * (1 + 1 / 2 ^ 50)"
      unfolding acc_def by (rule floor_tokens_bound [OF f el(1)])
    also have "\<dots> \<le> bg_floor b * of_int (now - bg_last b) / 1000 * (1 + 1 / 2 ^ 50)"
      using f el(2) by (intro mult_right_mono divide_right_mono mult_left_mono) (simp_all only: of_int_le_iff, simp_all)
    finally have "allowance c t0 b + of_int acc \<le> allowance c t0 ?b"
      by (simp add: allowance_def field_simps)
    moreover have "max 0 (min (bg_capacity b) (wrap64 (bg_tokens b + acc))) \<le> max 0 (bg_tokens b) + acc"
      using wrap64_le [of "bg_tokens b + acc"] tk False by auto
    then have "spent ?b \<le> spent b + acc" by (simp add: spent_def)
    then have "of_int (spent ?b) \<le> (of_int (spent b) + of_int acc :: rat)" by (simp only: of_int_add [symmetric] of_int_le_iff)
    ultimately have "of_int (spent ?b) \<le> allowance c t0 ?b" using ok unfolding budget_ok_def by linarith
    then show ?thesis using ok t wrap64_ge [of "bg_tokens b + acc"] unfolding r budget_ok_def by simp
  qed
qed

lemma refill_fields [simp]:
  "bg_ratio (refillLocked now b) = bg_ratio b" "bg_deposits (refillLocked now b) = bg_deposits b"
  "bg_floor (refillLocked now b) = bg_floor b" "bg_capacity (refillLocked now b) = bg_capacity b"
  "bg_withdrawn (refillLocked now b) = bg_withdrawn b"
  by (simp_all add: refillLocked_def Let_def)

lemma DepositN_ok:
  assumes "budget_ok c t0 T b" and "now \<le> T" and "bg_ratio b * n < 2 ^ 63"
  shows "budget_ok c t0 T (DepositN now n b)"
proof (cases "n \<le> 0")
  case True
  then show ?thesis using assms by (simp add: DepositN_def)
next
  case False
  define b0 where "b0 = b\<lparr>bg_deposits := bg_deposits b + nat n\<rparr>"
  define b1 where "b1 = refillLocked now b0"
  have grown: "allowance c t0 b0 = allowance c t0 b + of_int (bg_ratio b * n)"
    using False by (simp add: b0_def allowance_def algebra_simps)
  have nn: "0 \<le> bg_ratio b * n" using assms False by (simp add: budget_ok_def)
  have ok1: "budget_ok (c - bg_ratio b * n) t0 T b1"
    unfolding b1_def
  proof (rule refill_ok [OF _ assms(2)])
    have "allowance (c - bg_ratio b * n) t0 b0 = allowance c t0 b"
      using grown by (simp add: allowance_def)
    then show "budget_ok (c - bg_ratio b * n) t0 T b0"
      using assms(1) by (simp add: budget_ok_def b0_def spent_def)
  qed
  have ratio: "bg_ratio b1 = bg_ratio b" by (simp add: b1_def b0_def)
  let ?b = "b1\<lparr>bg_tokens := min (bg_capacity b1) (wrap64 (bg_tokens b1 + wrap64 (bg_ratio b1 * n)))\<rparr>"
  have d: "DepositN now n b = ?b" using False by (simp add: DepositN_def b1_def b0_def Let_def)
  have w: "wrap64 (bg_ratio b * n) = bg_ratio b * n" using nn assms(3) by (intro wrap64_id) (simp add: in64_def)
  have "- (2 ^ 63) \<le> bg_tokens b1" "0 \<le> bg_capacity b1" using ok1 by (simp_all add: budget_ok_def)
  then have "max 0 (bg_tokens ?b) \<le> max 0 (bg_tokens b1) + bg_ratio b * n"
    using wrap64_le [of "bg_tokens b1 + bg_ratio b * n"] nn by (auto simp: ratio w)
  then have "spent ?b \<le> spent b1 + bg_ratio b * n" by (simp add: spent_def)
  then have "of_int (spent ?b) \<le> (of_int (spent b1) + of_int (bg_ratio b * n) :: rat)"
    by (simp only: of_int_add [symmetric] of_int_le_iff)
  moreover have "allowance (c - bg_ratio b * n) t0 b1 + of_int (bg_ratio b * n) = allowance c t0 ?b"
    by (simp add: allowance_def)
  ultimately have "of_int (spent ?b) \<le> allowance c t0 ?b" using ok1 unfolding budget_ok_def by linarith
  then show ?thesis using ok1 wrap64_ge unfolding d budget_ok_def by simp
qed

lemma Allow_ok:
  assumes "budget_ok c t0 T b" and "now \<le> T"
  shows "budget_ok c t0 T (fst (Budget_Allow now b))"
proof -
  define b1 where "b1 = refillLocked now b"
  have ok: "budget_ok c t0 T b1" unfolding b1_def by (rule refill_ok [OF assms])
  show ?thesis
  proof (cases "bg_tokens b1 < microToken")
    case True
    then show ?thesis using ok
      by (simp add: Budget_Allow_def b1_def [symmetric] Let_def budget_ok_def spent_def allowance_def)
  next
    case False
    let ?b = "b1\<lparr>bg_tokens := bg_tokens b1 - microToken, bg_withdrawn := bg_withdrawn b1 + 1\<rparr>"
    have "spent ?b = spent b1" using False by (simp add: spent_def microToken_def)
    moreover have "allowance c t0 ?b = allowance c t0 b1" by (simp add: allowance_def)
    ultimately have "budget_ok c t0 T ?b" using ok False by (simp add: budget_ok_def microToken_def)
    then show ?thesis using False by (simp add: Budget_Allow_def b1_def [symmetric] Let_def)
  qed
qed

fun op_fits :: "int \<Rightarrow> budget_op \<Rightarrow> bool" where
  "op_fits ratio (OpDeposit t n) \<longleftrightarrow> ratio * n < 2 ^ 63"
| "op_fits ratio (OpAllow t) \<longleftrightarrow> True"

lemma budget_step_fields [simp]:
  "bg_ratio (budget_step op b) = bg_ratio b" "bg_floor (budget_step op b) = bg_floor b"
  by (cases op; simp add: DepositN_def Budget_Allow_def Let_def)+

lemma budget_run_ok:
  assumes "budget_ok c t0 T b" and "\<forall>op \<in> set ops. op_time op \<le> T \<and> op_fits (bg_ratio b) op"
  shows "budget_ok c t0 T (fold budget_step ops b) \<and> bg_ratio (fold budget_step ops b) = bg_ratio b
    \<and> bg_floor (fold budget_step ops b) = bg_floor b"
  using assms
proof (induction ops arbitrary: b)
  case (Cons op ops)
  have "budget_ok c t0 T (budget_step op b)"
    using Cons.prems by (cases op) (auto intro: DepositN_ok Allow_ok)
  then show ?case using Cons.IH [of "budget_step op b"] Cons.prems(2) by simp
qed simp

lemma NewBudget_ok:
  assumes "now \<le> T"
  shows "budget_ok (bg_capacity (NewBudget ratio perSecond window now)) now T (NewBudget ratio perSecond window now)"
proof -
  have "0 \<le> fl64 (r * of_int microToken)" if "0 \<le> r" for r using that by (intro fl64_nonneg) (simp add: microToken_def)
  then show ?thesis
    using assms float_trunc_le(2)
    by (simp add: NewBudget_def Let_def budget_ok_def spent_def allowance_def microToken_def)
qed

text \<open>
  C11: The budget bounds the retries by traffic and time, not by failures. Over any sequence of deposits and
  withdrawals at instants up to \<open>T\<close>, in any order, the tokens granted never exceed the opening balance,
  plus the ratio for every original request, plus the floor rate for the time since the start, up to the
  rounding of the floating point: one part in \<open>2 ^ 50\<close> of the floor.
\<close>

theorem retry_budget_bounds_retries:
  assumes "now0 \<le> T" and "\<forall>op \<in> set ops. op_time op \<le> T \<and> op_fits (bg_ratio (NewBudget ratio perSecond window now0)) op"
  defines "b0 \<equiv> NewBudget ratio perSecond window now0"
  defines "b \<equiv> fold budget_step ops b0"
  shows "of_int (microToken * int (bg_withdrawn b)) \<le>
    of_int (bg_capacity b0) + of_int (bg_ratio b0) * of_nat (bg_deposits b)
    + bg_floor b0 * of_int (T - now0) / 1000 * (1 + 1 / 2 ^ 50 :: rat)"
proof -
  have ok: "budget_ok (bg_capacity b0) now0 T b" and eq: "bg_ratio b = bg_ratio b0" "bg_floor b = bg_floor b0"
    using budget_run_ok [OF NewBudget_ok [OF assms(1)] assms(2)] by (simp_all add: b_def b0_def)
  have "of_int (microToken * int (bg_withdrawn b)) \<le> (of_int (spent b) :: rat)"
    by (simp only: of_int_le_iff) (simp add: spent_def)
  also have "\<dots> \<le> allowance (bg_capacity b0) now0 b" using ok by (simp add: budget_ok_def)
  also have "\<dots> \<le> of_int (bg_capacity b0) + of_int (bg_ratio b0) * of_nat (bg_deposits b)
      + bg_floor b0 * of_int (T - now0) / 1000 * (1 + 1 / 2 ^ 50)"
    unfolding allowance_def eq using ok
    by (intro add_mono order.refl mult_right_mono divide_right_mono mult_left_mono)
      (auto simp: budget_ok_def eq)
  finally show ?thesis .
qed

theorem retry_budget_bounds_retries_witness:
  "let b0 = NewBudget (1 / 8) 3 10000000000 0;
       b = fold budget_step [OpDeposit 0 1, OpAllow 0, OpAllow 1000000000] b0
   in of_int (microToken * int (bg_withdrawn b)) \<le> (of_int (bg_capacity b0) + of_int (bg_ratio b0) * of_nat (bg_deposits b)
        + bg_floor b0 * of_int (1000000000 - 0) / 1000 * (1 + 1 / 2 ^ 50) :: rat)"
proof -
  have "bg_ratio (NewBudget (1 / 8) 3 10000000000 0) = 125000" by code_simp
  then show ?thesis
    unfolding Let_def
    by (intro retry_budget_bounds_retries [of 0 1000000000 "[OpDeposit 0 1, OpAllow 0, OpAllow 1000000000]"]) simp_all
qed

section \<open>The retry loop\<close>

text \<open>An environment that also keeps what every call returned.\<close>

definition logged :: "'w retry_env \<Rightarrow> ('w \<times> go_error option list) retry_env" where
  "logged env =
     \<lparr>en_Err = (\<lambda>(w, l). en_Err env w), en_Deadline = en_Deadline env, en_Now = (\<lambda>(w, l). en_Now env w),
      en_Sleep = (\<lambda>d (w, l). case en_Sleep env d w of (c, w') \<Rightarrow> (c, (w', l))),
      en_Call = (\<lambda>t (w, l). case en_Call env t w of (r, w') \<Rightarrow> (r, (w', l @ [r]))),
      en_Delay = (\<lambda>n (w, l). case en_Delay env n w of (d, w') \<Rightarrow> (d, (w', l)))\<rparr>"

lemma gaveUp_Some [simp]: "\<exists>y. gaveUp (Some e) n r = Some y"
proof -
  obtain p c where "From (Some e) = Some (Platform p c)"
    by (cases "errors_As e") (auto simp: From_def Wrap_def split: prod.splits)
  then show ?thesis by (simp add: gaveUp_def)
qed

definition withdrawn :: "Budget option \<Rightarrow> nat" where
  "withdrawn bud = (case bud of None \<Rightarrow> 0 | Some b \<Rightarrow> bg_withdrawn b)"

lemma Budget_Allow_withdrawn:
  "Budget_Allow now b = (b', ok) \<Longrightarrow> bg_withdrawn b' = bg_withdrawn b + (if ok then 1 else 0)"
  by (auto simp: Budget_Allow_def Let_def split: if_splits)

lemma before_retry_logged:
  assumes "before_retry (logged env) n (bud, (w, l)) = ((bud', (w', l')), reason)"
  shows "l' = l" and "bud = None \<longleftrightarrow> bud' = None"
    and "withdrawn bud \<le> withdrawn bud' \<and> withdrawn bud' \<le> withdrawn bud + 1"
    and "reason = None \<Longrightarrow> bud \<noteq> None \<Longrightarrow> withdrawn bud' = withdrawn bud + 1"
  using assms
  by (auto simp: before_retry_def budget_allows_def logged_def withdrawn_def
      split: prod.splits option.splits if_splits dest!: Budget_Allow_withdrawn)

lemma retry_loop_logged:
  assumes "retry_loop (logged env) p attempt lastErr (bud, (w, l)) = (n, r, (bud', (w', l')))"
    and "attempt \<le> po_MaxAttempts p" and "attempt < po_MaxAttempts p \<or> lastErr \<noteq> None"
  shows "\<exists>ext. l' = l @ ext \<and> n = attempt + int (length ext) \<and> n \<le> po_MaxAttempts p
    \<and> (\<forall>x \<in> set (butlast ext). \<exists>e. x = Some e \<and> retryable p e)
    \<and> (r = None \<longleftrightarrow> ext \<noteq> [] \<and> List.last ext = None)
    \<and> (bud \<noteq> None \<longrightarrow> withdrawn bud + length ext \<le> withdrawn bud' + 1 \<and> withdrawn bud' \<le> withdrawn bud + length ext
        \<and> int (withdrawn bud') \<le> int (withdrawn bud) + max 0 (po_MaxAttempts p - 1 - attempt)
        \<and> (r = None \<longrightarrow> withdrawn bud' + 1 = withdrawn bud + length ext))"
  using assms
proof (induction "nat (po_MaxAttempts p - attempt)" arbitrary: attempt lastErr bud w l rule: less_induct)
  case less
  note unfolded = less.prems(1) [unfolded retry_loop.simps [of "logged env" p attempt lastErr bud "(w, l)"]]
  show ?case
  proof (cases "po_MaxAttempts p \<le> attempt \<or> en_Err env w \<noteq> None")
    case True
    then have "l' = l \<and> n = attempt \<and> r \<noteq> None \<and> bud' = bud"
      using unfolded less.prems(2,3) by (auto simp: logged_def split: if_splits option.splits)
    then show ?thesis using less.prems(2) by (intro exI [of _ "[]"]) auto
  next
    case False
    then have at: "attempt < po_MaxAttempts p" "en_Err env w = None" by auto
    obtain res w1 where call: "en_Call env (attempt_timeout p) w = (res, w1)" by fastforce
    show ?thesis
    proof (cases res)
      case None
      then have "l' = l @ [None] \<and> n = attempt + 1 \<and> r = None \<and> bud' = bud"
        using unfolded at call by (simp add: logged_def)
      then show ?thesis using at by (intro exI [of _ "[None]"]) auto
    next
      case (Some e)
      obtain bud2 w2 l2 reason where br: "before_retry (logged env) attempt (bud, (w1, l @ [Some e])) = ((bud2, (w2, l2)), reason)"
        by (metis surj_pair)
      show ?thesis
      proof (cases "retryable p e \<and> attempt \<noteq> po_MaxAttempts p - 1 \<and> reason = None")
        case False
        then have "l' = l @ [Some e] \<and> n = attempt + 1 \<and> r \<noteq> None
            \<and> withdrawn bud \<le> withdrawn bud' \<and> withdrawn bud' \<le> withdrawn bud + 1
            \<and> (withdrawn bud' = withdrawn bud + 1 \<longrightarrow> attempt \<noteq> po_MaxAttempts p - 1)"
          using unfolded at call Some br before_retry_logged [OF br]
          by (auto simp: logged_def split: if_splits option.splits)
        then show ?thesis using at by (intro exI [of _ "[Some e]"]) auto
      next
        case True
        have l2: "l2 = l @ [Some e]" and nb: "bud = None \<longleftrightarrow> bud2 = None"
          and wd: "bud \<noteq> None \<Longrightarrow> withdrawn bud2 = withdrawn bud + 1"
          using before_retry_logged [OF br] True by auto
        have "retry_loop (logged env) p (attempt + 1) (Some e) (bud2, (w2, l2)) = (n, r, (bud', (w', l')))"
          using unfolded at call Some True br by (simp add: logged_def)
        from less.hyps [OF _ this] at True obtain ext where ext: "l' = l2 @ ext" "n = attempt + 1 + int (length ext)"
            "n \<le> po_MaxAttempts p" "\<forall>x \<in> set (butlast ext). \<exists>e. x = Some e \<and> retryable p e"
            "r = None \<longleftrightarrow> ext \<noteq> [] \<and> List.last ext = None"
            "bud2 \<noteq> None \<longrightarrow> withdrawn bud2 + length ext \<le> withdrawn bud' + 1 \<and> withdrawn bud' \<le> withdrawn bud2 + length ext
              \<and> int (withdrawn bud') \<le> int (withdrawn bud2) + max 0 (po_MaxAttempts p - 1 - (attempt + 1))
              \<and> (r = None \<longrightarrow> withdrawn bud' + 1 = withdrawn bud2 + length ext)"
          by auto
        then show ?thesis using l2 nb wd True at by (intro exI [of _ "Some e # ext"]) auto
      qed
    qed
  qed
qed

text \<open>
  C20: Retrying ends, and stays within its bounds. Whatever the context, the clock, the random source, the
  budget and the call do, \<open>DoAttempts\<close> returns: it has called the function exactly as often as it says, at
  most \<open>MaxAttempts\<close> times and never more than once where no retry is configured; every call but
  the last failed with an error the policy lets it retry, so nothing is called again after a success or
  after an error that is not retryable; and it reports success exactly when the last call succeeded. Under
  a budget every call after the first has been paid for with a token, so it takes at least one token per
  retry; it takes at most one token per call and at most \<open>MaxAttempts - 1\<close> in all; and when it reports
  success it has taken exactly one token per retry. (When it gives up, the last token may have bought no
  call, because the wait did not fit in the deadline or the context ended.)
\<close>

theorem DoAttempts_terminates_within_bounds:
  "\<exists>n r bud' w' log. DoAttempts (logged env) p (bud, (w, [])) = (n, r, (bud', (w', log)))
    \<and> n = int (length log) \<and> n \<le> max 1 (po_MaxAttempts p)
    \<and> (\<forall>x \<in> set (butlast log). \<exists>e. x = Some e \<and> retryable (Policy_normalized p) e)
    \<and> (r = None \<longleftrightarrow> log \<noteq> [] \<and> List.last log = None)
    \<and> (bud = None \<or> withdrawn bud + length log \<le> withdrawn bud' + 1 \<and> withdrawn bud' \<le> withdrawn bud + length log
        \<and> int (withdrawn bud') \<le> int (withdrawn bud) + (max 1 (po_MaxAttempts p) - 1)
        \<and> (r = None \<longrightarrow> withdrawn bud' + 1 = withdrawn bud + length log))"
proof -
  let ?p = "Policy_normalized p"
  define bud1 where "bud1 = map_option (Deposit (en_Now env w)) bud"
  obtain n r bud' w' log where res: "retry_loop (logged env) ?p 0 None (bud1, (w, [])) = (n, r, (bud', (w', log)))"
    by (metis surj_pair)
  have m: "po_MaxAttempts ?p = max 1 (po_MaxAttempts p)" by (simp add: Policy_normalized_def)
  have wd: "withdrawn bud1 = withdrawn bud"
    by (cases bud) (simp_all add: bud1_def withdrawn_def Deposit_def DepositN_def Let_def)
  have "DoAttempts (logged env) p (bud, (w, [])) = (n, r, (bud', (w', log)))"
    using res by (simp add: DoAttempts_def bud1_def logged_def Let_def)
  moreover have "n = int (length log) \<and> n \<le> max 1 (po_MaxAttempts p)
    \<and> (\<forall>x \<in> set (butlast log). \<exists>e. x = Some e \<and> retryable ?p e)
    \<and> (r = None \<longleftrightarrow> log \<noteq> [] \<and> List.last log = None)
    \<and> (bud = None \<or> withdrawn bud + length log \<le> withdrawn bud' + 1 \<and> withdrawn bud' \<le> withdrawn bud + length log
        \<and> int (withdrawn bud') \<le> int (withdrawn bud) + (max 1 (po_MaxAttempts p) - 1)
        \<and> (r = None \<longrightarrow> withdrawn bud' + 1 = withdrawn bud + length log))"
  proof -
    have "0 \<le> po_MaxAttempts ?p" "0 < po_MaxAttempts ?p \<or> None \<noteq> (None :: go_error option)" by (simp_all add: m)
    from retry_loop_logged [OF res this] show ?thesis unfolding m by (auto simp: wd) (auto simp: bud1_def)
  qed
  ultimately show ?thesis by blast
qed

text \<open>A call that fails twice with a retryable error and then succeeds, under the default policy.\<close>

definition flaky :: "nat retry_env" where
  "flaky = \<lparr>en_Err = (\<lambda>_. None), en_Deadline = None, en_Now = (\<lambda>_. 0), en_Sleep = (\<lambda>_ w. (None, w)),
     en_Call = (\<lambda>_ w. (if w < 2 then Some (Platform (New CodeServiceUnavailable []) None) else None, w + 1)),
     en_Delay = (\<lambda>_ w. (0, w))\<rparr>"

theorem DoAttempts_terminates_within_bounds_witness:
  "fst (DoAttempts (logged flaky) DefaultPolicy (Some (DefaultRetryBudget 0), (0, []))) = 3
   \<and> (\<exists>n r bud' w' log. DoAttempts (logged flaky) DefaultPolicy (Some (DefaultRetryBudget 0), (0, [])) = (n, r, (bud', (w', log)))
    \<and> n = int (length log) \<and> n \<le> max 1 (po_MaxAttempts DefaultPolicy)
    \<and> (\<forall>x \<in> set (butlast log). \<exists>e. x = Some e \<and> retryable (Policy_normalized DefaultPolicy) e)
    \<and> (r = None \<longleftrightarrow> log \<noteq> [] \<and> List.last log = None)
    \<and> (Some (DefaultRetryBudget 0) = None \<or> withdrawn (Some (DefaultRetryBudget 0)) + length log \<le> withdrawn bud' + 1 \<and> withdrawn bud' \<le> withdrawn (Some (DefaultRetryBudget 0)) + length log
        \<and> int (withdrawn bud') \<le> int (withdrawn (Some (DefaultRetryBudget 0))) + (max 1 (po_MaxAttempts DefaultPolicy) - 1)
        \<and> (r = None \<longrightarrow> withdrawn bud' + 1 = withdrawn (Some (DefaultRetryBudget 0)) + length log)))"
proof
  show "fst (DoAttempts (logged flaky) DefaultPolicy (Some (DefaultRetryBudget 0), (0, []))) = 3" by code_simp
qed (rule DoAttempts_terminates_within_bounds)

section \<open>Deadlines\<close>

text \<open>
  A child deadline leaves the parent its headroom. Where the cascade hands out a budget under a parent
  deadline, the call that uses all of it ends at least the headroom before the parent's deadline, and the
  budget is at least the minimum useful time.
\<close>

theorem child_deadline_leaves_headroom:
  assumes "Cascade_Budget (NewCascade headroom minUseful) ctx now now' want = Inr budget"
    and "dc_Deadline ctx = Some deadline" and "\<bar>deadline - now'\<bar> < 2 ^ 62" and "headroom < 2 ^ 62"
  shows "now' + budget + headroom \<le> deadline \<and> max 0 minUseful \<le> budget"
proof -
  let ?c = "NewCascade headroom minUseful"
  have h: "ca_headroom ?c = max 0 headroom" "ca_minUseful ?c = max 0 minUseful" by (auto simp: NewCascade_def)
  have sub: "time_Sub deadline now' = deadline - now'" using assms(3) by (simp add: time_Sub_def)
  have wr: "wrap64 (deadline - now' - max 0 headroom) = deadline - now' - max 0 headroom"
    using assms(3,4) by (intro wrap64_id) (auto simp: in64_def)
  obtain want' where "budget = min want' (deadline - now' - max 0 headroom)" "\<not> budget < max 0 minUseful"
    using assms(1,2) wr unfolding Cascade_Budget_def Cascade_Remaining_def h Let_def
    by (simp add: sub split: option.splits if_splits) (metis+)
  then show ?thesis by linarith
qed

theorem child_deadline_leaves_headroom_witness:
  "Cascade_Budget (NewCascade 2000000000 500000000) \<lparr>dc_Err = None, dc_Deadline = Some 3000000000\<rparr> 0 0 8000000000 = Inr 1000000000
   \<and> (0 + 1000000000 + 2000000000 \<le> (3000000000 :: int) \<and> max 0 500000000 \<le> (1000000000 :: int))"
proof
  show b: "Cascade_Budget (NewCascade 2000000000 500000000) \<lparr>dc_Err = None, dc_Deadline = Some 3000000000\<rparr> 0 0 8000000000 = Inr 1000000000"
    by code_simp
  show "0 + 1000000000 + 2000000000 \<le> (3000000000 :: int) \<and> max 0 500000000 \<le> (1000000000 :: int)"
    using child_deadline_leaves_headroom [OF b] by simp
qed

end
