(* ===== verification/Circuit_Breaker.thy ===== *)
theory Circuit_Breaker
  imports Retry
begin

text \<open>
  The circuit breaker of \<open>src/internal/infrastructure/resilience/circuitbreaker.go\<close>: its configuration,
  the sliding window of counters, the three states and the operations under its lock.

  Every operation is one critical section; the clock it reads is its argument \<open>now\<close>, and it returns the
  transitions it drains, which \<open>notify\<close> passes to the callback after the lock is released. A permit is
  the triple its closure captures; that it reports at most once is the business of who holds it. Rates
  are \<open>float64\<close>. The counters and the generation are numbers, not wrapped at 64 bits; a duration
  wraps. An instant is its \<open>UnixNano\<close>, so the dates are those between 1678 and 2262 for which Go defines it.
\<close>

section \<open>States, outcomes, configuration\<close>

datatype BreakerState = StateClosed | StateOpen | StateHalfOpen

fun BreakerState_Gauge :: "BreakerState \<Rightarrow> int" where
  "BreakerState_Gauge StateClosed = 0"
| "BreakerState_Gauge StateOpen = 1"
| "BreakerState_Gauge StateHalfOpen = 2"

fun BreakerState_String :: "BreakerState \<Rightarrow> string" where
  "BreakerState_String StateClosed = ''CLOSED''"
| "BreakerState_String StateOpen = ''OPEN''"
| "BreakerState_String StateHalfOpen = ''HALF_OPEN''"

datatype Health = HealthHealthy | HealthDegraded | HealthUnhealthy | HealthProbing

datatype call_outcome = CallSuccess | CallFailure | CallIgnore

text \<open>\<open>errors.Is\<close> with a sentinel of the standard library, which its text identifies here.\<close>

fun errors_Is_sentinel :: "string \<Rightarrow> go_error \<Rightarrow> bool" where
  "errors_Is_sentinel s (Platform e None) \<longleftrightarrow> False"
| "errors_Is_sentinel s (Platform e (Some c)) \<longleftrightarrow> errors_Is_sentinel s c"
| "errors_Is_sentinel s (OtherError t es) \<longleftrightarrow> s = t \<or> list_ex (errors_Is_sentinel s) es"

definition DefaultClassifier :: "go_error option \<Rightarrow> call_outcome" where
  "DefaultClassifier err = (case err of
      None \<Rightarrow> CallSuccess
    | Some e \<Rightarrow>
        if errors_Is_sentinel ''context canceled'' e then CallIgnore
        else if errors_Is_sentinel ''context deadline exceeded'' e then CallFailure
        else if CodeOf e = CodeGatewayDeclined then CallIgnore
        else if CategoryOf e \<in> {CategoryBusinessRule, CategoryValidation, CategoryAuthentication,
                                CategoryAuthorization, CategoryNotFound, CategoryConflict}
             then CallIgnore
        else CallFailure)"

record BreakerConfig =
  bc_Window :: duration
  bc_Buckets :: int
  bc_MinimumSamples :: int
  bc_FailureRateToOpen :: rat
  bc_DegradedRate :: rat
  bc_SlowCallDuration :: duration
  bc_SlowCallRateToOpen :: rat
  bc_BaseCooldown :: duration
  bc_MaxCooldown :: duration
  bc_HalfOpenProbes :: int
  bc_ProbeSuccessesToClose :: int
  bc_Classify :: "(go_error option \<Rightarrow> call_outcome) option"

definition DefaultBreakerConfig :: BreakerConfig where
  "DefaultBreakerConfig =
     \<lparr>bc_Window = 30000000000, bc_Buckets = 10, bc_MinimumSamples = 20, bc_FailureRateToOpen = fl64 (1 / 4),
      bc_DegradedRate = fl64 (1 / 20), bc_SlowCallDuration = 5000000000, bc_SlowCallRateToOpen = fl64 (1 / 100),
      bc_BaseCooldown = 30000000000, bc_MaxCooldown = 300000000000, bc_HalfOpenProbes = 1,
      bc_ProbeSuccessesToClose = 3, bc_Classify = Some DefaultClassifier\<rparr>"

definition RedisBreakerConfig :: BreakerConfig where
  "RedisBreakerConfig = DefaultBreakerConfig\<lparr>bc_Window := 5000000000, bc_Buckets := 5, bc_MinimumSamples := 10,
     bc_FailureRateToOpen := fl64 (1 / 2), bc_SlowCallDuration := 200000000, bc_BaseCooldown := 5000000000,
     bc_MaxCooldown := 30000000000\<rparr>"

definition VendorBreakerConfig :: BreakerConfig where
  "VendorBreakerConfig = DefaultBreakerConfig\<lparr>bc_Window := 60000000000, bc_Buckets := 12, bc_MinimumSamples := 10,
     bc_FailureRateToOpen := fl64 (1 / 2), bc_SlowCallDuration := 30000000000, bc_BaseCooldown := 30000000000\<rparr>"

definition BreakerConfig_normalized :: "BreakerConfig \<Rightarrow> BreakerConfig" where
  "BreakerConfig_normalized c =
     (let d = DefaultBreakerConfig;
          base = (if bc_BaseCooldown c \<le> 0 then bc_BaseCooldown d else bc_BaseCooldown c)
      in \<lparr>bc_Window = (if bc_Window c \<le> 0 then bc_Window d else bc_Window c),
          bc_Buckets = (if bc_Buckets c \<le> 0 then bc_Buckets d else bc_Buckets c),
          bc_MinimumSamples = (if bc_MinimumSamples c \<le> 0 then bc_MinimumSamples d else bc_MinimumSamples c),
          bc_FailureRateToOpen = (if bc_FailureRateToOpen c \<le> 0 \<or> 1 < bc_FailureRateToOpen c
            then bc_FailureRateToOpen d else bc_FailureRateToOpen c),
          bc_DegradedRate = (if bc_DegradedRate c \<le> 0 \<or> 1 < bc_DegradedRate c
            then bc_DegradedRate d else bc_DegradedRate c),
          bc_SlowCallDuration = (if bc_SlowCallDuration c \<le> 0 then bc_SlowCallDuration d else bc_SlowCallDuration c),
          bc_SlowCallRateToOpen = (if bc_SlowCallRateToOpen c \<le> 0 \<or> 1 < bc_SlowCallRateToOpen c
            then bc_SlowCallRateToOpen d else bc_SlowCallRateToOpen c),
          bc_BaseCooldown = base,
          bc_MaxCooldown = (if bc_MaxCooldown c < base then max (bc_MaxCooldown d) base else bc_MaxCooldown c),
          bc_HalfOpenProbes = (if bc_HalfOpenProbes c \<le> 0 then bc_HalfOpenProbes d else bc_HalfOpenProbes c),
          bc_ProbeSuccessesToClose = (if bc_ProbeSuccessesToClose c \<le> 0
            then bc_ProbeSuccessesToClose d else bc_ProbeSuccessesToClose c),
          bc_Classify = (case bc_Classify c of None \<Rightarrow> Some DefaultClassifier | Some f \<Rightarrow> Some f)\<rparr>)"

section \<open>The sliding window\<close>

record Counts =
  ct_Successes :: int
  ct_Failures :: int
  ct_Slow :: int

definition Counts_Total :: "Counts \<Rightarrow> int" where
  "Counts_Total c = ct_Successes c + ct_Failures c"

definition float_ratio :: "int \<Rightarrow> int \<Rightarrow> rat" where
  "float_ratio a b = fl64 (fl64 (of_int a) / fl64 (of_int b))"

definition ErrorRate :: "Counts \<Rightarrow> rat" where
  "ErrorRate c = (if Counts_Total c = 0 then 0 else float_ratio (ct_Failures c) (Counts_Total c))"

definition SlowRate :: "Counts \<Rightarrow> rat" where
  "SlowRate c = (if Counts_Total c = 0 then 0 else float_ratio (ct_Slow c) (Counts_Total c))"

record windowBucket =
  wb_idx :: int
  wb_success :: int
  wb_failure :: int
  wb_slowCall :: int

record slidingWindow =
  sw_buckets :: "windowBucket list"
  sw_width :: duration
  sw_n :: int

definition empty_bucket :: "int \<Rightarrow> windowBucket" where
  "empty_bucket i = \<lparr>wb_idx = i, wb_success = 0, wb_failure = 0, wb_slowCall = 0\<rparr>"

definition window_reset :: "slidingWindow \<Rightarrow> slidingWindow" where
  "window_reset w = w\<lparr>sw_buckets := replicate (length (sw_buckets w)) (empty_bucket (-1))\<rparr>"

definition newSlidingWindow :: "duration \<Rightarrow> int \<Rightarrow> slidingWindow" where
  "newSlidingWindow window0 buckets0 =
     (let buckets = (if buckets0 \<le> 0 then bc_Buckets DefaultBreakerConfig else buckets0);
          window = (if window0 \<le> 0 then bc_Window DefaultBreakerConfig else window0);
          width = window sdiv buckets
      in window_reset \<lparr>sw_buckets = replicate (nat buckets) (empty_bucket 0),
           sw_width = (if width \<le> 0 then 1000000 else width), sw_n = buckets\<rparr>)"

definition window_index :: "slidingWindow \<Rightarrow> time \<Rightarrow> int" where
  "window_index w t = t sdiv sw_width w"

definition window_slot :: "slidingWindow \<Rightarrow> int \<Rightarrow> nat" where
  "window_slot w idx = nat ((idx smod sw_n w + sw_n w) smod sw_n w)"

definition window_record :: "slidingWindow \<Rightarrow> time \<Rightarrow> call_outcome \<Rightarrow> bool \<Rightarrow> slidingWindow" where
  "window_record w now oc slow =
     (let idx = window_index w now;
          i = window_slot w idx;
          b0 = sw_buckets w ! i;
          b1 = (if wb_idx b0 \<noteq> idx then empty_bucket idx else b0);
          s = (if slow then 1 else 0);
          b2 = (case oc of
                  CallSuccess \<Rightarrow> b1\<lparr>wb_success := wb_success b1 + 1, wb_slowCall := wb_slowCall b1 + s\<rparr>
                | CallFailure \<Rightarrow> b1\<lparr>wb_failure := wb_failure b1 + 1, wb_slowCall := wb_slowCall b1 + s\<rparr>
                | CallIgnore \<Rightarrow> b1)
      in w\<lparr>sw_buckets := (sw_buckets w)[i := b2]\<rparr>)"

definition add_bucket :: "windowBucket \<Rightarrow> Counts \<Rightarrow> Counts" where
  "add_bucket b c = \<lparr>ct_Successes = ct_Successes c + wb_success b, ct_Failures = ct_Failures c + wb_failure b,
     ct_Slow = ct_Slow c + wb_slowCall b\<rparr>"

definition window_counts :: "slidingWindow \<Rightarrow> time \<Rightarrow> Counts" where
  "window_counts w now =
     (let idx = window_index w now; oldest = idx - sw_n w + 1
      in fold (\<lambda>b c. if wb_idx b < oldest \<or> idx < wb_idx b then c else add_bucket b c) (sw_buckets w)
           \<lparr>ct_Successes = 0, ct_Failures = 0, ct_Slow = 0\<rparr>)"

section \<open>The breaker\<close>

record Breaker =
  br_cfg :: BreakerConfig
  br_state :: BreakerState
  br_window :: slidingWindow
  br_generation :: nat
  br_openedAt :: time
  br_cooldown :: duration
  br_probesInFlight :: int
  br_consecutiveSuccesses :: int
  br_pending :: "(BreakerState \<times> BreakerState) list"

definition NewBreaker :: "BreakerConfig \<Rightarrow> Breaker" where
  "NewBreaker cfg0 =
     (let cfg = BreakerConfig_normalized cfg0
      in \<lparr>br_cfg = cfg, br_state = StateClosed, br_window = newSlidingWindow (bc_Window cfg) (bc_Buckets cfg),
          br_generation = 0, br_openedAt = zero_time, br_cooldown = bc_BaseCooldown cfg,
          br_probesInFlight = 0, br_consecutiveSuccesses = 0, br_pending = []\<rparr>)"

definition setStateLocked :: "BreakerState \<Rightarrow> time \<Rightarrow> Breaker \<Rightarrow> Breaker" where
  "setStateLocked s now b =
     (if br_state b = s then b
      else let b1 = b\<lparr>br_state := s, br_generation := br_generation b + 1, br_probesInFlight := 0,
                      br_consecutiveSuccesses := 0\<rparr>;
               b2 = (case s of
                       StateOpen \<Rightarrow> b1\<lparr>br_openedAt := now\<rparr>
                     | StateClosed \<Rightarrow> b1\<lparr>br_cooldown := bc_BaseCooldown (br_cfg b1), br_window := window_reset (br_window b1)\<rparr>
                     | StateHalfOpen \<Rightarrow> b1)
        in b2\<lparr>br_pending := br_pending b2 @ [(br_state b, s)]\<rparr>)"

definition tripLocked :: "time \<Rightarrow> Breaker \<Rightarrow> Breaker" where
  "tripLocked now b =
     setStateLocked StateOpen now
       (b\<lparr>br_cooldown := (if br_state b = StateHalfOpen
            then min (wrap64 (br_cooldown b * 2)) (bc_MaxCooldown (br_cfg b))
            else bc_BaseCooldown (br_cfg b))\<rparr>)"

definition maybeHalfOpenLocked :: "time \<Rightarrow> Breaker \<Rightarrow> Breaker" where
  "maybeHalfOpenLocked now b =
     (if br_state b \<noteq> StateOpen then b
      else if br_cooldown b \<le> time_Sub now (br_openedAt b) then setStateLocked StateHalfOpen now b
      else b)"

definition evaluateLocked :: "time \<Rightarrow> Breaker \<Rightarrow> Breaker" where
  "evaluateLocked now b =
     (let c = window_counts (br_window b) now
      in if Counts_Total c < bc_MinimumSamples (br_cfg b) then b
         else if bc_FailureRateToOpen (br_cfg b) < ErrorRate c \<or> bc_SlowCallRateToOpen (br_cfg b) < SlowRate c
         then tripLocked now b else b)"

definition drainLocked :: "Breaker \<Rightarrow> Breaker \<times> (BreakerState \<times> BreakerState) list" where
  "drainLocked b = (b\<lparr>br_pending := []\<rparr>, br_pending b)"

record permit =
  pm_gen :: nat
  pm_half :: bool
  pm_start :: time

text \<open>\<open>None\<close> is the refusal with \<open>GATEWAY_CIRCUIT_OPEN\<close>.\<close>

definition Breaker_allow :: "time \<Rightarrow> Breaker \<Rightarrow> Breaker \<times> permit option \<times> (BreakerState \<times> BreakerState) list" where
  "Breaker_allow now b0 =
     (let b = maybeHalfOpenLocked now b0
      in if br_state b = StateOpen
            \<or> (br_state b = StateHalfOpen \<and> bc_HalfOpenProbes (br_cfg b) \<le> br_probesInFlight b)
         then (case drainLocked b of (b', ts) \<Rightarrow> (b', None, ts))
         else let b1 = (if br_state b = StateHalfOpen then b\<lparr>br_probesInFlight := br_probesInFlight b + 1\<rparr> else b)
           in case drainLocked b1 of (b', ts) \<Rightarrow>
                (b', Some \<lparr>pm_gen = br_generation b1, pm_half = (br_state b1 = StateHalfOpen), pm_start = now\<rparr>, ts))"

definition Breaker_report :: "permit \<Rightarrow> time \<Rightarrow> call_outcome \<Rightarrow> Breaker \<Rightarrow> Breaker \<times> (BreakerState \<times> BreakerState) list" where
  "Breaker_report p now oc b0 =
     (if br_generation b0 \<noteq> pm_gen p then (b0, [])
      else let b = (if pm_half p \<and> 0 < br_probesInFlight b0
                    then b0\<lparr>br_probesInFlight := br_probesInFlight b0 - 1\<rparr> else b0);
               slow = (bc_SlowCallDuration (br_cfg b) \<le> time_Sub now (pm_start p));
               b' = (case br_state b of
                       StateHalfOpen \<Rightarrow> (case oc of
                           CallFailure \<Rightarrow> tripLocked now b
                         | CallSuccess \<Rightarrow>
                             let b1 = b\<lparr>br_consecutiveSuccesses := br_consecutiveSuccesses b + 1\<rparr>
                             in if bc_ProbeSuccessesToClose (br_cfg b1) \<le> br_consecutiveSuccesses b1
                                then setStateLocked StateClosed now b1 else b1
                         | CallIgnore \<Rightarrow> b)
                     | StateClosed \<Rightarrow>
                         if oc = CallIgnore then b
                         else evaluateLocked now (b\<lparr>br_window := window_record (br_window b) now oc slow\<rparr>)
                     | StateOpen \<Rightarrow> b)
        in drainLocked b')"

text \<open>What the permit of \<open>Allow\<close> reports for a caller that has classified its result already.\<close>

definition success_outcome :: "bool \<Rightarrow> call_outcome" where
  "success_outcome success = (if success then CallSuccess else CallFailure)"

definition Breaker_State :: "time \<Rightarrow> Breaker \<Rightarrow> Breaker \<times> BreakerState \<times> (BreakerState \<times> BreakerState) list" where
  "Breaker_State now b0 =
     (let b = maybeHalfOpenLocked now b0 in case drainLocked b of (b', ts) \<Rightarrow> (b', br_state b, ts))"

definition Breaker_Counts :: "time \<Rightarrow> Breaker \<Rightarrow> Counts" where
  "Breaker_Counts now b = window_counts (br_window b) now"

definition Breaker_Degraded :: "time \<Rightarrow> Breaker \<Rightarrow> bool" where
  "Breaker_Degraded now b \<longleftrightarrow> br_state b = StateClosed
     \<and> (let c = window_counts (br_window b) now
        in bc_MinimumSamples (br_cfg b) \<le> Counts_Total c \<and> bc_DegradedRate (br_cfg b) < ErrorRate c)"

text \<open>\<open>Health\<close> reads the clock in \<open>State\<close> and again in \<open>Degraded\<close>.\<close>

definition Breaker_Health :: "time \<Rightarrow> time \<Rightarrow> Breaker \<Rightarrow> Breaker \<times> Health \<times> (BreakerState \<times> BreakerState) list" where
  "Breaker_Health now now' b0 = (case Breaker_State now b0 of (b, s, ts) \<Rightarrow>
     (b, (case s of
            StateOpen \<Rightarrow> HealthUnhealthy
          | StateHalfOpen \<Rightarrow> HealthProbing
          | StateClosed \<Rightarrow> if Breaker_Degraded now' b then HealthDegraded else HealthHealthy), ts))"

definition Breaker_Reset :: "time \<Rightarrow> Breaker \<Rightarrow> Breaker \<times> (BreakerState \<times> BreakerState) list" where
  "Breaker_Reset now b0 =
     (let b = setStateLocked StateClosed now b0
      in drainLocked (b\<lparr>br_window := window_reset (br_window b), br_cooldown := bc_BaseCooldown (br_cfg b)\<rparr>))"

text \<open>
  \<open>Execute\<close> around a call that starts at \<open>now\<close> and ends at \<open>now'\<close>, with what other callers do to the
  breaker in between. A call that panics is reported as an internal error.
\<close>

datatype call_end = Returned "go_error option" | Panicked

definition classify_end :: "Breaker \<Rightarrow> call_end \<Rightarrow> call_outcome" where
  "classify_end b r =
     (case bc_Classify (br_cfg b) of
        Some f \<Rightarrow> (case r of
            Returned e \<Rightarrow> f e
          | Panicked \<Rightarrow> f (Some (Platform (New CodeInternalError ''panic in circuit-protected call'') None)))
      | None \<Rightarrow> CallIgnore)"

definition Breaker_Execute ::
  "time \<Rightarrow> (Breaker \<Rightarrow> Breaker \<times> call_end) \<Rightarrow> time \<Rightarrow> Breaker \<Rightarrow> Breaker \<times> (Code + call_end) \<times> (BreakerState \<times> BreakerState) list" where
  "Breaker_Execute now run now' b0 = (case Breaker_allow now b0 of
      (b, None, ts) \<Rightarrow> (b, Inl CodeGatewayCircuitOpen, ts)
    | (b, Some p, ts) \<Rightarrow> (case run b of (b1, r) \<Rightarrow>
        (case Breaker_report p now' (classify_end b1 r) b1 of (b2, ts') \<Rightarrow> (b2, Inr r, ts @ ts'))))"

end
