(* ===== verification/Breaker_Properties.thy ===== *)
theory Breaker_Properties
  imports Circuit_Breaker
begin

text \<open>
  What the circuit breaker promises. Its ring of counters gives the same counts as a log of every event in
  the window would. Over every interleaving of calls, reports, scrapes and resets a half-open breaker has
  at most the configured probes in flight, an open one has admitted nobody, and the cool-down stays
  between its base and its cap. The default breaker opens exactly on the documented fractions, although
  they are compared in floating point, and it closes again after its probes succeed.
\<close>

section \<open>The sliding window\<close>

text \<open>What happened, newest last: when, how it counted, whether it was slow.\<close>

type_synonym window_log = "(time \<times> call_outcome \<times> bool) list"

definition window_after :: "slidingWindow \<Rightarrow> window_log \<Rightarrow> slidingWindow" where
  "window_after w evs = fold (\<lambda>(t, oc, slow) w. window_record w t oc slow) evs w"

definition in_window :: "slidingWindow \<Rightarrow> time \<Rightarrow> time \<Rightarrow> bool" where
  "in_window w now t \<longleftrightarrow> window_index w now - sw_n w < window_index w t \<and> window_index w t \<le> window_index w now"

definition log_counts :: "slidingWindow \<Rightarrow> time \<Rightarrow> window_log \<Rightarrow> Counts" where
  "log_counts w now evs =
     (let recent = filter (\<lambda>(t, oc, slow). in_window w now t) evs
      in \<lparr>ct_Successes = int (length (filter (\<lambda>(t, oc, slow). oc = CallSuccess) recent)),
          ct_Failures = int (length (filter (\<lambda>(t, oc, slow). oc = CallFailure) recent)),
          ct_Slow = int (length (filter (\<lambda>(t, oc, slow). slow \<and> oc \<noteq> CallIgnore) recent))\<rparr>)"

lemma window_record_shape [simp]:
  "sw_width (window_record w t oc slow) = sw_width w" "sw_n (window_record w t oc slow) = sw_n w"
  "length (sw_buckets (window_record w t oc slow)) = length (sw_buckets w)"
  by (simp_all add: window_record_def Let_def)

lemma window_index_record [simp]: "window_index (window_record w t oc slow) = window_index w"
  by (simp add: window_index_def fun_eq_iff)

lemma sdiv_mono:
  assumes b: "0 < b" and a: "a \<le> a'"
  shows "a sdiv b \<le> a' sdiv (b :: int)"
proof -
  have nn: "0 \<le> x div b" if "0 \<le> x" for x using b that by (simp add: pos_imp_zdiv_nonneg_iff)
  consider "0 \<le> a" | "a < 0" "0 \<le> a'" | "a' < 0" by linarith
  then show ?thesis
  proof cases
    case 1
    then show ?thesis using a b by (simp add: sdiv_pos zdiv_mono1)
  next
    case 2
    then show ?thesis using b nn [of "- a"] nn [of a'] by (simp add: sdiv_pos)
  next
    case 3
    then show ?thesis using a b zdiv_mono1 [of "- a'" "- a" b] by (simp add: sdiv_pos)
  qed
qed

text \<open>The slot of an index is its residue.\<close>

lemma window_slot_mod:
  assumes n: "0 < sw_n w"
  shows "window_slot w k = nat (k mod sw_n w)"
proof -
  have lt: "\<bar>k smod sw_n w\<bar> < sw_n w" using smod_int_range [of "sw_n w" k] n by auto
  have "(k smod sw_n w + sw_n w) smod sw_n w = (k smod sw_n w + sw_n w) mod sw_n w"
    using lt n by (simp add: sdiv_smod_abs sgn_if)
  also have "\<dots> = (k smod sw_n w) mod sw_n w" by simp
  also have "\<dots> = k mod sw_n w"
    using n by (cases "0 \<le> k") (simp_all add: sdiv_smod_abs sgn_if mod_minus_eq)
  finally show ?thesis by (simp add: window_slot_def)
qed

text \<open>
  Every bucket is untouched or sits in the slot of its index, and no index is ahead of the last event.
\<close>

definition ring_ok :: "slidingWindow \<Rightarrow> int \<Rightarrow> bool" where
  "ring_ok w m \<longleftrightarrow> 0 < sw_n w \<and> 0 < sw_width w \<and> length (sw_buckets w) = nat (sw_n w)
     \<and> (\<forall>i < length (sw_buckets w). sw_buckets w ! i = empty_bucket (-1)
          \<or> window_slot w (wb_idx (sw_buckets w ! i)) = i \<and> wb_idx (sw_buckets w ! i) \<le> m)"

definition bucket_in :: "slidingWindow \<Rightarrow> time \<Rightarrow> windowBucket \<Rightarrow> bool" where
  "bucket_in w now b \<longleftrightarrow> window_index w now - sw_n w < wb_idx b \<and> wb_idx b \<le> window_index w now"

definition bucket_sum :: "(windowBucket \<Rightarrow> int) \<Rightarrow> slidingWindow \<Rightarrow> time \<Rightarrow> int" where
  "bucket_sum f w now = sum_list (map (\<lambda>b. if bucket_in w now b then f b else 0) (sw_buckets w))"

lemma window_counts_sums:
  "window_counts w now = \<lparr>ct_Successes = bucket_sum wb_success w now, ct_Failures = bucket_sum wb_failure w now,
     ct_Slow = bucket_sum wb_slowCall w now\<rparr>"
proof -
  have "fold (\<lambda>b c. if wb_idx b < window_index w now - sw_n w + 1 \<or> window_index w now < wb_idx b then c else add_bucket b c) bs c
      = \<lparr>ct_Successes = ct_Successes c + sum_list (map (\<lambda>b. if bucket_in w now b then wb_success b else 0) bs),
         ct_Failures = ct_Failures c + sum_list (map (\<lambda>b. if bucket_in w now b then wb_failure b else 0) bs),
         ct_Slow = ct_Slow c + sum_list (map (\<lambda>b. if bucket_in w now b then wb_slowCall b else 0) bs)\<rparr>" for bs c
    by (induction bs arbitrary: c) (auto simp: add_bucket_def bucket_in_def)
  then show ?thesis by (simp add: window_counts_def bucket_sum_def Let_def)
qed

lemma slot_bound: "ring_ok w m \<Longrightarrow> window_slot w k < length (sw_buckets w)"
  by (simp add: ring_ok_def window_slot_mod nat_less_iff)

lemma ring_ok_mono: "ring_ok w m \<Longrightarrow> m \<le> m' \<Longrightarrow> ring_ok w m'"
  by (fastforce simp: ring_ok_def)

text \<open>What one event does to a sum over the buckets, for a window that ends at or after it.\<close>

definition bump :: "call_outcome \<Rightarrow> bool \<Rightarrow> windowBucket \<Rightarrow> windowBucket" where
  "bump oc slow b = (let s = (if slow then 1 else 0) in case oc of
      CallSuccess \<Rightarrow> b\<lparr>wb_success := wb_success b + 1, wb_slowCall := wb_slowCall b + s\<rparr>
    | CallFailure \<Rightarrow> b\<lparr>wb_failure := wb_failure b + 1, wb_slowCall := wb_slowCall b + s\<rparr>
    | CallIgnore \<Rightarrow> b)"

definition delta :: "(windowBucket \<Rightarrow> int) \<Rightarrow> call_outcome \<Rightarrow> bool \<Rightarrow> int" where
  "delta f oc slow = f (bump oc slow (empty_bucket 0))"

lemma delta_eqs:
  "delta wb_success oc slow = (if oc = CallSuccess then 1 else 0)"
  "delta wb_failure oc slow = (if oc = CallFailure then 1 else 0)"
  "delta wb_slowCall oc slow = (if slow \<and> oc \<noteq> CallIgnore then 1 else 0)"
  by (cases oc; simp add: delta_def bump_def empty_bucket_def)+

lemma bump_adds:
  "wb_idx (bump oc slow b) = wb_idx b"
  "f \<in> {wb_success, wb_failure, wb_slowCall} \<Longrightarrow> f (bump oc slow b) = f b + delta f oc slow"
  by (cases oc; auto simp: delta_eqs bump_def)+

lemma window_record_bump:
  "sw_buckets (window_record w t oc slow) =
     (let k = window_index w t; i = window_slot w k; b = sw_buckets w ! i
      in (sw_buckets w)[i := bump oc slow (if wb_idx b \<noteq> k then empty_bucket k else b)])"
  unfolding window_record_def bump_def Let_def by simp

lemma window_record_step:
  assumes ok: "ring_ok w m" and m: "m \<le> window_index w t"
  shows "ring_ok (window_record w t oc slow) (window_index w t)"
    and "t \<le> now \<Longrightarrow> f \<in> {wb_success, wb_failure, wb_slowCall} \<Longrightarrow>
      bucket_sum f (window_record w t oc slow) now = bucket_sum f w now + (if in_window w now t then delta f oc slow else 0)"
proof -
  define k where "k = window_index w t"
  define i where "i = window_slot w k"
  define b0 where "b0 = sw_buckets w ! i"
  define b1 where "b1 = (if wb_idx b0 \<noteq> k then empty_bucket k else b0)"
  let ?w = "window_record w t oc slow"
  have i: "i < length (sw_buckets w)" unfolding i_def by (rule slot_bound [OF ok])
  define b2 where "b2 = bump oc slow b1"
  have w: "sw_buckets ?w = (sw_buckets w)[i := b2]"
    unfolding window_record_bump Let_def b2_def b1_def b0_def i_def k_def by simp
  have "wb_idx b1 = k" by (simp add: b1_def empty_bucket_def)
  then have b2: "wb_idx b2 = k" "f \<in> {wb_success, wb_failure, wb_slowCall} \<Longrightarrow> f b2 = f b1 + delta f oc slow"
    unfolding b2_def by (simp_all only: bump_adds)
  have sl: "window_slot ?w = window_slot w" by (simp add: window_slot_def fun_eq_iff)
  have old: "b0 = empty_bucket (-1) \<or> window_slot w (wb_idx b0) = i \<and> wb_idx b0 \<le> k"
    using ok i m unfolding ring_ok_def b0_def k_def by fastforce
  show "ring_ok ?w (window_index w t)"
    using ring_ok_mono [OF ok m] i b2(1)
    by (auto simp: ring_ok_def w sl nth_list_update i_def k_def)
  assume now: "t \<le> now" and f: "f \<in> {wb_success, wb_failure, wb_slowCall}"
  have kn: "k \<le> window_index w now"
    using now ok unfolding k_def window_index_def ring_ok_def by (simp add: sdiv_mono)
  let ?g = "\<lambda>b. if bucket_in w now b then f b else 0"
  have "wb_idx b0 \<le> k - sw_n w" if "wb_idx b0 \<noteq> k" "b0 \<noteq> empty_bucket (-1)"
  proof -
    have "wb_idx b0 mod sw_n w = k mod sw_n w" "wb_idx b0 \<le> k"
      using that old ok by (auto simp: i_def window_slot_mod ring_ok_def nat_eq_iff2)
    then have "sw_n w dvd k - wb_idx b0" by (metis mod_eq_dvd_iff)
    moreover have "0 < k - wb_idx b0" using that(1) \<open>wb_idx b0 \<le> k\<close> by simp
    ultimately have "sw_n w \<le> k - wb_idx b0" by (rule zdvd_imp_le)
    then show ?thesis by simp
  qed
  note far = this
  have f0: "f (empty_bucket j) = 0" for j using f by (auto simp: empty_bucket_def)
  have b0: "wb_idx b0 = k \<or> wb_idx b0 \<le> k - sw_n w \<or> f b0 = 0"
    using far f0 by blast
  have b1: "f b1 = (if wb_idx b0 = k then f b0 else 0)" by (simp add: b1_def f0)
  have g0: "?g b0 = (if in_window w now t then f b1 else 0)"
    using b0 kn unfolding b1 bucket_in_def in_window_def k_def [symmetric] by (cases "wb_idx b0 = k") auto
  have g2: "?g b2 = (if in_window w now t then f b1 + delta f oc slow else 0)"
    using b2 f by (simp add: bucket_in_def in_window_def k_def)
  have "bucket_sum f ?w now = sum_list (map ?g ((sw_buckets w)[i := b2]))"
    unfolding bucket_sum_def w by (simp add: bucket_in_def)
  also have "\<dots> = bucket_sum f w now + ?g b2 - ?g b0"
    using sum_list_update_int [OF i, of ?g b2] by (simp only: bucket_sum_def b0_def)
  finally show "bucket_sum f ?w now = bucket_sum f w now + (if in_window w now t then delta f oc slow else 0)"
    using g0 g2 by simp
qed

definition log_sum :: "(windowBucket \<Rightarrow> int) \<Rightarrow> slidingWindow \<Rightarrow> time \<Rightarrow> window_log \<Rightarrow> int" where
  "log_sum f w now evs = sum_list (map (\<lambda>(t, oc, slow). if in_window w now t then delta f oc slow else 0) evs)"

lemma window_after_sums:
  assumes "ring_ok w m" "sorted (map fst evs)" "\<forall>e\<in>set evs. m \<le> window_index w (fst e) \<and> fst e \<le> now"
    and f: "f \<in> {wb_success, wb_failure, wb_slowCall}"
  shows "bucket_sum f (window_after w evs) now = bucket_sum f w now + log_sum f w now evs"
  using assms(1-3)
proof (induction evs arbitrary: w m)
  case (Cons e evs)
  obtain t oc slow where e: "e = (t, oc, slow)" by (cases e)
  let ?w = "window_record w t oc slow"
  have pos: "0 < sw_width w" using Cons.prems(1) by (simp add: ring_ok_def)
  have ok: "ring_ok ?w (window_index w t)" using Cons.prems e by (intro window_record_step(1)) auto
  have "\<forall>e\<in>set evs. window_index w t \<le> window_index w (fst e)"
    using Cons.prems(2) e pos by (auto simp: window_index_def sdiv_mono)
  then have "bucket_sum f (window_after ?w evs) now = bucket_sum f ?w now + log_sum f ?w now evs"
    using Cons.prems by (intro Cons.IH [OF ok]) auto
  moreover have "bucket_sum f ?w now = bucket_sum f w now + (if in_window w now t then delta f oc slow else 0)"
    using Cons.prems e f by (intro window_record_step(2)) auto
  moreover have "in_window ?w now = in_window w now" by (simp add: in_window_def fun_eq_iff)
  ultimately show ?case by (simp add: e window_after_def log_sum_def)
qed (simp add: window_after_def log_sum_def)

lemma new_window_ok: "ring_ok (newSlidingWindow d n) m" and new_window_empty: "f (empty_bucket (-1)) = 0 \<Longrightarrow> bucket_sum f (newSlidingWindow d n) now = 0"
  by (auto simp: newSlidingWindow_def ring_ok_def window_reset_def Let_def DefaultBreakerConfig_def bucket_sum_def sum_list_replicate)

lemma log_sums:
  "log_counts w now evs = \<lparr>ct_Successes = log_sum wb_success w now evs, ct_Failures = log_sum wb_failure w now evs,
     ct_Slow = log_sum wb_slowCall w now evs\<rparr>"
  unfolding log_counts_def log_sum_def Let_def by (induction evs) (auto simp: delta_eqs)

text \<open>
  C21: The ring of counters (\<open>slidingWindow.record\<close>, \<open>slidingWindow.counts\<close>), which keeps a fixed number of
  buckets and recycles them lazily, counts exactly what a full log would: for every sequence of events in
  the order of time, read at any later time, the successes, failures and slow calls it reports are those
  of the events whose bucket is one of the last \<open>n\<close>.
\<close>

theorem window_counts_match_a_full_log:
  assumes "sorted (map fst evs)" "\<forall>e\<in>set evs. fst e \<le> now"
  shows "window_counts (window_after (newSlidingWindow d n) evs) now = log_counts (newSlidingWindow d n) now evs"
proof -
  let ?w = "newSlidingWindow d n"
  define m where "m = (if evs = [] then 0 else window_index ?w (fst (hd evs)))"
  have "0 < sw_width ?w" using new_window_ok [of d n m] by (simp add: ring_ok_def)
  then have ev: "\<forall>e\<in>set evs. m \<le> window_index ?w (fst e) \<and> fst e \<le> now"
    using assms by (cases evs) (auto simp: m_def window_index_def sdiv_mono)
  have "bucket_sum f (window_after ?w evs) now = log_sum f ?w now evs"
    if "f \<in> {wb_success, wb_failure, wb_slowCall}" for f
    using window_after_sums [OF new_window_ok assms(1) ev that] that new_window_empty [of f d n now]
    by (auto simp: empty_bucket_def)
  then show ?thesis by (simp add: window_counts_sums log_sums)
qed

theorem window_counts_match_a_full_log_witness:
  "window_counts (window_after (newSlidingWindow 30000000000 10)
      [(1000000000, CallFailure, False), (2000000000, CallSuccess, True), (31000000000, CallFailure, True)]) 32000000000
   = \<lparr>ct_Successes = 0, ct_Failures = 1, ct_Slow = 1\<rparr>"
  by (subst window_counts_match_a_full_log) (simp_all, code_simp)

section \<open>Every interleaving of callers\<close>

text \<open>
  The breaker with the permits that have not reported yet. An operation is one critical section: a caller
  is admitted or refused, the holder of a permit reports, someone reads the state, an operator resets.
\<close>

type_synonym gate = "Breaker \<times> permit list"

datatype gate_op = DoAllow time | DoReport nat time call_outcome | DoState time | DoReset time

fun gate_exec :: "gate_op \<Rightarrow> gate \<Rightarrow> gate" where
  "gate_exec (DoAllow t) (b, ps) = (case Breaker_allow t b of
      (b', None, _) \<Rightarrow> (b', ps)
    | (b', Some p, _) \<Rightarrow> (b', ps @ [p]))"
| "gate_exec (DoReport i t oc) (b, ps) =
     (if i < length ps then (fst (Breaker_report (ps ! i) t oc b), take i ps @ drop (Suc i) ps) else (b, ps))"
| "gate_exec (DoState t) (b, ps) = (fst (Breaker_State t b), ps)"
| "gate_exec (DoReset t) (b, ps) = (fst (Breaker_Reset t b), ps)"

definition live :: "Breaker \<Rightarrow> permit list \<Rightarrow> permit list" where
  "live b ps = filter (\<lambda>p. pm_gen p = br_generation b) ps"

definition cooldown_fits :: "BreakerConfig \<Rightarrow> bool" where
  "cooldown_fits c \<longleftrightarrow> bc_BaseCooldown c < 2 ^ 62 \<and> bc_MaxCooldown c < 2 ^ 62"

definition config_ok :: "BreakerConfig \<Rightarrow> bool" where
  "config_ok c \<longleftrightarrow> 0 < bc_BaseCooldown c \<and> bc_BaseCooldown c \<le> bc_MaxCooldown c \<and> bc_MaxCooldown c < 2 ^ 62
     \<and> 0 < bc_HalfOpenProbes c"

fun gate_frame :: "gate \<Rightarrow> bool" where
  "gate_frame (b, ps) \<longleftrightarrow> config_ok (br_cfg b) \<and> (\<forall>p\<in>set ps. pm_gen p \<le> br_generation b)
     \<and> bc_BaseCooldown (br_cfg b) \<le> br_cooldown b \<and> br_cooldown b \<le> bc_MaxCooldown (br_cfg b)"

fun gate_inv :: "gate \<Rightarrow> bool" where
  "gate_inv (b, ps) \<longleftrightarrow> gate_frame (b, ps)
     \<and> (\<forall>p\<in>set (live b ps). br_state b \<noteq> StateOpen \<and> pm_half p = (br_state b = StateHalfOpen))
     \<and> br_probesInFlight b = (if br_state b = StateHalfOpen then int (length (live b ps)) else 0)
     \<and> br_probesInFlight b \<le> bc_HalfOpenProbes (br_cfg b)"

lemma normalized_ok: "cooldown_fits c \<Longrightarrow> config_ok (BreakerConfig_normalized c)"
  by (auto simp: config_ok_def cooldown_fits_def BreakerConfig_normalized_def Let_def DefaultBreakerConfig_def)

text \<open>A change of state starts a generation, so it holds none of the permits before it.\<close>

lemma setState_inv:
  assumes "gate_frame (b, ps)" "br_state b \<noteq> s"
  shows "gate_inv (setStateLocked s now b, ps)"
proof -
  have "filter (\<lambda>p. pm_gen p = Suc (br_generation b)) ps = []"
    using assms(1) by (auto simp: filter_empty_conv)
  then show ?thesis
    using assms by (cases s) (auto simp: setStateLocked_def Let_def live_def config_ok_def)
qed

lemma trip_inv: "gate_frame (b, ps) \<Longrightarrow> br_state b \<noteq> StateOpen \<Longrightarrow> gate_inv (tripLocked now b, ps)"
  unfolding tripLocked_def by (rule setState_inv) (auto simp: config_ok_def in64_def)

lemma halfOpen_inv: "gate_inv (b, ps) \<Longrightarrow> gate_inv (maybeHalfOpenLocked now b, ps)"
  unfolding maybeHalfOpenLocked_def by (auto intro!: setState_inv simp del: gate_inv.simps) (simp_all)

lemma pending_inv: "gate_inv (b\<lparr>br_pending := xs\<rparr>, ps) = gate_inv (b, ps)"
  "gate_inv (b\<lparr>br_window := w\<rparr>, ps) = gate_inv (b, ps)"
  "gate_frame (b\<lparr>br_window := w\<rparr>, ps) = gate_frame (b, ps)"
  by (simp_all add: live_def)

lemma allow_inv:
  assumes "gate_inv (b0, ps)"
  shows "gate_inv (gate_exec (DoAllow t) (b0, ps))"
proof -
  define b where "b = maybeHalfOpenLocked t b0"
  have "gate_inv (b, ps)" unfolding b_def by (rule halfOpen_inv [OF assms])
  then show ?thesis
    by (auto simp: Breaker_allow_def Let_def drainLocked_def live_def b_def [symmetric])
qed

text \<open>A permit gone from the list, seen from the live ones.\<close>

lemma live_removed:
  assumes "i < length ps"
  shows "set (live b (take i ps @ drop (Suc i) ps)) \<subseteq> set (live b ps)"
    and "int (length (live b (take i ps @ drop (Suc i) ps)))
         = int (length (live b ps)) - (if pm_gen (ps ! i) = br_generation b then 1 else 0)"
proof -
  have ps: "live b ps = live b (take i ps @ ps ! i # drop (Suc i) ps)" using id_take_nth_drop [OF assms] by simp
  show "set (live b (take i ps @ drop (Suc i) ps)) \<subseteq> set (live b ps)" unfolding ps by (auto simp: live_def)
  show "int (length (live b (take i ps @ drop (Suc i) ps)))
         = int (length (live b ps)) - (if pm_gen (ps ! i) = br_generation b then 1 else 0)"
    unfolding ps by (simp add: live_def)
qed

text \<open>A live permit goes: a probe in flight goes with it.\<close>

lemma retire_inv:
  assumes inv: "gate_inv (b, ps)" and i: "i < length ps"
  defines "p \<equiv> ps ! i" and "ps' \<equiv> take i ps @ drop (Suc i) ps"
  shows "pm_gen p \<noteq> br_generation b \<Longrightarrow> gate_inv (b, ps')"
    and "pm_gen p = br_generation b \<Longrightarrow>
      gate_inv (if pm_half p \<and> 0 < br_probesInFlight b then b\<lparr>br_probesInFlight := br_probesInFlight b - 1\<rparr> else b, ps')
      \<and> br_state b \<noteq> StateOpen"
proof -
  have sub: "set ps' \<subseteq> set ps" unfolding ps'_def by (auto dest: in_set_takeD in_set_dropD)
  note lv = live_removed [OF i, of b, folded ps'_def p_def]
  have same: "live (b\<lparr>br_probesInFlight := n\<rparr>) xs = live b xs" for n xs by (simp add: live_def)
  show "gate_inv (b, ps')" if "pm_gen p \<noteq> br_generation b"
    using inv sub lv that by auto
  assume g: "pm_gen p = br_generation b"
  then have "p \<in> set (live b ps)" using i by (simp add: live_def p_def)
  then show "gate_inv (if pm_half p \<and> 0 < br_probesInFlight b then b\<lparr>br_probesInFlight := br_probesInFlight b - 1\<rparr> else b, ps')
      \<and> br_state b \<noteq> StateOpen"
    using inv sub lv g length_pos_if_in_set [of p "live b ps"] by (auto simp: same)
qed

lemma report_inv:
  assumes inv: "gate_inv (b0, ps)"
  shows "gate_inv (gate_exec (DoReport i t oc) (b0, ps))"
proof (cases "i < length ps")
  case i: True
  let ?p = "ps ! i" and ?ps = "take i ps @ drop (Suc i) ps"
  show ?thesis
  proof (cases "pm_gen ?p = br_generation b0")
    case True
    define b where "b = (if pm_half ?p \<and> 0 < br_probesInFlight b0 then b0\<lparr>br_probesInFlight := br_probesInFlight b0 - 1\<rparr> else b0)"
    have b: "gate_inv (b, ?ps)" and "br_state b \<noteq> StateOpen"
      using retire_inv(2) [OF inv i True] by (auto simp: b_def simp del: gate_inv.simps)
    then have fr: "gate_frame (b\<lparr>br_window := w\<rparr>, ?ps)" "gate_frame (b\<lparr>br_consecutiveSuccesses := n\<rparr>, ?ps)"
      "gate_inv (b\<lparr>br_consecutiveSuccesses := n\<rparr>, ?ps)" for w n by (simp_all add: live_def)
    have ev: "gate_inv (evaluateLocked t (b\<lparr>br_window := w\<rparr>), ?ps)" for w
      using b fr \<open>br_state b \<noteq> StateOpen\<close> unfolding evaluateLocked_def Let_def
      by (auto intro!: trip_inv simp: pending_inv simp del: gate_inv.simps gate_frame.simps)
    have "gate_inv (fst (Breaker_report ?p t oc b0), ?ps)"
      using True b fr ev trip_inv [of b ?ps t] \<open>br_state b \<noteq> StateOpen\<close>
      unfolding Breaker_report_def b_def [symmetric] Let_def drainLocked_def
      by (auto intro!: setState_inv simp: pending_inv simp del: gate_inv.simps gate_frame.simps
          split: BreakerState.splits call_outcome.splits)
    then show ?thesis using i by simp
  next
    case False
    then show ?thesis using retire_inv(1) [OF inv i] i by (simp add: Breaker_report_def del: gate_inv.simps)
  qed
qed (use inv in simp)

lemma reset_inv:
  assumes "gate_inv (b, ps)"
  shows "gate_inv (gate_exec (DoReset t) (b, ps))"
proof -
  have "gate_inv (setStateLocked StateClosed t b, ps)"
  proof (cases "br_state b = StateClosed")
    case True
    then show ?thesis using assms by (simp add: setStateLocked_def)
  qed (use assms in \<open>intro setState_inv, simp_all\<close>)
  then show ?thesis by (simp add: Breaker_Reset_def Let_def drainLocked_def live_def config_ok_def)
qed

lemma gate_exec_inv: "gate_inv g \<Longrightarrow> gate_inv (gate_exec x g)"
proof (cases g)
  case (Pair b ps)
  assume inv: "gate_inv g"
  have "gate_inv (gate_exec (DoState t) (b, ps))" for t
    using halfOpen_inv [of b ps t] inv Pair
    by (simp add: Breaker_State_def Let_def drainLocked_def pending_inv del: gate_inv.simps)
  then show ?thesis
    using inv Pair allow_inv report_inv reset_inv by (cases x) (simp_all del: gate_inv.simps gate_exec.simps)
qed

interpretation breaker_gate: guarded_system
  "\<lambda>g. \<exists>c. cooldown_fits c \<and> g = (NewBreaker c, [])" gate_exec gate_inv
proof unfold_locales
  fix g :: gate
  assume "\<exists>c. cooldown_fits c \<and> g = (NewBreaker c, [])"
  then show "gate_inv g"
  proof
    fix c
    assume "cooldown_fits c \<and> g = (NewBreaker c, [])"
    then have c: "config_ok (BreakerConfig_normalized c)" "g = (NewBreaker c, [])" by (simp_all add: normalized_ok)
    then show ?thesis by (simp add: NewBreaker_def Let_def live_def config_ok_def)
  qed
qed (rule gate_exec_inv)

text \<open>
  C12: Over every interleaving of admissions, reports, state reads and resets, from a new breaker: half open,
  the probes that hold a permit of this generation are exactly \<open>probesInFlight\<close> and never more than
  \<open>HalfOpenProbes\<close>; open, nobody holds a permit of this generation, and every caller before the cool-down
  has passed is refused; and the cool-down, doubled at each failed probe, stays between
  \<open>BaseCooldown\<close> and \<open>MaxCooldown\<close>. The cool-downs configured are below \<open>2 ^ 62\<close> nanoseconds (146
  years), where doubling does not wrap.
\<close>

theorem half_open_admits_bounded_probes:
  assumes "cooldown_fits c"
    and run: "fold gate_exec ops (NewBreaker c, []) = (b, ps)"
  shows "(br_state b = StateHalfOpen \<longrightarrow>
            int (length (live b ps)) = br_probesInFlight b \<and> br_probesInFlight b \<le> bc_HalfOpenProbes (br_cfg b))
       \<and> (br_state b = StateOpen \<longrightarrow> live b ps = []
            \<and> (time_Sub now (br_openedAt b) < br_cooldown b \<longrightarrow> fst (snd (Breaker_allow now b)) = None))
       \<and> bc_BaseCooldown (br_cfg b) \<le> br_cooldown b \<and> br_cooldown b \<le> bc_MaxCooldown (br_cfg b)"
proof -
  have "\<exists>c'. cooldown_fits c' \<and> (NewBreaker c, []) = (NewBreaker c', [])" using assms(1) by blast
  then have inv: "gate_inv (b, ps)" using breaker_gate.reach_from_initial [of "(NewBreaker c, [])" ops] run by simp
  then have "\<not> p \<in> set (live b ps)" if "br_state b = StateOpen" for p using that by auto
  then have "br_state b = StateOpen \<Longrightarrow> live b ps = []" by (metis list.set_sel(1))
  with inv show ?thesis
    by (auto simp: Breaker_allow_def maybeHalfOpenLocked_def drainLocked_def Let_def)
qed

definition trial_config :: BreakerConfig where
  "trial_config = DefaultBreakerConfig\<lparr>bc_MinimumSamples := 1\<rparr>"

definition trial_run :: "gate_op list" where
  "trial_run = [DoAllow 0, DoReport 0 1000 CallFailure, DoState 31000000000, DoAllow 31000000001, DoAllow 31000000002]"

theorem half_open_admits_bounded_probes_witness:
  "let (b, ps) = fold gate_exec trial_run (NewBreaker trial_config, [])
   in br_state b = StateHalfOpen \<and> length (live b ps) = 1 \<and> br_probesInFlight b \<le> 1"
proof -
  obtain b ps where r: "fold gate_exec trial_run (NewBreaker trial_config, []) = (b, ps)" by fastforce
  have "cooldown_fits trial_config" by (simp add: cooldown_fits_def trial_config_def DefaultBreakerConfig_def)
  note half_open_admits_bounded_probes [OF this r, of 0]
  moreover have "case fold gate_exec trial_run (NewBreaker trial_config, []) of (b, ps) \<Rightarrow> br_state b = StateHalfOpen
      \<and> length (live b ps) = 1 \<and> bc_HalfOpenProbes (br_cfg b) = 1" by code_simp
  ultimately show ?thesis by (simp add: r)
qed

section \<open>When the default breaker opens\<close>

text \<open>
  A ratio of counters compared in floating point with a threshold \<open>1 / k\<close>: rounding is monotone, so a ratio
  at most \<open>1 / k\<close> is not above it, and the next \<open>float64\<close> is close enough that a larger ratio is.
\<close>

lemma float_ratio_above:
  fixes k a t :: int
  assumes k: "0 < k" and a: "0 \<le> a" "a \<le> t" and t: "0 < t" "t \<le> 2 ^ 50"
    and up: "fl64 up = up" "fl64 (1 / of_int k) < up" "up \<le> 1 / of_int k + 1 / (of_int k * 2 ^ 50)"
  shows "fl64 (1 / of_int k) < float_ratio a t \<longleftrightarrow> t < k * a"
proof -
  have r: "float_ratio a t = fl64 (of_int a / of_int t)" using a t by (simp add: float_ratio_def)
  have tk: "0 < rat_of_int t" "0 < rat_of_int k" using t k by simp_all
  show ?thesis
  proof (cases "t < k * a")
    case True
    then have "1 + rat_of_int t \<le> of_int k * of_int a"
      by (metis add1_zle_eq add.commute of_int_1 of_int_add of_int_le_iff of_int_mult)
    then have "(1 + rat_of_int t) / (of_int k * of_int t) \<le> of_int k * of_int a / (of_int k * of_int t)"
      using tk by (intro divide_right_mono) simp_all
    then have "1 / of_int k + 1 / (of_int k * of_int t) \<le> rat_of_int a / of_int t"
      using tk by (simp add: add_divide_distrib)
    moreover have "1 / (of_int k * 2 ^ 50) \<le> 1 / (of_int k * rat_of_int t)"
      using tk t by (intro divide_left_mono mult_left_mono) (auto simp: of_int_le_numeral_iff)
    ultimately have "up \<le> of_int a / of_int t" using up(3) by linarith
    then have "up \<le> float_ratio a t" using fl64_mono up(1) r by metis
    then show ?thesis using True up(2) by simp
  next
    case False
    then have "of_int k * of_int a \<le> rat_of_int t" by (metis not_less of_int_le_iff of_int_mult)
    then have "rat_of_int a / of_int t \<le> 1 / of_int k" using tk by (simp add: field_simps)
    then show ?thesis using False fl64_mono r by (simp add: not_less)
  qed
qed

lemma fl64_dyadic: "\<bar>m\<bar> \<le> 2 ^ 53 \<Longrightarrow> fl64 (of_int m / 2 ^ k) = of_int m / 2 ^ k"
  by (rule fl64_exact [of m _ "- int k"]) (simp_all add: power_int_minus divide_inverse)

lemma fl64_quarter: "fl64 (1 / 4) = 1 / 4"
  using fl64_dyadic [of 1 2] by simp

lemma fl64_hundredth: "fl64 (1 / 100) < of_int 5764607523034236 / 2 ^ 59"
proof -
  have "fl64 (1 / 100) \<le> fl64 (of_int 5764607523034235 / 2 ^ 59)" by (rule fl64_mono) simp
  also have "\<dots> = of_int 5764607523034235 / 2 ^ 59" by (rule fl64_dyadic) simp
  finally show ?thesis by simp
qed

lemma quarter_above:
  assumes "0 \<le> a" "a \<le> t" "0 < t" "t \<le> 2 ^ 50"
  shows "fl64 (1 / 4) < float_ratio a t \<longleftrightarrow> t < 4 * a"
proof -
  have "fl64 (of_int 1125899906842625 / 2 ^ 52) = of_int 1125899906842625 / 2 ^ 52" by (rule fl64_dyadic) simp
  from float_ratio_above [OF _ assms this, of 4] show ?thesis by (simp add: fl64_quarter)
qed

lemma hundredth_above:
  assumes "0 \<le> a" "a \<le> t" "0 < t" "t \<le> 2 ^ 50"
  shows "fl64 (1 / 100) < float_ratio a t \<longleftrightarrow> t < 100 * a"
proof -
  have "fl64 (of_int 5764607523034236 / 2 ^ 59) = of_int 5764607523034236 / 2 ^ 59" by (rule fl64_dyadic) simp
  from float_ratio_above [OF _ assms this, of 100] fl64_hundredth show ?thesis by simp
qed

text \<open>
  C22: A closed breaker with the default configuration opens (\<open>evaluateLocked\<close>) exactly when the window holds
  at least 20 results and more than a quarter of them failed or more than one in a hundred was slow. The
  code compares \<open>float64\<close> ratios with the constants 0.25 and 0.01, the second of which no \<open>float64\<close> equals;
  the comparison is nevertheless exact, at the boundary too, for up to \<open>2 ^ 50\<close> results in the window. An
  opened breaker starts at the base cool-down.
\<close>

theorem default_breaker_opens_exactly_on_the_rates:
  assumes cfg: "br_cfg b = DefaultBreakerConfig" and st: "br_state b = StateClosed"
    and c: "window_counts (br_window b) now = c" "0 \<le> ct_Successes c" "0 \<le> ct_Failures c" "0 \<le> ct_Slow c"
      "ct_Slow c \<le> Counts_Total c" "Counts_Total c \<le> 2 ^ 50"
  shows "evaluateLocked now b =
    (if 20 \<le> Counts_Total c \<and> (Counts_Total c < 4 * ct_Failures c \<or> Counts_Total c < 100 * ct_Slow c)
     then setStateLocked StateOpen now (b\<lparr>br_cooldown := 30000000000\<rparr>) else b)"
proof (cases "20 \<le> Counts_Total c")
  case True
  then have "ErrorRate c = float_ratio (ct_Failures c) (Counts_Total c)" "SlowRate c = float_ratio (ct_Slow c) (Counts_Total c)"
    by (simp_all add: ErrorRate_def SlowRate_def)
  moreover have "ct_Failures c \<le> Counts_Total c" using c by (simp add: Counts_Total_def)
  ultimately show ?thesis
    using True cfg st c quarter_above [of "ct_Failures c" "Counts_Total c"] hundredth_above [of "ct_Slow c" "Counts_Total c"]
    by (simp add: evaluateLocked_def DefaultBreakerConfig_def tripLocked_def)
next
  case False
  then show ?thesis using cfg c(1) by (simp add: evaluateLocked_def DefaultBreakerConfig_def)
qed

definition tally :: "nat \<Rightarrow> nat \<Rightarrow> window_log" where
  "tally ok failed = replicate ok (1000, CallSuccess, False) @ replicate failed (2000, CallFailure, False)"

definition breaker_with :: "window_log \<Rightarrow> Breaker" where
  "breaker_with evs = (NewBreaker DefaultBreakerConfig)\<lparr>br_window := window_after (newSlidingWindow 30000000000 10) evs\<rparr>"

theorem default_breaker_opens_exactly_on_the_rates_witness:
  "br_state (evaluateLocked 3000 (breaker_with (tally 15 5))) = StateClosed
   \<and> br_state (evaluateLocked 3000 (breaker_with (tally 15 6))) = StateOpen"
proof -
  let ?c = "\<lambda>n. \<lparr>ct_Successes = 15, ct_Failures = n, ct_Slow = 0\<rparr>"
  have w5: "window_counts (br_window (breaker_with (tally 15 5))) 3000 = ?c 5" by code_simp
  have w6: "window_counts (br_window (breaker_with (tally 15 6))) 3000 = ?c 6" by code_simp
  have b: "br_state (breaker_with xs) = StateClosed" "br_cfg (breaker_with xs) = DefaultBreakerConfig" for xs
    by (simp_all add: breaker_with_def NewBreaker_def Let_def BreakerConfig_normalized_def DefaultBreakerConfig_def)
  show ?thesis
    using default_breaker_opens_exactly_on_the_rates [OF b(2,1) w5] default_breaker_opens_exactly_on_the_rates [OF b(2,1) w6]
    by (simp add: b Counts_Total_def setStateLocked_def Let_def)
qed

section \<open>Recovery\<close>

text \<open>One call through the breaker that nothing interleaves with: refused, or admitted and then successful.\<close>

definition successful_call :: "time \<times> time \<Rightarrow> Breaker \<Rightarrow> Breaker" where
  "successful_call = (\<lambda>(t, t') b. case Breaker_allow t b of
      (b', None, _) \<Rightarrow> b'
    | (b', Some p, _) \<Rightarrow> fst (Breaker_report p t' CallSuccess b'))"

definition probing :: "int \<Rightarrow> Breaker \<Rightarrow> bool" where
  "probing k b \<longleftrightarrow> br_state b = StateHalfOpen \<and> br_probesInFlight b = 0 \<and> br_consecutiveSuccesses b = k
     \<and> 0 < bc_HalfOpenProbes (br_cfg b)"

lemma probe_counts:
  assumes "probing k b"
  shows "if k + 1 < bc_ProbeSuccessesToClose (br_cfg b)
      then probing (k + 1) (successful_call e b) \<and> br_cfg (successful_call e b) = br_cfg b
      else br_state (successful_call e b) = StateClosed"
  using assms
  by (cases e) (auto simp: successful_call_def probing_def Breaker_allow_def maybeHalfOpenLocked_def drainLocked_def
      Breaker_report_def setStateLocked_def Let_def)

lemma probes_close:
  "probing k b \<Longrightarrow> k + int (length es) = bc_ProbeSuccessesToClose (br_cfg b) \<Longrightarrow> es \<noteq> [] \<Longrightarrow>
   br_state (fold successful_call es b) = StateClosed"
proof (induction es arbitrary: k b)
  case (Cons e es)
  then show ?case using probe_counts [of k b e] by (cases es) auto
qed simp

text \<open>
  An open breaker whose cool-down has passed closes after \<open>ProbeSuccessesToClose\<close> successful calls in a row:
  every one of them is admitted.
\<close>

lemma open_breaker_recovers:
  assumes st: "br_state b = StateOpen" and t: "br_cooldown b \<le> time_Sub t (br_openedAt b)"
    and n: "0 < bc_HalfOpenProbes (br_cfg b)"
      "int (length es) + 1 = bc_ProbeSuccessesToClose (br_cfg b)"
  shows "br_state (fold successful_call ((t, t') # es) b) = StateClosed"
proof -
  define b' where "b' = setStateLocked StateHalfOpen t b"
  have b': "probing 0 b'" "br_cfg b' = br_cfg b" using st n by (simp_all add: b'_def setStateLocked_def probing_def Let_def)
  have "maybeHalfOpenLocked t b = b'" "maybeHalfOpenLocked t b' = b'"
    using st t b' by (simp_all add: maybeHalfOpenLocked_def b'_def probing_def)
  then have "successful_call (t, t') b = successful_call (t, t') b'" by (simp add: successful_call_def Breaker_allow_def)
  then show ?thesis using probes_close [OF b'(1), of "(t, t') # es"] b'(2) n(2) by simp
qed

end
