(* ===== verification/Spec2Isabelle.thy ===== *)
theory Spec2Isabelle
  imports Money_Allocation Money_Text Payment_Properties Ledger_Properties Idempotency_Properties
    Audit_Properties Retry_Properties Breaker_Properties
begin

text \<open>
  A verification library for the payments platform: a multi-tenant service that takes payment
  instructions over HTTP, executes them against external gateways, keeps the payment aggregate and a
  double-entry ledger in PostgreSQL, and records every action in a hash-chained audit table.

  \<^bold>\<open>How the parts interact.\<close> A request passes the idempotency middleware, which claims its key in a table
  before the handler runs and stores the response after it. The handler changes a payment, whose attempts
  are executed against gateways under a retry policy, a shared retry budget, a deadline and a circuit
  breaker. Every change is written in one transaction scoped to the tenant of the request, together with
  an audit record that is linked to the tenant's chain. Captures, fees, refunds and disputes become
  balanced groups of ledger entries. Money, identifiers, errors and state machines are shared by all.

  \<^bold>\<open>Theories and sources.\<close> A Go method \<open>Type.Method\<close> is the definition \<open>Type_Method\<close>, or \<open>Method\<close> where
  that name is free; a struct is a record whose fields carry a prefix; an error return is the left side of
  a sum. The clock, fresh identifiers and random bytes are arguments.

  \<^item> \<open>Prelude\<close>: 64-bit arithmetic, the string and number routines of the standard library, and the locale
    \<open>guarded_system\<close> of a state type whose operations keep an invariant. \<open>Digest\<close>: SHA-256, HMAC, base32
    and hexadecimal. \<open>Calendar\<close>: civil dates and RFC 3339. \<open>Framing\<close>: length-prefixed fields. \<open>Float64\<close>:
    rounding to \<open>float64\<close> and its shortest decimal text.
  \<^item> \<open>Money\<close>, \<open>Money_Allocation\<close>, \<open>Money_Text\<close>: \<open>src/pkg/money/money.go\<close>. \<open>Api_Error\<close>:
    \<open>src/pkg/apierror/apierror.go\<close>. \<open>Ids\<close>: \<open>src/pkg/ids/ids.go\<close>. \<open>Fsm\<close>: the generic state machine of
    \<open>src/internal/domain/shared/fsm.go\<close>, with the locale \<open>lifecycle\<close> that each transition table
    interprets. \<open>Shared_Kernel\<close>: \<open>types.go\<close> and \<open>primitives.go\<close> beside it.
  \<^item> \<open>Payment_State\<close>, \<open>Payment_Attempt\<close>, \<open>Payment_Refund\<close>, \<open>Payment\<close>: the files of
    \<open>src/internal/domain/payment\<close>, one operation per method. \<open>Payment_Invariants\<close> and
    \<open>Payment_Properties\<close> hold the invariants and the guarantees. \<open>payment_exec\<close> is a call on the aggregate,
    \<open>payment_commit\<close> a call whose result is saved only when it succeeds.
  \<^item> \<open>Ledger\<close>, \<open>Ledger_Transaction\<close>, \<open>Ledger_Properties\<close>: \<open>src/internal/domain/ledger\<close>.
  \<^item> \<open>Tenant_Context\<close>: \<open>src/internal/platform/tenantctx\<close> and the guards of
    \<open>src/internal/infrastructure/postgres/tenant.go\<close>. \<open>Postgres_Errors\<close>: \<open>errors.go\<close> of the same package.
  \<^item> \<open>Idempotency_Store\<close>: the table of \<open>src/migrations/0008_idempotency.up.sql\<close> with its policy and the
    statements of \<open>idempotency_store.go\<close>, for a store bound to a transaction and for the pool-backed one.
    \<open>Idempotency_Contract\<close>: the locale \<open>idempotency_store\<close> of what a store promises, interpreted on it.
    \<open>Idempotency\<close> and \<open>Idempotency_Middleware\<close>: \<open>src/internal/platform/idempotency\<close> and the middleware of
    \<open>src/internal/transport/httpapi/middleware\<close>. \<open>Idempotency_Concurrency\<close>: the step relation in which the
    statements of many callers interleave. \<open>Idempotency_Properties\<close>: the guarantees.
  \<^item> \<open>Audit_Record\<close>: \<open>src/internal/domain/audit/record.go\<close>. \<open>Audit_Store\<close>: the table of
    \<open>src/migrations/0011_audit.up.sql\<close>, \<open>audit_repo.go\<close>, the auditor of
    \<open>src/internal/platform/runtime/auditor.go\<close>, the transaction of \<open>uow.go\<close> and the commit of
    \<open>src/internal/application/payment/orchestrator.go\<close>. \<open>Audit_Properties\<close>: the guarantees.
  \<^item> \<open>Retry\<close>, \<open>Retry_Properties\<close>: \<open>backoff.go\<close>, \<open>retry.go\<close> and \<open>timeout.go\<close> of
    \<open>src/internal/infrastructure/resilience\<close>. \<open>Circuit_Breaker\<close>, \<open>Breaker_Properties\<close>: \<open>circuitbreaker.go\<close>.

  \<^bold>\<open>What is shown.\<close>

  \<^item> Money: addition and subtraction detect overflow exactly, an allocation conserves the amount and is
    less than one minor unit off in each part, fees round half away from zero, text and wire forms round trip.
  \<^item> Identifiers minted in sequence increase strictly; state machines permit their table and nothing else;
    re-wrapping keeps the classification of an error; gateway identifiers are canonical.
  \<^item> Payments, over every sequence of calls: the bounds between amount, authorization, capture and the
    refunded total; exact books when failed calls are not saved; the exact condition for admitting a refund
    and progress in confirming it; no new attempt, failure or failover while an outcome is unknown; final
    states; immutable resolved attempts; versioned changes.
  \<^item> Ledger: the builders post balanced groups, the balance check is integer double entry, an account's
    balance is the signed sum of its entries, and the accounting equation holds over whatever is posted.
  \<^item> Idempotency, over every interleaving: a duplicate is answered with the recorded bytes and never
    executed, one live owner per key, a handle settles once, the cache decides nothing, \<open>Claim\<close> refines the
    interleaved statements, and what is hashed determines the operation. A tenant context arrives at a
    consumer with an exactly described merchant scope.
  \<^item> Audit: a verified chain is evidence of its records up to a collision of SHA-256, and what the auditor
    recorded verifies when it is read back.
  \<^item> Load protection: the budget bounds the retries by traffic and time, the retry loop ends within its
    bounds and accounts for its tokens, the backoff is the documented formula, the window counts what a
    full log would, the default breaker opens exactly on its rates, and a half-open breaker bounds its probes.
  \<^item> Behaviour that goes against the code's comments is shown on the same definitions, among it commits
    that always fail in the auditor, large amounts that read back as tampering, the pool-backed store that
    serves nothing, and a key shared by captures of two payments.

  \<^bold>\<open>Bounds and assumptions.\<close> Nothing runs on fuel: every loop is a terminating function. Amounts, ratios
  and durations are kept at 64 bits; versions, sequence counters of metrics and breaker generations are
  numbers. A \<open>float64\<close> has an unbounded exponent, without NaN and infinities, which the computed rates never
  reach. Strings are byte strings, and white space is that of ASCII. A statement runs as the role of the
  migrations, which is subject to row-level security. The canonical form of a JSON body, the cache, the
  handler, the retried call, the context and the random source are arguments; what a theorem needs of them
  is a hypothesis with a witness. The theorems that speak of a hash assume no collision among the inputs
  that were hashed and nothing else of it.

  \<^bold>\<open>Not modelled.\<close> Merchants, tenants, gateways, routing, risk, compliance, configuration, workflows and
  validation rules: further components beside the path of a payment. The other repositories and application
  services: SQL and orchestration around the modelled aggregates. Rate limits, bulkheads, shedding and the
  breaker registry. Gateway adapters, Redis, Kafka, secrets, telemetry, authentication: exchanges with
  services and libraries outside the sources. Reflection over snapshots, the JSON text itself, protocol
  buffers, request decoding, process wiring. The paginated audit query and read-only accessors.
\<close>

end
